(* ===== verification/Mtc_Prelude.thy ===== *)
theory Mtc_Prelude
  imports Main "HOL-Library.Word" "HOL-Library.Monad_Syntax"
begin

text \<open>
  Shared vocabulary of the development: the machine integers of the drivers, bytes
  written as bit lists (most significant bit first, the order in which every bit-banged
  link of the drivers moves them), and generic facts about them.

  The drivers are built for ARM, where plain \<open>char\<close> is unsigned: every \<open>char\<close> or \<open>u8\<close>
  field is an 8-bit word.
\<close>

unbundle bit_operations_syntax

type_synonym u8 = "8 word"
type_synonym u16 = "16 word"
type_synonym u32 = "32 word"

named_theorems frame_simps \<open>which parts of the state an operation leaves alone\<close>
named_theorems op_defs \<open>definitions of the elementary operations\<close>

section \<open>Bits, most significant first\<close>

definition shift_in :: "'a::len word \<Rightarrow> bool \<Rightarrow> 'a word" where
  "shift_in w b = (push_bit 1 w OR of_bool b)"

definition from_bits :: "bool list \<Rightarrow> 'a::len word" where
  "from_bits bs = foldl shift_in 0 bs"

definition bits_msb :: "'a::len word \<Rightarrow> bool list" where
  "bits_msb w = map (bit w) (rev [0..<LENGTH('a)])"

lemma length_bits_msb [simp]: "length (bits_msb (w::'a::len word)) = LENGTH('a)"
  by (simp add: bits_msb_def)

lemma bit_shift_in:
  "bit (shift_in w b) n \<longleftrightarrow> n < LENGTH('a) \<and> (if n = 0 then b else bit (w::'a::len word) (n - 1))"
  by (auto simp: shift_in_def bit_simps simp del: push_bit_Suc push_bit_of_1
      dest: bit_imp_le_length)

lemma bit_foldl_shift_in:
  "bit (foldl shift_in (w::'a::len word) bs) n \<longleftrightarrow>
     n < LENGTH('a) \<and>
     (if n < length bs then bs ! (length bs - 1 - n) else bit w (n - length bs))"
proof (induction bs arbitrary: n rule: rev_induct)
  case Nil
  then show ?case by (auto dest: bit_imp_le_length)
next
  case (snoc b bs)
  have "bit (foldl shift_in w (bs @ [b])) n \<longleftrightarrow>
      n < LENGTH('a) \<and> (if n = 0 then b else bit (foldl shift_in w bs) (n - 1))"
    by (simp add: bit_shift_in)
  then show ?case
    by (cases n) (simp_all only: snoc.IH, auto simp: nth_append)
qed

lemma bit_from_bits:
  "bit (from_bits bs :: 'a::len word) n \<longleftrightarrow>
     n < LENGTH('a) \<and> n < length bs \<and> bs ! (length bs - 1 - n)"
  by (auto simp: from_bits_def bit_foldl_shift_in)

lemma from_bits_bits_msb [simp]: "from_bits (bits_msb w) = (w::'a::len word)"
  by (rule bit_word_eqI) (simp add: bit_from_bits, simp add: bits_msb_def rev_nth)

lemma from_bits_snoc: "from_bits (bs @ [b]) = shift_in (from_bits bs) b"
  by (simp add: from_bits_def)

lemma bits_msb_from_bits:
  "length bs = LENGTH('a) \<Longrightarrow> bits_msb (from_bits bs :: 'a::len word) = bs"
  by (rule nth_equalityI)
     (simp_all add: bits_msb_def rev_nth bit_from_bits)

text \<open>Shifting more bits in than the word has keeps the last ones.\<close>

lemma from_bits_truncates:
  assumes "LENGTH('a) \<le> length bs"
  shows "(from_bits bs :: 'a::len word) = from_bits (drop (length bs - LENGTH('a)) bs)"
proof (rule bit_word_eqI)
  fix n assume n: "n < LENGTH('a)"
  with assms have "length bs - LENGTH('a) + (LENGTH('a) - 1 - n) = length bs - 1 - n"
    by simp
  with n assms show "bit (from_bits bs :: 'a word) n =
      bit (from_bits (drop (length bs - LENGTH('a)) bs) :: 'a word) n"
    by (simp add: bit_from_bits)
qed

definition shift_in_trunc :: "32 word \<Rightarrow> bool \<Rightarrow> 32 word" where
  "shift_in_trunc w b = ((push_bit 1 w AND 0xFF) OR of_bool b)"

lemma shift_in_trunc_ucast: "shift_in_trunc (ucast (w::8 word)) b = ucast (shift_in w b)"
proof -
  have m: "(0xFF :: 32 word) = mask 8" by (simp add: mask_eq_exp_minus_1)
  show ?thesis
    unfolding shift_in_trunc_def shift_in_def m
    by (rule bit_word_eqI) (auto simp: bit_simps simp del: push_bit_Suc push_bit_of_1)
qed

lemma foldl_shift_in_trunc:
  "foldl shift_in_trunc (ucast (w::8 word)) bs = ucast (foldl shift_in w bs)"
  by (induction bs arbitrary: w) (simp_all add: shift_in_trunc_ucast)

text \<open>Two bytes put together, and the numbers they stand for.\<close>

lemma unat_u8: "unat (b :: u8) < 256"
  using unsigned_less [of b, where 'a = nat] by simp

lemma byte_pair:
  "(ucast (lo :: u8) OR push_bit 8 (ucast (hi :: u8)) :: u32) = of_nat (unat lo + 256 * unat hi)"
proof -
  let ?a = "ucast lo :: u32" and ?b = "push_bit 8 (ucast hi) :: u32"
  have "?a AND ?b = 0"
    by (rule bit_word_eqI) (auto simp: bit_simps dest: bit_imp_le_length)
  then have "?a OR ?b = ?a + ?b" by (rule disjunctive_add_eq_or [symmetric])
  then show ?thesis by (simp add: push_bit_eq_mult mult.commute)
qed

lemma unat_byte_pair:
  "unat (ucast (lo :: u8) OR push_bit 8 (ucast (hi :: u8)) :: u32) = unat lo + 256 * unat hi"
  using unat_u8 [of lo] unat_u8 [of hi] by (simp only: byte_pair unat_of_nat) simp

section \<open>Option-valued steps\<close>

lemma bind_eq_Some: "Option.bind m f = Some y \<longleftrightarrow> (\<exists>x. m = Some x \<and> f x = Some y)"
  by (cases m) auto

lemma bind_eq_None: "Option.bind m f = None \<longleftrightarrow> m = None \<or> (\<exists>x. m = Some x \<and> f x = None)"
  by (cases m) auto

text \<open>A step returns: none of its loops runs forever.\<close>

definition returns :: "'a option \<Rightarrow> bool" where
  "returns m \<longleftrightarrow> (\<exists>r. m = Some r)"

lemma returns_Some [simp]: "returns (Some r)"
  by (simp add: returns_def)

lemma not_returns_None [simp]: "\<not> returns None"
  by (simp add: returns_def)

lemma returns_bind [intro!]:
  "returns m \<Longrightarrow> (\<And>a s. m = Some (a, s) \<Longrightarrow> returns (f (a, s))) \<Longrightarrow> returns (Option.bind m f)"
  by (auto simp: returns_def)

lemma returns_if [intro!]:
  "(c \<Longrightarrow> returns a) \<Longrightarrow> (\<not> c \<Longrightarrow> returns b) \<Longrightarrow> returns (if c then a else b)"
  by simp

lemma returns_case_option [intro!]:
  "(x = None \<Longrightarrow> returns a) \<Longrightarrow> (\<And>y. x = Some y \<Longrightarrow> returns (f y)) \<Longrightarrow>
     returns (case x of None \<Rightarrow> a | Some y \<Rightarrow> f y)"
  by (cases x) simp_all

text \<open>
  Partial correctness: if the step returns, result and state satisfy \<open>Q\<close>. The rules walk
  backwards through a step, so that a proof about a long operation is one application of
  the automation with a rule for each operation it calls.
\<close>

definition post :: "('a \<times> 's) option \<Rightarrow> ('a \<Rightarrow> 's \<Rightarrow> bool) \<Rightarrow> bool" where
  "post m Q \<longleftrightarrow> (\<forall>x s. m = Some (x, s) \<longrightarrow> Q x s)"

lemma postD: "post m Q \<Longrightarrow> m = Some (x, s) \<Longrightarrow> Q x s"
  by (simp add: post_def)

lemma postI: "(\<And>x s. m = Some (x, s) \<Longrightarrow> Q x s) \<Longrightarrow> post m Q"
  by (simp add: post_def)

lemma post_Some [simp]: "post (Some (x, s)) Q = Q x s"
  by (simp add: post_def)

lemma post_bind [intro!]:
  "post m (\<lambda>x s. post (f (x, s)) Q) \<Longrightarrow> post (Option.bind m f) Q"
  by (auto simp: post_def bind_eq_Some)

lemma post_if [intro!]:
  "(c \<Longrightarrow> post a Q) \<Longrightarrow> (\<not> c \<Longrightarrow> post b Q) \<Longrightarrow> post (if c then a else b) Q"
  by simp

lemma post_case_option [intro!]:
  "(x = None \<Longrightarrow> post a Q) \<Longrightarrow> (\<And>y. x = Some y \<Longrightarrow> post (f y) Q) \<Longrightarrow>
     post (case x of None \<Rightarrow> a | Some y \<Rightarrow> f y) Q"
  by (cases x) simp_all

lemma post_weaken: "post m P \<Longrightarrow> (\<And>x s. P x s \<Longrightarrow> Q x s) \<Longrightarrow> post m Q"
  by (simp add: post_def)

section \<open>Work queues\<close>

text \<open>
  A work queue runs its items one after the other, each to its end. What every item keeps,
  the queue keeps.
\<close>

fun run_queue :: "('w \<Rightarrow> 's \<Rightarrow> 's option) \<Rightarrow> 'w list \<Rightarrow> 's \<Rightarrow> 's option" where
  "run_queue f [] s = Some s"
| "run_queue f (w # ws) s = Option.bind (f w s) (run_queue f ws)"

locale work_queue =
  fixes work :: "'w \<Rightarrow> 's \<Rightarrow> 's option"
    and keeps :: "'s \<Rightarrow> 's \<Rightarrow> bool"
  assumes work_keeps: "work w s = Some s' \<Longrightarrow> keeps s s'"
    and keeps_refl: "keeps s s"
    and keeps_trans: "keeps s t \<Longrightarrow> keeps t u \<Longrightarrow> keeps s u"
begin

lemma run_keeps: "run_queue work ws s = Some s' \<Longrightarrow> keeps s s'"
  by (induction ws arbitrary: s)
     (auto simp: bind_eq_Some keeps_refl intro: keeps_trans work_keeps)

lemma run_append:
  "run_queue work (vs @ ws) s = Option.bind (run_queue work vs s) (run_queue work ws)"
  by (induction vs arbitrary: s) (auto split: bind_split)

end

section \<open>Printing\<close>

text \<open>Decimal digits, the most significant first, and the \<open>%d\<close> of \<open>sprintf\<close>.\<close>

fun decimal :: "nat \<Rightarrow> nat list" where
  "decimal n = (if n < 10 then [n] else decimal (n div 10) @ [n mod 10])"

declare decimal.simps [simp del]

end
