(* ===== verification/Mtc_State.thy ===== *)
theory Mtc_State
  imports Mtc_Prelude
begin

text \<open>
  The state the drivers share: \<open>struct mtc_car_status\<close> and the 512-byte configuration of
  \<open>car_struct\<close> (car.h, shared.h), the two link registers of \<open>struct mtc_car_struct\<close>, and
  the trace of everything the code did to the outside: pin reads and writes, delays, clock
  reads, interrupt and mutex operations, and the calls that leave a component.

  The hardware is a parameter: the level a pin shows and the time the clock shows may
  depend in any way on the trace so far. \<open>printk\<close> is not modelled.
\<close>

section \<open>What the code does to the outside\<close>

datatype (plugins only: code size) event =
    Rd nat bool                   \<comment> \<open>\<open>gpio_get_value\<close>\<close>
  | Wr nat bool                   \<comment> \<open>\<open>gpio_set_value\<close>\<close>
  | Dir_out nat bool              \<comment> \<open>\<open>gpio_direction_output\<close>\<close>
  | Dir_in nat                    \<comment> \<open>\<open>gpio_direction_input\<close>\<close>
  | Udelay nat                    \<comment> \<open>microseconds\<close>
  | Msleep nat                    \<comment> \<open>milliseconds\<close>
  | Clock int int                 \<comment> \<open>\<open>do_gettimeofday\<close>: seconds, microseconds\<close>
  | Irq_off nat
  | Irq_on nat
  | Lock string
  | Unlock string
  | Arm_send u32
  | Arm_send_multi u32 "u8 list"  \<comment> \<open>data to the MCU\<close>
  | Arm_read_multi u32 nat        \<comment> \<open>data asked of the MCU\<close>
  | Vs_send nat u8 "u8 list"
  | Vs_send_raw nat "u8 list"
  | Car_add_work int int bool
  | Car_add_work_delay int int nat
  | Capture_add_work int int nat bool
  | Audio_add_work int int int int
  | Audio_add_work_delay int nat
  | Radio_add_work int u32 u32
  | Dvd_add_work u32 u32
  | Queue_delayed string nat      \<comment> \<open>\<open>queue_delayed_work\<close>, \<open>schedule_delayed_work\<close>\<close>
  | Queue_work string             \<comment> \<open>\<open>queue_work\<close>\<close>
  | Cancel_delayed string
  | Flush_queue string
  | Audio_active
  | Audio_deactive
  | Backlight_on
  | Backlight_off
  | Backlight_update
  | Input_event u32 u32 u32
  | Wheel_work int
  | Iomux_write u32 u32
  | Iomux_invalid u32
  | Kernel_restart
  | Kernel_power_off
  | Gpio_request nat string
  | Gpio_pull nat bool            \<comment> \<open>\<open>gpio_pull_updown\<close>\<close>
  | Request_irq nat nat string nat  \<comment> \<open>irq, trigger, name, cookie\<close>
  | Free_irq nat nat
  | Mod_timer nat nat nat         \<comment> \<open>timer, cookie, milliseconds from now\<close>
  | Del_timer nat nat
  | Codec_write nat nat           \<comment> \<open>\<open>snd_soc_write\<close>: register, value\<close>
  | I2c_write u8 u8 u8            \<comment> \<open>device, register, value\<close>
  | I2c_read u8 u8 int u8         \<comment> \<open>device, register, result of the transfer, value\<close>
  | I2c_transfer u16 "u8 list" nat int
                                  \<comment> \<open>\<open>i2c_transfer\<close>: address, bytes sent, bytes asked, result\<close>
  | Clk string bool               \<comment> \<open>\<open>clk_enable\<close>, \<open>clk_disable\<close>\<close>
  | Clk_rate string nat
  | Fb_open nat nat               \<comment> \<open>\<open>rk_direct_fb_open(rk_get_fb(n), v)\<close>\<close>
  | Fb_show nat
  | Cif_write nat u32             \<comment> \<open>word of the capture interface\<close>
  | Mem_write u32 u32             \<comment> \<open>a physical register\<close>
  | Const_udelay nat
  | Buffer_overrun nat nat        \<comment> \<open>bytes stored, bytes the buffer has\<close>

section \<open>The GPIO numbers (\<open>enum mtc_gpio\<close>)\<close>

abbreviation (input) gpio_FCAM_PWR :: nat where "gpio_FCAM_PWR \<equiv> 161"
abbreviation (input) gpio_MCU_CLK :: nat where "gpio_MCU_CLK \<equiv> 167"
abbreviation (input) gpio_DVD_STB :: nat where "gpio_DVD_STB \<equiv> 168"
abbreviation (input) gpio_MCU_DIN :: nat where "gpio_MCU_DIN \<equiv> 169"
abbreviation (input) gpio_MCU_DOUT :: nat where "gpio_MCU_DOUT \<equiv> 170"
abbreviation (input) gpio_DVD_ACK :: nat where "gpio_DVD_ACK \<equiv> 174"
abbreviation (input) gpio_DVD_DATA :: nat where "gpio_DVD_DATA \<equiv> 175"
abbreviation (input) gpio_CODEC_PWR :: nat where "gpio_CODEC_PWR \<equiv> 172"
abbreviation (input) gpio_PARROT_RESET :: nat where "gpio_PARROT_RESET \<equiv> 198"
abbreviation (input) gpio_PARROT_BOOT :: nat where "gpio_PARROT_BOOT \<equiv> 199"
abbreviation (input) gpio_LCD_DAT :: nat where "gpio_LCD_DAT \<equiv> 228"
abbreviation (input) gpio_LCD_CLK :: nat where "gpio_LCD_CLK \<equiv> 229"
abbreviation (input) gpio_T132_PWR :: nat where "gpio_T132_PWR \<equiv> 235"
abbreviation (input) gpio_T132_RST :: nat where "gpio_T132_RST \<equiv> 269"
abbreviation (input) gpio_LCD_CS :: nat where "gpio_LCD_CS \<equiv> 236"

section \<open>\<open>struct mtc_car_status\<close>\<close>

text \<open>
  The fields the modelled code reads or writes, in the order of car.h. Fields whose name
  the development also needs for something else carry the suffix \<open>_st\<close>.
\<close>

record mtc_car_status =
  car_ready :: u8
  power_refcnt :: u8
  rpt_power :: u8
  call_active :: u8
  rpt_boot_android :: u8
  input_ready :: u8
  audio_ready :: u8
  touch_type :: u8
  sta_bits :: u8
  intval1 :: u32
  intval2 :: u32
  battery :: u8
  intval3 :: u32
  intval4 :: u32
  wipe_flag :: u8
  backlight_status :: u8
  cam_state :: u8
  reserved_8 :: u8
  reserved_9 :: u8
  cam_signal :: u8
  reserved_10 :: u8
  reserved_11 :: u8
  sta_view :: u8
  ch_mode :: u8
  key_mode :: u8
  backview_vol :: u8
  sta_video_signal :: u8
  av_channel_flag1 :: u8
  video_mode :: u8
  reserved_13 :: u8
  decoder_state :: u8
  radar_val :: u8
  mcuver2 :: "u8 list"
  mcuver1 :: "u8 list"
  power_on :: u8
  radio_rds_flag :: u8
  reserved_18 :: u8
  video_src_ready :: u8
  ajx_active :: u8
  reserved_19 :: u8
  is1024screen :: u8
  ch_status :: u8
  u_value :: u8
  v_value :: u8
  uv_cal :: u8
  reserved_22 :: "u8 list"
  rpt_boot_appinit :: u8
  cfg_maxvolume :: u8
  reserved_54 :: u8
  touch_width :: u32
  touch_height :: u32
  mtc_customer :: u8
  boot_flags :: u8
  av_gps_switch :: u8
  av_gps_monitor :: u8
  av_gps_gain :: u8
  power2_flag :: u8
  mcu_cmd_state :: u8

section \<open>The configuration blob (\<open>union mtc_config_data\<close>)\<close>

type_synonym config = "nat \<Rightarrow> u8"

abbreviation (input) cfg_canbus :: "config \<Rightarrow> u8" where "cfg_canbus c \<equiv> c 1"
abbreviation (input) cfg_dtv :: "config \<Rightarrow> u8" where "cfg_dtv c \<equiv> c 2"
abbreviation (input) uv_off_u :: "config \<Rightarrow> u8" where "uv_off_u c \<equiv> c 493"
abbreviation (input) uv_off_v :: "config \<Rightarrow> u8" where "uv_off_v c \<equiv> c 494"
abbreviation (input) cfg_bt :: "config \<Rightarrow> u8" where "cfg_bt c \<equiv> c 5"
abbreviation (input) cfg_radio :: "config \<Rightarrow> u8" where "cfg_radio c \<equiv> c 6"
abbreviation (input) ch_attr :: "config \<Rightarrow> nat \<Rightarrow> u8" where "ch_attr c i \<equiv> c (13 + i)"
abbreviation (input) cfg_rds :: "config \<Rightarrow> u8" where "cfg_rds c \<equiv> c 20"
abbreviation (input) cfg_frontview :: "config \<Rightarrow> u8" where "cfg_frontview c \<equiv> c 23"
abbreviation (input) adc_wheel_gate :: "config \<Rightarrow> u8" where "adc_wheel_gate c \<equiv> c 25"
abbreviation (input) default_ajx_ch :: "config \<Rightarrow> u8" where "default_ajx_ch c \<equiv> c 28"
abbreviation (input) ctl_beep :: "config \<Rightarrow> u8" where "ctl_beep c \<equiv> c 484"

section \<open>\<open>struct mtc_keys_data\<close>\<close>

text \<open>The fields keys.c reads and writes by offset (0x78, 0x8C, 0x8D, 0x94, 0x98, 0x9C, 0x9D).\<close>

record mtc_keys_data =
  backlight_sw :: u8
  touch_res_a :: u8
  touch_res_b :: u8
  touch_gate :: u8
  touch_cnt :: int
  touch_key :: u8
  touch_code2 :: u8

section \<open>The state\<close>

record sys =
  trace :: "event list"            \<comment> \<open>newest event first\<close>
  rev_bytes_count :: u32
  arm_rev_cmd :: u32
  tv_sec :: int                    \<comment> \<open>\<open>car_struct.tv\<close>\<close>
  tv_usec :: int
  car :: mtc_car_status
  cfg :: config
  keys :: mtc_keys_data

record env =
  level :: "event list \<Rightarrow> nat \<Rightarrow> bool"
  sec :: "event list \<Rightarrow> int"
  usec :: "event list \<Rightarrow> int"
  junk :: "event list \<Rightarrow> int"      \<comment> \<open>an uninitialised local\<close>
  others :: "event list \<Rightarrow> mtc_car_status \<Rightarrow> mtc_car_status"
                                   \<comment> \<open>what other threads do to the status during a sleep\<close>
  mcu_data :: "event list \<Rightarrow> u8 list"  \<comment> \<open>bytes \<open>arm_send_multi\<close> reads\<close>

definition emit :: "event \<Rightarrow> sys \<Rightarrow> sys" where
  "emit x s = s\<lparr>trace := x # trace s\<rparr>"

definition upd_keys :: "(mtc_keys_data \<Rightarrow> mtc_keys_data) \<Rightarrow> sys \<Rightarrow> sys" where
  "upd_keys f s = s\<lparr>keys := f (keys s)\<rparr>"

definition upd_car :: "(mtc_car_status \<Rightarrow> mtc_car_status) \<Rightarrow> sys \<Rightarrow> sys" where
  "upd_car f s = s\<lparr>car := f (car s)\<rparr>"

lemma emit_simps [simp]:
  "trace (emit x s) = x # trace s" "car (emit x s) = car s" "cfg (emit x s) = cfg s"
  "rev_bytes_count (emit x s) = rev_bytes_count s" "arm_rev_cmd (emit x s) = arm_rev_cmd s"
  "tv_sec (emit x s) = tv_sec s" "tv_usec (emit x s) = tv_usec s" "keys (emit x s) = keys s"
  by (simp_all add: emit_def)

lemma upd_car_simps [simp]:
  "trace (upd_car f s) = trace s" "car (upd_car f s) = f (car s)" "cfg (upd_car f s) = cfg s"
  "rev_bytes_count (upd_car f s) = rev_bytes_count s" "arm_rev_cmd (upd_car f s) = arm_rev_cmd s"
  "tv_sec (upd_car f s) = tv_sec s" "tv_usec (upd_car f s) = tv_usec s" "keys (upd_car f s) = keys s"
  by (simp_all add: upd_car_def)

lemma upd_keys_simps [simp]:
  "trace (upd_keys f s) = trace s" "keys (upd_keys f s) = f (keys s)" "cfg (upd_keys f s) = cfg s"
  "rev_bytes_count (upd_keys f s) = rev_bytes_count s" "arm_rev_cmd (upd_keys f s) = arm_rev_cmd s"
  "tv_sec (upd_keys f s) = tv_sec s" "tv_usec (upd_keys f s) = tv_usec s" "car (upd_keys f s) = car s"
  by (simp_all add: upd_keys_def)

definition gpio_get_value :: "env \<Rightarrow> nat \<Rightarrow> sys \<Rightarrow> bool \<times> sys" where
  "gpio_get_value e p s = (let v = level e (trace s) p in (v, emit (Rd p v) s))"

definition gpio_set_value :: "nat \<Rightarrow> bool \<Rightarrow> sys \<Rightarrow> sys" where
  "gpio_set_value p v s = emit (Wr p v) s"

definition gpio_direction_output :: "nat \<Rightarrow> bool \<Rightarrow> sys \<Rightarrow> sys" where
  "gpio_direction_output p v s = emit (Dir_out p v) s"

definition gpio_direction_input :: "nat \<Rightarrow> sys \<Rightarrow> sys" where
  "gpio_direction_input p s = emit (Dir_in p) s"

definition udelay :: "nat \<Rightarrow> sys \<Rightarrow> sys" where
  "udelay d s = emit (Udelay d) s"

definition msleep :: "env \<Rightarrow> nat \<Rightarrow> sys \<Rightarrow> sys" where
  "msleep e d s = (let s = emit (Msleep d) s in upd_car (others e (trace s)) s)"

definition do_gettimeofday :: "env \<Rightarrow> sys \<Rightarrow> (int \<times> int) \<times> sys" where
  "do_gettimeofday e s =
     (let a = sec e (trace s); b = usec e (trace s) in ((a, b), emit (Clock a b) s))"

lemmas [op_defs] = gpio_get_value_def gpio_set_value_def gpio_direction_output_def
  gpio_direction_input_def udelay_def do_gettimeofday_def

text \<open>The part of a trace an operation added, and the order it leaves behind.\<close>

definition extends :: "sys \<Rightarrow> sys \<Rightarrow> bool" where
  "extends s s' \<longleftrightarrow> (\<exists>es. trace s' = es @ trace s)"

lemma extends_refl [simp, intro]: "extends s s"
  by (simp add: extends_def)

lemma extends_trans [trans]: "extends a b \<Longrightarrow> extends b c \<Longrightarrow> extends a c"
  by (auto simp: extends_def)

lemma extends_emit [simp, intro]: "extends a b \<Longrightarrow> extends a (emit x b)"
  by (auto simp: extends_def)

lemma extends_upd_car [simp, intro]: "extends a b \<Longrightarrow> extends a (upd_car f b)"
  by (auto simp: extends_def)

section \<open>A state to start from\<close>

text \<open>A booted unit with Android in session, all queues empty and a blank configuration.\<close>

definition car_0 :: mtc_car_status where
  "car_0 = \<lparr>car_ready = 1, power_refcnt = 0, rpt_power = 0, call_active = 1, rpt_boot_android = 1,
     input_ready = 1, audio_ready = 0, touch_type = 0, sta_bits = 0, intval1 = 1, intval2 = 1,
     battery = 0, intval3 = 0, intval4 = 0, wipe_flag = 0, backlight_status = 1, cam_state = 0,
     reserved_8 = 0, reserved_9 = 0, cam_signal = 0, reserved_10 = 0, reserved_11 = 0, sta_view = 0, ch_mode = 0, key_mode = 0, backview_vol = 0,
     sta_video_signal = 0, av_channel_flag1 = 0, video_mode = 0, reserved_13 = 0, decoder_state = 0, radar_val = 0,
     mcuver2 = [], mcuver1 = [], power_on = 1, radio_rds_flag = 0, reserved_18 = 0, video_src_ready = 0,
     ajx_active = 0, reserved_19 = 0, is1024screen = 0, ch_status = 0, u_value = 0, v_value = 0, uv_cal = 0, reserved_22 = replicate 32 0, rpt_boot_appinit = 0,
     cfg_maxvolume = 30, reserved_54 = 0, touch_width = 800, touch_height = 480,
     mtc_customer = 0, boot_flags = 0, av_gps_switch = 0, av_gps_monitor = 0, av_gps_gain = 0,
     power2_flag = 0, mcu_cmd_state = 0\<rparr>"

definition sys_0 :: sys where
  "sys_0 = \<lparr>trace = [], rev_bytes_count = 0, arm_rev_cmd = 0, tv_sec = 0, tv_usec = 0,
     car = car_0, cfg = (\<lambda>_. 0),
     keys = \<lparr>backlight_sw = 0, touch_res_a = 0, touch_res_b = 0, touch_gate = 1, touch_cnt = 0,
       touch_key = 7, touch_code2 = 7\<rparr>\<rparr>"

abbreviation (input) awake_sys :: sys where
  "awake_sys \<equiv> upd_car (\<lambda>c. c\<lparr>power_refcnt := 1\<rparr>) sys_0"

lemma sys_0_trace [simp]: "trace sys_0 = []"
  by (simp add: sys_0_def)

section \<open>Logs\<close>

text \<open>The state changes in its log alone.\<close>

definition logged :: "sys \<Rightarrow> sys \<Rightarrow> bool" where
  "logged s s' \<longleftrightarrow> (\<exists>es. s' = s\<lparr>trace := es @ trace s\<rparr>)"

lemma loggedI: "s' = s\<lparr>trace := es @ trace s\<rparr> \<Longrightarrow> logged s s'"
  unfolding logged_def by blast

lemma logged_trans [trans]:
  assumes "logged a b" and "logged b c" shows "logged a c"
proof -
  from assms obtain es es' where "b = a\<lparr>trace := es @ trace a\<rparr>" "c = b\<lparr>trace := es' @ trace b\<rparr>"
    by (auto simp: logged_def)
  then show ?thesis by (intro loggedI [where es = "es' @ es"]) simp
qed

lemma logged_emit [intro]: "logged a b \<Longrightarrow> logged a (emit x b)"
  by (rule logged_trans, assumption) (rule loggedI [where es = "[x]"], simp add: emit_def)

lemma logged_refl [simp, intro]: "logged s s"
  by (rule loggedI [where es = "[]"]) simp

fun lock_event :: "event \<Rightarrow> bool" where
  "lock_event (Lock _) = True"
| "lock_event (Unlock _) = True"
| "lock_event _ = False"

text \<open>How often a lock was taken more than it was released.\<close>

definition held :: "string \<Rightarrow> event list \<Rightarrow> int" where
  "held l h = int (count_list h (Lock l)) - int (count_list h (Unlock l))"

lemma held_quiet: "\<not> list_ex lock_event es \<Longrightarrow> held l (es @ h) = held l h"
proof (induction es)
  case (Cons x es)
  then show ?case by (cases x) (auto simp: held_def)
qed simp

text \<open>How often an interrupt line was disabled more than it was enabled.\<close>

definition irq_depth :: "nat \<Rightarrow> event list \<Rightarrow> int" where
  "irq_depth i h = int (count_list h (Irq_off i)) - int (count_list h (Irq_on i))"

end
