(* ===== verification/Mcu_Link.thy ===== *)
theory Mcu_Link
  imports Mtc_State
begin

text \<open>
  The electrical layer of the link to the MCU (car.c): debounced pin reads, the quarter
  second time-out, the polling loop every transfer is made of, and the transfer of single
  bits, bytes and acknowledgements. A loop that may not end returns \<open>None\<close>.
\<close>

section \<open>Operations\<close>

definition GetCurTimer :: "env \<Rightarrow> sys \<Rightarrow> int \<times> sys" where
  "GetCurTimer e s = (let (tv, s) = do_gettimeofday e s in (snd tv, s))"

definition CheckTimeOut :: "env \<Rightarrow> int \<Rightarrow> sys \<Rightarrow> bool \<times> sys" where
  "CheckTimeOut e timeout s =
     (let (tv, s) = do_gettimeofday e s;
          us = (if snd tv < timeout then snd tv + 1000000 else snd tv)
      in (us - timeout > 249999, s))"

partial_function (option) getPin_loop :: "env \<Rightarrow> nat \<Rightarrow> nat \<Rightarrow> sys \<Rightarrow> (bool \<times> sys) option" where
  "getPin_loop e d gpio s =
     (let (value, s1) = gpio_get_value e gpio s;
          (again, s2) = gpio_get_value e gpio (udelay d s1)
      in if value = again then Some (value, s2) else getPin_loop e d gpio s2)"

definition getPin :: "env \<Rightarrow> nat \<Rightarrow> sys \<Rightarrow> (bool \<times> sys) option" where
  "getPin e gpio s = getPin_loop e 1 gpio s"

definition getPin2 :: "env \<Rightarrow> nat \<Rightarrow> sys \<Rightarrow> (bool \<times> sys) option" where
  "getPin2 e gpio s = getPin_loop e 5 gpio s"

text \<open>
  \<open>while (getPin(gpio) != want) if (CheckTimeOut(timeout)) fail\<close>, also written
  \<open>do { if (getPin(gpio) == want) ...; } while (!CheckTimeOut(timeout))\<close>: \<open>True\<close> when the
  pin got there, \<open>False\<close> on time-out. \<open>d\<close> is 1 for \<open>getPin\<close> and 5 for \<open>getPin2\<close>.
\<close>

partial_function (option) await ::
    "env \<Rightarrow> nat \<Rightarrow> nat \<Rightarrow> bool \<Rightarrow> int \<Rightarrow> sys \<Rightarrow> (bool \<times> sys) option" where
  "await e d gpio want timeout s =
     Option.bind (getPin_loop e d gpio s) (\<lambda>(v, s1).
       if v = want then Some (True, s1)
       else let (expired, s2) = CheckTimeOut e timeout s1
            in if expired then Some (False, s2) else await e d gpio want timeout s2)"

definition await_from :: "env \<Rightarrow> nat \<Rightarrow> nat \<Rightarrow> bool \<Rightarrow> sys \<Rightarrow> (bool \<times> sys) option" where
  "await_from e d gpio want s =
     (let (timeout, s) = GetCurTimer e s in await e d gpio want timeout s)"

definition arm_parrot_boot :: "int \<Rightarrow> sys \<Rightarrow> sys" where
  "arm_parrot_boot mode s =
     (if mode \<noteq> 0 then
        if mode = 1 then
          let s = gpio_direction_output gpio_PARROT_RESET False s;
              s = gpio_direction_output gpio_PARROT_BOOT False s;
              s = udelay 10 s;
              s = gpio_direction_output gpio_PARROT_BOOT True s;
              s = udelay 40 s;
              s = gpio_direction_output gpio_PARROT_RESET True s;
              s = (udelay 1000 ^^ 12) s
          in gpio_direction_output gpio_PARROT_BOOT False s
        else if mode = 2 then gpio_direction_output gpio_PARROT_RESET True s
        else s
      else gpio_direction_output gpio_PARROT_BOOT (mode \<noteq> 0)
             (gpio_direction_output gpio_PARROT_RESET True s))"

text \<open>The loop at \<open>LABEL_10\<close> of \<open>arm_send_cmd\<close>, with \<open>Suc n\<close> bits still to send.\<close>

fun arm_send_16bits :: "env \<Rightarrow> u32 \<Rightarrow> nat \<Rightarrow> sys \<Rightarrow> (bool \<times> sys) option" where
  "arm_send_16bits e cmd 0 s = Some (True, s)"
| "arm_send_16bits e cmd (Suc n) s = do {
     (ready, s) \<leftarrow> await_from e 1 gpio_MCU_DIN True s;
     if \<not> ready then Some (False, s) else do {
       let s = gpio_set_value gpio_MCU_DOUT ((cmd AND 0x8000) \<noteq> 0) s;
       let s = gpio_direction_output gpio_MCU_CLK False s;
       (taken, s) \<leftarrow> await_from e 1 gpio_MCU_DIN False s;
       if \<not> taken then Some (False, s)
       else if n \<noteq> 0 then arm_send_16bits e cmd n (gpio_direction_output gpio_MCU_CLK True s)
       else Some (True, gpio_direction_output gpio_MCU_CLK True
                          (gpio_set_value gpio_MCU_DOUT True s)) } }"

definition arm_send_ack :: "env \<Rightarrow> sys \<Rightarrow> (bool \<times> sys) option" where
  "arm_send_ack e s = do {
     let s = gpio_direction_input gpio_MCU_CLK s;
     (ok, s) \<leftarrow> await_from e 1 gpio_MCU_DIN True s;
     if \<not> ok then Some (False, gpio_set_value gpio_MCU_DOUT True s) else do {
       let s = gpio_set_value gpio_MCU_DOUT False s;
       (ok, s) \<leftarrow> await_from e 1 gpio_MCU_CLK False s;
       if \<not> ok then Some (False, gpio_set_value gpio_MCU_DOUT True s) else do {
         let s = gpio_set_value gpio_MCU_DOUT True s;
         (ok, s) \<leftarrow> await_from e 1 gpio_MCU_CLK True s;
         if ok then Some (True, s)
         else Some (False, gpio_set_value gpio_MCU_DOUT True s) } } }"

text \<open>
  One bit from the MCU, the shared body of \<open>arm_rev_8bits\<close> and of \<open>LABEL_8\<close> of \<open>arm_rev\<close>:
  wait for CLK low, sample DIN, pull DOUT low until CLK is high again. \<open>None\<close> inside is a
  time-out (both error exits only raise DOUT again).
\<close>

definition rev_bit :: "env \<Rightarrow> sys \<Rightarrow> (bool option \<times> sys) option" where
  "rev_bit e s = do {
     (ok, s) \<leftarrow> await_from e 1 gpio_MCU_CLK False s;
     if \<not> ok then Some (None, s) else do {
       (b, s) \<leftarrow> getPin e gpio_MCU_DIN s;
       let s = gpio_set_value gpio_MCU_DOUT False s;
       (ok, s) \<leftarrow> await_from e 1 gpio_MCU_CLK True s;
       if \<not> ok then Some (None, s)
       else Some (Some b, gpio_set_value gpio_MCU_DOUT True s) } }"

fun arm_rev_8bits_loop :: "env \<Rightarrow> nat \<Rightarrow> u8 \<Rightarrow> sys \<Rightarrow> (u8 option \<times> sys) option" where
  "arm_rev_8bits_loop e 0 byte s = Some (Some byte, s)"
| "arm_rev_8bits_loop e (Suc n) byte s = do {
     (r, s) \<leftarrow> rev_bit e s;
     case r of None \<Rightarrow> Some (None, gpio_set_value gpio_MCU_DOUT True s)
     | Some b \<Rightarrow> arm_rev_8bits_loop e n (shift_in byte b) s }"

definition arm_rev_8bits :: "env \<Rightarrow> sys \<Rightarrow> (u8 option \<times> sys) option" where
  "arm_rev_8bits e s = arm_rev_8bits_loop e 8 0 (gpio_direction_input gpio_MCU_CLK s)"

text \<open>\<open>Some bytes\<close>: the bytes stored in the buffer; \<open>None\<close>: a byte timed out.\<close>

fun arm_rev_bytes :: "env \<Rightarrow> nat \<Rightarrow> sys \<Rightarrow> (u8 list option \<times> sys) option" where
  "arm_rev_bytes e 0 s = Some (Some [], s)"
| "arm_rev_bytes e (Suc n) s = do {
     (r, s) \<leftarrow> arm_rev_8bits e (s\<lparr>rev_bytes_count := rev_bytes_count s + 1\<rparr>);
     case r of None \<Rightarrow> Some (None, s)
     | Some b \<Rightarrow> do {
         (rs, s) \<leftarrow> arm_rev_bytes e n s;
         Some (map_option (Cons b) rs, s) } }"

definition arm_rev_ack :: "env \<Rightarrow> sys \<Rightarrow> (int \<times> sys) option" where
  "arm_rev_ack e s = do {
     (ok, s) \<leftarrow> await_from e 1 gpio_MCU_DIN False s;
     if \<not> ok then Some (0, udelay 10 (gpio_direction_input gpio_MCU_CLK s)) else do {
       let s = gpio_direction_output gpio_MCU_CLK False s;
       (ok, s) \<leftarrow> await_from e 1 gpio_MCU_DIN True s;
       if ok then do {
         (_, s) \<leftarrow> getPin e gpio_MCU_DIN (udelay 10 (gpio_direction_input gpio_MCU_CLK s));
         Some (1, s) }
       else Some (0, udelay 10 (gpio_direction_input gpio_MCU_CLK s)) } }"

section \<open>Polling leaves no mark\<close>

text \<open>
  Polling only reads pins, delays and looks at the clock. \<open>polled s s'\<close> says that nothing
  else happened between two states; every specification of the link below reads the trace
  through observations that ignore such events.
\<close>

fun poll_event :: "event \<Rightarrow> bool" where
  "poll_event (Rd _ _) = True"
| "poll_event (Udelay _) = True"
| "poll_event (Clock _ _) = True"
| "poll_event _ = False"

definition polled :: "sys \<Rightarrow> sys \<Rightarrow> bool" where
  "polled s s' \<longleftrightarrow> (\<exists>es. list_all poll_event es \<and> s' = s\<lparr>trace := es @ trace s\<rparr>)"

lemma polled_refl [simp, intro]: "polled s s"
  unfolding polled_def by (rule exI [of _ "[]"]) simp

lemma polled_trans [trans]: "polled a b \<Longrightarrow> polled b c \<Longrightarrow> polled a c"
  unfolding polled_def by (metis (no_types, lifting) append.assoc list_all_append
      sys.select_convs(1) sys.surjective sys.update_convs(1))

lemma polled_emit: "polled s s' \<Longrightarrow> poll_event x \<Longrightarrow> polled s (emit x s')"
  unfolding polled_def emit_def by (metis (no_types, lifting) append_Cons list.pred_inject(2)
      sys.select_convs(1) sys.surjective sys.update_convs(1))

lemma polled_from_emit: "polled (emit x s) s' \<Longrightarrow> poll_event x \<Longrightarrow> polled s s'"
  by (rule polled_trans [OF polled_emit [OF polled_refl]])

lemmas polled_poll =
  polled_from_emit [of "Rd p v" for p v, simplified]
  polled_from_emit [of "Udelay d" for d, simplified]
  polled_from_emit [of "Clock a b" for a b, simplified]

lemma polled_frame:
  assumes "polled s s'"
  shows "car s' = car s" "cfg s' = cfg s" "keys s' = keys s" "arm_rev_cmd s' = arm_rev_cmd s"
    "rev_bytes_count s' = rev_bytes_count s"
  using assms by (auto simp: polled_def)

text \<open>The last level read from a pin, and the last level driven onto it.\<close>

fun last_rd :: "nat \<Rightarrow> event list \<Rightarrow> bool option" where
  "last_rd p [] = None"
| "last_rd p (Rd q v # h) = (if p = q then Some v else last_rd p h)"
| "last_rd p (_ # h) = last_rd p h"

fun last_wr :: "nat \<Rightarrow> event list \<Rightarrow> bool option" where
  "last_wr p [] = None"
| "last_wr p (Wr q v # h) = (if p = q then Some v else last_wr p h)"
| "last_wr p (Dir_out q v # h) = (if p = q then Some v else last_wr p h)"
| "last_wr p (_ # h) = last_wr p h"

text \<open>
  The bits the ARM takes from the MCU: DIN as last read whenever it answers with DOUT low.
  The bits the ARM shows to the MCU: DOUT as last driven whenever it pulls CLK low.
  Both newest first.
\<close>

fun taken_bits :: "event list \<Rightarrow> bool option list" where
  "taken_bits [] = []"
| "taken_bits (Wr p v # h) =
     (if p = gpio_MCU_DOUT \<and> \<not> v then last_rd gpio_MCU_DIN h # taken_bits h else taken_bits h)"
| "taken_bits (_ # h) = taken_bits h"

fun shown_bits :: "event list \<Rightarrow> bool option list" where
  "shown_bits [] = []"
| "shown_bits (Dir_out p v # h) =
     (if p = gpio_MCU_CLK \<and> \<not> v then last_wr gpio_MCU_DOUT h # shown_bits h else shown_bits h)"
| "shown_bits (_ # h) = shown_bits h"

lemma poll_events_obs:
  "list_all poll_event es \<Longrightarrow>
     last_wr p (es @ h) = last_wr p h \<and> taken_bits (es @ h) = taken_bits h
       \<and> shown_bits (es @ h) = shown_bits h"
proof (induction es)
  case Nil
  then show ?case by simp
next
  case (Cons x es)
  then show ?case by (cases x) simp_all
qed

lemma polled_obs:
  assumes "polled s s'"
  shows "last_wr p (trace s') = last_wr p (trace s)"
    "taken_bits (trace s') = taken_bits (trace s)"
    "shown_bits (trace s') = shown_bits (trace s)"
  using assms by (auto simp: polled_def poll_events_obs)

lemma getPin_loop_polled:
  assumes "getPin_loop e d p s = Some (v, s')"
  shows "polled s s' \<and> last_rd p (trace s') = Some v"
proof -
  have "polled s (snd r) \<and> last_rd p (trace (snd r)) = Some (fst r)"
    if "getPin_loop e d p s = Some r" for s r
  proof (rule getPin_loop.raw_induct
      [where P = "\<lambda>e d p s r. polled s (snd r) \<and> last_rd p (trace (snd r)) = Some (fst r)",
        OF _ that])
    fix f e d p s r
    assume IH: "\<And>e d p s r. f e d p s = Some r \<Longrightarrow>
        polled s (snd r) \<and> last_rd p (trace (snd r)) = Some (fst r)"
      and eq: "(let (value, s1) = gpio_get_value e p s;
            (again, s2) = gpio_get_value e p (udelay d s1)
          in if value = again then Some (value, s2) else f e d p s2) = Some r"
    show "polled s (snd r) \<and> last_rd p (trace (snd r)) = Some (fst r)"
      using eq IH by (auto simp: op_defs Let_def polled_emit split: if_splits
          dest!: IH polled_poll)
  qed
  from this [OF assms] show ?thesis by simp
qed

text \<open>The value of a debounced read is a level the pin had.\<close>

lemma getPin_loop_level:
  assumes "getPin_loop e d p s = Some (v, s')"
  shows "\<exists>h. level e h p = v"
proof -
  have "\<exists>h. level e h p = fst r" if "getPin_loop e d p s = Some r" for s r
  proof (rule getPin_loop.raw_induct
      [where P = "\<lambda>e d p s r. \<exists>h. level e h p = fst r", OF _ that])
    fix f e d p s r
    assume IH: "\<And>e d p s r. f e d p s = Some r \<Longrightarrow> \<exists>h. level e h p = fst r"
      and eq: "(let (value, s1) = gpio_get_value e p s;
            (again, s2) = gpio_get_value e p (udelay d s1)
          in if value = again then Some (value, s2) else f e d p s2) = Some r"
    show "\<exists>h. level e h p = fst r"
      using eq IH by (auto simp: op_defs Let_def split: if_splits)
  qed
  from this [OF assms] show ?thesis by simp
qed

lemma await_polled:
  assumes "await e d p want t s = Some (ok, s')"
  shows "polled s s' \<and> (ok \<longrightarrow> last_rd p (trace s') = Some want)"
proof -
  have "polled s (snd r) \<and> (fst r \<longrightarrow> last_rd p (trace (snd r)) = Some want)"
    if "await e d p want t s = Some r" for s r
  proof (rule await.raw_induct
      [where P = "\<lambda>e d p want t s r. polled s (snd r) \<and>
          (fst r \<longrightarrow> last_rd p (trace (snd r)) = Some want)", OF _ that])
    fix f e d p want t s r
    assume IH: "\<And>e d p want t s r. f e d p want t s = Some r \<Longrightarrow>
        polled s (snd r) \<and> (fst r \<longrightarrow> last_rd p (trace (snd r)) = Some want)"
      and eq: "Option.bind (getPin_loop e d p s) (\<lambda>(v, s1). if v = want then Some (True, s1)
          else let (expired, s2) = CheckTimeOut e t s1
               in if expired then Some (False, s2) else f e d p want t s2) = Some r"
    show "polled s (snd r) \<and> (fst r \<longrightarrow> last_rd p (trace (snd r)) = Some want)"
      using eq IH
      by (auto simp: bind_eq_Some CheckTimeOut_def op_defs Let_def polled_emit
          split: if_splits dest!: IH getPin_loop_polled polled_poll elim: polled_trans)
  qed
  from this [OF assms] show ?thesis by simp
qed

lemma await_from_polled:
  "await_from e d p want s = Some (ok, s') \<Longrightarrow>
     polled s s' \<and> (ok \<longrightarrow> last_rd p (trace s') = Some want)"
  by (auto simp: await_from_def GetCurTimer_def op_defs Let_def
      dest!: await_polled polled_poll)

lemma getPin_polled:
  "getPin e p s = Some (v, s') \<Longrightarrow> polled s s' \<and> last_rd p (trace s') = Some v"
  "getPin2 e p s = Some (v, s') \<Longrightarrow> polled s s' \<and> last_rd p (trace s') = Some v"
  by (auto simp: getPin_def getPin2_def dest: getPin_loop_polled)

section \<open>What the link operations do to the trace\<close>

text \<open>
  \<open>traced s s'\<close>: the operation only worked the pins and looked at the clock. Everything
  else of the state, the driver's status and configuration included, is as before, and no
  call left the component.
\<close>

fun pin_event :: "event \<Rightarrow> bool" where
  "pin_event (Wr _ _) = True"
| "pin_event (Dir_out _ _) = True"
| "pin_event (Dir_in _) = True"
| "pin_event x = poll_event x"

definition traced :: "sys \<Rightarrow> sys \<Rightarrow> bool" where
  "traced s s' \<longleftrightarrow> (\<exists>es. list_all pin_event es \<and> s' = s\<lparr>trace := es @ trace s\<rparr>)"

lemma traced_refl [simp, intro]: "traced s s"
  unfolding traced_def by (rule exI [of _ "[]"]) simp

lemma traced_trans [trans]: "traced a b \<Longrightarrow> traced b c \<Longrightarrow> traced a c"
  unfolding traced_def by (metis (no_types, lifting) append.assoc list_all_append
      sys.select_convs(1) sys.surjective sys.update_convs(1))

lemma traced_emit [intro]: "traced a b \<Longrightarrow> pin_event x \<Longrightarrow> traced a (emit x b)"
  unfolding traced_def emit_def by (metis (no_types, lifting) append_Cons list.pred_inject(2)
      sys.select_convs(1) sys.surjective sys.update_convs(1))

lemma traced_from_emit: "traced (emit x a) b \<Longrightarrow> pin_event x \<Longrightarrow> traced a b"
  by (rule traced_trans [OF traced_emit [OF traced_refl]])

lemmas traced_pin =
  traced_from_emit [of "Rd p v" for p v, simplified]
  traced_from_emit [of "Wr p v" for p v, simplified]
  traced_from_emit [of "Dir_out p v" for p v, simplified]
  traced_from_emit [of "Dir_in p" for p, simplified]
  traced_from_emit [of "Udelay d" for d, simplified]
  traced_from_emit [of "Clock a b" for a b, simplified]

lemma poll_pin_event: "poll_event x \<Longrightarrow> pin_event x"
  by (cases x) simp_all

lemma polled_traced: "polled s s' \<Longrightarrow> traced s s'"
  unfolding polled_def traced_def by (blast intro: list.pred_mono_strong poll_pin_event)

lemma traced_frame:
  assumes "traced s s'"
  shows "car s' = car s" "cfg s' = cfg s" "keys s' = keys s" "arm_rev_cmd s' = arm_rev_cmd s"
    "rev_bytes_count s' = rev_bytes_count s"
  using assms by (auto simp: traced_def)

text \<open>The elimination rules every proof about a transfer starts with.\<close>

lemmas link_dests = await_from_polled getPin_polled

lemma rev_bit_spec:
  assumes "rev_bit e s = Some (r, s')"
  shows "traced s s' \<and> shown_bits (trace s') = shown_bits (trace s) \<and>
    (\<forall>b. r = Some b \<longrightarrow> taken_bits (trace s') = Some b # taken_bits (trace s))"
  using assms
  by (auto simp: rev_bit_def bind_eq_Some op_defs polled_obs split: if_splits
      dest!: link_dests elim!: traced_trans [OF polled_traced]
      intro!: traced_emit dest: polled_traced traced_pin)

lemma arm_rev_8bits_loop_spec:
  "arm_rev_8bits_loop e n byte s = Some (r, s') \<Longrightarrow>
     traced s s' \<and> shown_bits (trace s') = shown_bits (trace s) \<and>
     (\<forall>b. r = Some b \<longrightarrow> (\<exists>bs. length bs = n \<and> b = foldl shift_in byte bs \<and>
        taken_bits (trace s') = map Some (rev bs) @ taken_bits (trace s)))"
proof (induction n arbitrary: byte s)
  case 0
  then show ?case by auto
next
  case (Suc n)
  from Suc.prems obtain r1 s1 where 1: "rev_bit e s = Some (r1, s1)"
    by (auto simp: bind_eq_Some)
  note spec = rev_bit_spec [OF 1]
  show ?case
  proof (cases r1)
    case None
    with Suc.prems 1 spec show ?thesis
      by (auto simp: op_defs)
  next
    case (Some b1)
    with Suc.prems 1 have "arm_rev_8bits_loop e n (shift_in byte b1) s1 = Some (r, s')"
      by simp
    note IH = Suc.IH [OF this]
    have "\<exists>bs. length bs = Suc n \<and> b = foldl shift_in byte bs \<and>
        taken_bits (trace s') = map Some (rev bs) @ taken_bits (trace s)" if r: "r = Some b" for b
    proof -
      from IH r obtain bs where "length bs = n" "b = foldl shift_in (shift_in byte b1) bs"
        "taken_bits (trace s') = map Some (rev bs) @ taken_bits (trace s1)" by auto
      with spec Some show ?thesis by (intro exI [of _ "b1 # bs"]) simp
    qed
    with IH spec Some show ?thesis by (auto elim: traced_trans)
  qed
qed

text \<open>A received byte is made of the eight bits the ARM acknowledged, oldest first.\<close>

lemma arm_rev_8bits_spec:
  assumes "arm_rev_8bits e s = Some (r, s')"
  shows "traced s s' \<and> shown_bits (trace s') = shown_bits (trace s) \<and>
    (\<forall>b. r = Some b \<longrightarrow>
       taken_bits (trace s') = map Some (rev (bits_msb b)) @ taken_bits (trace s))"
  using arm_rev_8bits_loop_spec [OF assms [unfolded arm_rev_8bits_def]]
  by (auto simp: op_defs bits_msb_from_bits from_bits_def [symmetric] dest: traced_pin)

text \<open>The two link registers are the only other state a transfer of bytes touches.\<close>

definition counted :: "sys \<Rightarrow> sys \<Rightarrow> bool" where
  "counted s s' \<longleftrightarrow> traced (s\<lparr>rev_bytes_count := rev_bytes_count s'\<rparr>) s'"

lemma counted_refl [simp, intro]: "counted s s"
  by (simp add: counted_def)

lemma counted_frame:
  assumes "counted s s'"
  shows "car s' = car s" "cfg s' = cfg s" "keys s' = keys s" "arm_rev_cmd s' = arm_rev_cmd s"
  using assms by (auto simp: counted_def dest: traced_frame)

lemma arm_rev_bytes_spec:
  "arm_rev_bytes e n s = Some (r, s') \<Longrightarrow>
     counted s s' \<and> shown_bits (trace s') = shown_bits (trace s) \<and>
     (\<forall>bs. r = Some bs \<longrightarrow> length bs = n \<and>
        rev_bytes_count s' = rev_bytes_count s + of_nat n \<and>
        taken_bits (trace s') =
          map Some (rev (concat (map bits_msb bs))) @ taken_bits (trace s))"
proof (induction n arbitrary: s r)
  case 0
  then show ?case by auto
next
  case (Suc n)
  let ?s0 = "s\<lparr>rev_bytes_count := rev_bytes_count s + 1\<rparr>"
  from Suc.prems obtain r1 s1 where 1: "arm_rev_8bits e ?s0 = Some (r1, s1)"
    by (auto simp: bind_eq_Some)
  note spec = arm_rev_8bits_spec [OF 1]
  from spec have cnt: "rev_bytes_count s1 = rev_bytes_count s + 1"
    by (auto dest: traced_frame)
  show ?case
  proof (cases r1)
    case None
    with Suc.prems 1 spec cnt show ?thesis
      by (auto simp: counted_def)
  next
    case (Some b)
    with Suc.prems 1 obtain rs where
      2: "arm_rev_bytes e n s1 = Some (rs, s')" and r: "r = map_option (Cons b) rs"
      by (auto simp: bind_eq_Some)
    from spec obtain es where "list_all pin_event es" "s1 = ?s0\<lparr>trace := es @ trace ?s0\<rparr>"
      by (auto simp: traced_def)
    then have "traced (s\<lparr>rev_bytes_count := rev_bytes_count s'\<rparr>)
        (s1\<lparr>rev_bytes_count := rev_bytes_count s'\<rparr>)"
      unfolding traced_def by (intro exI [of _ es]) simp
    with Suc.IH [OF 2] have "counted s s'"
      by (auto simp: counted_def elim: traced_trans)
    with Suc.IH [OF 2] spec Some r cnt show ?thesis
      by (auto simp: add.assoc add.commute)
  qed
qed

lemma await_from_obs:
  assumes "await_from e d p want s = Some (ok, s')"
  shows "traced s s'" "shown_bits (trace s') = shown_bits (trace s)"
    "taken_bits (trace s') = taken_bits (trace s)"
    "last_wr q (trace s') = last_wr q (trace s)"
    "ok \<Longrightarrow> last_rd p (trace s') = Some want"
  using await_from_polled [OF assms] by (auto simp: polled_obs polled_traced)

lemma getPin_obs:
  assumes "getPin e p s = Some (v, s')"
  shows "traced s s'" "shown_bits (trace s') = shown_bits (trace s)"
    "taken_bits (trace s') = taken_bits (trace s)"
    "last_wr q (trace s') = last_wr q (trace s)"
    "last_rd p (trace s') = Some v"
  using getPin_polled(1) [OF assms] by (auto simp: polled_obs polled_traced)

lemma getPin2_obs:
  assumes "getPin2 e p s = Some (v, s')"
  shows "traced s s'" "shown_bits (trace s') = shown_bits (trace s)"
    "taken_bits (trace s') = taken_bits (trace s)"
    "last_wr q (trace s') = last_wr q (trace s)"
    "last_rd p (trace s') = Some v"
  using getPin_polled(2) [OF assms] by (auto simp: polled_obs polled_traced)

section \<open>Sending\<close>

text \<open>What \<open>n\<close> rounds of \<open>LABEL_10\<close> show to the MCU: the top bit, \<open>n\<close> times.\<close>

lemma arm_send_16bits_spec:
  "arm_send_16bits e cmd n s = Some (r, s') \<Longrightarrow>
     traced s s' \<and>
     (r \<longrightarrow> shown_bits (trace s') =
        replicate n (Some (cmd AND 0x8000 \<noteq> 0)) @ shown_bits (trace s))"
proof (induction n arbitrary: s)
  case 0
  then show ?case by simp
next
  case (Suc n)
  from Suc.prems obtain ready s1 where 1: "await_from e 1 gpio_MCU_DIN True s = Some (ready, s1)"
    by (auto simp: bind_eq_Some)
  note w1 = await_from_polled [OF 1]
  show ?case
  proof (cases ready)
    case False
    with Suc.prems 1 w1 show ?thesis by (auto dest: polled_traced)
  next
    case True
    let ?b = "cmd AND 0x8000 \<noteq> 0"
    let ?s2 = "emit (Dir_out 167 False) (emit (Wr 170 ?b) s1)"
    from Suc.prems 1 True obtain taken s3 where
      2: "await_from e 1 gpio_MCU_DIN False ?s2 = Some (taken, s3)"
      by (auto simp: bind_eq_Some op_defs)
    note w2 = await_from_polled [OF 2]
    from w1 w2 have tr: "traced s s3"
      by (auto intro: traced_trans dest!: polled_traced traced_pin)
    have sh: "shown_bits (trace s3) = Some ?b # shown_bits (trace s)"
      by (simp add: await_from_obs(2) [OF 2] await_from_obs(2) [OF 1])
    show ?thesis
    proof (cases "taken \<and> n \<noteq> 0")
      case True
      with Suc.prems 1 2 \<open>ready\<close>
      have "arm_send_16bits e cmd n (emit (Dir_out 167 True) s3) = Some (r, s')"
        by (simp add: op_defs)
      from Suc.IH [OF this] tr sh show ?thesis
        by (auto simp: replicate_app_Cons_same intro: traced_trans dest!: traced_pin)
    next
      case False
      with Suc.prems 1 2 \<open>ready\<close> tr sh show ?thesis
        by (auto simp: op_defs split: if_splits intro!: traced_emit)
    qed
  qed
qed

lemma arm_send_ack_traced:
  assumes "arm_send_ack e s = Some (r, s')"
  shows "traced s s' \<and> shown_bits (trace s') = shown_bits (trace s)"
proof -
  have "traced s s'"
    using assms
    by (auto simp: arm_send_ack_def bind_eq_Some op_defs split: if_splits
        dest!: await_from_obs(1) traced_pin intro!: traced_emit elim: traced_trans)
  moreover have "shown_bits (trace s') = shown_bits (trace s)"
    using assms
    by (auto simp: arm_send_ack_def bind_eq_Some op_defs split: if_splits
        dest!: await_from_obs(2))
  ultimately show ?thesis by simp
qed

lemma arm_rev_ack_traced:
  "arm_rev_ack e s = Some (r, s') \<Longrightarrow> traced s s' \<and> (r = 0 \<or> r = 1)"
  by (auto simp: arm_rev_ack_def bind_eq_Some op_defs polled_obs split: if_splits
      dest!: link_dests polled_traced traced_pin intro!: traced_emit
      elim: traced_trans)

section \<open>Time-outs\<close>

text \<open>
  The clock is read through its microsecond field only. For readings of a real clock the
  test is on the elapsed time modulo one second.
\<close>

definition usec_ok :: "env \<Rightarrow> bool" where
  "usec_ok e \<longleftrightarrow> (\<forall>h. 0 \<le> usec e h \<and> usec e h < 1000000)"

lemma CheckTimeOut_mod:
  assumes "usec_ok e" "0 \<le> timeout" "timeout < 1000000"
  shows "fst (CheckTimeOut e timeout s) \<longleftrightarrow> (usec e (trace s) - timeout) mod 1000000 > 249999"
proof -
  let ?u = "usec e (trace s)"
  have u: "0 \<le> ?u" "?u < 1000000" using assms(1) by (auto simp: usec_ok_def)
  have "(?u - timeout) mod 1000000 =
      (if ?u < timeout then ?u + 1000000 - timeout else ?u - timeout)"
  proof (cases "?u < timeout")
    case True
    have "(?u - timeout) mod 1000000 = (?u - timeout + 1000000) mod 1000000" by simp
    also have "\<dots> = ?u + 1000000 - timeout"
      using True u assms by (subst mod_pos_pos_trivial) auto
    finally show ?thesis using True by simp
  next
    case False
    then show ?thesis using u assms by (simp add: mod_pos_pos_trivial)
  qed
  then show ?thesis by (auto simp: CheckTimeOut_def op_defs Let_def)
qed

section \<open>Every poll ends\<close>

text \<open>
  What is asked of the hardware and of the scheduler. \<open>steady\<close>: a pin does not change between
  the two samples of one \<open>getPin\<close>. \<open>clocked\<close>: \<open>do_gettimeofday\<close> reads a clock that never runs
  back, and \<open>udelay\<close> and \<open>msleep\<close> last at least as long as they were asked to. \<open>unstalled\<close>: no
  single step of a polling loop takes more than 150 ms longer than it was asked to.
\<close>

definition steady :: "env \<Rightarrow> bool" where
  "steady e \<longleftrightarrow> (\<forall>h p k. level e (Udelay k # Rd p (level e h p) # h) p = level e h p)"

fun lasts :: "event \<Rightarrow> int" where
  "lasts (Udelay n) = int n"
| "lasts (Msleep n) = 1000 * int n"
| "lasts _ = 0"

fun poll_step :: "event \<Rightarrow> bool" where
  "poll_step (I2c_read _ _ _ _) = True"
| "poll_step (Msleep _) = True"
| "poll_step x = poll_event x"

definition clocked :: "env \<Rightarrow> (event list \<Rightarrow> int) \<Rightarrow> bool" where
  "clocked e now \<longleftrightarrow> (\<forall>h. usec e h = now h mod 1000000) \<and> (\<forall>h x. now h + lasts x \<le> now (x # h))"

definition unstalled :: "(event list \<Rightarrow> int) \<Rightarrow> bool" where
  "unstalled now \<longleftrightarrow> (\<forall>h x. poll_step x \<longrightarrow> now (x # h) \<le> now h + lasts x + 150000)"

lemma clocked_usec_ok: "clocked e now \<Longrightarrow> usec_ok e"
  by (auto simp: clocked_def usec_ok_def)

lemma clocked_step: "clocked e now \<Longrightarrow> now h + lasts x \<le> now (x # h)"
  by (simp add: clocked_def)

lemma unstalled_step: "unstalled now \<Longrightarrow> poll_step x \<Longrightarrow> now (x # h) \<le> now h + lasts x + 150000"
  by (simp add: unstalled_def)

text \<open>Less than a second after \<open>start\<close> the microsecond fields tell the elapsed time.\<close>

lemma clocked_elapsed:
  assumes "clocked e now" "now start \<le> now h" "now h < now start + 1000000"
  shows "(usec e h - usec e start) mod 1000000 = now h - now start"
  using assms by (simp add: clocked_def mod_diff_eq)

lemma getPin_loop_steady:
  "steady e \<Longrightarrow> getPin_loop e d p s =
     Some (level e (trace s) p,
       emit (Rd p (level e (trace s) p)) (emit (Udelay d) (emit (Rd p (level e (trace s) p)) s)))"
  by (subst getPin_loop.simps) (simp add: op_defs Let_def steady_def)

lemma await_returns_aux:
  assumes "steady e" "clocked e now" "unstalled now" "0 < k" "k \<le> 100000" "timeout = usec e start"
    and "now start \<le> now (trace s)" "now (trace s) - now start \<le> 400000"
  shows "returns (await e k p want timeout s)"
  using assms(7,8)
proof (induction "nat (400001 - (now (trace s) - now start))" arbitrary: s rule: less_induct)
  case less
  let ?v = "level e (trace s) p"
  let ?s1 = "emit (Rd p ?v) (emit (Udelay k) (emit (Rd p ?v) s))"
  let ?s2 = "emit (Clock (sec e (trace ?s1)) (usec e (trace ?s1))) ?s1"
  note low = clocked_step [OF assms(2)] and high = unstalled_step [OF assms(3)]
  have 1: "now (trace s) + int k \<le> now (trace ?s1)" "now (trace ?s1) \<le> now (trace s) + int k + 450000"
    using low [of "trace s" "Rd p ?v"] low [of "Rd p ?v # trace s" "Udelay k"]
      low [of "Udelay k # Rd p ?v # trace s" "Rd p ?v"] high [of "Rd p ?v" "trace s"]
      high [of "Udelay k" "Rd p ?v # trace s"] high [of "Rd p ?v" "Udelay k # Rd p ?v # trace s"]
    by simp_all
  have 2: "now (trace ?s1) \<le> now (trace ?s2)" "now (trace ?s2) \<le> now (trace ?s1) + 150000"
    using low [of "trace ?s1" "Clock (sec e (trace ?s1)) (usec e (trace ?s1))"]
      high [of "Clock (sec e (trace ?s1)) (usec e (trace ?s1))" "trace ?s1"] by simp_all
  have mod: "(usec e (trace ?s1) - timeout) mod 1000000 = now (trace ?s1) - now start"
    unfolding assms(6) using 1 less.prems assms(5) by (intro clocked_elapsed [OF assms(2)]) auto
  have ok: "usec_ok e" by (rule clocked_usec_ok [OF assms(2)])
  then have t: "0 \<le> timeout" "timeout < 1000000"
    by (auto simp: assms(6) usec_ok_def)
  show ?case
  proof (cases "?v = want \<or> fst (CheckTimeOut e timeout ?s1)")
    case True
    then show ?thesis
      by (subst await.simps)
         (auto simp: getPin_loop_steady [OF assms(1)] Let_def split: prod.split)
  next
    case False
    then have "\<not> fst (CheckTimeOut e timeout ?s1)" by blast
    then have n3: "\<not> now (trace ?s1) - now start > 249999"
      unfolding CheckTimeOut_mod [OF ok t, of ?s1] mod .
    have "snd (CheckTimeOut e timeout ?s1) = ?s2"
      by (simp add: CheckTimeOut_def op_defs Let_def)
    with False have *: "await e k p want timeout s = await e k p want timeout ?s2"
      by (subst await.simps)
         (auto simp: getPin_loop_steady [OF assms(1)] Let_def split: prod.split)
    show ?thesis
      unfolding * using n3 1 2 less.prems assms(4) by (intro less.hyps) auto
  qed
qed

lemma await_from_returns:
  assumes "steady e" "clocked e now" "unstalled now" "0 < k" "k \<le> 100000"
  shows "returns (await_from e k p want s)"
proof -
  let ?x = "Clock (sec e (trace s)) (usec e (trace s))"
  have "now (trace s) \<le> now (?x # trace s)" "now (?x # trace s) \<le> now (trace s) + 150000"
    using clocked_step [OF assms(2), of "trace s" ?x] unstalled_step [OF assms(3), of ?x "trace s"]
    by simp_all
  then have "returns (await e k p want (usec e (trace s)) (emit ?x s))"
    using assms by (intro await_returns_aux [where start = "trace s"]) auto
  then show ?thesis
    by (simp add: await_from_def GetCurTimer_def op_defs Let_def)
qed

lemma getPin_returns:
  assumes "steady e"
  shows "returns (getPin e p s)" "returns (getPin2 e p s)"
  using assms by (simp_all add: getPin_def getPin2_def getPin_loop_steady)

lemma rev_bit_returns:
  assumes "steady e" "clocked e now" "unstalled now"
  shows "returns (rev_bit e s)"
  unfolding rev_bit_def Let_def
  by (auto intro!: await_from_returns [OF assms] getPin_returns [OF assms(1)])

lemma arm_rev_8bits_returns:
  assumes "steady e" "clocked e now" "unstalled now"
  shows "returns (arm_rev_8bits e s)"
proof -
  have "returns (arm_rev_8bits_loop e n byte s)" for n byte s
    by (induction n arbitrary: byte s) (auto intro!: rev_bit_returns [OF assms])
  then show ?thesis by (simp add: arm_rev_8bits_def)
qed

lemma arm_rev_bytes_returns:
  assumes "steady e" "clocked e now" "unstalled now"
  shows "returns (arm_rev_bytes e n s)"
  by (induction n arbitrary: s) (auto intro!: arm_rev_8bits_returns [OF assms])

lemma arm_send_ack_returns:
  assumes "steady e" "clocked e now" "unstalled now"
  shows "returns (arm_send_ack e s)"
  unfolding arm_send_ack_def Let_def
  by (auto intro!: await_from_returns [OF assms])

lemma arm_rev_ack_returns:
  assumes "steady e" "clocked e now" "unstalled now"
  shows "returns (arm_rev_ack e s)"
  unfolding arm_rev_ack_def Let_def
  by (auto intro!: await_from_returns [OF assms] getPin_returns [OF assms(1)])

lemma arm_send_16bits_returns:
  assumes "steady e" "clocked e now" "unstalled now"
  shows "returns (arm_send_16bits e cmd n s)"
  by (induction n arbitrary: s) (auto intro!: await_from_returns [OF assms] simp: Let_def)

section \<open>The contract of a reception\<close>

text \<open>
  What the users of the receiving operations rely on: a reception touches only the pins
  and the byte counter, shows the MCU nothing, and a value it delivers is exactly the bits
  it acknowledged.
\<close>

locale reception =
  fixes recv :: "env \<Rightarrow> sys \<Rightarrow> ('a option \<times> sys) option"
    and bits_of :: "'a \<Rightarrow> bool list"
  assumes recv_counted: "recv e s = Some (r, s') \<Longrightarrow> counted s s'"
    and recv_shown: "recv e s = Some (r, s') \<Longrightarrow> shown_bits (trace s') = shown_bits (trace s)"
    and recv_taken: "recv e s = Some (Some x, s') \<Longrightarrow>
      taken_bits (trace s') = map Some (rev (bits_of x)) @ taken_bits (trace s)"
begin

lemma status_kept:
  assumes "recv e s = Some (r, s')"
  shows "car s' = car s" "cfg s' = cfg s" "keys s' = keys s" "arm_rev_cmd s' = arm_rev_cmd s"
  using counted_frame [OF recv_counted [OF assms]] by simp_all

text \<open>Two receptions that acknowledged the same bits delivered the same value.\<close>

lemma same_bits_same_value:
  assumes "recv e s = Some (Some x, s')" "recv e2 s2 = Some (Some y, s2')"
    and "length (bits_of x) = length (bits_of y)" "inj bits_of"
    and "take (length (bits_of x)) (taken_bits (trace s')) =
         take (length (bits_of x)) (taken_bits (trace s2'))"
  shows "x = y"
proof -
  have "map Some (rev (bits_of x)) = map Some (rev (bits_of y))"
    using assms(3,5) by (simp add: recv_taken [OF assms(1)] recv_taken [OF assms(2)])
  then have "bits_of x = bits_of y"
    by (metis inj_Some inj_map_eq_map rev_rev_ident)
  with assms(4) show ?thesis by (auto dest: injD)
qed

end

lemma traced_counted: "traced s s' \<Longrightarrow> counted s s'"
  by (auto simp: counted_def traced_def)

interpretation bit: reception rev_bit "\<lambda>b. [b]"
  by unfold_locales (auto dest: rev_bit_spec traced_counted)

interpretation byte: reception arm_rev_8bits bits_msb
  by unfold_locales (auto dest: arm_rev_8bits_spec traced_counted)

interpretation bytes: reception "\<lambda>e. arm_rev_bytes e n" "\<lambda>bs. concat (map bits_msb bs)" for n
  by unfold_locales (auto dest: arm_rev_bytes_spec)

lemma inj_bits_msb: "inj (bits_msb :: 'a::len word \<Rightarrow> bool list)"
  by (rule injI) (metis from_bits_bits_msb)

end
