(* ===== verification/Peers.thy ===== *)
theory Peers
  imports Mcu_Link
begin

text \<open>
  Concrete hardware at the other end of the link, on which the witnesses of the
  development run the modelled code: an MCU that takes what the ARM sends, an MCU that
  sends given bits and then takes the acknowledgement, hardware on which every pin is
  stuck low while the clock runs, and an MCU that asks for attention and then falls
  silent. The first two answer at once, so every wait of the code is one round of its
  polling loop.
\<close>

text \<open>
  Their clock: every step takes one microsecond besides the delay it asks for.
\<close>

fun elapsed :: "event list \<Rightarrow> int" where
  "elapsed [] = 0"
| "elapsed (x # h) = elapsed h + lasts x + 1"

definition with_pins :: "(event list \<Rightarrow> nat \<Rightarrow> bool) \<Rightarrow> env" where
  "with_pins f = \<lparr>level = f, sec = (\<lambda>h. elapsed h div 1000000), usec = (\<lambda>h. elapsed h mod 1000000),
     junk = (\<lambda>_. 0), others = (\<lambda>_ c. c), mcu_data = (\<lambda>_. [])\<rparr>"

fun listening :: "event list \<Rightarrow> bool" where
  "listening [] = False"
| "listening (Dir_in p # h) = (p = gpio_MCU_CLK \<or> listening h)"
| "listening (_ # h) = listening h"

definition taking_mcu :: env where
  "taking_mcu = with_pins (\<lambda>h p.
     if p = gpio_MCU_CLK then last_wr gpio_MCU_DOUT h \<noteq> Some False
     else p = gpio_MCU_DIN \<and> last_wr gpio_MCU_CLK h \<noteq> Some False)"

definition sending_mcu :: "bool list \<Rightarrow> env" where
  "sending_mcu bs = with_pins (\<lambda>h p.
     if p = gpio_MCU_CLK then \<not> listening h \<or> last_wr gpio_MCU_DOUT h = Some False
     else p = gpio_MCU_DIN \<and>
       (let n = length (taken_bits h) in
        if listening h \<and> n < length bs then bs ! n else last_wr gpio_MCU_CLK h = Some False))"

definition dead_mcu :: env where
  "dead_mcu = with_pins (\<lambda>_ _. False)"

definition silent_mcu :: env where
  "silent_mcu = with_pins (\<lambda>_ p. p = gpio_MCU_CLK)"


section \<open>Running the code against them\<close>

text \<open>The levels of a prompt peer depend on what was driven, not on how often it was polled.\<close>

definition prompt :: "env \<Rightarrow> bool" where
  "prompt e \<longleftrightarrow> (\<forall>h x p. poll_event x \<longrightarrow> level e (x # h) p = level e h p)"

lemma listening_poll [simp]: "poll_event x \<Longrightarrow> listening (x # h) = listening h"
  by (cases x) simp_all

lemma last_wr_poll: "poll_event x \<Longrightarrow> last_wr p (x # h) = last_wr p h"
  by (cases x) simp_all

lemma taken_bits_poll: "poll_event x \<Longrightarrow> taken_bits (x # h) = taken_bits h"
  by (cases x) simp_all

lemma prompt_peers [simp]: "prompt taking_mcu" "prompt (sending_mcu bs)" "prompt dead_mcu" "prompt silent_mcu"
  by (simp_all add: prompt_def taking_mcu_def sending_mcu_def dead_mcu_def silent_mcu_def with_pins_def
      last_wr_poll taken_bits_poll del: taken_bits.simps last_wr.simps)

lemma prompt_steady: "prompt e \<Longrightarrow> steady e"
  by (simp add: prompt_def steady_def)

lemma with_pins_clocked: "clocked (with_pins f) elapsed" "unstalled elapsed"
  by (simp_all add: clocked_def unstalled_def with_pins_def)

text \<open>What polling leaves unchanged, as one fact about the two states.\<close>

definition same_obs :: "sys \<Rightarrow> sys \<Rightarrow> bool" where
  "same_obs s s' \<longleftrightarrow> (\<forall>q. last_wr q (trace s') = last_wr q (trace s)) \<and>
     taken_bits (trace s') = taken_bits (trace s) \<and> listening (trace s') = listening (trace s) \<and>
     car s' = car s \<and> cfg s' = cfg s \<and> rev_bytes_count s' = rev_bytes_count s"

lemma polled_same_obs:
  assumes "polled s s'"
  shows "same_obs s s'"
proof -
  have "listening (es @ h) = listening h" if "list_all poll_event es" for es h
    using that by (induction es) simp_all
  with assms show ?thesis
    by (auto simp: same_obs_def polled_obs polled_frame) (auto simp: polled_def)
qed

text \<open>A run that returns, and what holds of its result.\<close>

definition yields :: "('a \<times> 's) option \<Rightarrow> ('a \<Rightarrow> 's \<Rightarrow> bool) \<Rightarrow> bool" where
  "yields m Q \<longleftrightarrow> (\<exists>x s. m = Some (x, s) \<and> Q x s)"

lemma yields_Some [simp]: "yields (Some (x, s)) Q = Q x s"
  by (simp add: yields_def)

lemma yields_bind: "yields m (\<lambda>x s. yields (f (x, s)) Q) \<Longrightarrow> yields (Option.bind m f) Q"
  by (auto simp: yields_def)

lemma yields_mono: "yields m P \<Longrightarrow> (\<And>x s. P x s \<Longrightarrow> Q x s) \<Longrightarrow> yields m Q"
  by (auto simp: yields_def)

lemma yields_getPin:
  assumes "prompt e" "\<And>s'. same_obs s s' \<Longrightarrow> Q (level e (trace s) p) s'"
  shows "yields (getPin e p s) Q" "yields (getPin2 e p s) Q"
proof -
  have "yields (getPin_loop e d p s) Q" for d
    using assms by (simp add: getPin_loop_steady [OF prompt_steady] polled_emit polled_same_obs)
  then show "yields (getPin e p s) Q" "yields (getPin2 e p s) Q"
    by (simp_all add: getPin_def getPin2_def)
qed

lemma yields_await:
  assumes "prompt e" "level e (trace s) p = want" "\<And>s'. same_obs s s' \<Longrightarrow> Q True s'"
  shows "yields (await_from e d p want s) Q"
proof -
  let ?s1 = "emit (Clock (sec e (trace s)) (usec e (trace s))) s"
  have "level e (trace ?s1) p = want" using assms(1,2) by (simp add: prompt_def)
  then have "yields (await e d p want t ?s1) Q" for t
    using assms(1,3) by (subst await.simps)
      (simp add: getPin_loop_steady [OF prompt_steady] polled_emit polled_same_obs)
  then show ?thesis by (simp add: await_from_def GetCurTimer_def op_defs Let_def)
qed

lemmas yields_intros = yields_bind yields_getPin yields_await prompt_peers

lemma taking_level:
  "level taking_mcu h 167 \<longleftrightarrow> last_wr 170 h \<noteq> Some False"
  "level taking_mcu h 169 \<longleftrightarrow> last_wr 167 h \<noteq> Some False"
  by (simp_all add: taking_mcu_def with_pins_def)

lemma sending_level:
  "level (sending_mcu bs) h 167 \<longleftrightarrow> \<not> listening h \<or> last_wr 170 h = Some False"
  "level (sending_mcu bs) h 169 \<longleftrightarrow>
     (if listening h \<and> length (taken_bits h) < length bs then bs ! length (taken_bits h)
      else last_wr 167 h = Some False)"
  by (simp_all add: sending_mcu_def with_pins_def Let_def)

lemma taking_16bits:
  "last_wr 167 (trace s) \<noteq> Some False \<Longrightarrow> 0 < n \<Longrightarrow>
     yields (arm_send_16bits taking_mcu cmd n s) (\<lambda>ok s'. ok \<and>
       last_wr 170 (trace s') = Some True \<and> last_wr 167 (trace s') = Some True)"
proof (induction n arbitrary: s)
  case (Suc n)
  show ?case
    by (auto intro!: yields_intros Suc simp: taking_level op_defs same_obs_def Let_def)
qed simp

lemma taking_ack:
  "last_wr 167 (trace s) \<noteq> Some False \<Longrightarrow> yields (arm_send_ack taking_mcu s) (\<lambda>ok s'. ok)"
  unfolding arm_send_ack_def Let_def
  by (auto intro!: yields_intros simp: taking_level op_defs same_obs_def)

lemma sending_bit:
  assumes "listening (trace s)" "last_wr 170 (trace s) \<noteq> Some False"
    and "length (taken_bits (trace s)) < length bs"
  shows "yields (rev_bit (sending_mcu bs) s) (\<lambda>r s'. r = Some (bs ! length (taken_bits (trace s))) \<and>
      listening (trace s') \<and> last_wr 170 (trace s') = Some True \<and>
      last_wr 167 (trace s') = last_wr 167 (trace s) \<and>
      length (taken_bits (trace s')) = Suc (length (taken_bits (trace s))))"
  unfolding rev_bit_def Let_def using assms
  by (auto intro!: yields_intros simp: sending_level op_defs same_obs_def)

lemma sending_ack:
  assumes "length bs \<le> length (taken_bits (trace s))" "last_wr 167 (trace s) \<noteq> Some False"
  shows "yields (arm_rev_ack (sending_mcu bs) s) (\<lambda>r s'. r = 1)"
  unfolding arm_rev_ack_def Let_def using assms
  by (auto intro!: yields_intros simp: sending_level op_defs same_obs_def)

text \<open>\<open>n\<close> bits taken one after the other, and the bytes made of them.\<close>

definition offers :: "bool list \<Rightarrow> nat \<Rightarrow> sys \<Rightarrow> bool" where
  "offers bs n s \<longleftrightarrow> listening (trace s) \<and> last_wr 170 (trace s) \<noteq> Some False \<and>
     last_wr 167 (trace s) \<noteq> Some False \<and> length (taken_bits (trace s)) + n = length bs"

lemma yields_bit:
  assumes "offers bs (Suc n) s" "\<And>b s'. offers bs n s' \<Longrightarrow> Q (Some b) s'"
  shows "yields (rev_bit (sending_mcu bs) s) Q"
  using assms(1)
  by (auto simp: offers_def intro!: assms(2) intro: yields_mono [OF sending_bit])

lemma yields_8bits:
  assumes "offers bs (8 + n) s \<or> offers bs (8 + n) (emit (Dir_in 167) s)"
    and "\<And>b s'. offers bs n s' \<Longrightarrow> Q (Some b) s'"
  shows "yields (arm_rev_8bits (sending_mcu bs) s) Q"
proof -
  have loop: "yields (arm_rev_8bits_loop (sending_mcu bs) k byte s) (\<lambda>r s'. r \<noteq> None \<and> offers bs n s')"
    if "offers bs (k + n) s" for k byte s
    using that by (induction k arbitrary: byte s) (auto intro!: yields_bind yields_bit)
  have "offers bs (8 + n) (emit (Dir_in 167) s)"
    using assms(1) by (auto simp: offers_def)
  from loop [OF this] show ?thesis
    unfolding arm_rev_8bits_def op_defs by (rule yields_mono) (auto intro: assms(2))
qed

lemma yields_bytes:
  assumes "offers bs (8 * n) (emit (Dir_in 167) s)"
    and "\<And>xs s'. offers bs 0 (emit (Dir_in 167) s') \<Longrightarrow> length xs = n \<Longrightarrow> Q (Some xs) s'"
  shows "yields (arm_rev_bytes (sending_mcu bs) n s) Q"
proof -
  have "yields (arm_rev_bytes (sending_mcu bs) n s)
      (\<lambda>r s'. (\<exists>xs. r = Some xs \<and> length xs = n) \<and> offers bs 0 (emit (Dir_in 167) s'))"
    using assms(1)
  proof (induction n arbitrary: s)
    case (Suc n)
    then have *: "offers bs (8 + 8 * n) (emit (Dir_in 167) (s\<lparr>rev_bytes_count := rev_bytes_count s + 1\<rparr>))"
      by (simp add: offers_def)
    show ?case
      by (auto intro!: yields_bind yields_8bits [OF disjI2 [OF *]] yields_mono [OF Suc.IH]
          simp: offers_def)
  qed simp
  then show ?thesis by (rule yields_mono) (auto intro: assms(2))
qed

end
