(* ===== verification/Rds_Input.thy ===== *)
theory Rds_Input
  imports Mtc_State
begin

text \<open>
  The entry points of the radio component the MCU command processor calls
  (radio_tef6606.c): RDS words from the tuner become work items of the radio queue, and
  only when the configuration enables RDS.
\<close>

definition radio_add_work :: "int \<Rightarrow> u32 \<Rightarrow> u32 \<Rightarrow> sys \<Rightarrow> sys" where
  "radio_add_work cmd a2 a3 s = emit (Radio_add_work cmd a2 a3) s"

definition barray2int :: "u8 \<Rightarrow> u8 \<Rightarrow> u32" where
  "barray2int b0 b1 = (ucast b1 OR push_bit 8 (ucast b0))"

definition rds_input :: "u32 \<Rightarrow> sys \<Rightarrow> sys" where
  "rds_input a1 s = (if cfg_rds (cfg s) \<noteq> 0 then radio_add_work 1 a1 0 s else s)"

definition rds_input2 :: "u32 \<Rightarrow> sys \<Rightarrow> sys" where
  "rds_input2 a1 s = (if cfg_rds (cfg s) \<noteq> 0 then radio_add_work 2 a1 0 s else s)"

definition rds_input3A :: "u8 list \<Rightarrow> sys \<Rightarrow> sys" where
  "rds_input3A rds s =
     (if cfg_rds (cfg s) \<noteq> 0 then radio_add_work 3 (barray2int (rds ! 0) (rds ! 1)) 0 s else s)"

definition rds_input3 :: "u8 list \<Rightarrow> sys \<Rightarrow> sys" where
  "rds_input3 rds s =
     (if cfg_rds (cfg s) \<noteq> 0 then
        radio_add_work 3 (barray2int (rds ! 6) (rds ! 7)) 3
          (radio_add_work 3 (barray2int (rds ! 4) (rds ! 5)) 2
            (radio_add_work 3 (barray2int (rds ! 2) (rds ! 3)) 1
              (radio_add_work 3 (barray2int (rds ! 0) (rds ! 1)) 0 s)))
      else s)"

lemmas rds_input_defs = rds_input_def rds_input2_def rds_input3_def rds_input3A_def
  radio_add_work_def

lemma rds_input_frame [simp]:
  "car (rds_input w s) = car s" "cfg (rds_input w s) = cfg s"
  "car (rds_input2 w s) = car s" "cfg (rds_input2 w s) = cfg s"
  "car (rds_input3 b s) = car s" "cfg (rds_input3 b s) = cfg s"
  "car (rds_input3A b s) = car s" "cfg (rds_input3A b s) = cfg s"
  by (simp_all add: rds_input_defs)

end
