(* ===== verification/Mcu_Command.thy ===== *)
theory Mcu_Command
  imports Peers Rds_Input
begin

text \<open>
  The command layer of the link to the MCU (car.c): the processor of commands that come
  from the MCU (\<open>process_mcu_command\<close>), the reception of a command (\<open>arm_rev\<close>), the
  transmission of a command with or without data (\<open>arm_send_cmd\<close>, \<open>arm_send\<close>,
  \<open>arm_send_multi\<close>) and the work item that drains the MCU (\<open>mtc_car_work\<close>).
\<close>

section \<open>Commands from the MCU\<close>

abbreviation (input) add_work :: "int \<Rightarrow> int \<Rightarrow> sys \<Rightarrow> sys" where
  "add_work a1 a2 s \<equiv> emit (Car_add_work a1 a2 False) s"

abbreviation (input) vs_call :: "nat \<Rightarrow> u8 \<Rightarrow> u8 list \<Rightarrow> sys \<Rightarrow> sys" where
  "vs_call port c buf s \<equiv> emit (Vs_send port c buf) s"

definition tail_ack :: "env \<Rightarrow> int \<Rightarrow> sys \<Rightarrow> (int \<times> sys) option" where
  "tail_ack e r s = (if r \<noteq> 0 then arm_rev_ack e s else Some (0, s))"

definition ret_tail :: "u32 \<Rightarrow> int" where
  "ret_tail cmd = (if sint cmd < 0 then 0 else sint (cmd AND 0x8000))"

text \<open>\<open>arm_rev_bytes(buf, n)\<close> followed by the success and the failure path.\<close>

definition read_bytes :: "env \<Rightarrow> nat \<Rightarrow> sys \<Rightarrow> (u8 list \<Rightarrow> sys \<Rightarrow> (int \<times> sys) option) \<Rightarrow>
    (sys \<Rightarrow> (int \<times> sys) option) \<Rightarrow> (int \<times> sys) option" where
  "read_bytes e n s ok fail = do {
     (r, s) \<leftarrow> arm_rev_bytes e n s;
     case r of None \<Rightarrow> fail s | Some buf \<Rightarrow> ok buf s }"

text \<open>
  The same for a length the MCU chose and a buffer with room for \<open>cap\<close> bytes: storing
  more is recorded. The count of bytes is what \<open>rev_bytes_count\<close> advanced by.
\<close>

definition note_overrun :: "nat \<Rightarrow> sys \<Rightarrow> u8 list option \<Rightarrow> sys \<Rightarrow> sys" where
  "note_overrun cap s0 r s =
     (let stored = unat (rev_bytes_count s - rev_bytes_count s0) - (if r = None then 1 else 0)
      in if stored > cap then emit (Buffer_overrun stored cap) s else s)"

definition read_bytes_into :: "nat \<Rightarrow> env \<Rightarrow> nat \<Rightarrow> sys \<Rightarrow>
    (u8 list \<Rightarrow> sys \<Rightarrow> (int \<times> sys) option) \<Rightarrow>
    (sys \<Rightarrow> (int \<times> sys) option) \<Rightarrow> (int \<times> sys) option" where
  "read_bytes_into cap e n s ok fail = do {
     (r, s1) \<leftarrow> arm_rev_bytes e n s;
     case r of None \<Rightarrow> fail (note_overrun cap s r s1)
     | Some buf \<Rightarrow> ok buf (note_overrun cap s r s1) }"

text \<open>A byte of a local buffer, indeterminate where nothing was stored.\<close>

definition buf_at :: "env \<Rightarrow> sys \<Rightarrow> u8 list \<Rightarrow> nat \<Rightarrow> u8" where
  "buf_at e s buf i = (if i < length buf then buf ! i else word_of_int (junk e (trace s)))"

definition be16 :: "u8 list \<Rightarrow> u32" where
  "be16 buf = (ucast (buf ! 1) OR push_bit 8 (ucast (buf ! 0)))"

definition one_if_zero :: "'a::len word \<Rightarrow> 'a word" where
  "one_if_zero w = (if w = 0 then 1 else w)"

definition mcu_command_low :: "env \<Rightarrow> u32 \<Rightarrow> sys \<Rightarrow> (int \<times> sys) option" where
  "mcu_command_low e cmd s =
     (if cmd \<le> 0x602 then
        if cmd > 0x600 then arm_rev_ack e s
        else if cmd = 259 then arm_rev_ack e (vs_call 2 134 [] s)
        else if cmd \<le> 259 then
          if cmd = 257 then arm_rev_ack e (vs_call 2 132 [] s)
          else if cmd = 258 then arm_rev_ack e (vs_call 2 133 [] s)
          else arm_rev_ack e s
        else if cmd = 0x402 then arm_rev_ack e (vs_call 2 241 [] s)
        else if cmd = 0x408 then arm_rev_ack e (vs_call 2 135 [] s)
        else if cmd = 0x401 then arm_rev_ack e (vs_call 2 241 [] s)
        else arm_rev_ack e s
      else if cmd > 0x705 then
        if cmd = 0x801 then arm_rev_ack e (vs_call 2 136 [] s)
        else if cmd = 0x802 then arm_rev_ack e (upd_car (\<lambda>c. c\<lparr>power2_flag := 1\<rparr>) s)
        else if cmd = 0x755 then arm_rev_ack e (add_work 73 0 s)
        else arm_rev_ack e s
      else if cmd \<ge> 0x704 then arm_rev_ack e s
      else if cmd \<noteq> 1794 \<and> cmd \<le> 0x702 then
        if cmd \<noteq> 1793 then arm_rev_ack e s else arm_rev_ack e (add_work 35 0 s)
      else if cmd \<noteq> 1794 \<and> cam_signal (car s) = 0 then arm_rev_ack e (add_work 35 0 s)
      else arm_rev_ack e (add_work 36 0 s))"

definition mcu_command_D :: "env \<Rightarrow> u32 \<Rightarrow> sys \<Rightarrow> (int \<times> sys) option" where
  "mcu_command_D e cmd s =
     read_bytes_into 7 e (unat (cmd AND 0xFF)) s
       (\<lambda>buf s. arm_rev_ack e
          (if cmd AND 0xF00 = 0x100 \<and> buf_at e s buf 0 = 0
           then s\<lparr>cfg := (cfg s)(6 := buf_at e s buf 1)\<rparr> else s))
       (\<lambda>s. Some (0, s))"

text \<open>0xF004: report the changed status bits, then store them.\<close>

definition mcu_sta_bits :: "u8 \<Rightarrow> sys \<Rightarrow> sys" where
  "mcu_sta_bits nv s =
     (let dv = nv XOR sta_bits (car s);
          s = (if dv AND 0x10 \<noteq> 0 then vs_call 2 144 [of_bool (nv AND 0x10 \<noteq> 0)] s else s);
          s = (if dv AND 0x20 \<noteq> 0 then vs_call 2 145 [of_bool (nv AND 0x20 = 0)] s else s);
          s = (if dv AND 0x48 \<noteq> 0 then
                 let s = (if dv AND 8 \<noteq> 0 then vs_call 2 147 [of_bool (nv AND 8 = 0)] s else s)
                 in emit Backlight_update (upd_car (\<lambda>c. c\<lparr>sta_bits := nv\<rparr>) s)
               else s)
      in upd_car (\<lambda>c. c\<lparr>sta_bits := nv\<rparr>) s)"

definition mcu_command_mid :: "env \<Rightarrow> u32 \<Rightarrow> sys \<Rightarrow> (int \<times> sys) option" where
  "mcu_command_mid e cmd s =
     (let zero = (\<lambda>s. Some (0, s)); tail = (\<lambda>s. Some (ret_tail cmd, s)) in
      if cmd = 0xF007 then
        read_bytes e 5 s (\<lambda>buf s. do {
          (_, s) \<leftarrow> arm_rev_ack e s;
          Some (1, rds_input (ucast (buf ! 3) OR push_bit 8 (ucast (buf ! 2) OR
                 push_bit 8 (ucast (buf ! 1) OR push_bit 8 (ucast (buf ! 0))))) s) }) zero
      else if cmd > 0xF007 then
        if cmd = 0xF00B then
          read_bytes e 2 s (\<lambda>buf s. do {
            (_, s) \<leftarrow> arm_rev_ack e s; Some (1, rds_input3A buf s) }) zero
        else if cmd \<le> 0xF00B then
          if cmd = 0xF009 then read_bytes e 5 s (\<lambda>buf s. tail_ack e 1 s) zero
          else if cmd > 0xF009 then
            read_bytes e 3 s (\<lambda>buf s. do {
              (_, s) \<leftarrow> arm_rev_ack e s;
              Some (1, rds_input2 (ucast (buf ! 2) OR
                     push_bit 8 (ucast (buf ! 1) OR push_bit 8 (ucast (buf ! 0)))) s) }) zero
          else read_bytes e 4 s (\<lambda>buf s. tail_ack e 1 s) zero
        else if cmd = 0xF010 then
          read_bytes e 1 s (\<lambda>buf s. tail_ack e 1 (vs_call 0 16 buf s)) zero
        else if cmd > 0xF010 then
          read_bytes e 5 s (\<lambda>buf s. tail_ack e 1 (vs_call 0 17 buf s)) zero
        else if cmd = 0xF00C then
          read_bytes e 8 s (\<lambda>buf s. do {
            (_, s) \<leftarrow> arm_rev_ack e s; Some (1, rds_input3 buf s) }) zero
        else Some (0, s)
      else if cmd = 0xF003 then
        read_bytes e 2 s (\<lambda>buf s.
          let v = 2275 * be16 buf;
              s = upd_car (\<lambda>c. c\<lparr>intval3 := drop_bit 10 v\<rparr>) s
          in tail_ack e 1 (vs_call 2 146 [ucast (drop_bit 18 v), ucast (drop_bit 10 v)] s)) zero
      else if cmd > 0xF003 then
        if cmd = 0xF005 then
          read_bytes e 2 s (\<lambda>buf s.
            tail_ack e 1 (upd_car (\<lambda>c. c\<lparr>intval4 := one_if_zero (be16 buf)\<rparr>) s)) tail
        else if cmd > 0xF005 then
          read_bytes e 2 s (\<lambda>buf s.
            tail_ack e 1 (upd_car (\<lambda>c. c\<lparr>wipe_flag := one_if_zero (ucast (be16 buf))\<rparr>) s)) tail
        else read_bytes e 1 s (\<lambda>buf s. tail_ack e 1 (mcu_sta_bits (buf ! 0) s)) tail
      else if cmd = 0xF000 then
        read_bytes e 2 s (\<lambda>buf s.
          tail_ack e 1 (upd_car (\<lambda>c. c\<lparr>intval1 := one_if_zero (be16 buf div 3)\<rparr>) s)) tail
      else if cmd = 0xF001 then
        read_bytes e 2 s (\<lambda>buf s.
          tail_ack e 1 (upd_car (\<lambda>c. c\<lparr>intval2 := one_if_zero (be16 buf div 3)\<rparr>) s)) tail
      else if cmd = 0xE000 then
        read_bytes e 1 s (\<lambda>len s.
          read_bytes e (unat (len ! 0)) s (\<lambda>_ s. tail_ack e 1 s) zero) tail
      else Some (0, s))"

text \<open>0xF204 and 0xF207: state 5 or 6 of the MCU, with work 31 or 32.\<close>

definition mcu_enter_state :: "u8 \<Rightarrow> sys \<Rightarrow> sys" where
  "mcu_enter_state k s =
     (if reserved_10 (car s) = 0 \<or> mcu_cmd_state (car s) = k
      then add_work 31 0 (upd_car (\<lambda>c. c\<lparr>mcu_cmd_state := k\<rparr>) s)
      else add_work 32 0 (upd_car (\<lambda>c. c\<lparr>mcu_cmd_state := k\<rparr>) s))"

definition mcu_command_high :: "env \<Rightarrow> u32 \<Rightarrow> sys \<Rightarrow> (int \<times> sys) option" where
  "mcu_command_high e cmd s =
     (let zero = (\<lambda>s. Some (0, s)); tail = (\<lambda>s. Some (ret_tail cmd, s)) in
      if cmd = 0xF201 then
        read_bytes e 1 s (\<lambda>buf s.
          let s = (if buf ! 0 = 0 then upd_car (\<lambda>c. c\<lparr>mcu_cmd_state := 5\<rparr>) s else s)
          in tail_ack e (uint (buf ! 0)) (add_work 42 (uint (buf ! 0)) s)) zero
      else if cmd > 0xF201 then
        if cmd = 0xF205 then arm_rev_ack e (add_work 34 0 s)
        else if cmd \<le> 0xF205 then
          if cmd = 0xF203 then arm_rev_ack e (add_work 44 0 s)
          else if cmd > 0xF203 then arm_rev_ack e (mcu_enter_state 5 s)
          else arm_rev_ack e (add_work 45 0 s)
        else if cmd = 0xF207 then arm_rev_ack e (mcu_enter_state 6 s)
        else if cmd < 0xF207 then arm_rev_ack e (add_work 33 0 s)
        else if cmd = 0xF210 then
          read_bytes e 1 s (\<lambda>buf s.
            tail_ack e 1 (add_work 42 0 (upd_car (\<lambda>c. c\<lparr>mcu_cmd_state := 6\<rparr>) s))) zero
        else Some (0, s)
      else if cmd = 0xF016 then
        read_bytes e 1 s (\<lambda>buf s. tail_ack e 1 (add_work 70 (uint (buf ! 0)) s)) zero
      else if cmd \<le> 0xF016 then
        if cmd = 0xF014 then
          read_bytes e 1 s (\<lambda>buf s.
            tail_ack e (junk e (trace s)) (add_work 69 (uint (buf ! 0)) s)) zero
        else if cmd > 0xF014 then read_bytes e 1 s (\<lambda>buf s. tail_ack e 1 s) (tail_ack e 0)
        else read_bytes e 2 s (\<lambda>buf s. tail_ack e 1 (vs_call 0 19 buf s)) zero
      else if cmd \<noteq> 0xF021 then
        if cmd = 0xF200 then
          read_bytes e 1 s (\<lambda>buf s. tail_ack e 1 (add_work 43 (uint (buf ! 0)) s)) zero
        else if cmd = 0xF020 then
          read_bytes e 1 s (\<lambda>len s.
            read_bytes_into 8 e (unat (len ! 0)) s
              (\<lambda>buf s. tail_ack e 1 (emit (Vs_send_raw 0 buf) s)) zero) tail
        else Some (0, s)
      else read_bytes e 32 s
        (\<lambda>buf s. tail_ack e 1 (upd_car (\<lambda>c. c\<lparr>reserved_22 := buf\<rparr>) s)) tail)"

definition process_mcu_command :: "env \<Rightarrow> u32 \<Rightarrow> sys \<Rightarrow> (int \<times> sys) option" where
  "process_mcu_command e cmd s =
     (if cmd AND 0x7000 < 0x1000 then mcu_command_low e cmd s
      else if cmd AND 0xF000 = 0xD000 then mcu_command_D e cmd s
      else if cmd = 0xF012 then
        read_bytes e 2 s (\<lambda>buf s. tail_ack e (junk e (trace s)) (vs_call 0 18 buf s))
          (\<lambda>s. Some (0, s))
      else if cmd \<le> 0xF012 then mcu_command_mid e cmd s
      else mcu_command_high e cmd s)"

section \<open>Receiving a command\<close>

text \<open>\<open>LABEL_8\<close> of \<open>arm_rev\<close>: \<open>n\<close> more bits into \<open>arm_rev_cmd\<close>.\<close>

fun arm_rev_16bits :: "env \<Rightarrow> nat \<Rightarrow> u32 \<Rightarrow> sys \<Rightarrow> (u32 option \<times> sys) option" where
  "arm_rev_16bits e 0 cmd s = Some (Some cmd, s)"
| "arm_rev_16bits e (Suc n) cmd s = do {
     (r, s) \<leftarrow> rev_bit e s;
     case r of None \<Rightarrow> Some (None, gpio_set_value gpio_MCU_DOUT True s)
     | Some b \<Rightarrow> arm_rev_16bits e n (shift_in_trunc cmd b) s }"

definition arm_rev :: "env \<Rightarrow> sys \<Rightarrow> (int \<times> sys) option" where
  "arm_rev e s = do {
     (mcu_clk, s) \<leftarrow> getPin2 e gpio_MCU_CLK s;
     if \<not> mcu_clk then Some (0, s) else do {
       (mcu_din, s) \<leftarrow> getPin2 e gpio_MCU_DIN s;
       if mcu_din then Some (0, s) else do {
         let s = udelay 1 (gpio_direction_output gpio_MCU_CLK False s);
         (ok, s) \<leftarrow> await_from e 5 gpio_MCU_DIN True s;
         if \<not> ok then Some (0, udelay 10 (gpio_direction_input gpio_MCU_CLK s)) else do {
           let s = udelay 1 (gpio_direction_output gpio_MCU_CLK True s);
           let s = gpio_direction_input gpio_MCU_CLK (s\<lparr>rev_bytes_count := 0x20000\<rparr>);
           (r, s) \<leftarrow> arm_rev_16bits e 16 0 s;
           case r of None \<Rightarrow> Some (0, s)
           | Some cmd \<Rightarrow> process_mcu_command e cmd (s\<lparr>arm_rev_cmd := cmd\<rparr>) } } } }"

section \<open>Sending a command\<close>

text \<open>The \<open>while (1)\<close> at the head of \<open>arm_send_cmd\<close>: serve the MCU first.\<close>

partial_function (option) arm_send_ready :: "env \<Rightarrow> sys \<Rightarrow> (bool \<times> sys) option" where
  "arm_send_ready e s =
     Option.bind (getPin2 e gpio_MCU_CLK s) (\<lambda>(clk, s).
       if \<not> clk then Some (False, s)
       else Option.bind (getPin2 e gpio_MCU_DIN s) (\<lambda>(din, s).
         if din then Some (True, s)
         else Option.bind (arm_rev e s) (\<lambda>(_, s). arm_send_ready e s)))"

definition arm_send_cmd :: "env \<Rightarrow> u32 \<Rightarrow> sys \<Rightarrow> (bool \<times> sys) option" where
  "arm_send_cmd e cmd s = do {
     (ready, s) \<leftarrow> arm_send_ready e s;
     if \<not> ready then Some (False, gpio_set_value gpio_MCU_DOUT True s) else do {
       let s = gpio_direction_output gpio_MCU_DOUT False s;
       (ok, s) \<leftarrow> await_from e 5 gpio_MCU_CLK False s;
       if \<not> ok then Some (False, gpio_set_value gpio_MCU_DOUT True s) else do {
         let s = gpio_set_value gpio_MCU_DOUT True s;
         (ok, s) \<leftarrow> await_from e 5 gpio_MCU_CLK True s;
         if \<not> ok then Some (False, gpio_set_value gpio_MCU_DOUT True s) else do {
           let s = s\<lparr>rev_bytes_count := 0x10000, arm_rev_cmd := cmd\<rparr>;
           (ok, s) \<leftarrow> arm_send_16bits e cmd 16 (udelay 10 s);
           if ok then Some (True, s)
           else Some (False, gpio_set_value gpio_MCU_DOUT True (udelay 10
                  (gpio_direction_input gpio_MCU_CLK (gpio_set_value gpio_MCU_DOUT True s)))) } } } }"

abbreviation (input) car_lock :: string where "car_lock \<equiv> ''car_lock''"

definition arm_send :: "env \<Rightarrow> u32 \<Rightarrow> sys \<Rightarrow> (unit \<times> sys) option" where
  "arm_send e cmd s = do {
     let s = emit (Lock car_lock) (emit (Irq_off gpio_MCU_DIN) s);
     (sent, s) \<leftarrow> arm_send_cmd e cmd s;
     s \<leftarrow> (if \<not> sent then Some s
          else if cmd AND 0xFF00 = 0xF00 \<or> cmd = 0x201 then do {
            (r, s) \<leftarrow> arm_rev_8bits e s;
            (case r of None \<Rightarrow> Some s | Some _ \<Rightarrow> map_option snd (arm_rev_ack e s)) }
          else map_option snd (arm_send_ack e s));
     Some ((), emit (Unlock car_lock) (emit (Irq_on gpio_MCU_DIN) s)) }"

text \<open>
  The data phase of \<open>arm_send_multi\<close>: one byte, bits \<open>bit_pos\<close> and up, as the loop has them;
  \<open>False\<close> is \<open>LABEL_23\<close>.
\<close>

function arm_send_8bits :: "env \<Rightarrow> nat \<Rightarrow> u8 \<Rightarrow> sys \<Rightarrow> (bool \<times> sys) option" where
  "arm_send_8bits e bit_pos byte s =
     (if bit_pos < 7 then do {
        (ok, s) \<leftarrow> await_from e 1 gpio_MCU_DIN True s;
        if \<not> ok then Some (False, s) else do {
          let s = gpio_set_value gpio_MCU_DOUT (byte AND 0x80 \<noteq> 0) s;
          (ok, s) \<leftarrow> await_from e 1 gpio_MCU_DIN False (gpio_direction_output gpio_MCU_CLK False s);
          if \<not> ok then Some (False, s)
          else arm_send_8bits e (bit_pos + 1) (push_bit 1 byte)
                 (if bit_pos \<noteq> 7 then gpio_direction_output gpio_MCU_CLK True s else s) } }
      else Some (True, gpio_direction_output gpio_MCU_CLK True
                         (gpio_set_value gpio_MCU_DOUT True s)))"
  by pat_completeness auto
termination
  by (relation "measure (\<lambda>(e, bit_pos, byte, s). 7 - bit_pos)") auto

declare arm_send_8bits.simps [simp del]

fun arm_send_bytes :: "env \<Rightarrow> u8 list \<Rightarrow> sys \<Rightarrow> (bool \<times> sys) option" where
  "arm_send_bytes e [] s = Some (True, s)"
| "arm_send_bytes e (b # bs) s = do {
     (ok, s) \<leftarrow> arm_send_8bits e 0 b (s\<lparr>rev_bytes_count := rev_bytes_count s + 0x100\<rparr>);
     if ok then arm_send_bytes e bs s
     else Some (False, udelay 10 (gpio_direction_input gpio_MCU_CLK
                                   (gpio_set_value gpio_MCU_DOUT True s))) }"

text \<open>The firmware update path (0xA000): \<open>while (getPin(...) != want) ;\<close> without time-out.\<close>

partial_function (option) spin :: "env \<Rightarrow> nat \<Rightarrow> bool \<Rightarrow> sys \<Rightarrow> sys option" where
  "spin e gpio want s =
     Option.bind (getPin e gpio s) (\<lambda>(v, s). if v = want then Some s else spin e gpio want s)"

fun arm_update_8bits :: "env \<Rightarrow> nat \<Rightarrow> u8 \<Rightarrow> sys \<Rightarrow> sys option" where
  "arm_update_8bits e 0 byte s = Some s"
| "arm_update_8bits e (Suc n) byte s = do {
     s \<leftarrow> spin e gpio_MCU_DIN True s;
     let s = gpio_set_value gpio_MCU_DOUT (byte AND 0x80 \<noteq> 0) s;
     s \<leftarrow> spin e gpio_MCU_DIN False (gpio_direction_output gpio_MCU_CLK False s);
     if n = 0 then Some (gpio_direction_output gpio_MCU_CLK True
                           (gpio_set_value gpio_MCU_DOUT True s))
     else arm_update_8bits e n (push_bit 1 byte) (gpio_direction_output gpio_MCU_CLK True s) }"

fun arm_update_bytes :: "env \<Rightarrow> u8 list \<Rightarrow> sys \<Rightarrow> sys option" where
  "arm_update_bytes e [] s = Some s"
| "arm_update_bytes e (b # bs) s =
     Option.bind (arm_update_8bits e 8 b s) (arm_update_bytes e bs)"

text \<open>
  \<open>buf\<close> is the data to send and \<open>count\<close> its length, or the number of bytes to read; the
  second result is what was read into the caller's buffer.
\<close>

definition arm_send_multi ::
    "env \<Rightarrow> u32 \<Rightarrow> nat \<Rightarrow> u8 list \<Rightarrow> sys \<Rightarrow> ((bool \<times> u8 list) \<times> sys) option" where
  "arm_send_multi e cmd count buf s = do {
     let s = emit (Lock car_lock) (emit (Irq_off gpio_MCU_DIN) s);
     (sent, s) \<leftarrow> arm_send_cmd e cmd s;
     (res, s) \<leftarrow> (if \<not> sent then Some ((False, []), s)
        else if cmd \<noteq> 0xA000 then
          if cmd AND 0x8000 \<noteq> 0 then do {
            (ok, s) \<leftarrow> arm_send_bytes e (take count buf) s;
            if \<not> ok then Some ((False, []), s)
            else do { (ok, s) \<leftarrow> arm_send_ack e s; Some ((ok, []), s) } }
          else do {
            (r, s) \<leftarrow> arm_rev_bytes e count s;
            case r of None \<Rightarrow> Some ((False, []), s)
            | Some bs \<Rightarrow> do { (ok, s) \<leftarrow> arm_rev_ack e s; Some ((ok \<noteq> 0, bs), s) } }
        else do {
          s \<leftarrow> arm_update_bytes e (take count buf) s;
          (ok, s) \<leftarrow> arm_send_ack e s; Some ((ok, []), s) });
     Some (res, emit (Unlock car_lock) (emit (Irq_on gpio_MCU_DIN) s)) }"

section \<open>Draining the MCU\<close>

text \<open>\<open>while (!getPin(gpio_MCU_DIN) && arm_rev()) ;\<close>\<close>

partial_function (option) drain_mcu :: "env \<Rightarrow> sys \<Rightarrow> sys option" where
  "drain_mcu e s =
     Option.bind (getPin e gpio_MCU_DIN s) (\<lambda>(din, s).
       if din then Some s
       else Option.bind (arm_rev e s) (\<lambda>(r, s). if r = 0 then Some s else drain_mcu e s))"

definition mtc_car_work :: "env \<Rightarrow> sys \<Rightarrow> sys option" where
  "mtc_car_work e s = do {
     s \<leftarrow> drain_mcu e (udelay 20 (emit (Lock car_lock) s));
     Some (emit (Unlock car_lock) (emit (Irq_on gpio_MCU_DIN) s)) }"

section \<open>What reaches the command processor\<close>

text \<open>
  The accumulator of \<open>arm_rev\<close> is cut to eight bits before every bit, so a command word of
  sixteen bits arrives as its last eight.
\<close>

lemma arm_rev_16bits_spec:
  "arm_rev_16bits e n cmd s = Some (r, s') \<Longrightarrow>
     traced s s' \<and> (\<forall>c. r = Some c \<longrightarrow> (\<exists>bs. length bs = n \<and>
        c = foldl shift_in_trunc cmd bs \<and>
        taken_bits (trace s') = map Some (rev bs) @ taken_bits (trace s)))"
proof (induction n arbitrary: cmd s)
  case 0
  then show ?case by auto
next
  case (Suc n)
  from Suc.prems obtain r1 s1 where 1: "rev_bit e s = Some (r1, s1)"
    by (auto simp: bind_eq_Some)
  note spec = rev_bit_spec [OF 1]
  show ?case
  proof (cases r1)
    case None
    with Suc.prems 1 spec show ?thesis
      by (auto simp: op_defs)
  next
    case (Some b1)
    with Suc.prems 1 have "arm_rev_16bits e n (shift_in_trunc cmd b1) s1 = Some (r, s')"
      by simp
    note IH = Suc.IH [OF this]
    have "\<exists>bs. length bs = Suc n \<and> c = foldl shift_in_trunc cmd bs \<and>
        taken_bits (trace s') = map Some (rev bs) @ taken_bits (trace s)" if r: "r = Some c" for c
    proof -
      from IH r obtain bs where "length bs = n" "c = foldl shift_in_trunc (shift_in_trunc cmd b1) bs"
        "taken_bits (trace s') = map Some (rev bs) @ taken_bits (trace s1)" by auto
      with spec Some show ?thesis by (intro exI [of _ "b1 # bs"]) simp
    qed
    with IH spec Some show ?thesis by (auto elim: traced_trans)
  qed
qed

lemma foldl_shift_in_trunc_0:
  assumes "8 \<le> length bs"
  shows "foldl shift_in_trunc 0 bs = ucast (from_bits (drop (length bs - 8) bs) :: u8)"
proof -
  have "foldl shift_in_trunc 0 bs = foldl shift_in_trunc (ucast (0 :: u8)) bs" by simp
  also have "\<dots> = ucast (from_bits bs :: u8)"
    by (simp only: foldl_shift_in_trunc from_bits_def)
  also have "(from_bits bs :: u8) = from_bits (drop (length bs - 8) bs)"
    using from_bits_truncates [where 'a = 8, of bs] assms by simp
  finally show ?thesis .
qed

lemma unat_ucast_u8: "unat (ucast (b :: u8) :: u32) = unat b"
  by (simp add: unsigned_ucast_eq take_bit_nat_eq_self unsigned_less [THEN less_trans])

lemma ucast_u8_u32_bound: "(ucast (b :: u8) :: u32) \<le> 255"
  using unsigned_less [of b, where 'a = nat] by (simp add: word_le_nat_alt unat_ucast_u8)

lemma ucast_u8_no_class: "(ucast (b :: u8) :: u32) AND 0x7000 = 0"
proof -
  have "(ucast b :: u32) AND mask 8 = ucast b"
    by (rule bit_word_eqI) (auto simp: bit_simps dest: bit_imp_le_length)
  then have "(ucast b :: u32) AND 0x7000 = (ucast b AND mask 8) AND 0x7000"
    by (simp only:)
  also have "\<dots> = ucast b AND (mask 8 AND 0x7000)"
    by (simp only: and.assoc)
  also have "mask 8 AND (0x7000 :: u32) = 0"
    by (simp add: mask_eq_exp_minus_1)
  finally show ?thesis by simp
qed

text \<open>For such a word the processor only acknowledges.\<close>

lemma process_mcu_command_byte:
  "process_mcu_command e (ucast (b :: u8)) s = arm_rev_ack e s"
proof -
  let ?c = "ucast b :: u32"
  note le = ucast_u8_u32_bound [of b]
  have "?c \<le> 0x602" by (rule order_trans [OF le]) simp
  moreover have "\<not> ?c > 0x600"
    using order_trans [OF le, of "0x600"] by (simp add: not_less)
  moreover have "?c \<le> 259" by (rule order_trans [OF le]) simp
  moreover have "?c \<noteq> 259" "?c \<noteq> 257" "?c \<noteq> 258"
    using le by (auto simp: word_le_nat_alt)
  ultimately show ?thesis
    by (simp add: process_mcu_command_def mcu_command_low_def ucast_u8_no_class)
qed

text \<open>
  \<open>linked s s'\<close>: only the pins were worked; the link registers may have changed, the
  driver's status and configuration did not.
\<close>

definition linked :: "sys \<Rightarrow> sys \<Rightarrow> bool" where
  "linked s s' \<longleftrightarrow> (\<exists>es. list_all pin_event es \<and> trace s' = es @ trace s) \<and>
     car s' = car s \<and> cfg s' = cfg s \<and> keys s' = keys s"

lemma linked_refl [simp, intro]: "linked s s"
  by (auto simp: linked_def)

lemma linked_trans [trans]: "linked a b \<Longrightarrow> linked b c \<Longrightarrow> linked a c"
  unfolding linked_def by (metis append.assoc list_all_append)

lemma traced_linked: "traced a b \<Longrightarrow> linked a b"
  by (auto simp: traced_def linked_def)

lemma counted_linked:
  assumes "counted a b"
  shows "linked a b"
proof -
  from assms obtain es where es: "list_all pin_event es"
    "b = a\<lparr>rev_bytes_count := rev_bytes_count b, trace := es @ trace a\<rparr>"
    by (auto simp: counted_def traced_def)
  then have "trace b = es @ trace a" by (metis sys.select_convs(1) sys.surjective sys.update_convs(1))
  with es(1) counted_frame [OF assms] show ?thesis by (auto simp: linked_def)
qed

lemma linked_emit: "linked a b \<Longrightarrow> pin_event x \<Longrightarrow> linked a (emit x b)"
  by (auto simp: linked_def)

lemma linked_regs [simp]:
  "linked a (b\<lparr>rev_bytes_count := n\<rparr>) = linked a b" "linked a (b\<lparr>arm_rev_cmd := c\<rparr>) = linked a b"
  "linked (b\<lparr>rev_bytes_count := n\<rparr>) a = linked b a" "linked (b\<lparr>arm_rev_cmd := c\<rparr>) a = linked b a"
  by (simp_all add: linked_def)

lemma link_ops_linked:
  "await_from e d p want s = Some (ok, s') \<Longrightarrow> linked s s'"
  "getPin e p s = Some (v, s') \<Longrightarrow> linked s s'"
  "getPin2 e p s = Some (v, s') \<Longrightarrow> linked s s'"
  "arm_rev_8bits e s = Some (rb, s') \<Longrightarrow> linked s s'"
  "arm_rev_bytes e n s = Some (rbs, s') \<Longrightarrow> linked s s'"
  "arm_rev_ack e s = Some (ri, s') \<Longrightarrow> linked s s'"
  "arm_send_ack e s = Some (ok, s') \<Longrightarrow> linked s s'"
  "arm_send_16bits e cmd n s = Some (ok, s') \<Longrightarrow> linked s s'"
  "arm_rev_16bits e n cmd s = Some (rc, s') \<Longrightarrow> linked s s'"
  by (auto intro: traced_linked counted_linked dest: await_from_obs(1) getPin_obs(1)
      getPin2_obs(1) arm_rev_8bits_spec arm_rev_bytes_spec arm_rev_ack_traced
      arm_send_ack_traced arm_send_16bits_spec arm_rev_16bits_spec)

lemma arm_rev_16bits_cmd:
  assumes "arm_rev_16bits e 16 0 s = Some (Some cmd, s')"
  shows "\<exists>bs. length bs = 16 \<and> taken_bits (trace s') = map Some (rev bs) @ taken_bits (trace s) \<and>
    cmd = ucast (from_bits (drop 8 bs) :: u8)"
proof -
  from arm_rev_16bits_spec [OF assms] obtain bs where bs: "length bs = 16"
    "cmd = foldl shift_in_trunc 0 bs"
    "taken_bits (trace s') = map Some (rev bs) @ taken_bits (trace s)" by blast
  then have "cmd = ucast (from_bits (drop 8 bs) :: u8)"
    using foldl_shift_in_trunc_0 [of bs] by simp
  with bs show ?thesis by blast
qed

lemma arm_rev_tail_linked:
  assumes "Option.bind (arm_rev_16bits e 16 0 s) (\<lambda>(r, s). case r of None \<Rightarrow> Some (0, s)
      | Some cmd \<Rightarrow> process_mcu_command e cmd (s\<lparr>arm_rev_cmd := cmd\<rparr>)) = Some (r, s')"
  shows "linked s s' \<and> (r = 0 \<or> r = 1)"
proof -
  from assms obtain rc s1 where 1: "arm_rev_16bits e 16 0 s = Some (rc, s1)"
    by (auto simp: bind_eq_Some)
  note l1 = link_ops_linked(9) [OF 1]
  show ?thesis
  proof (cases rc)
    case None
    with assms 1 l1 show ?thesis by auto
  next
    case (Some cmd)
    with 1 obtain b :: u8 where b: "cmd = ucast b"
      using arm_rev_16bits_cmd by blast
    with assms 1 Some have "arm_rev_ack e (s1\<lparr>arm_rev_cmd := cmd\<rparr>) = Some (r, s')"
      by (simp add: process_mcu_command_byte)
    with l1 show ?thesis
      by (auto dest!: arm_rev_ack_traced traced_linked intro: linked_trans)
  qed
qed

text \<open>The operations of the link, as steps of a proof about an operation that calls them.\<close>

lemmas link_ops_trans = link_ops_linked [THEN linked_trans [rotated]]

lemma link_post [intro!]:
  "linked s t \<Longrightarrow> (\<And>x u. linked s u \<Longrightarrow> Q x u) \<Longrightarrow> post (await_from e d p b t) Q"
  "linked s t \<Longrightarrow> (\<And>x u. linked s u \<Longrightarrow> Q x u) \<Longrightarrow> post (getPin e p t) Q"
  "linked s t \<Longrightarrow> (\<And>x u. linked s u \<Longrightarrow> Q x u) \<Longrightarrow> post (getPin2 e p t) Q"
  "linked s t \<Longrightarrow> (\<And>x u. linked s u \<Longrightarrow> Q' x u) \<Longrightarrow> post (arm_rev_8bits e t) Q'"
  "linked s t \<Longrightarrow> (\<And>x u. linked s u \<Longrightarrow> Qi x u) \<Longrightarrow> post (arm_rev_ack e t) Qi"
  "linked s t \<Longrightarrow> (\<And>x u. linked s u \<Longrightarrow> Ql x u) \<Longrightarrow> post (arm_rev_bytes e n t) Ql"
  "linked s t \<Longrightarrow> (\<And>x u. linked s u \<Longrightarrow> Q x u) \<Longrightarrow> post (arm_send_ack e t) Q"
  "linked s t \<Longrightarrow> (\<And>x u. linked s u \<Longrightarrow> Q x u) \<Longrightarrow> post (arm_send_16bits e c n t) Q"
  by (auto intro!: postI intro: link_ops_trans)

lemma linked_emit_pin [simp]: "pin_event x \<Longrightarrow> linked s t \<Longrightarrow> linked s (emit x t)"
  by (rule linked_emit)

lemma arm_rev_linked:
  "linked s t \<Longrightarrow> post (arm_rev e t) (\<lambda>r u. linked s u \<and> (r = 0 \<or> r = 1))"
proof -
  assume "linked s t"
  have tail: "post (Option.bind (arm_rev_16bits e 16 0 u) (\<lambda>(r, s). case r of None \<Rightarrow> Some (0, s)
      | Some cmd \<Rightarrow> process_mcu_command e cmd (s\<lparr>arm_rev_cmd := cmd\<rparr>)))
        (\<lambda>r v. linked s v \<and> (r = 0 \<or> r = 1))" if "linked s u" for u
    using that by (intro postI) (auto dest!: arm_rev_tail_linked intro: linked_trans)
  show ?thesis
    unfolding arm_rev_def op_defs Let_def
    by (auto intro!: \<open>linked s t\<close> link_post [where s = s] tail)
qed

lemma arm_send_ready_linked:
  assumes "arm_send_ready e s = Some (x, s')"
  shows "linked s s'"
proof -
  have "linked s (snd r)" if "arm_send_ready e s = Some r" for s r
  proof (rule arm_send_ready.raw_induct [where P = "\<lambda>e s r. linked s (snd r)", OF _ that])
    fix f e s r
    assume IH: "\<And>e s r. f e s = Some r \<Longrightarrow> linked s (snd r)"
      and eq: "Option.bind (getPin2 e gpio_MCU_CLK s) (\<lambda>(clk, s).
          if \<not> clk then Some (False, s)
          else Option.bind (getPin2 e gpio_MCU_DIN s) (\<lambda>(din, s).
            if din then Some (True, s)
            else Option.bind (arm_rev e s) (\<lambda>(_, s). f e s))) = Some r"
    have "post (f e t) (\<lambda>x u. linked s u)" if "linked s t" for t
      using that by (intro postI) (auto dest!: IH intro: linked_trans)
    then have "post (Option.bind (getPin2 e gpio_MCU_CLK s) (\<lambda>(clk, s).
          if \<not> clk then Some (False, s)
          else Option.bind (getPin2 e gpio_MCU_DIN s) (\<lambda>(din, s).
            if din then Some (True, s)
            else Option.bind (arm_rev e s) (\<lambda>(_, s). f e s)))) (\<lambda>x u. linked s u)"
      by (auto intro!: link_post [where s = s] post_weaken [OF arm_rev_linked [where s = s]])
    with eq show "linked s (snd r)" by (cases r) (auto dest: postD)
  qed
  from this [OF assms] show ?thesis by simp
qed

lemma send_ready_post [intro!]:
  "linked s t \<Longrightarrow> (\<And>x u. linked s u \<Longrightarrow> Q x u) \<Longrightarrow> post (arm_send_ready e t) Q"
  by (auto intro!: postI dest!: arm_send_ready_linked intro: linked_trans)

lemma arm_send_cmd_linked [intro!]:
  "linked s t \<Longrightarrow> (\<And>x u. linked s u \<Longrightarrow> Q x u) \<Longrightarrow> post (arm_send_cmd e cmd t) Q"
  unfolding arm_send_cmd_def op_defs Let_def
  by (auto intro!: link_post [where s = s])

lemma arm_send_8bits_linked [intro!]:
  "linked s t \<Longrightarrow> (\<And>x u. linked s u \<Longrightarrow> Q x u) \<Longrightarrow> post (arm_send_8bits e k b t) Q"
proof (induction "7 - k" arbitrary: k b t)
  case 0
  then show ?case by (subst arm_send_8bits.simps) (simp add: op_defs)
next
  case (Suc n)
  from Suc.hyps(2) have n: "n = 7 - (k + 1)" by simp
  show ?case
    by (subst arm_send_8bits.simps)
       (auto simp: op_defs Suc.prems(1) intro!: link_post [where s = s] Suc.prems Suc.hyps(1) [OF n])
qed

lemma arm_send_bytes_linked [intro!]:
  "linked s t \<Longrightarrow> (\<And>x u. linked s u \<Longrightarrow> Q x u) \<Longrightarrow> post (arm_send_bytes e bs t) Q"
  by (induction bs arbitrary: t)
     (auto simp: op_defs intro!: arm_send_8bits_linked [where s = s])

lemma spin_polled:
  assumes "spin e p want s = Some s'"
  shows "polled s s' \<and> last_rd p (trace s') = Some want"
proof (rule spin.raw_induct
    [where P = "\<lambda>e p want s s'. polled s s' \<and> last_rd p (trace s') = Some want", OF _ assms])
  fix f e p want s s'
  assume IH: "\<And>e p want s s'. f e p want s = Some s' \<Longrightarrow>
      polled s s' \<and> last_rd p (trace s') = Some want"
    and eq: "Option.bind (getPin e p s)
      (\<lambda>(v, s). if v = want then Some s else f e p want s) = Some s'"
  show "polled s s' \<and> last_rd p (trace s') = Some want"
    using eq by (auto simp: bind_eq_Some split: if_splits
        dest!: IH getPin_polled(1) elim: polled_trans)
qed

lemma spin_obs:
  assumes "spin e p want s = Some s'"
  shows "linked s s'" "shown_bits (trace s') = shown_bits (trace s)"
    "last_wr q (trace s') = last_wr q (trace s)"
  using spin_polled [OF assms] by (auto simp: polled_obs polled_traced traced_linked)

text \<open>Bits as the code tests them.\<close>

lemma top_bit: "(b :: u8) AND 0x80 \<noteq> 0 \<longleftrightarrow> bit b 7"
proof -
  have "(0x80 :: u8) = 2 ^ 7" by simp
  then show ?thesis by (simp only: and_exp_eq_0_iff_not_bit) simp
qed

lemma bit_shl: "k \<le> 7 \<Longrightarrow> bit (push_bit k (b :: u8)) 7 = bit b (7 - k)"
  by (auto simp: bit_push_bit_iff)

lemma bits_msb_upt: "bits_msb (b :: u8) = map (\<lambda>i. bit b (7 - i)) [0..<8]"
  by (rule nth_equalityI) (auto simp: bits_msb_def rev_nth)

text \<open>
  The data phase of \<open>arm_send_multi\<close> shows seven bits of a byte: the loop runs while
  \<open>bit_pos < 7\<close>, so the least significant bit is never put on the wire.
\<close>

lemma arm_send_8bits_shown:
  "k \<le> 7 \<Longrightarrow> arm_send_8bits e k (push_bit k b) s = Some (True, s') \<Longrightarrow>
     shown_bits (trace s') =
       rev (map (\<lambda>i. Some (bit b (7 - i))) [k..<7]) @ shown_bits (trace s)"
proof (induction "7 - k" arbitrary: k s)
  case 0
  then have "k = 7" by simp
  with 0 show ?case by (auto simp: arm_send_8bits.simps [of e 7] op_defs)
next
  case (Suc n)
  then have k: "k < 7" by simp
  let ?s2 = "\<lambda>s1. emit (Dir_out 167 False) (emit (Wr 170 (bit b (7 - k))) s1)"
  from Suc.prems k obtain s1 s3 where
    1: "await_from e 1 gpio_MCU_DIN True s = Some (True, s1)" and
    2: "await_from e 1 gpio_MCU_DIN False (?s2 s1) = Some (True, s3)" and
    3: "arm_send_8bits e (k + 1) (push_bit (k + 1) b) (emit (Dir_out 167 True) s3) = Some (True, s')"
    by (auto simp: arm_send_8bits.simps [of e k] bind_eq_Some op_defs top_bit bit_shl
        add.commute split: if_splits)
  have "shown_bits (trace s') = rev (map (\<lambda>i. Some (bit b (7 - i))) [k + 1..<7]) @
      shown_bits (trace (emit (Dir_out 167 True) s3))"
    using Suc.hyps(2) k by (intro Suc.hyps(1) [OF _ _ 3]) auto
  also have "shown_bits (trace (emit (Dir_out 167 True) s3)) =
      Some (bit b (7 - k)) # shown_bits (trace s)"
    by (simp add: await_from_obs(2) [OF 2] await_from_obs(2) [OF 1])
  finally show ?case using k by (simp add: upt_conv_Cons)
qed

lemma arm_update_8bits_shown:
  "n \<le> 8 \<Longrightarrow> arm_update_8bits e n (push_bit (8 - n) b) s = Some s' \<Longrightarrow>
     shown_bits (trace s') =
       rev (map (\<lambda>i. Some (bit b (7 - i))) [8 - n..<8]) @ shown_bits (trace s)"
proof (induction n arbitrary: s)
  case 0
  then show ?case by simp
next
  case (Suc n)
  let ?k = "8 - Suc n"
  let ?s2 = "\<lambda>s1. emit (Dir_out 167 False) (emit (Wr 170 (bit b (7 - ?k))) s1)"
  have k: "?k \<le> 7" "7 - ?k = n" "8 - n = Suc ?k" using Suc.prems(1) by auto
  from Suc.prems obtain s1 s3 where
    1: "spin e gpio_MCU_DIN True s = Some s1" and
    2: "spin e gpio_MCU_DIN False (?s2 s1) = Some s3" and
    3: "n = 0 \<and> s' = emit (Dir_out 167 True) (emit (Wr 170 True) s3) \<or>
        arm_update_8bits e n (push_bit (8 - n) b) (emit (Dir_out 167 True) s3) = Some s'"
    using k by (auto simp: bind_eq_Some op_defs top_bit bit_shl push_bit_push_bit
        add.commute split: if_splits)
  have sh: "shown_bits (trace s3) = Some (bit b (7 - ?k)) # shown_bits (trace s)"
    by (simp add: spin_obs(2) [OF 2] spin_obs(2) [OF 1])
  have "[?k..<8] = ?k # [8 - n..<8]"
    using Suc.prems(1) by (subst upt_conv_Cons) (auto simp: k(3))
  moreover from 3 have "shown_bits (trace s') =
      rev (map (\<lambda>i. Some (bit b (7 - i))) [8 - n..<8]) @ shown_bits (trace s3)"
  proof
    assume *: "arm_update_8bits e n (push_bit (8 - n) b) (emit (Dir_out 167 True) s3) = Some s'"
    have "n \<le> 8" using Suc.prems(1) by simp
    from Suc.IH [OF this *] show ?thesis by simp
  qed simp
  ultimately show ?case by (simp add: sh)
qed

section \<open>Locks and interrupts\<close>

text \<open>
  Between taking and releasing the link an operation only works the pins; it releases the
  lock and enables the interrupt on every path.
\<close>

definition bracketed :: "event list \<Rightarrow> event list \<Rightarrow> sys \<Rightarrow> sys \<Rightarrow> bool" where
  "bracketed open_ev close_ev s s' \<longleftrightarrow>
     (\<exists>es. list_all pin_event es \<and> trace s' = close_ev @ es @ open_ev @ trace s) \<and>
     car s' = car s \<and> cfg s' = cfg s \<and> keys s' = keys s"

lemma bracketed_link:
  "linked (emit (Lock l) (emit (Irq_off p) s)) v \<Longrightarrow>
     bracketed [Lock l, Irq_off p] [Unlock l, Irq_on p] s
       (emit (Unlock l) (emit (Irq_on p) v))"
  by (auto simp: bracketed_def linked_def)

lemma spin_linked: "linked s t \<Longrightarrow> spin e p w t = Some u \<Longrightarrow> linked s u"
  by (rule linked_trans [OF _ spin_obs(1)])

lemma arm_update_8bits_linked:
  "linked s t \<Longrightarrow> arm_update_8bits e n b t = Some u \<Longrightarrow> linked s u"
proof (induction n arbitrary: b t)
  case 0
  then show ?case by simp
next
  case (Suc n)
  let ?o = "\<lambda>t1. emit (Dir_out 167 False) (emit (Wr 170 (b AND 0x80 \<noteq> 0)) t1)"
  from Suc.prems(2) obtain t1 t2 where
    1: "spin e gpio_MCU_DIN True t = Some t1" and
    2: "spin e gpio_MCU_DIN False (?o t1) = Some t2" and
    3: "n = 0 \<and> u = emit (Dir_out 167 True) (emit (Wr 170 True) t2) \<or>
        arm_update_8bits e n (push_bit 1 b) (emit (Dir_out 167 True) t2) = Some u"
    by (auto simp: bind_eq_Some op_defs split: if_splits)
  have "linked s (?o t1)" using spin_linked [OF Suc.prems(1) 1] by simp
  then have t2: "linked s t2" using 2 by (rule spin_linked)
  from 3 show ?case
    using t2 Suc.IH [of "emit (Dir_out 167 True) t2" "push_bit 1 b"] by (auto intro!: linked_emit)
qed

lemma arm_update_bytes_linked:
  "linked s t \<Longrightarrow> arm_update_bytes e bs t = Some u \<Longrightarrow> linked s u"
  by (induction bs arbitrary: t)
     (auto simp: bind_eq_Some simp del: arm_update_8bits.simps
       dest: arm_update_8bits_linked)

abbreviation (input) link_open :: "event list" where
  "link_open \<equiv> [Lock car_lock, Irq_off gpio_MCU_DIN]"

abbreviation (input) link_close :: "event list" where
  "link_close \<equiv> [Unlock car_lock, Irq_on gpio_MCU_DIN]"

section \<open>Runs against concrete hardware\<close>

lemma taking_ready:
  assumes "last_wr 170 (trace s) \<noteq> Some False" "last_wr 167 (trace s) \<noteq> Some False"
  shows "yields (arm_send_ready taking_mcu s) (\<lambda>r s'. r \<and> same_obs s s')"
  using assms
  by (subst arm_send_ready.simps) (auto intro!: yields_intros simp: taking_level same_obs_def)

lemma taking_cmd:
  assumes "last_wr 170 (trace s) \<noteq> Some False" "last_wr 167 (trace s) \<noteq> Some False"
  shows "yields (arm_send_cmd taking_mcu cmd s) (\<lambda>ok s'. ok \<and>
    last_wr 170 (trace s') = Some True \<and> last_wr 167 (trace s') = Some True)"
  unfolding arm_send_cmd_def Let_def using assms
  by (auto intro!: yields_intros yields_mono [OF taking_ready] yields_mono [OF taking_16bits]
      simp: taking_level op_defs same_obs_def)

lemma taking_8bits:
  "k \<le> 7 \<Longrightarrow> last_wr 167 (trace s) \<noteq> Some False \<Longrightarrow>
     yields (arm_send_8bits taking_mcu k b s) (\<lambda>ok s'. ok \<and> last_wr 167 (trace s') = Some True)"
proof (induction "7 - k" arbitrary: k b s)
  case 0
  then show ?case by (subst arm_send_8bits.simps) (simp add: op_defs)
next
  case (Suc n)
  from Suc.hyps(2) have n: "n = 7 - Suc k" "k < 7" by simp_all
  show ?case
    using Suc.prems(2) n(2)
    by (subst arm_send_8bits.simps)
      (auto intro!: yields_intros Suc.hyps(1) [OF n(1)]
        simp: taking_level op_defs same_obs_def Let_def)
qed

lemma taking_bytes:
  "last_wr 167 (trace s) \<noteq> Some False \<Longrightarrow>
     yields (arm_send_bytes taking_mcu bs s) (\<lambda>ok s'. ok \<and> last_wr 167 (trace s') \<noteq> Some False)"
  by (induction bs arbitrary: s)
    (auto intro!: yields_bind yields_mono [OF taking_8bits])

lemma taking_spin:
  assumes "level taking_mcu (trace s) p = want"
  shows "\<exists>s'. spin taking_mcu p want s = Some s' \<and> same_obs s s'"
proof -
  have "yields (getPin taking_mcu p s) (\<lambda>v s'. v = want \<and> same_obs s s')"
    using assms by (intro yields_getPin) simp_all
  then show ?thesis by (subst spin.simps) (auto simp: yields_def)
qed

lemma taking_update_8bits:
  "last_wr 167 (trace s) \<noteq> Some False \<Longrightarrow>
     \<exists>s'. arm_update_8bits taking_mcu n b s = Some s' \<and> last_wr 167 (trace s') \<noteq> Some False"
proof (induction n arbitrary: b s)
  case 0
  then show ?case by simp
next
  case (Suc n)
  let ?o = "\<lambda>u. emit (Dir_out 167 False) (emit (Wr 170 (b AND 0x80 \<noteq> 0)) u)"
  from taking_spin [of s 169 True] Suc.prems obtain u where
    u: "spin taking_mcu 169 True s = Some u" by (auto simp: taking_level)
  from taking_spin [of "?o u" 169 False] obtain v where
    v: "spin taking_mcu 169 False (?o u) = Some v" by (auto simp: taking_level)
  show ?case
    using Suc.IH [of "emit (Dir_out 167 True) v" "push_bit 1 b"] by (simp add: u v op_defs)
qed

lemma taking_update:
  "last_wr 167 (trace s) \<noteq> Some False \<Longrightarrow> \<exists>s'. arm_update_bytes taking_mcu bs s = Some s'"
proof (induction bs arbitrary: s)
  case (Cons b bs)
  from taking_update_8bits [OF Cons.prems, of 8 b] Cons.IH show ?case
    by (auto simp del: arm_update_8bits.simps)
qed simp

lemma sending_16bits:
  "offers bs (n + m) s \<Longrightarrow>
     yields (arm_rev_16bits (sending_mcu bs) n cmd s) (\<lambda>r s'. (\<exists>c. r = Some c) \<and> offers bs m s')"
  by (induction n arbitrary: cmd s) (auto intro!: yields_bind yields_bit)

abbreviation (input) sample_bits :: "bool list" where
  "sample_bits \<equiv> bits_msb (0x8C35 :: u16)"

abbreviation (input) listening_sys :: sys where
  "listening_sys \<equiv> emit (Dir_in 167) sys_0"

lemma sending_rev:
  assumes "listening (trace s) = False" "last_wr 170 (trace s) = None" "last_wr 167 (trace s) = None"
    and "taken_bits (trace s) = []" "length bs = 16"
  shows "yields (arm_rev (sending_mcu bs) s) (\<lambda>r s'. r = 1 \<and> listening (trace s') \<and>
    length bs \<le> length (taken_bits (trace s')) \<and> last_wr 167 (trace s') = Some False)"
proof -
  let ?Q = "\<lambda>r s'. r = 1 \<and> listening (trace s') \<and>
    length bs \<le> length (taken_bits (trace s')) \<and> last_wr 167 (trace s') = Some False"
  have proc: "yields (process_mcu_command (sending_mcu bs) cmd t) ?Q"
    if "arm_rev_16bits (sending_mcu bs) 16 0 u = Some (Some cmd, v)" "offers bs 0 t" for u cmd v t
  proof -
    from that(1) have "process_mcu_command (sending_mcu bs) cmd t = arm_rev_ack (sending_mcu bs) t"
      using arm_rev_16bits_cmd process_mcu_command_byte by blast
    with that(2) show ?thesis
      unfolding arm_rev_ack_def Let_def
      by (auto intro!: yields_intros simp: offers_def sending_level op_defs same_obs_def)
  qed
  have tail: "yields (arm_rev_16bits (sending_mcu bs) 16 0 u) Q"
    if "offers bs 16 u" "\<And>cmd v. yields (process_mcu_command (sending_mcu bs) cmd (v\<lparr>arm_rev_cmd := cmd\<rparr>)) ?Q
      \<Longrightarrow> Q (Some cmd) v" for u Q
  proof -
    from that(1) have "offers bs (16 + 0) u" by simp
    from sending_16bits [OF this, of 0] obtain cmd v where
      v: "arm_rev_16bits (sending_mcu bs) 16 0 u = Some (Some cmd, v)" "offers bs 0 v"
      by (auto simp: yields_def)
    from v(2) have "offers bs 0 (v\<lparr>arm_rev_cmd := cmd\<rparr>)" by (simp add: offers_def)
    with v proc [OF v(1)] that(2) show ?thesis by simp
  qed
  show ?thesis
    unfolding arm_rev_def Let_def using assms
    by (auto intro!: yields_intros tail simp: sending_level op_defs same_obs_def offers_def)
qed

lemma arm_send_link:
  assumes "arm_send e cmd s = Some (x, s')"
  shows "bracketed link_open link_close s s'"
proof -
  let ?t = "emit (Lock car_lock) (emit (Irq_off gpio_MCU_DIN) s)"
  let ?m = "\<lambda>sent s. if \<not> sent then Some s
      else if cmd AND 0xFF00 = 0xF00 \<or> cmd = 0x201
      then Option.bind (arm_rev_8bits e s) (\<lambda>(r, s). case r of None \<Rightarrow> Some s
             | Some _ \<Rightarrow> map_option snd (arm_rev_ack e s))
      else map_option snd (arm_send_ack e s)"
  from assms obtain sent u v where 1: "arm_send_cmd e cmd ?t = Some (sent, u)"
    and 2: "?m sent u = Some v" and 3: "s' = emit (Unlock car_lock) (emit (Irq_on gpio_MCU_DIN) v)"
    by (simp add: arm_send_def Let_def bind_eq_Some split del: if_split) blast
  have "linked ?t u"
    by (rule postD [OF arm_send_cmd_linked [where s = ?t and Q = "\<lambda>_. linked ?t"] 1]) simp_all
  with 2 have "linked ?t v"
    by (auto simp: bind_eq_Some split: if_splits option.splits
        dest!: link_ops_linked intro: linked_trans)
  then show ?thesis unfolding 3 by (rule bracketed_link)
qed

text \<open>C35. Every call of \<open>arm_send\<close> that returns has released the link lock and enabled the
  MCU interrupt, in that order of the code, and in between it has only worked the pins: the
  status, the configuration and every other component are as before.\<close>

theorem arm_send_bracketed:
  assumes "arm_send e cmd s = Some (x, s')"
  shows "bracketed link_open link_close s s'"
  using assms by (rule arm_send_link)

theorem arm_send_bracketed_witness:
  "\<exists>x s'. arm_send taking_mcu 0x8101 sys_0 = Some (x, s') \<and> bracketed link_open link_close sys_0 s'"
proof -
  have "yields (map_option snd m \<bind> (\<lambda>s. Some ((), f s))) (\<lambda>_ _. True)"
    if "yields m (\<lambda>ok s'. ok)" for m :: "(bool \<times> sys) option" and f :: "sys \<Rightarrow> sys"
    using that by (auto simp: yields_def)
  note wrap = this
  have "yields (arm_send taking_mcu 0x8101 sys_0) (\<lambda>_ _. True)"
    unfolding arm_send_def Let_def
    by (auto intro!: yields_bind yields_mono [OF taking_cmd] wrap taking_ack)
  then show ?thesis by (auto simp: yields_def intro: arm_send_bracketed)
qed

text \<open>The same for \<open>arm_send_multi\<close>, whichever of its three data phases runs, and however it
  fails.\<close>

theorem arm_send_multi_bracketed:
  assumes "arm_send_multi e cmd count buf s = Some (x, s')"
  shows "bracketed link_open link_close s s'"
proof -
  let ?t = "emit (Lock car_lock) (emit (Irq_off gpio_MCU_DIN) s)"
  have upd: "post (Option.bind (arm_update_bytes e bs u) (\<lambda>s. Option.bind (arm_send_ack e s)
      (\<lambda>(ok, s). Some ((ok, []), s)))) (\<lambda>x v. linked ?t v)" if "linked ?t u" for bs u
    using that by (auto simp: post_def bind_eq_Some dest!: link_ops_linked
        intro: linked_trans arm_update_bytes_linked)
  have "post (arm_send_multi e cmd count buf s) (\<lambda>x s'. bracketed link_open link_close s s')"
    unfolding arm_send_multi_def Let_def
    by (auto intro!: arm_send_cmd_linked [where s = ?t] link_post [where s = ?t]
        arm_send_bytes_linked [where s = ?t] post_weaken [OF upd] bracketed_link)
  from postD [OF this assms] show ?thesis .
qed

theorem arm_send_multi_bracketed_witness:
  "\<exists>x s'. arm_send_multi taking_mcu 0x9501 2 [0xA5, 0x3C] sys_0 = Some (x, s') \<and>
     bracketed link_open link_close sys_0 s'"
proof -
  have "yields (arm_send_multi taking_mcu 0x9501 2 [0xA5, 0x3C] sys_0) (\<lambda>_ _. True)"
    unfolding arm_send_multi_def Let_def
    by (auto intro!: yields_bind yields_mono [OF taking_cmd] yields_mono [OF taking_bytes]
        yields_mono [OF taking_ack] simp del: arm_send_bytes.simps)
  then show ?thesis by (auto simp: yields_def intro: arm_send_multi_bracketed)
qed

lemma drain_mcu_linked:
  assumes "drain_mcu e s = Some s'"
  shows "linked s s'"
proof (rule drain_mcu.raw_induct [where P = "\<lambda>e s s'. linked s s'", OF _ assms])
  fix f e s s'
  assume IH: "\<And>e s s'. f e s = Some s' \<Longrightarrow> linked s s'"
    and eq: "Option.bind (getPin e gpio_MCU_DIN s) (\<lambda>(din, s). if din then Some s
        else Option.bind (arm_rev e s) (\<lambda>(r, s). if r = 0 then Some s else f e s)) = Some s'"
  from eq obtain din u where 1: "getPin e gpio_MCU_DIN s = Some (din, u)"
    and 2: "(if din then Some u else Option.bind (arm_rev e u)
        (\<lambda>(r, s). if r = 0 then Some s else f e s)) = Some s'"
    by (auto simp: bind_eq_Some split del: if_split)
  note u = link_ops_linked(2) [OF 1]
  show "linked s s'"
  proof (cases din)
    case True
    with 2 u show ?thesis by simp
  next
    case False
    with 2 obtain r v where 3: "arm_rev e u = Some (r, v)"
      and 4: "(if r = 0 then Some v else f e v) = Some s'"
      by (auto simp: bind_eq_Some split del: if_split)
    from postD [OF arm_rev_linked [OF u] 3] have "linked s v" by simp
    with 4 IH show ?thesis by (auto split: if_splits intro: linked_trans)
  qed
qed

text \<open>The work item that drains the MCU holds the link lock exactly while it works the pins,
  and enables the MCU interrupt before it releases the lock.\<close>

theorem mtc_car_work_bracketed:
  assumes "mtc_car_work e s = Some s'"
  shows "\<exists>es. list_all pin_event es \<and>
    trace s' = [Unlock car_lock, Irq_on gpio_MCU_DIN] @ es @ [Lock car_lock] @ trace s"
proof -
  from assms obtain v where 1: "drain_mcu e (udelay 20 (emit (Lock car_lock) s)) = Some v"
    and 2: "s' = emit (Unlock car_lock) (emit (Irq_on gpio_MCU_DIN) v)"
    by (auto simp: mtc_car_work_def bind_eq_Some)
  have "linked (emit (Lock car_lock) s) v"
    by (rule linked_trans [OF linked_emit [OF linked_refl] drain_mcu_linked [OF 1, unfolded udelay_def]])
       simp
  then show ?thesis by (auto simp: 2 linked_def)
qed

theorem mtc_car_work_bracketed_witness:
  "\<exists>s' es. mtc_car_work (sending_mcu sample_bits) sys_0 = Some s' \<and> list_all pin_event es \<and>
     trace s' = [Unlock car_lock, Irq_on gpio_MCU_DIN] @ es @ [Lock car_lock]"
proof -
  let ?s = "udelay 20 (emit (Lock car_lock) sys_0)"
  let ?e = "sending_mcu sample_bits"
  have stop: "\<exists>s'. drain_mcu ?e t = Some s'"
    if "listening (trace t)" "16 \<le> length (taken_bits (trace t))" "last_wr 167 (trace t) = Some False" for t
  proof -
    have "yields (getPin ?e 169 t) (\<lambda>v s'. v)"
      using that by (intro yields_getPin) (simp_all add: sending_level)
    then show ?thesis by (subst drain_mcu.simps) (auto simp: yields_def)
  qed
  have "yields (getPin ?e 169 ?s) (\<lambda>v s'. \<not> v \<and> same_obs ?s s')"
    by (intro yields_getPin) (simp_all add: sending_level udelay_def)
  then obtain t where t: "getPin ?e 169 ?s = Some (False, t)" "same_obs ?s t"
    by (auto simp: yields_def)
  from sending_rev [of t sample_bits] t(2) obtain u where
    u: "arm_rev ?e t = Some (1, u)" "listening (trace u)" "16 \<le> length (taken_bits (trace u))"
      "last_wr 167 (trace u) = Some False"
    by (auto simp: yields_def same_obs_def udelay_def)
  from stop [OF u(2-4)] obtain v where "drain_mcu ?e u = Some v" by blast
  then have "\<exists>s'. mtc_car_work ?e sys_0 = Some s'"
    by (simp add: mtc_car_work_def Let_def drain_mcu.simps [of ?e ?s] t(1) u(1))
  then show ?thesis using mtc_car_work_bracketed [of ?e sys_0] by fastforce
qed

section \<open>What the commands do\<close>

text \<open>A command word of sixteen acknowledged bits reaches the driver as the value of its last
  eight: the accumulator of \<open>arm_rev\<close> is cut to a byte before every bit.\<close>

theorem arm_rev_16bits_truncates:
  assumes "arm_rev_16bits e 16 0 s = Some (Some cmd, s')"
  shows "\<exists>bs. length bs = 16 \<and>
    taken_bits (trace s') = map Some (rev bs) @ taken_bits (trace s) \<and>
    cmd = ucast (from_bits (drop 8 bs) :: u8) \<and> cmd AND 0xFF00 = 0"
proof -
  have "ucast (b :: u8) AND (0xFF00 :: u32) = 0" for b
  proof -
    have "(ucast b :: u32) AND mask 8 = ucast b"
      by (rule bit_word_eqI) (auto simp: bit_simps dest: bit_imp_le_length)
    then have "(ucast b :: u32) AND 0xFF00 = ucast b AND (mask 8 AND 0xFF00)"
      by (metis and.assoc)
    then show ?thesis by (simp add: mask_eq_exp_minus_1)
  qed
  with arm_rev_16bits_cmd [OF assms] show ?thesis by blast
qed

theorem arm_rev_16bits_truncates_witness:
  "\<exists>cmd s'. arm_rev_16bits (sending_mcu sample_bits) 16 0 listening_sys = Some (Some cmd, s') \<and>
     (\<exists>bs. length bs = 16 \<and> taken_bits (trace s') = map Some (rev bs) @ taken_bits (trace listening_sys) \<and>
        cmd = ucast (from_bits (drop 8 bs) :: u8))"
proof -
  have "offers sample_bits (16 + 0) listening_sys" by (simp add: offers_def)
  from sending_16bits [OF this, of 0] obtain cmd s' where
    "arm_rev_16bits (sending_mcu sample_bits) 16 0 listening_sys = Some (Some cmd, s')"
    by (auto simp: yields_def)
  from arm_rev_16bits_truncates [OF this] this show ?thesis by blast
qed

text \<open>C40. So receiving a command changes nothing in the driver: whatever the MCU sends, \<open>arm_rev\<close>
  leaves status, configuration and keys as they are, only works the pins, and answers 0 or 1.\<close>

theorem arm_rev_inert:
  assumes "arm_rev e s = Some (r, s')"
  shows "car s' = car s \<and> cfg s' = cfg s \<and> keys s' = keys s \<and> (r = 0 \<or> r = 1) \<and>
    (\<exists>es. list_all pin_event es \<and> trace s' = es @ trace s)"
  using postD [OF arm_rev_linked [OF linked_refl] assms] by (auto simp: linked_def)

theorem arm_rev_inert_witness:
  "\<exists>s'. arm_rev (sending_mcu sample_bits) sys_0 = Some (1, s') \<and>
     car s' = car sys_0 \<and> cfg s' = cfg sys_0 \<and> keys s' = keys sys_0"
  using sending_rev [of sys_0 sample_bits] arm_rev_inert [of "sending_mcu sample_bits" sys_0]
  by (fastforce simp: yields_def)

lemma cmd_head_shown:
  assumes "arm_send_cmd e cmd s = Some (True, s')"
  shows "\<exists>t. shown_bits (trace s') = replicate 16 (Some (cmd AND 0x8000 \<noteq> 0)) @ t"
proof -
  from assms obtain t where "arm_send_16bits e cmd 16 t = Some (True, s')"
    by (auto simp: arm_send_cmd_def bind_eq_Some simp del: arm_send_16bits.simps split: if_splits)
  from arm_send_16bits_spec [OF this] show ?thesis by blast
qed

text \<open>C27. A command that was sent without time-out showed the MCU sixteen copies of its top bit:
  the loop at \<open>LABEL_10\<close> tests bit 15 each time and never shifts.\<close>

theorem arm_send_cmd_shows:
  assumes "arm_send_cmd e cmd s = Some (True, s')"
  shows "take 16 (shown_bits (trace s')) = replicate 16 (Some (cmd AND 0x8000 \<noteq> 0))"
proof -
  from cmd_head_shown [OF assms] obtain t where
    "shown_bits (trace s') = replicate 16 (Some (cmd AND 0x8000 \<noteq> 0)) @ t" ..
  then show ?thesis by (simp del: replicate.simps)
qed

theorem arm_send_cmd_shows_witness:
  "\<exists>s'. arm_send_cmd taking_mcu 0x8101 sys_0 = Some (True, s') \<and>
     take 16 (shown_bits (trace s')) = replicate 16 (Some True)"
  using taking_cmd [of sys_0 "0x8101"] arm_send_cmd_shows [of taking_mcu "0x8101" sys_0]
  by (auto simp: yields_def simp del: replicate.simps)

text \<open>Two commands with the same top bit look the same to the MCU.\<close>

theorem arm_send_cmd_confuses:
  assumes "arm_send_cmd e cmd s = Some (True, s')" "arm_send_cmd e2 cmd2 s2 = Some (True, s2')"
    and "(cmd AND 0x8000 = 0) = (cmd2 AND 0x8000 = 0)"
  shows "take 16 (shown_bits (trace s')) = take 16 (shown_bits (trace s2'))"
proof -
  from cmd_head_shown [OF assms(1)] cmd_head_shown [OF assms(2)] assms(3) show ?thesis
    by (auto simp del: replicate.simps)
qed

lemma arm_send_bytes_shown:
  "arm_send_bytes e bs s = Some (True, s') \<Longrightarrow>
     shown_bits (trace s') =
       map Some (rev (concat (map (\<lambda>b. butlast (bits_msb b)) bs))) @ shown_bits (trace s)"
proof (induction bs arbitrary: s)
  case Nil
  then show ?case by simp
next
  case (Cons b bs)
  let ?s0 = "s\<lparr>rev_bytes_count := rev_bytes_count s + 0x100\<rparr>"
  from Cons.prems obtain s1 where 1: "arm_send_8bits e 0 b ?s0 = Some (True, s1)"
    and 2: "arm_send_bytes e bs s1 = Some (True, s')"
    by (auto simp: bind_eq_Some split: if_splits)
  have "butlast (bits_msb b) = map (\<lambda>i. bit b (7 - i)) [0..<7]"
    by (simp add: bits_msb_upt upt_rec)
  then have "rev (map (\<lambda>i. Some (bit b (7 - i))) [0..<7]) = map Some (rev (butlast (bits_msb b)))"
    by (simp add: rev_map o_def)
  with arm_send_8bits_shown [of 0 e b ?s0 s1] 1
  have "shown_bits (trace s1) = map Some (rev (butlast (bits_msb b))) @ shown_bits (trace s)"
    by simp
  with Cons.IH [OF 2] show ?case by simp
qed

lemma arm_update_bytes_shown:
  "arm_update_bytes e bs s = Some s' \<Longrightarrow>
     shown_bits (trace s') =
       map Some (rev (concat (map bits_msb bs))) @ shown_bits (trace s)"
proof (induction bs arbitrary: s)
  case Nil
  then show ?case by simp
next
  case (Cons b bs)
  from Cons.prems obtain s1 where 1: "arm_update_8bits e 8 b s = Some s1"
    and 2: "arm_update_bytes e bs s1 = Some s'"
    by (auto simp: bind_eq_Some simp del: arm_update_8bits.simps)
  have "rev (map (\<lambda>i. Some (bit b (7 - i))) [0..<8]) = map Some (rev (bits_msb b))"
    by (simp add: bits_msb_upt rev_map o_def del: upt.simps)
  with arm_update_8bits_shown [of 8 e b s s1] 1
  have "shown_bits (trace s1) = map Some (rev (bits_msb b)) @ shown_bits (trace s)"
    by simp
  with Cons.IH [OF 2] show ?case by simp
qed

text \<open>Data sent with a command loses the last bit of every byte: a successful data phase
  shows the seven high bits of each byte, in order, and nothing else.\<close>

theorem arm_send_data_shows:
  assumes "arm_send_bytes e bs s = Some (True, s')"
  shows "shown_bits (trace s') =
    map Some (rev (concat (map (\<lambda>b. butlast (bits_msb b)) bs))) @ shown_bits (trace s)"
  using assms by (rule arm_send_bytes_shown)

theorem arm_send_data_shows_witness:
  "\<exists>s'. arm_send_bytes taking_mcu [0xA5] sys_0 = Some (True, s') \<and>
     shown_bits (trace s') = map Some (rev (butlast (bits_msb (0xA5 :: u8)))) @ shown_bits (trace sys_0)"
  using taking_bytes [of sys_0 "[0xA5]"] arm_send_data_shows [of taking_mcu "[0xA5]" sys_0]
  by (auto simp: yields_def simp del: arm_send_bytes.simps)

text \<open>What a receiver makes of the bits it is shown: every eight of them are a byte.\<close>

function bytes_of_bits :: "bool list \<Rightarrow> u8 list" where
  "bytes_of_bits bs = (if bs = [] then [] else from_bits (take 8 bs) # bytes_of_bits (drop 8 bs))"
  by pat_completeness auto
termination
  by (relation "measure length") auto

declare bytes_of_bits.simps [simp del]

lemma bytes_of_bits_concat: "bytes_of_bits (concat (map bits_msb bs)) = bs"
proof (induction bs)
  case Nil
  then show ?case by (simp add: bytes_of_bits.simps)
next
  case (Cons b bs)
  have "bits_msb b \<noteq> []" using length_bits_msb [of b] by (auto simp del: length_bits_msb)
  with Cons show ?case by (subst bytes_of_bits.simps) simp
qed

text \<open>C36. The firmware update path shows all eight bits: reading the shown bits back, eight to a
  byte, gives exactly the bytes that were sent.\<close>

theorem arm_update_roundtrip:
  assumes "arm_update_bytes e bs s = Some s'"
  shows "bytes_of_bits (rev (map the (take (8 * length bs) (shown_bits (trace s'))))) = bs"
proof -
  have len: "length (concat (map bits_msb xs)) = 8 * length xs" for xs :: "u8 list"
    by (induction xs) simp_all
  show ?thesis
    by (simp add: arm_update_bytes_shown [OF assms] len rev_map bytes_of_bits_concat o_def)
qed

theorem arm_update_roundtrip_witness:
  "\<exists>s'. arm_update_bytes taking_mcu [0xA5, 0x3C] sys_0 = Some s' \<and>
     bytes_of_bits (rev (map the (take 16 (shown_bits (trace s'))))) = [0xA5, 0x3C]"
  using taking_update [of sys_0 "[0xA5, 0x3C]"] arm_update_roundtrip [of taking_mcu "[0xA5, 0x3C]" sys_0]
  by (auto simp del: arm_update_bytes.simps)

lemma spin_stuck:
  assumes "\<forall>h. level e h p \<noteq> want"
  shows "spin e p want s = None"
proof (rule ccontr)
  assume "spin e p want s \<noteq> None"
  then obtain s' where *: "spin e p want s = Some s'" by blast
  have "e' = e \<longrightarrow> p' = p \<longrightarrow> w = want \<longrightarrow> False" if "spin e' p' w s = Some s'" for e' p' w s s'
  proof (rule spin.raw_induct
      [where P = "\<lambda>e' p' w s s'. e' = e \<longrightarrow> p' = p \<longrightarrow> w = want \<longrightarrow> False", OF _ that])
    fix f e' p' w s s'
    assume IH: "\<And>e' p' w s s'. f e' p' w s = Some s' \<Longrightarrow> e' = e \<longrightarrow> p' = p \<longrightarrow> w = want \<longrightarrow> False"
      and eq: "Option.bind (getPin e' p' s) (\<lambda>(v, s). if v = w then Some s else f e' p' w s) = Some s'"
    show "e' = e \<longrightarrow> p' = p \<longrightarrow> w = want \<longrightarrow> False"
    proof (intro impI)
      assume same: "e' = e" "p' = p" "w = want"
      from eq obtain v u where v: "getPin e p s = Some (v, u)"
        and f: "(if v = want then Some u else f e p want u) = Some s'"
        unfolding same by (auto simp: bind_eq_Some split del: if_split)
      from getPin_loop_level [OF v [unfolded getPin_def]] assms have "v \<noteq> want" by blast
      with f have "f e p want u = Some s'" by simp
      from IH [OF this] show False by simp
    qed
  qed
  with * show False by blast
qed

text \<open>But that path has no time-out: if the MCU never raises DIN, sending a byte never
  returns.\<close>

theorem arm_update_hangs:
  assumes "\<forall>h. \<not> level e h gpio_MCU_DIN" "bs \<noteq> []"
  shows "arm_update_bytes e bs s = None"
proof -
  have "spin e gpio_MCU_DIN True t = None" for t
    using assms(1) by (intro spin_stuck) simp
  with assms(2) show ?thesis by (cases bs) (simp_all add: numeral_eq_Suc)
qed

theorem arm_update_hangs_witness: "arm_update_bytes dead_mcu [0xA5] sys_0 = None"
  by (rule arm_update_hangs) (simp_all add: dead_mcu_def with_pins_def)

lemma arm_rev_16bits_returns:
  assumes "steady e" "clocked e now" "unstalled now"
  shows "returns (arm_rev_16bits e n cmd s)"
  by (induction n arbitrary: cmd s) (auto intro!: rev_bit_returns [OF assms])

text \<open>C1. Receiving a command always returns, whatever the MCU does: every wait of \<open>arm_rev\<close> is cut
  short by the quarter-second time-out. This is on hardware on which a pin keeps its level
  between the two samples of one \<open>getPin\<close>, the clock never runs back, a delay lasts at least as
  long as asked, and no single step of a polling loop is held up for more than 150 ms.\<close>

theorem arm_rev_terminates:
  assumes "steady e" "clocked e now" "unstalled now"
  shows "\<exists>x. arm_rev e s = Some x"
proof -
  have "returns (process_mcu_command e cmd t)"
    if "arm_rev_16bits e 16 0 u = Some (Some cmd, v)" for u cmd v t
    using arm_rev_16bits_cmd [OF that]
    by (auto simp: process_mcu_command_byte arm_rev_ack_returns [OF assms])
  then have "returns (arm_rev e s)"
    unfolding arm_rev_def Let_def
    by (auto intro!: await_from_returns [OF assms] getPin_returns [OF assms(1)]
        arm_rev_16bits_returns [OF assms] simp del: arm_rev_16bits.simps)
  then show ?thesis by (simp add: returns_def)
qed

theorem arm_rev_terminates_witness: "\<exists>x. arm_rev silent_mcu sys_0 = Some x"
  by (rule arm_rev_terminates [where now = elapsed])
    (simp_all add: prompt_steady silent_mcu_def with_pins_clocked del: prompt_peers,
      simp add: prompt_steady prompt_peers(4) [unfolded silent_mcu_def])

text \<open>
  The last condition is needed: only the microsecond field is read, so on a clock on which
  every step takes whole seconds the time-out never comes, and a wait for a level that does not
  come goes on for ever.
\<close>

fun whole_seconds :: "event list \<Rightarrow> int" where
  "whole_seconds [] = 0"
| "whole_seconds (x # h) = whole_seconds h + 1000000 * (lasts x + 1)"

lemma whole_seconds_mod: "whole_seconds h mod 1000000 = 0"
proof (induction h)
  case (Cons x h)
  then show ?case by (simp only: whole_seconds.simps mod_mult_self2)
qed simp

lemma whole_seconds_clocked: "clocked ((with_pins f)\<lparr>usec := \<lambda>h. whole_seconds h mod 1000000\<rparr>) whole_seconds"
proof -
  have "0 \<le> lasts x" for x by (cases x) simp_all
  then show ?thesis by (simp add: clocked_def with_pins_def algebra_simps)
qed

lemma await_stuck:
  assumes "\<forall>h. level e h p \<noteq> want" "\<forall>h. usec e h = 0"
  shows "await e k p want 0 s = None"
proof (rule ccontr)
  assume "await e k p want 0 s \<noteq> None"
  then obtain r where *: "await e k p want 0 s = Some r" by blast
  have "e' = e \<longrightarrow> k' = k \<longrightarrow> p' = p \<longrightarrow> w = want \<longrightarrow> t = 0 \<longrightarrow> False"
    if "await e' k' p' w t s = Some r" for e' k' p' w t s r
  proof (rule await.raw_induct
      [where P = "\<lambda>e' k' p' w t s r. e' = e \<longrightarrow> k' = k \<longrightarrow> p' = p \<longrightarrow> w = want \<longrightarrow> t = 0 \<longrightarrow> False",
       OF _ that])
    fix f e' k' p' w t s r
    assume IH: "\<And>e' k' p' w t s r. f e' k' p' w t s = Some r \<Longrightarrow>
        e' = e \<longrightarrow> k' = k \<longrightarrow> p' = p \<longrightarrow> w = want \<longrightarrow> t = 0 \<longrightarrow> False"
      and eq: "Option.bind (getPin_loop e' k' p' s) (\<lambda>(v, s1).
        if v = w then Some (True, s1)
        else let (expired, s2) = CheckTimeOut e' t s1
             in if expired then Some (False, s2) else f e' k' p' w t s2) = Some r"
    show "e' = e \<longrightarrow> k' = k \<longrightarrow> p' = p \<longrightarrow> w = want \<longrightarrow> t = 0 \<longrightarrow> False"
    proof (intro impI)
      assume same: "e' = e" "k' = k" "p' = p" "w = want" "t = 0"
      from eq obtain v u where v: "getPin_loop e k p s = Some (v, u)"
        and f: "(if v = want then Some (True, u) else let (expired, s2) = CheckTimeOut e 0 u
           in if expired then Some (False, s2) else f e k p want 0 s2) = Some r"
        unfolding same by (auto simp: bind_eq_Some split del: if_split)
      from getPin_loop_level [OF v] assms(1) have "v \<noteq> want" by blast
      with f have "f e k p want 0 (snd (CheckTimeOut e 0 u)) = Some r"
        by (simp add: CheckTimeOut_def op_defs Let_def assms(2))
      from IH [OF this] show False by simp
    qed
  qed
  with * show False by blast
qed

text \<open>Such a unit: every pin is low, and waiting for a high one does not end.\<close>

theorem stalled_wait_hangs:
  "\<exists>e. steady e \<and> clocked e whole_seconds \<and> await_from e 1 gpio_MCU_DIN True s = None"
proof -
  let ?e = "(with_pins (\<lambda>_ _. False))\<lparr>usec := \<lambda>h. whole_seconds h mod 1000000\<rparr>"
  have "await ?e 1 gpio_MCU_DIN True 0 u = None" for u
    by (rule await_stuck) (simp_all add: with_pins_def whole_seconds_mod)
  then have "await_from ?e 1 gpio_MCU_DIN True s = None"
    by (simp add: await_from_def GetCurTimer_def op_defs Let_def whole_seconds_mod)
  moreover have "steady ?e" by (simp add: steady_def with_pins_def)
  ultimately show ?thesis using whole_seconds_clocked by blast
qed

section \<open>Status reports\<close>

text \<open>
  The commands 0xF000 to 0xF006 and 0xF021 report a value of the MCU. What they promise, in
  terms of the numbers reported: \<open>report_len\<close> bytes follow the command, and the status
  becomes \<open>apply_report\<close>.
\<close>

definition report_len :: "u32 \<Rightarrow> nat" where
  "report_len cmd = (if cmd = 0xF004 then 1 else if cmd = 0xF021 then 32 else 2)"

definition report_value :: "u8 list \<Rightarrow> nat" where
  "report_value buf = 256 * unat (buf ! 0) + unat (buf ! 1)"

definition apply_report :: "u32 \<Rightarrow> u8 list \<Rightarrow> mtc_car_status \<Rightarrow> mtc_car_status" where
  "apply_report cmd buf c =
     (if cmd = 0xF000 then c\<lparr>intval1 := of_nat (max 1 (report_value buf div 3))\<rparr>
      else if cmd = 0xF001 then c\<lparr>intval2 := of_nat (max 1 (report_value buf div 3))\<rparr>
      else if cmd = 0xF003 then c\<lparr>intval3 := of_nat (2275 * report_value buf div 1024)\<rparr>
      else if cmd = 0xF004 then c\<lparr>sta_bits := buf ! 0\<rparr>
      else if cmd = 0xF005 then c\<lparr>intval4 := of_nat (max 1 (report_value buf))\<rparr>
      else if cmd = 0xF006 then c\<lparr>wipe_flag := one_if_zero (buf ! 1)\<rparr>
      else c\<lparr>reserved_22 := buf\<rparr>)"

abbreviation (input) report_cmds :: "u32 list" where
  "report_cmds \<equiv> [0xF000, 0xF001, 0xF003, 0xF004, 0xF005, 0xF006, 0xF021]"

lemma report_value_bound: "report_value buf < 65536"
  using unsigned_less [of "buf ! 0", where 'a = nat] unsigned_less [of "buf ! 1", where 'a = nat]
  by (simp add: report_value_def)

lemma unat_be16: "unat (be16 buf) = report_value buf"
  by (simp only: be16_def unat_byte_pair report_value_def add.commute)

lemma one_if_zero_max: "one_if_zero w = of_nat (max 1 (unat (w :: u32)))"
proof (cases "w = 0")
  case False
  then have "0 < unat w" by (simp add: unat_gt_0)
  then show ?thesis using False by (simp add: one_if_zero_def max_def)
qed (simp add: one_if_zero_def)

lemma one_if_zero_div: "one_if_zero (be16 buf div 3) = of_nat (max 1 (report_value buf div 3))"
  by (simp add: one_if_zero_max unat_div unat_be16)

lemma one_if_zero_be16: "one_if_zero (be16 buf) = of_nat (max 1 (report_value buf))"
  by (simp add: one_if_zero_max unat_be16)

lemma millivolt: "drop_bit 10 (2275 * be16 buf) = of_nat (2275 * report_value buf div 1024)"
proof (rule word_unat_eq_iff [THEN iffD2])
  have "2275 * report_value buf < 2 ^ 32" using report_value_bound [of buf] by simp
  then have "unat (2275 * be16 buf) = 2275 * report_value buf"
    by (simp add: unat_mult_lem [THEN iffD1] unat_be16)
  moreover have "2275 * report_value buf div 1024 < 2 ^ 32"
    using report_value_bound [of buf] by simp
  ultimately show "unat (drop_bit 10 (2275 * be16 buf)) =
      unat (of_nat (2275 * report_value buf div 1024) :: u32)"
    by (simp add: drop_bit_eq_div unat_div unat_of_nat)
qed

lemma wipe_byte: "(ucast (be16 buf) :: u8) = buf ! 1"
  by (rule bit_word_eqI) (simp add: be16_def bit_simps)

lemma mcu_sta_bits_car [simp]: "car (mcu_sta_bits nv s) = (car s)\<lparr>sta_bits := nv\<rparr>"
  "cfg (mcu_sta_bits nv s) = cfg s"
  by (simp_all add: mcu_sta_bits_def Let_def)

lemma tail_ack_frame:
  "tail_ack e k s = Some (r, s') \<Longrightarrow> car s' = car s \<and> cfg s' = cfg s"
  by (auto simp: tail_ack_def traced_frame split: if_splits dest!: arm_rev_ack_traced)

lemma read_bytes_cases:
  assumes "read_bytes e n s ok fail = Some x"
  obtains buf t where "arm_rev_bytes e n s = Some (Some buf, t)" "ok buf t = Some x"
      "car t = car s" "cfg t = cfg s"
    | t where "arm_rev_bytes e n s = Some (None, t)" "fail t = Some x"
      "car t = car s" "cfg t = cfg s"
proof -
  from assms obtain r t where rt: "arm_rev_bytes e n s = Some (r, t)"
    and c: "(case r of None \<Rightarrow> fail t | Some buf \<Rightarrow> ok buf t) = Some x"
    by (auto simp: read_bytes_def bind_eq_Some)
  from rt have f: "car t = car s" "cfg t = cfg s"
    using bytes.status_kept by blast+
  show thesis
  proof (cases r)
    case None
    with rt c f show thesis using that(2) by simp
  next
    case (Some buf)
    with rt c f show thesis using that(1) by simp
  qed
qed

definition report_step :: "env \<Rightarrow> u32 \<Rightarrow> sys \<Rightarrow> sys \<Rightarrow> bool" where
  "report_step e cmd s s' \<longleftrightarrow>
     (case arm_rev_bytes e (report_len cmd) s of
        None \<Rightarrow> False
      | Some (None, t) \<Rightarrow> car s' = car s \<and> cfg s' = cfg s
      | Some (Some buf, t) \<Rightarrow> car s' = apply_report cmd buf (car s) \<and> cfg s' = cfg s)"

text \<open>C2. Each status report implements its specification: the reported value, scaled and kept
  away from zero as specified, is stored in the field the report names and nowhere else; a
  report that is cut short by a time-out changes nothing.\<close>

theorem report_refines:
  assumes "process_mcu_command e cmd s = Some (r, s')" "cmd \<in> set report_cmds"
  shows "report_step e cmd s s'"
proof -
  have [simp]: "upd_car f s = s\<lparr>car := f (car s)\<rparr>" for f s by (simp add: upd_car_def)
  from assms(2) consider "cmd = 0xF000" | "cmd = 0xF001" | "cmd = 0xF003" | "cmd = 0xF004"
    | "cmd = 0xF005" | "cmd = 0xF006" | "cmd = 0xF021" by auto
  then show ?thesis
    using assms(1)
    by cases (auto simp: process_mcu_command_def mcu_command_mid_def mcu_command_high_def Let_def
        report_step_def report_len_def apply_report_def one_if_zero_div one_if_zero_be16
        millivolt wipe_byte elim!: read_bytes_cases dest!: tail_ack_frame)
qed

lemma sending_0_bytes:
  assumes "length bs = 8 * n" "\<And>xs s'. length xs = n \<Longrightarrow> offers bs 0 (emit (Dir_in 167) s') \<Longrightarrow> Q (Some xs) s'"
  shows "yields (arm_rev_bytes (sending_mcu bs) n sys_0) Q"
  using assms by (intro yields_bytes) (simp_all add: offers_def)

lemma sending_0_ack: "offers bs 0 (emit (Dir_in 167) s) \<Longrightarrow> yields (arm_rev_ack (sending_mcu bs) s) (\<lambda>r s'. r = 1)"
  by (rule sending_ack) (simp_all add: offers_def)

theorem report_refines_witness:
  "\<exists>r s'. process_mcu_command (sending_mcu sample_bits) 0xF005 sys_0 = Some (r, s') \<and>
     report_step (sending_mcu sample_bits) 0xF005 sys_0 s'"
proof -
  have ack: "yields (arm_rev_ack (sending_mcu sample_bits) (upd_car f t)) (\<lambda>_ _. True)"
    if "offers sample_bits 0 (emit (Dir_in 167) t)" for f t
    using that by (intro yields_mono [OF sending_0_ack]) (simp_all add: offers_def)
  have "yields (process_mcu_command (sending_mcu sample_bits) 0xF005 sys_0) (\<lambda>_ _. True)"
    by (auto simp: process_mcu_command_def mcu_command_mid_def Let_def read_bytes_def tail_ack_def
        intro!: yields_bind sending_0_bytes ack)
  then show ?thesis using report_refines [of "sending_mcu sample_bits" "0xF005" sys_0]
    by (fastforce simp: yields_def)
qed

section \<open>Lengths the MCU chooses\<close>

lemma arm_rev_bytes_stored:
  "arm_rev_bytes e n s = Some (Some buf, t) \<Longrightarrow>
     rev_bytes_count t = rev_bytes_count s + of_nat n \<and> length buf = n"
  using arm_rev_bytes_spec by blast

lemma note_overrun_trace:
  assumes "arm_rev_bytes e n s = Some (Some buf, t)" "cap < n" "n < 2 ^ 32"
  shows "note_overrun cap s (Some buf) t = emit (Buffer_overrun n cap) t"
  using assms(2,3) arm_rev_bytes_stored [OF assms(1)]
  by (simp add: note_overrun_def unat_of_nat)

lemma unat_low_byte: "unat ((w :: u32) AND 0xFF) < 256"
proof -
  have "w AND 0xFF = take_bit 8 w" by (simp add: take_bit_eq_mask mask_eq_exp_minus_1)
  then have "unat (w AND 0xFF) = take_bit 8 (unat w)" by (simp add: unsigned_take_bit_eq)
  then show ?thesis using take_bit_nat_less_exp [of 8 "unat w"] by simp
qed

text \<open>A command 0xDxxx carries its own length. The seven-byte buffer is overrun whenever the
  length is above seven and the bytes arrive.\<close>

theorem mcu_D_overruns:
  assumes "cmd AND 0xF000 = 0xD000" "7 < unat (cmd AND 0xFF)"
    and "arm_rev_bytes e (unat (cmd AND 0xFF)) s = Some (Some buf, t)"
    and "process_mcu_command e cmd s = Some (r, s')"
  shows "Buffer_overrun (unat (cmd AND 0xFF)) 7 \<in> set (trace s')"
proof -
  let ?n = "unat (cmd AND 0xFF)"
  have "\<not> cmd AND 0x7000 < 0x1000"
  proof -
    have "cmd AND 0x7000 = (cmd AND 0xF000) AND 0x7000" by (simp add: and.assoc)
    then show ?thesis using assms(1) by simp
  qed
  then have p: "process_mcu_command e cmd s = mcu_command_D e cmd s"
    by (simp add: process_mcu_command_def assms(1))
  have "note_overrun 7 s (Some buf) t = emit (Buffer_overrun ?n 7) t"
    using assms(2) unat_low_byte [of cmd] by (intro note_overrun_trace [OF assms(3)]) auto
  with assms(3,4) p show ?thesis
    by (auto simp: mcu_command_D_def read_bytes_into_def traced_def
        split: if_splits dest!: arm_rev_ack_traced)
qed

theorem mcu_D_overruns_witness:
  "\<exists>r s'. process_mcu_command (sending_mcu (replicate 64 True)) 0xD008 sys_0 = Some (r, s') \<and>
     Buffer_overrun 8 7 \<in> set (trace s')"
proof -
  let ?e = "sending_mcu (replicate 64 True)"
  have "yields (arm_rev_bytes ?e 8 sys_0)
      (\<lambda>r s'. \<exists>xs. r = Some xs \<and> offers (replicate 64 True) 0 (emit (Dir_in 167) s'))"
    by (intro sending_0_bytes) (simp_all del: replicate.simps)
  then obtain xs t where t: "arm_rev_bytes ?e 8 sys_0 = Some (Some xs, t)"
    and o: "offers (replicate 64 True) 0 (emit (Dir_in 167) t)"
    by (auto simp: yields_def simp del: replicate.simps arm_rev_bytes.simps)
  have ack: "yields (arm_rev_ack ?e u) (\<lambda>_ _. True)" if "trace u = trace t \<or> trace u = Buffer_overrun 8 7 # trace t" for u
    using o that by (intro yields_mono [OF sending_0_ack])
      (auto simp: offers_def simp del: replicate.simps)
  have "note_overrun 7 sys_0 (Some xs) t = emit (Buffer_overrun 8 7) t"
    by (rule note_overrun_trace [OF t]) simp_all
  with t have "yields (process_mcu_command ?e 0xD008 sys_0) (\<lambda>_ _. True)"
    by (auto simp: process_mcu_command_def mcu_command_D_def read_bytes_into_def
        simp del: replicate.simps arm_rev_bytes.simps intro!: ack)
  then show ?thesis using mcu_D_overruns [of "0xD008" ?e sys_0 xs t] t
    by (auto simp: yields_def simp del: replicate.simps arm_rev_bytes.simps)
qed

text \<open>A command word that arrives over the link has no class, so none of this is ever reached
  through \<open>arm_rev\<close>: the processor does nothing but acknowledge.\<close>

theorem arm_rev_command_acked:
  assumes "arm_rev_16bits e 16 0 s = Some (Some cmd, s')"
  shows "process_mcu_command e cmd t = arm_rev_ack e t"
  using arm_rev_16bits_cmd [OF assms] process_mcu_command_byte by auto

end
