(* ===== verification/Keys.thy ===== *)
theory Keys
  imports Mtc_State
begin

text \<open>
  The key driver (keys.c): the IR key dispatcher, key events, the beeper, the ADC and touch
  key tables, the touch auto-repeat, and suspend and resume of the key interrupts. Timer
  and interrupt bodies that keys.c leaves empty are not modelled; \<open>keys_probe\<close> is in Keys_Probe.

  Results that no caller looks at are not modelled: \<open>send_ir_key\<close>, \<open>key_beep\<close> and
  \<open>send_event_key\<close> are state transformers.
\<close>

section \<open>Tables\<close>

definition mtc_keycode :: "u32 list" where
  "mtc_keycode = [
     0x200, 0x9E, 0x202, 0x203, 0x204, 0x205, 0x206, 0x207,
     0x208, 0x209, 0x20A, 0x20B,
     0x20E, 0x20F, 0x210, 0x213,
     0x66, 0x8B, 0x72, 0x73,
     0x214, 0x215, 0x216, 0x217, 0x218]"

definition mtc_keydefault :: "u8 list" where
  "mtc_keydefault = [
     0x05, 0x00, 0x81, 0x05, 0x02, 0x8A, 0x05, 0x02, 0xDF, 0x00, 0x00, 0x00, 0x00, 0x00, 0x00,
     0x00, 0x00, 0x00, 0x00, 0x00, 0x00, 0x00, 0x00, 0x00, 0x00, 0x00, 0x00, 0x05, 0x01, 0x1B,
     0x05, 0x01, 0xA6, 0x05, 0x02, 0x8A, 0x05, 0x03, 0x2B, 0x00, 0x00, 0x00, 0x00, 0x00, 0x00,
     0x05, 0x00, 0xD0, 0x05, 0x02, 0x00, 0x05, 0x02, 0x46, 0x01, 0x00, 0x01, 0x02, 0x00, 0x01,
     0x00, 0x00, 0x00, 0x00, 0x00, 0x00, 0x00, 0x00, 0x00, 0x00, 0x00, 0x00, 0x00, 0x00, 0x00,
     0x00]"

text \<open>
  \<open>searchAdcKey\<close>. The comparisons are between unsigned words: \<open>v8\<close> is unsigned, so both
  \<open>tol + adc_val\<close> and \<open>adc_val\<close> are converted.
\<close>

definition adc_code_value :: "u8 list \<Rightarrow> nat \<Rightarrow> u32" where
  "adc_code_value tab i = (ucast (tab ! (i + 1)) OR push_bit 8 (ucast (tab ! (i + 2))))"

definition adc_hit :: "u8 \<Rightarrow> int \<Rightarrow> u8 list \<Rightarrow> int \<Rightarrow> nat \<Rightarrow> bool" where
  "adc_hit adc_code adc_val tab tol k \<longleftrightarrow>
     tab ! (3 * k) = adc_code \<and>
     adc_code_value tab (3 * k) < word_of_int (tol + adc_val) \<and>
     word_of_int adc_val < adc_code_value tab (3 * k) + word_of_int tol"

definition searchAdcKey :: "u8 \<Rightarrow> int \<Rightarrow> u8 list \<Rightarrow> int \<Rightarrow> u32" where
  "searchAdcKey adc_code adc_val tab tol =
     (case find (adc_hit adc_code adc_val tab tol) [0..<25] of
        None \<Rightarrow> 0 | Some k \<Rightarrow> mtc_keycode ! k)"

section \<open>Key modes and beeps\<close>

definition key_enter_mode :: "u8 \<Rightarrow> sys \<Rightarrow> sys" where
  "key_enter_mode result s = upd_car (\<lambda>c. c\<lparr>key_mode := result\<rparr>) s"

definition key_beep :: "sys \<Rightarrow> sys" where
  "key_beep s = (if ctl_beep (cfg s) \<noteq> 0 then emit (Arm_send_multi 38176 [0x05]) s else s)"

definition isKeyDisable :: "mtc_car_status \<Rightarrow> u8" where
  "isKeyDisable c =
     (if rpt_boot_android c = 0 \<and> key_mode c \<noteq> 3 \<or> power_refcnt c = 0 \<or> cam_state c \<noteq> 0
         \<or> cam_signal c \<noteq> 0 \<or> call_active c = 0 then 1
      else if video_src_ready c \<noteq> 0 then 1
      else ch_status c)"

definition isAudioKeyEnable :: "mtc_car_status \<Rightarrow> u8" where
  "isAudioKeyEnable c =
     (if power_refcnt c \<noteq> 0 then
        if ch_mode c \<noteq> 0 \<or> video_src_ready c \<noteq> 0 then 1
        else if ch_status c \<noteq> 0 then 1
        else if cam_state c = 0 \<or> backview_vol c \<le> 0xA then
          if call_active c \<noteq> 0 then 1 else call_active c
        else ch_status c
      else power_refcnt c)"

section \<open>IR keys\<close>

text \<open>Press and release of one input key, each followed by a SYN.\<close>

definition input_press :: "u32 \<Rightarrow> sys \<Rightarrow> sys" where
  "input_press code s =
     emit (Input_event 0 0 0) (emit (Input_event 1 code 0)
       (emit (Input_event 0 0 0) (emit (Input_event 1 code 1) s)))"

definition send_event_key :: "u32 \<Rightarrow> sys \<Rightarrow> sys" where
  "send_event_key a1 s = key_beep (input_press a1 s)"

text \<open>The keys \<open>@\<close> and \<open>A\<close>: the video source became ready, went away.\<close>

definition video_src_on :: "sys \<Rightarrow> sys" where
  "video_src_on s =
     (let s = key_beep (upd_car (\<lambda>c. c\<lparr>video_src_ready := 1\<rparr>) s);
          s = (if rpt_boot_android (car s) \<noteq> 0 then emit (Audio_add_work 22 0 0 0) s else s)
      in if call_active (car s) \<noteq> 0 then emit (Vs_send 2 159 []) s else s)"

definition video_src_off :: "sys \<Rightarrow> sys" where
  "video_src_off s =
     (let s = key_beep (upd_car (\<lambda>c. c\<lparr>video_src_ready := 0\<rparr>) s);
          s = (if rpt_boot_android (car s) \<noteq> 0 then
                 let s = (if ajx_active (car s) \<noteq> 0 \<and> power_refcnt (car s) = 1
                          then emit Backlight_off s else s)
                 in emit (Audio_add_work 23 0 0 0) s
               else s)
      in if call_active (car s) \<noteq> 0 then emit (Vs_send 2 160 []) s else s)"

text \<open>\<open>LABEL_20\<close>, the backlight and the key itself.\<close>

definition ir_backlight_flow :: "int \<Rightarrow> sys \<Rightarrow> sys" where
  "ir_backlight_flow v1 s =
     (if backlight_status (car s) = 0 then
        upd_keys (\<lambda>k. k\<lparr>backlight_sw := 1\<rparr>) (emit Backlight_on s)
      else if backlight_sw (keys s) \<noteq> 0 then upd_keys (\<lambda>k. k\<lparr>backlight_sw := 0\<rparr>) s
      else if v1 = 54 then key_beep (input_press 158 s)
      else if key_mode (car s) = 1 then s
      else if v1 = 56 then key_beep (emit (Vs_send 2 0x8F [56]) (emit (Vs_send 2 0x8E [56]) s))
      else if v1 \<noteq> 55 then
        let s = emit (Vs_send 2 0x8F [word_of_int v1]) (emit (Vs_send 2 0x8E [word_of_int v1]) s)
        in if \<not> (v1 = 26 \<or> v1 = 18) \<or> mtc_customer (car s) = 7 \<or> mtc_customer (car s) = 13
              \<or> mtc_customer (car s) = 15
           then key_beep s else s
      else key_beep (input_press 139 s))"

text \<open>\<open>LABEL_19\<close>.\<close>

definition ir_kdisable :: "int \<Rightarrow> sys \<Rightarrow> sys" where
  "ir_kdisable v1 s =
     (if isKeyDisable (car s) = 0 then ir_backlight_flow v1 s
      else if (v1 = 26 \<or> v1 = 18) \<and> isAudioKeyEnable (car s) \<noteq> 0 then ir_backlight_flow v1 s
      else s)"

definition send_ir_key :: "int \<Rightarrow> sys \<Rightarrow> sys" where
  "send_ir_key result s =
     (let camera = (\<lambda>s. emit (Capture_add_work 66 0 0 False) (key_beep s));
          v1 = (if result = 79 then (if ch_mode (car s) - 2 \<le> 1 then 69 else 68) else result)
      in if ch_mode (car s) \<noteq> 0 \<and> (result = 54 \<or> result = 56) then s
      else if result = 64 then video_src_on s
      else if result = 65 then video_src_off s
      else if input_ready (car s) = 0 then s
      else if v1 = 66 \<and> touch_type (car s) \<noteq> 129 then s
      else if mtc_customer (car s) = 18 then
        if v1 \<noteq> 85 \<or> cam_state (car s) = 0 then ir_kdisable v1 s else camera s
      else if v1 = 54 \<or> v1 = 85 then
        if cam_state (car s) \<noteq> 0 \<and> cfg_frontview (cfg s) \<noteq> 0 then camera s
        else if v1 = 85 \<and> cam_state (car s) \<noteq> 0 then camera s
        else ir_kdisable v1 s
      else ir_kdisable v1 s)"

section \<open>Suspend and resume\<close>

record key_entry =
  dev_type :: nat
  ek_irq :: nat
  trig_type :: int
  dev_name :: "string option"

definition key_suspend_entry :: "nat \<times> key_entry \<Rightarrow> sys \<Rightarrow> sys" where
  "key_suspend_entry ie s =
     (case ie of (i, e) \<Rightarrow>
        if dev_type e = 3 then emit (Del_timer 3 i) (emit (Free_irq (ek_irq e) i) s)
        else if dev_type e = 4 then emit (Del_timer 4 i) s
        else s)"

definition mtc_key_suspend :: "key_entry list \<Rightarrow> sys \<Rightarrow> sys" where
  "mtc_key_suspend es s =
     emit (Flush_queue ''wheel_wq'')
       (fold key_suspend_entry (enumerate 0 es) (upd_car (\<lambda>c. c\<lparr>key_mode := 4\<rparr>) s))"

definition key_resume_entry :: "nat \<times> key_entry \<Rightarrow> sys \<Rightarrow> sys" where
  "key_resume_entry ie s =
     (case ie of (i, e) \<Rightarrow>
        if dev_type e = 4 then emit (Mod_timer 4 i 100) s
        else if dev_type e = 3 then
          emit (Request_irq (ek_irq e) (if trig_type e \<noteq> 0 then 2 else 1)
                  (case dev_name e of Some n \<Rightarrow> n | None \<Rightarrow> ''keys'') i) s
        else s)"

definition mtc_key_resume :: "key_entry list \<Rightarrow> sys \<Rightarrow> sys" where
  "mtc_key_resume es s =
     fold key_resume_entry (enumerate 0 es) (upd_car (\<lambda>c. c\<lparr>key_mode := 0\<rparr>) s)"

section \<open>Touch keys\<close>

text \<open>
  The byte at offset 101 + \<open>i\<close> of the status: past the 32 bytes of \<open>reserved_22\<close> come the
  fields that follow it in car.h, the two words in little-endian order.
\<close>

definition touch_byte :: "mtc_car_status \<Rightarrow> nat \<Rightarrow> u8" where
  "touch_byte c i =
     (if i < 32 then reserved_22 c ! i
      else if i = 32 then rpt_boot_appinit c
      else if i = 33 then cfg_maxvolume c
      else if i = 34 then reserved_54 c
      else if i < 39 then ucast (drop_bit (8 * (i - 35)) (touch_width c))
      else ucast (drop_bit (8 * (i - 39)) (touch_height c)))"

fun touch_scan :: "(nat \<Rightarrow> u8) \<Rightarrow> u32 \<Rightarrow> nat list \<Rightarrow> sys \<Rightarrow> u32 \<times> sys" where
  "touch_scan tab a1 [] s = (255, s)"
| "touch_scan tab a1 (i # is) s =
     (if tab (i * 4) = 0 \<and> tab (i * 4 + 1) = 0 then (255, s)
      else if ucast (tab (i * 4 + 2)) \<le> a1 \<and> ucast (tab (i * 4 + 3)) > a1 then
        (of_nat (i + 1),
         upd_keys (\<lambda>k. k\<lparr>touch_res_a := tab (i * 4), touch_res_b := tab (i * 4 + 1)\<rparr>) s)
      else touch_scan tab a1 is s)"

definition mtc_getTouchKey :: "u32 \<Rightarrow> sys \<Rightarrow> u32 \<times> sys" where
  "mtc_getTouchKey a1 s = touch_scan (touch_byte (car s)) a1 [0..<10] s"

definition mtc_getTouchKey_tab :: "u32 \<Rightarrow> u8 list \<Rightarrow> sys \<Rightarrow> u32 \<times> sys" where
  "mtc_getTouchKey_tab a1 a2 s = touch_scan (nth a2) a1 [0..<10] s"

definition mtc_touch_work_func :: "sys \<Rightarrow> sys" where
  "mtc_touch_work_func s =
     (if touch_gate (keys s) \<noteq> 0 then
        let key = touch_key (keys s);
            s = upd_keys (\<lambda>k. k\<lparr>touch_cnt := touch_cnt k + 1\<rparr>) s;
            again = (\<lambda>s. emit (Queue_delayed ''touch_dwork'' 200) s)
        in if key = 50 \<or> key = 58 then again (emit (Car_add_work 67 (uint key) False) s)
           else if touch_cnt (keys s) > 6 \<and> touch_code2 (keys s) \<noteq> 0
           then emit (Car_add_work 67 (uint (touch_code2 (keys s))) False) s
           else again s
      else s)"

section \<open>What an IR key does\<close>

lemma key_beep_frame [simp]:
  "car (key_beep s) = car s" "cfg (key_beep s) = cfg s" "keys (key_beep s) = keys s"
  by (simp_all add: key_beep_def)

lemma input_press_frame [simp]:
  "car (input_press k s) = car s" "cfg (input_press k s) = cfg s" "keys (input_press k s) = keys s"
  by (simp_all add: input_press_def)

lemma video_src_frame [simp]:
  "car (video_src_on s) = (car s)\<lparr>video_src_ready := 1\<rparr>"
  "car (video_src_off s) = (car s)\<lparr>video_src_ready := 0\<rparr>"
  "cfg (video_src_on s) = cfg s" "cfg (video_src_off s) = cfg s"
  by (simp_all add: video_src_on_def video_src_off_def Let_def)

lemma ir_flow_frame [simp]:
  "car (ir_backlight_flow v s) = car s" "cfg (ir_backlight_flow v s) = cfg s"
  "car (ir_kdisable v s) = car s" "cfg (ir_kdisable v s) = cfg s"
  by (simp_all add: ir_backlight_flow_def ir_kdisable_def Let_def)

text \<open>An IR key changes at most one byte of the driver's status, \<open>video_src_ready\<close>, and only
  the keys 0x40 and 0x41 do; the configuration is never changed.\<close>

theorem send_ir_key_frame:
  "cfg (send_ir_key k s) = cfg s \<and>
   car (send_ir_key k s) = (car s)\<lparr>video_src_ready :=
     (if k = 64 then 1 else if k = 65 then 0 else video_src_ready (car s))\<rparr>"
  by (simp add: send_ir_key_def Let_def)

text \<open>While keys are disabled (no power, a camera shown, no call session, the video source
  active and so on) a key that is neither a source key nor an enabled audio key does nothing
  at all, unless the camera view claims it.\<close>

theorem disabled_key_ignored:
  assumes "isKeyDisable (car s) \<noteq> 0" "k \<noteq> 64" "k \<noteq> 65"
    and "k = 18 \<or> k = 26 \<longrightarrow> isAudioKeyEnable (car s) = 0"
    and "k = 54 \<or> k = 85 \<longrightarrow> cam_state (car s) = 0"
  shows "send_ir_key k s = s"
  using assms by (auto simp: send_ir_key_def ir_kdisable_def Let_def)

theorem disabled_key_ignored_witness: "send_ir_key 5 sys_0 = sys_0"
  by (rule disabled_key_ignored) (simp_all add: isKeyDisable_def sys_0_def car_0_def)

text \<open>With the backlight off the first key press only turns it on; the next press, with the
  backlight on, is swallowed; the third reaches Android.\<close>

theorem wake_press_swallowed:
  assumes "isKeyDisable (car s) = 0" "input_ready (car s) \<noteq> 0" "backlight_status (car s) = 0"
    and "k \<notin> {54, 55, 56, 64, 65, 66, 79, 85}" "key_mode (car s) \<noteq> 1"
  shows "let lit = upd_car (\<lambda>c. c\<lparr>backlight_status := 1\<rparr>);
             s1 = send_ir_key k s; s2 = send_ir_key k (lit s1); s3 = send_ir_key k s2
         in trace s1 = Backlight_on # trace s \<and> trace s2 = trace s1 \<and>
            Vs_send 2 0x8E [word_of_int k] \<in> set (trace s3)"
proof -
  have [simp]: "isKeyDisable ((car s)\<lparr>backlight_status := 1\<rparr>) = 0"
    using assms(1) by (simp add: isKeyDisable_def split: if_splits)
  show ?thesis
    using assms
    by (auto simp: send_ir_key_def ir_kdisable_def ir_backlight_flow_def key_beep_def Let_def
        split: if_splits)
qed

theorem wake_press_swallowed_witness:
  "let dark = upd_car (\<lambda>c. c\<lparr>backlight_status := 0\<rparr>) awake_sys;
       lit = upd_car (\<lambda>c. c\<lparr>backlight_status := 1\<rparr>);
       s1 = send_ir_key 5 dark; s2 = send_ir_key 5 (lit s1); s3 = send_ir_key 5 s2
   in trace s1 = [Backlight_on] \<and> trace s2 = trace s1 \<and> Vs_send 2 0x8E [5] \<in> set (trace s3)"
  using wake_press_swallowed [of "upd_car (\<lambda>c. c\<lparr>backlight_status := 0\<rparr>) awake_sys" 5]
  by (simp add: Let_def isKeyDisable_def sys_0_def car_0_def upd_car_def)

section \<open>Suspend and resume\<close>

definition freed_irqs :: "event list \<Rightarrow> (nat \<times> nat) list" where
  "freed_irqs h = concat (map (\<lambda>x. case x of Free_irq q i \<Rightarrow> [(q, i)] | _ \<Rightarrow> []) h)"

definition requested_irqs :: "event list \<Rightarrow> (nat \<times> nat) list" where
  "requested_irqs h = concat (map (\<lambda>x. case x of Request_irq q _ _ i \<Rightarrow> [(q, i)] | _ \<Rightarrow> []) h)"

definition ir_irqs :: "(nat \<times> key_entry) list \<Rightarrow> (nat \<times> nat) list" where
  "ir_irqs ies = map (\<lambda>(i, e). (ek_irq e, i)) (filter (\<lambda>(i, e). dev_type e = 3) ies)"

lemma suspend_fold:
  "freed_irqs (trace (fold key_suspend_entry ies s)) = rev (ir_irqs ies) @ freed_irqs (trace s)"
  "requested_irqs (trace (fold key_suspend_entry ies s)) = requested_irqs (trace s)"
  by (induction ies arbitrary: s)
     (auto simp: key_suspend_entry_def freed_irqs_def requested_irqs_def ir_irqs_def)

lemma resume_fold:
  "requested_irqs (trace (fold key_resume_entry ies s)) = rev (ir_irqs ies) @ requested_irqs (trace s)"
  "freed_irqs (trace (fold key_resume_entry ies s)) = freed_irqs (trace s)"
  "car (fold key_resume_entry ies s) = car s"
  by (induction ies arbitrary: s)
     (auto simp: key_resume_entry_def freed_irqs_def requested_irqs_def ir_irqs_def)

text \<open>Resume undoes suspend: the interrupts requested on resume are exactly those freed on
  suspend, with the same cookies and in the same order, and the key mode is normal again.\<close>

theorem suspend_resume_irqs:
  "freed_irqs (trace s) = [] \<Longrightarrow> requested_irqs (trace s) = [] \<Longrightarrow>
   (let s' = mtc_key_resume es (mtc_key_suspend es s)
    in requested_irqs (trace s') = freed_irqs (trace s') \<and>
       set (freed_irqs (trace s')) = {(ek_irq (es ! i), i) | i. i < length es \<and> dev_type (es ! i) = 3} \<and>
       key_mode (car s') = 0)"
proof -
  assume none: "freed_irqs (trace s) = []" "requested_irqs (trace s) = []"
  have flush: "freed_irqs (Flush_queue q # h) = freed_irqs h"
    "requested_irqs (Flush_queue q # h) = requested_irqs h" for q h
    by (simp_all add: freed_irqs_def requested_irqs_def)
  have "set (ir_irqs (enumerate 0 es)) = {(ek_irq (es ! i), i) | i. i < length es \<and> dev_type (es ! i) = 3}"
    by (auto simp: ir_irqs_def in_set_enumerate_eq image_iff)
  then show ?thesis
    by (simp add: mtc_key_resume_def mtc_key_suspend_def Let_def suspend_fold resume_fold none flush)
qed

theorem suspend_resume_irqs_witness:
  "let es = [\<lparr>dev_type = 1, ek_irq = 20, trig_type = 0, dev_name = None\<rparr>,
         \<lparr>dev_type = 3, ek_irq = 21, trig_type = 1, dev_name = Some ''ir''\<rparr>];
       s' = mtc_key_resume es (mtc_key_suspend es sys_0)
   in requested_irqs (trace s') = freed_irqs (trace s') \<and>
      set (freed_irqs (trace s')) = {(ek_irq (es ! i), i) | i. i < length es \<and> dev_type (es ! i) = 3} \<and>
      key_mode (car s') = 0"
  unfolding Let_def
  by (rule suspend_resume_irqs [unfolded Let_def]) (simp_all add: freed_irqs_def requested_irqs_def)

section \<open>Touch keys\<close>

lemma touch_scan_spec:
  assumes "touch_scan tab a1 is s = (r, s')"
  shows "r = 255 \<and> s' = s \<or>
    (\<exists>n < length is. let i = is ! n in
       r = of_nat (i + 1) \<and> ucast (tab (i * 4 + 2)) \<le> a1 \<and> a1 < ucast (tab (i * 4 + 3)) \<and>
       (\<forall>m < Suc n. tab (is ! m * 4) \<noteq> 0 \<or> tab (is ! m * 4 + 1) \<noteq> 0) \<and>
       (\<forall>m < n. \<not> (ucast (tab (is ! m * 4 + 2)) \<le> a1 \<and> a1 < ucast (tab (is ! m * 4 + 3)))) \<and>
       s' = upd_keys (\<lambda>k. k\<lparr>touch_res_a := tab (i * 4), touch_res_b := tab (i * 4 + 1)\<rparr>) s)"
  using assms
proof (induction "is")
  case Nil
  then show ?case by simp
next
  case (Cons i "is")
  consider "tab (i * 4) = 0 \<and> tab (i * 4 + 1) = 0"
    | (hit) "\<not> (tab (i * 4) = 0 \<and> tab (i * 4 + 1) = 0)"
        "ucast (tab (i * 4 + 2)) \<le> a1 \<and> ucast (tab (i * 4 + 3)) > a1"
    | (miss) "\<not> (tab (i * 4) = 0 \<and> tab (i * 4 + 1) = 0)"
        "\<not> (ucast (tab (i * 4 + 2)) \<le> a1 \<and> ucast (tab (i * 4 + 3)) > a1)"
    by blast
  then show ?case
  proof cases
    case 1
    with Cons.prems show ?thesis by simp
  next
    case hit
    with Cons.prems show ?thesis by (intro disjI2 exI [of _ 0]) (auto simp: Let_def)
  next
    case miss
    with Cons.prems have "touch_scan tab a1 is s = (r, s')" by (simp split: if_splits)
    from Cons.IH [OF this] show ?thesis
    proof (elim disjE exE conjE)
      fix n assume n: "n < length is" and let_n: "let i = is ! n in
         r = of_nat (i + 1) \<and> ucast (tab (i * 4 + 2)) \<le> a1 \<and> a1 < ucast (tab (i * 4 + 3)) \<and>
         (\<forall>m < Suc n. tab (is ! m * 4) \<noteq> 0 \<or> tab (is ! m * 4 + 1) \<noteq> 0) \<and>
         (\<forall>m < n. \<not> (ucast (tab (is ! m * 4 + 2)) \<le> a1 \<and> a1 < ucast (tab (is ! m * 4 + 3)))) \<and>
         s' = upd_keys (\<lambda>k. k\<lparr>touch_res_a := tab (i * 4), touch_res_b := tab (i * 4 + 1)\<rparr>) s"
      with n let_n miss show ?thesis
        by (intro disjI2 exI [of _ "Suc n"]) (simp add: Let_def All_less_Suc2 del: All_less_Suc)
    qed simp
  qed
qed

text \<open>A touch key is found exactly when a row before the first empty one covers the position:
  the result is the number of the first such row, its two codes are stored, and nothing else
  changes; otherwise the result is 255 and nothing changes at all.\<close>

theorem touch_key_first_row:
  assumes "mtc_getTouchKey a1 s = (r, s')"
  shows "r = 255 \<and> s' = s \<or>
    (\<exists>i < 10. r = of_nat (i + 1) \<and>
       ucast (touch_byte (car s) (i * 4 + 2)) \<le> a1 \<and> a1 < ucast (touch_byte (car s) (i * 4 + 3)) \<and>
       (\<forall>j < i. \<not> (ucast (touch_byte (car s) (j * 4 + 2)) \<le> a1 \<and>
                    a1 < ucast (touch_byte (car s) (j * 4 + 3)))) \<and>
       s' = upd_keys (\<lambda>k. k\<lparr>touch_res_a := touch_byte (car s) (i * 4),
                            touch_res_b := touch_byte (car s) (i * 4 + 1)\<rparr>) s)"
  using touch_scan_spec [OF assms [unfolded mtc_getTouchKey_def]]
  by (auto simp: Let_def)

theorem touch_key_first_row_witness:
  "let s = upd_car (\<lambda>c. c\<lparr>reserved_22 := [7, 8, 10, 60] @ replicate 28 0\<rparr>) sys_0;
       r = fst (mtc_getTouchKey 50 s); s' = snd (mtc_getTouchKey 50 s)
   in r = 255 \<and> s' = s \<or>
    (\<exists>i < 10. r = of_nat (i + 1) \<and>
       ucast (touch_byte (car s) (i * 4 + 2)) \<le> (50 :: u32) \<and> 50 < (ucast (touch_byte (car s) (i * 4 + 3)) :: u32) \<and>
       (\<forall>j < i. \<not> (ucast (touch_byte (car s) (j * 4 + 2)) \<le> (50 :: u32) \<and>
                    (50 :: u32) < ucast (touch_byte (car s) (j * 4 + 3)))) \<and>
       s' = upd_keys (\<lambda>k. k\<lparr>touch_res_a := touch_byte (car s) (i * 4),
                            touch_res_b := touch_byte (car s) (i * 4 + 1)\<rparr>) s)"
  unfolding Let_def by (rule touch_key_first_row) (rule prod.collapse [symmetric])

lemma touch_repeat:
  assumes "touch_gate (keys s) \<noteq> 0" "touch_key (keys s) \<noteq> 50" "touch_key (keys s) \<noteq> 58"
    and "touch_cnt (keys s) = 0"
  shows "n \<le> 6 \<Longrightarrow>
    trace ((mtc_touch_work_func ^^ n) s) = replicate n (Queue_delayed ''touch_dwork'' 200) @ trace s \<and>
    keys ((mtc_touch_work_func ^^ n) s) = (keys s)\<lparr>touch_cnt := int n\<rparr>"
proof (induction n)
  case 0
  then show ?case using assms(4) by simp
next
  case (Suc n)
  then show ?case using assms by (simp add: mtc_touch_work_func_def Let_def)
qed

text \<open>A finger that stays on a touch key with a long-press code: six runs of the repeat work
  only queue the next run, the seventh posts the long-press code once and ends the chain.\<close>

theorem touch_long_press:
  assumes "touch_gate (keys s) \<noteq> 0" "touch_key (keys s) \<noteq> 50" "touch_key (keys s) \<noteq> 58"
    and "touch_cnt (keys s) = 0" "touch_code2 (keys s) \<noteq> 0"
  shows "trace ((mtc_touch_work_func ^^ 7) s) =
    Car_add_work 67 (uint (touch_code2 (keys s))) False #
      replicate 6 (Queue_delayed ''touch_dwork'' 200) @ trace s"
proof -
  have "(mtc_touch_work_func ^^ 7) s = mtc_touch_work_func ((mtc_touch_work_func ^^ 6) s)"
    using funpow.simps(2) [of 6 mtc_touch_work_func] by simp
  with touch_repeat [OF assms(1-4), of 6] assms show ?thesis
    by (simp add: mtc_touch_work_func_def Let_def)
qed

theorem touch_long_press_witness:
  "trace ((mtc_touch_work_func ^^ 7) sys_0) =
     Car_add_work 67 7 False # replicate 6 (Queue_delayed ''touch_dwork'' 200)"
  using touch_long_press [of sys_0] by (simp add: sys_0_def)

section \<open>ADC keys\<close>

lemma adc_code_value_unat:
  "unat (adc_code_value tab i) = unat (tab ! (i + 1)) + 256 * unat (tab ! (i + 2))"
  by (simp only: adc_code_value_def unat_byte_pair)

text \<open>For readings of a real converter the unsigned comparisons are those of the integers.\<close>

lemma adc_hit_int:
  assumes "0 \<le> adc_val" "adc_val \<le> 1023" "0 \<le> tol" "tol \<le> 1023"
  shows "adc_hit adc_code adc_val tab tol k \<longleftrightarrow> tab ! (3 * k) = adc_code \<and>
    \<bar>adc_val - int (unat (adc_code_value tab (3 * k)))\<bar> < tol"
proof -
  let ?v = "adc_code_value tab (3 * k)"
  have v: "uint ?v < 65536"
    using unat_u8 [of "tab ! (3 * k + 1)"] unat_u8 [of "tab ! (3 * k + 2)"]
    by (simp only: uint_nat adc_code_value_unat)
  have 1: "uint (word_of_int x :: u32) = x" if "0 \<le> x" "x \<le> 2046" for x
    using that by (simp add: unsigned_of_int take_bit_int_eq_self)
  have "uint (?v + word_of_int tol) = uint ?v + tol"
    using v assms 1 [of tol] by (subst uint_add_lem [THEN iffD1]) simp_all
  with 1 [of "tol + adc_val"] 1 [of adc_val] assms show ?thesis
    by (auto simp: adc_hit_def word_less_def abs_if simp flip: uint_nat simp del: of_int_add)
qed

text \<open>The default table cannot be used on a real ten-bit converter: read low byte first, as
  \<open>searchAdcKey\<close> does, its values lie far above 1023, so on channel code 5 at most one key
  can be found, the one whose value reads as 2.\<close>

theorem default_keys_unreachable:
  assumes "0 \<le> adc_val" "adc_val \<le> 1023" "0 \<le> tol" "tol \<le> 200"
  shows "searchAdcKey 5 adc_val mtc_keydefault tol = (if adc_val < 2 + tol \<and> 2 < adc_val + tol then 0x66 else 0)"
proof -
  have hit: "adc_hit 5 adc_val mtc_keydefault tol k \<longleftrightarrow>
      mtc_keydefault ! (3 * k) = 5 \<and>
      \<bar>adc_val - int (unat (mtc_keydefault ! (3 * k + 1)) + 256 * unat (mtc_keydefault ! (3 * k + 2)))\<bar> < tol" for k
    using adc_hit_int [of adc_val tol 5 mtc_keydefault k] assms by (simp add: adc_code_value_unat)
  have "list_all (\<lambda>k. \<not> adc_hit 5 adc_val mtc_keydefault tol k) ([0..<16] @ [17..<25])"
    using assms by (simp add: upt_rec hit) (simp add: mtc_keydefault_def)
  moreover have "k \<in> set ([0..<16] @ [17..<25])" if "k < 25" "k \<noteq> 16" for k :: nat
    using that by (simp only: set_append set_upt) auto
  ultimately have miss: "\<not> adc_hit 5 adc_val mtc_keydefault tol k" if "k < 25" "k \<noteq> 16" for k
    using that unfolding list_all_iff by blast
  have k16: "adc_hit 5 adc_val mtc_keydefault tol 16 \<longleftrightarrow> adc_val < 2 + tol \<and> 2 < adc_val + tol"
    unfolding hit by (auto simp: mtc_keydefault_def)
  have split: "[0..<25] = [0..<16] @ 16 # [17..<25]"
    by (simp add: upt_rec)
  have none: "find (adc_hit 5 adc_val mtc_keydefault tol) xs = None" if "set xs \<subseteq> {..<25} - {16}" for xs
    using that by (induction xs) (auto simp: miss)
  have app: "find P (xs @ y # ys) = (if P y then Some y else find P ys)"
    if "find P xs = None" for P and xs ys :: "nat list" and y
    using that by (induction xs) (auto split: if_splits)
  have none1: "find (adc_hit 5 adc_val mtc_keydefault tol) [0..<16] = None"
    by (rule none) (simp only: set_upt, auto)
  have none2: "find (adc_hit 5 adc_val mtc_keydefault tol) [17..<25] = None"
    by (rule none) (simp only: set_upt, auto)
  show ?thesis
    unfolding searchAdcKey_def split app [OF none1] none2 k16
    by (simp add: mtc_keycode_def)
qed

theorem default_keys_unreachable_witness:
  "searchAdcKey 5 10 mtc_keydefault 20 = 0x66 \<and> searchAdcKey 5 650 mtc_keydefault 20 = 0"
  using default_keys_unreachable [of 10 20] default_keys_unreachable [of 650 20] by simp

end
