(* ===== verification/Car_Work.thy ===== *)
theory Car_Work
  imports Keys Peers
begin

text \<open>
  The work items of the car driver (car.c): posting a work, the dispatcher \<open>car_work\<close> with
  all its commands, and the small operations it is made of. The link to the MCU, the audio
  card, the camera and the backlight are called through the events of the trace.
\<close>

section \<open>Operations\<close>

definition car_add_work :: "int \<Rightarrow> int \<Rightarrow> bool \<Rightarrow> sys \<Rightarrow> sys" where
  "car_add_work a1 a2 flush s =
     (let s = emit (Car_add_work a1 a2 flush) s
      in if flush then emit (Flush_queue ''car_wq'') s else s)"

definition car_add_work_delay :: "int \<Rightarrow> int \<Rightarrow> nat \<Rightarrow> sys \<Rightarrow> sys" where
  "car_add_work_delay a1 a2 delay s = emit (Car_add_work_delay a1 a2 delay) s"

abbreviation (input) call_capture :: "int \<Rightarrow> int \<Rightarrow> nat \<Rightarrow> bool \<Rightarrow> sys \<Rightarrow> sys" where
  "call_capture a b d f s \<equiv> emit (Capture_add_work a b d f) s"

abbreviation (input) call_audio :: "int \<Rightarrow> int \<Rightarrow> int \<Rightarrow> int \<Rightarrow> sys \<Rightarrow> sys" where
  "call_audio a b c d s \<equiv> emit (Audio_add_work a b c d) s"

abbreviation (input) vs_send2 :: "u8 \<Rightarrow> u8 list \<Rightarrow> sys \<Rightarrow> sys" where
  "vs_send2 c buf s \<equiv> emit (Vs_send 2 c buf) s"

definition power_soft_off :: "sys \<Rightarrow> sys" where
  "power_soft_off s =
     (let s = upd_car (\<lambda>c. c\<lparr>ch_status := 0, power_refcnt := 0, power_on := 0\<rparr>) s;
          s = (if call_active (car s) \<noteq> 0
               then call_audio 21 0 0 0 (call_capture 46 255 0 False s)
               else call_capture 47 0 0 False s)
      in emit Backlight_off s)"

definition mtcWipeCheck :: "sys \<Rightarrow> u8 \<times> sys" where
  "mtcWipeCheck s =
     (if boot_flags (car s) = 0 then (0, s)
      else
        let s = upd_car (\<lambda>c. c\<lparr>boot_flags := boot_flags c + 1\<rparr>) s
        in if boot_flags (car s) \<le> 3 then (boot_flags (car s), s)
           else (0, car_add_work 72 0 False s))"

definition car_avm :: "sys \<Rightarrow> sys" where
  "car_avm s =
     (if cfg_canbus (cfg s) = 0xA then
        emit (Arm_send_multi 0xC000 [0x06, 0x2E, 0xC6, 0x02, 0x02, 0x01, 0x34]) (key_beep s)
      else if cfg_canbus (cfg s) = 0x25 then
        emit (Arm_send_multi 0xC000 [0x05, 0x2E, 0xC7, 0x01, 0x01, 0x36]) (key_beep s)
      else s)"

section \<open>The dispatcher\<close>

partial_function (option) wait_ready :: "env \<Rightarrow> sys \<Rightarrow> sys option" where
  "wait_ready e s = (if car_ready (car s) \<noteq> 0 then Some s else wait_ready e (msleep e 10 s))"

text \<open>\<open>do { msleep(d); t--; } while (rpt_power && t)\<close>, started with \<open>t \<ge> 1\<close>.\<close>

fun wait_rpt :: "env \<Rightarrow> nat \<Rightarrow> nat \<Rightarrow> sys \<Rightarrow> sys" where
  "wait_rpt e d 0 s = s"
| "wait_rpt e d (Suc t) s =
     (let s = msleep e d s
      in if rpt_power (car s) \<noteq> 0 \<and> t \<noteq> 0 then wait_rpt e d t s else s)"

text \<open>Works 29 to 38: power references, camera, backlight, call.\<close>

definition work_29_38 :: "int \<Rightarrow> sys \<Rightarrow> sys" where
  "work_29_38 cmd1 s =
     (if cmd1 = 29 then
        let s = upd_car (\<lambda>c. c\<lparr>power_refcnt := power_refcnt c + 1\<rparr>) s
        in if power_refcnt (car s) \<noteq> 0 then emit Backlight_on (emit Audio_active s)
           else emit Backlight_on s
      else if cmd1 = 30 then
        if power_refcnt (car s) = 0 then s
        else
          let s = upd_car (\<lambda>c. c\<lparr>power_refcnt := power_refcnt c - 1\<rparr>) s
          in if power_refcnt (car s) \<noteq> 0 then s
             else
               let s = emit Audio_deactive s
               in if cam_state (car s) \<noteq> 0 then s else emit Backlight_off s
      else if cmd1 = 31 then call_capture 0x38 0 0 False s
      else if cmd1 = 32 then call_capture 0x39 0 0 False s
      else if cmd1 = 33 then call_capture 0x3C 0 0 False s
      else if cmd1 = 34 then call_capture 0x3B 0 0 False s
      else if cmd1 = 35 then emit Backlight_on s
      else if cmd1 = 36 then emit Backlight_off s
      else if cmd1 = 37 then
        let s = upd_car (\<lambda>c. c\<lparr>call_active := 1\<rparr>) (emit (Arm_send 0x202) s);
            s = (if power_refcnt (car s) \<noteq> 0
                 then call_audio 0x14 0 0 0 (vs_send2 0xF2 [] s) else s);
            s = (if wipe_flag (car s) AND 0x10 \<noteq> 0 then vs_send2 0x88 [] s else s);
            s = (if video_src_ready (car s) \<noteq> 0 then vs_send2 0x9F [] s else s)
        in call_capture 0x3A 2000 0 False s
      else if video_src_ready (car s) \<noteq> 0 then call_audio 0x16 0 0 0 s
      else s)"

text \<open>Works 42 to 45: on, off, on with ACC, off with ACC.\<close>

definition work_42 :: "int \<Rightarrow> sys \<Rightarrow> sys" where
  "work_42 cmd2 s =
     (let on = upd_car (\<lambda>c. c\<lparr>power_refcnt := 1, power_on := 1\<rparr>);
          s = (if call_active (car s) \<noteq> 0 then
                 let s = call_capture 46 1 0 False (call_audio 20 0 0 0 (on (vs_send2 0xF1 [] s)))
                 in if cmd2 \<noteq> 0 then emit Backlight_on s else s
               else emit Backlight_on (call_capture 47 0 0 False (on s)))
      in if cmd2 = 0 then call_capture 56 1000 0 False s else s)"

definition work_43 :: "env \<Rightarrow> sys \<Rightarrow> sys" where
  "work_43 e s =
     (let s = upd_car (\<lambda>c. c\<lparr>power_refcnt := 0\<rparr>) s;
          s = (if cam_signal (car s) \<noteq> 0 then call_capture 0x37 0 0 True s else s);
          s = (if call_active (car s) \<noteq> 0
               then wait_rpt e 50 40 (vs_send2 0xF0 [] (upd_car (\<lambda>c. c\<lparr>rpt_power := 1\<rparr>) s))
               else s)
      in emit (Arm_send 0x20B) (wait_rpt e 50 80 (power_soft_off s)))"

definition work_45 :: "env \<Rightarrow> sys \<Rightarrow> sys" where
  "work_45 e s =
     (let s = vs_send2 0x8A [] s;
          s = (if cam_state (car s) \<noteq> 0 then call_capture 0x3B 0 0 True s
               else if cam_signal (car s) \<noteq> 0 then call_capture 0x37 0 0 True s
               else s);
          s = (if power_refcnt (car s) \<noteq> 0
               then wait_rpt e 40 40 (vs_send2 0xF0 []
                      (upd_car (\<lambda>c. c\<lparr>power_refcnt := 0, rpt_power := 1\<rparr>) s))
               else s)
      in wait_rpt e 50 80 (power_soft_off s))"

text \<open>\<open>LABEL_97\<close>.\<close>

definition work_backlight :: "sys \<Rightarrow> sys" where
  "work_backlight s =
     (if backlight_status (car s) \<noteq> 0 then car_add_work 35 0 False s else car_add_work 36 0 False s)"

definition work_67 :: "int \<Rightarrow> sys \<Rightarrow> sys" where
  "work_67 cmd2 s =
     (let s = vs_send2 0xA4 [] s; k = cmd2 - 32
      in if cmd2 \<le> 31 then s
         else if k = 0 then emit (Arm_send_multi 0x9527 []) s
         else if k = 0x28 then emit (Arm_send_multi 0x9528 []) s
         else if k \<noteq> 0x63 then if k \<noteq> 0x5E then send_ir_key k s else car_avm s
         else work_backlight s)"

text \<open>
  The \<open>switch\<close> below \<open>LABEL_93\<close>: its \<open>break\<close>s leave the inner switch only, so every case but
  1 and 21 goes on to \<open>LABEL_96\<close>.
\<close>

definition wheel_key :: "int \<Rightarrow> sys \<Rightarrow> sys" where
  "wheel_key cmd2 s =
     (if cmd2 = 21 then work_backlight s
      else
        send_ir_key 1
          (if cmd2 = 2 then send_ir_key 26 s
           else if cmd2 = 3 then send_ir_key 58 s
           else if cmd2 = 4 then send_ir_key 57 s
           else if cmd2 = 5 then send_ir_key 68 s
           else if cmd2 = 6 then send_ir_key 3 s
           else if cmd2 = 7 then send_ir_key 1 s
           else if cmd2 = 8 then send_ir_key 69 s
           else if cmd2 = 9 then send_ir_key 5 s
           else if cmd2 = 10 then send_ir_key 13 s
           else if cmd2 = 11 then send_ir_key 8 s
           else if cmd2 = 12 then send_ir_key 10 s
           else if cmd2 = 13 then send_ir_key 9 s
           else if cmd2 = 16 then send_ir_key 54 s
           else if cmd2 = 17 then send_ir_key 66 s
           else if cmd2 = 18 then send_ir_key 50 s
           else if cmd2 = 19 then send_event_key 28 s
           else if cmd2 = 20 then send_event_key 139 s
           else s))"

text \<open>
  \<open>LABEL_93\<close>. \<open>car_struct.tv\<close> is overwritten before the microseconds are subtracted, so only
  the seconds count; the product is a 32-bit \<open>long\<close>.
\<close>

definition key_debounced :: "int \<Rightarrow> bool" where
  "key_debounced old_sec \<longleftrightarrow> sint (word_of_int (0 + 1000000 * old_sec) :: u32) \<le> 29999"

definition work_69 :: "env \<Rightarrow> int \<Rightarrow> sys \<Rightarrow> sys" where
  "work_69 e cmd2 s =
     (let (tv, s) = do_gettimeofday e s;
          label_93 = (\<lambda>s.
            let old_sec = fst tv - tv_sec s;
                s = s\<lparr>tv_sec := fst tv, tv_usec := snd tv\<rparr>
            in if key_debounced old_sec then s
               else if cmd2 > 31 then send_ir_key (cmd2 - 32) s
               else wheel_key cmd2 s)
      in if cmd2 \<le> 0x1F then label_93 s
         else if cmd2 - 32 = 0x40 then video_src_on s
         else if cmd2 - 32 \<noteq> 0x41 then if cmd2 - 32 = 0x5E then car_avm s else label_93 s
         else video_src_off s)"

definition work_70 :: "int \<Rightarrow> sys \<Rightarrow> sys" where
  "work_70 cmd2 s =
     (if cmd2 \<le> 0x1F then
        if cmd2 = 1 then send_ir_key 0x12 s
        else if cmd2 = 2 then send_ir_key 0x1A s
        else s
      else if cmd2 - 32 = 0x32 \<or> cmd2 - 32 = 0x1A then send_ir_key (cmd2 - 32) s
      else s)"

definition car_work_body :: "env \<Rightarrow> int \<times> int \<Rightarrow> sys \<Rightarrow> sys" where
  "car_work_body e w s =
     (case w of (cmd1, cmd2) \<Rightarrow>
        if 29 \<le> cmd1 \<and> cmd1 \<le> 38 then work_29_38 cmd1 s
        else if cmd1 = 42 then work_42 cmd2 s
        else if cmd1 = 43 then work_43 e s
        else if cmd1 = 44 then vs_send2 0x8B [] s
        else if cmd1 = 45 then work_45 e s
        else if cmd1 = 67 then work_67 cmd2 s
        else if cmd1 = 68 then vs_send2 0xA3 [word_of_int cmd2] s
        else if cmd1 = 69 then work_69 e cmd2 s
        else if cmd1 = 70 then work_70 cmd2 s
        else if cmd1 = 72 then
          if boot_flags (car s) \<noteq> 0 then emit Kernel_restart (emit (Arm_send_multi 0xA124 []) s) else s
        else if cmd1 = 73 then emit Kernel_power_off s
        else if cmd1 = 74 then arm_parrot_boot cmd2 s
        else if cmd1 = 0xFFFF then car_add_work_delay 0xFFFF 0 2000 s
        else s)"

abbreviation (input) car_cmd_lock :: string where "car_cmd_lock \<equiv> ''car_cmd_lock''"

definition car_work :: "env \<Rightarrow> int \<times> int \<Rightarrow> sys \<Rightarrow> sys option" where
  "car_work e w s = do {
     s \<leftarrow> wait_ready e (emit (Lock car_cmd_lock) s);
     Some (emit (Unlock car_cmd_lock) (car_work_body e w s)) }"

section \<open>Locks and configuration\<close>

text \<open>
  \<open>runs s s'\<close>: between the two states the trace only grew, no mutex was taken or released, and
  the configuration was left alone.
\<close>

definition runs :: "sys \<Rightarrow> sys \<Rightarrow> bool" where
  "runs s s' \<longleftrightarrow> (\<exists>es. trace s' = es @ trace s \<and> \<not> list_ex lock_event es) \<and> cfg s' = cfg s"

lemma runs_refl [simp, intro]: "runs s s"
  by (simp add: runs_def)

lemma runs_trans [trans]: "runs a b \<Longrightarrow> runs b c \<Longrightarrow> runs a c"
  unfolding runs_def by (metis append.assoc list_ex_append)

named_theorems runs_intros \<open>operations that take no mutex\<close>

lemma runs_step [runs_intros]:
  "runs a b \<Longrightarrow> \<not> lock_event x \<Longrightarrow> runs a (emit x b)"
  "runs a b \<Longrightarrow> runs a (upd_car f b)" "runs a b \<Longrightarrow> runs a (upd_keys g b)"
  "runs a b \<Longrightarrow> runs a (b\<lparr>tv_sec := t, tv_usec := u\<rparr>)"
  by (auto simp: runs_def)

lemma runs_if [runs_intros]:
  "(c \<Longrightarrow> runs a x) \<Longrightarrow> (\<not> c \<Longrightarrow> runs a y) \<Longrightarrow> runs a (if c then x else y)"
  by simp

lemma runs_keys [runs_intros]:
  assumes "runs a b"
  shows "runs a (key_beep b)" "runs a (input_press k b)" "runs a (send_event_key k b)"
    "runs a (video_src_on b)" "runs a (video_src_off b)"
  using assms
  by (auto simp: key_beep_def input_press_def send_event_key_def video_src_on_def
      video_src_off_def Let_def runs_step)

lemma runs_flow [runs_intros]: "runs a b \<Longrightarrow> runs a (ir_backlight_flow k b)"
  unfolding ir_backlight_flow_def Let_def
  by (intro runs_intros) (assumption | simp only: lock_event.simps not_False_eq_True)+

lemma runs_kdisable [runs_intros]: "runs a b \<Longrightarrow> runs a (ir_kdisable k b)"
  unfolding ir_kdisable_def by (intro runs_intros) assumption+

lemma runs_ir [runs_intros]: "runs a b \<Longrightarrow> runs a (send_ir_key k b)"
  unfolding send_ir_key_def Let_def
  by (intro runs_intros) (assumption | simp only: lock_event.simps not_False_eq_True)+

lemma runs_small [runs_intros]:
  assumes "runs a b"
  shows "runs a (car_add_work p q f b)" "runs a (power_soft_off b)"
    "runs a (car_avm b)" "runs a (work_backlight b)"
    "runs a (car_add_work_delay p q d b)" "runs a (msleep e n b)"
  using assms
  by (auto simp: car_add_work_def power_soft_off_def car_avm_def work_backlight_def
      car_add_work_delay_def msleep_def Let_def runs_step runs_keys)

lemma runs_wait [runs_intros]: "runs a b \<Longrightarrow> runs a (wait_rpt e d n b)"
  by (induction n arbitrary: b) (auto simp: Let_def intro: runs_intros)

lemma runs_udelay [runs_intros]: "runs a b \<Longrightarrow> runs a ((udelay 1000 ^^ n) b)"
  by (induction n) (simp_all add: udelay_def runs_step)

lemma runs_parrot [runs_intros]: "runs a b \<Longrightarrow> runs a (arm_parrot_boot m b)"
  unfolding arm_parrot_boot_def Let_def gpio_direction_output_def udelay_def
  by (intro runs_intros runs_udelay [unfolded udelay_def])
     (assumption | simp only: lock_event.simps not_False_eq_True)+

lemma runs_works [runs_intros]:
  "runs a b \<Longrightarrow> runs a (work_29_38 c b)" "runs a b \<Longrightarrow> runs a (work_42 d b)"
  "runs a b \<Longrightarrow> runs a (work_43 e b)" "runs a b \<Longrightarrow> runs a (work_45 e b)"
  "runs a b \<Longrightarrow> runs a (work_67 d b)" "runs a b \<Longrightarrow> runs a (work_70 d b)"
  "runs a b \<Longrightarrow> runs a (wheel_key d b)" "runs a b \<Longrightarrow> runs a (work_69 e d b)"
  unfolding work_29_38_def work_42_def work_43_def work_45_def work_67_def work_70_def
      wheel_key_def work_69_def do_gettimeofday_def Let_def prod.case
  by (intro runs_intros; (assumption | simp only: lock_event.simps not_False_eq_True))+

lemma runs_body: "runs s (car_work_body e w s)"
  unfolding car_work_body_def
  by (cases w, simp only: prod.case, intro runs_intros)
     (rule runs_refl | simp only: lock_event.simps not_False_eq_True)+

lemma wait_ready_runs:
  assumes "wait_ready e s = Some s'"
  shows "runs s s' \<and> car_ready (car s') \<noteq> 0"
proof (rule wait_ready.raw_induct
    [where P = "\<lambda>e s s'. runs s s' \<and> car_ready (car s') \<noteq> 0", OF _ assms])
  fix f e s s'
  assume IH: "\<And>e s s'. f e s = Some s' \<Longrightarrow> runs s s' \<and> car_ready (car s') \<noteq> 0"
    and eq: "(if car_ready (car s) \<noteq> 0 then Some s else f e (msleep e 10 s)) = Some s'"
  show "runs s s' \<and> car_ready (car s') \<noteq> 0"
    using eq IH runs_trans [of s "msleep e 10 s" s'] by (auto split: if_splits intro: runs_small)
qed

lemma runs_held: "runs s s' \<Longrightarrow> held l (trace s') = held l (trace s)"
  unfolding runs_def using held_quiet by metis

definition work_keeps :: "sys \<Rightarrow> sys \<Rightarrow> bool" where
  "work_keeps s s' \<longleftrightarrow> cfg s' = cfg s \<and> (\<forall>l. held l (trace s') = held l (trace s))"

lemma car_work_keeps:
  assumes "car_work e w s = Some s'"
  shows "work_keeps s s'"
proof -
  from assms obtain t where t: "wait_ready e (emit (Lock car_cmd_lock) s) = Some t"
    and s': "s' = emit (Unlock car_cmd_lock) (car_work_body e w t)"
    by (auto simp: car_work_def bind_eq_Some)
  have r: "runs (emit (Lock car_cmd_lock) s) (car_work_body e w t)"
    using wait_ready_runs [OF t] runs_body runs_trans by blast
  from runs_held [OF r] r show ?thesis
    by (auto simp: work_keeps_def s' held_def runs_def)
qed

interpretation cq: work_queue "car_work e" work_keeps for e
  by unfold_locales (auto simp: work_keeps_def dest: car_work_keeps [unfolded work_keeps_def])

text \<open>C32. However many work items run, and whatever they are, the configuration is as before and
  every mutex has been released as often as it was taken.\<close>

theorem car_queue_balanced:
  assumes "run_queue (car_work e) ws s = Some s'"
  shows "cfg s' = cfg s \<and> held l (trace s') = held l (trace s)"
  using cq.run_keeps [OF assms] by (simp add: work_keeps_def)

theorem car_queue_balanced_witness:
  "\<exists>s'. run_queue (car_work dead_mcu) [(29, 0), (42, 1), (43, 0), (69, 7)] sys_0 = Some s' \<and>
     cfg s' = cfg sys_0 \<and> held ''car_cmd_lock'' (trace s') = 0"
proof -
  have ready: "wait_ready e s = Some s" if "car_ready (car s) \<noteq> 0" for e s
    using that by (simp add: wait_ready.simps)
  have kept: "car_ready (car (car_work_body dead_mcu w s)) = car_ready (car s)"
    if "w \<in> set [(29, 0), (42, 1), (43, 0)]" for w s
  proof -
    have sleep: "car_ready (car (wait_rpt dead_mcu d n u)) = car_ready (car u)" for d n u
      by (induction n arbitrary: u) (simp_all add: Let_def msleep_def dead_mcu_def with_pins_def)
    show ?thesis
      using that by (auto simp: car_work_body_def work_29_38_def work_42_def work_43_def
          power_soft_off_def sleep Let_def)
  qed
  have 0: "car_ready (car sys_0) \<noteq> 0" by (simp add: sys_0_def car_0_def)
  have "\<exists>s'. run_queue (car_work dead_mcu) [(29, 0), (42, 1), (43, 0), (69, 7)] sys_0 = Some s'"
    using 0 by (simp add: car_work_def ready kept)
  then show ?thesis
    using car_queue_balanced [of dead_mcu _ sys_0 _ "''car_cmd_lock''"] by (fastforce simp: held_def)
qed

section \<open>Power references\<close>

definition sound_events :: "event list \<Rightarrow> event list" where
  "sound_events h = filter (\<lambda>x. x = Audio_active \<or> x = Audio_deactive) h"

abbreviation (input) refs :: "sys \<Rightarrow> nat" where
  "refs s \<equiv> unat (power_refcnt (car s))"

lemma ref_up_step:
  assumes "refs s < 255"
  shows "refs (work_29_38 29 s) = refs s + 1"
    "sound_events (trace (work_29_38 29 s)) = Audio_active # sound_events (trace s)"
proof -
  have u: "unat (power_refcnt (car s) + 1) = refs s + 1"
    using assms by (simp add: unat_word_ariths)
  then have "power_refcnt (car s) + 1 \<noteq> 0" by (metis Suc_eq_plus1 nat.distinct(1) unat_0)
  then show "refs (work_29_38 29 s) = refs s + 1"
    "sound_events (trace (work_29_38 29 s)) = Audio_active # sound_events (trace s)"
    using u by (simp_all add: work_29_38_def sound_events_def Let_def)
qed

lemma ref_down_step:
  assumes "0 < refs s"
  shows "refs (work_29_38 30 s) = refs s - 1"
    "sound_events (trace (work_29_38 30 s)) =
       (if refs s = 1 then [Audio_deactive] else []) @ sound_events (trace s)"
proof -
  have nz: "power_refcnt (car s) \<noteq> 0" using assms by auto
  then have u: "unat (power_refcnt (car s) - 1) = refs s - 1"
    by (simp add: unat_minus_one)
  have z: "power_refcnt (car s) = 1 \<longleftrightarrow> refs s = Suc 0"
    by (simp add: word_unat_eq_iff)
  show "refs (work_29_38 30 s) = refs s - 1"
    using nz u by (simp add: work_29_38_def Let_def)
  show "sound_events (trace (work_29_38 30 s)) =
      (if refs s = 1 then [Audio_deactive] else []) @ sound_events (trace s)"
    using nz by (simp add: work_29_38_def sound_events_def Let_def z)
qed

lemma ref_up:
  "refs s + n < 256 \<Longrightarrow>
     refs ((work_29_38 29 ^^ n) s) = refs s + n \<and>
     sound_events (trace ((work_29_38 29 ^^ n) s)) = replicate n Audio_active @ sound_events (trace s)"
  by (induction n) (simp_all add: ref_up_step)

lemma ref_down:
  "n \<le> refs s \<Longrightarrow>
     refs ((work_29_38 30 ^^ n) s) = refs s - n \<and>
     sound_events (trace ((work_29_38 30 ^^ n) s)) =
       (if n \<noteq> 0 \<and> n = refs s then [Audio_deactive] else []) @ sound_events (trace s)"
proof (induction n)
  case (Suc n)
  then have IH: "refs ((work_29_38 30 ^^ n) s) = refs s - n"
    "sound_events (trace ((work_29_38 30 ^^ n) s)) = sound_events (trace s)" by auto
  with Suc.prems ref_down_step [of "(work_29_38 30 ^^ n) s"] show ?case by auto
qed simp

text \<open>C39. Power references count: from zero, \<open>n\<close> works 29 (at most 255) followed by \<open>n\<close> works 30
  leave the counter at zero, with audio switched on \<open>n\<close> times and switched off exactly once,
  at the end.\<close>

theorem power_references_balance:
  assumes "power_refcnt (car s) = 0" "0 < n" "n < 256"
  shows "let s' = (work_29_38 30 ^^ n) ((work_29_38 29 ^^ n) s)
    in power_refcnt (car s') = 0 \<and>
       sound_events (trace s') = Audio_deactive # replicate n Audio_active @ sound_events (trace s)"
  using ref_up [of s n] ref_down [of n "(work_29_38 29 ^^ n) s"] assms
  by (simp add: Let_def unat_eq_zero)

theorem power_references_balance_witness:
  "let s' = (work_29_38 30 ^^ 3) ((work_29_38 29 ^^ 3) sys_0)
   in power_refcnt (car s') = 0 \<and> sound_events (trace s') = Audio_deactive # replicate 3 Audio_active"
  using power_references_balance [of sys_0 3] by (simp add: sys_0_def car_0_def sound_events_def Let_def)

section \<open>Waiting for Android to go down\<close>

definition sleeps :: "event list \<Rightarrow> nat" where
  "sleeps h = length (filter (\<lambda>x. case x of Msleep _ \<Rightarrow> True | _ \<Rightarrow> False) h)"

definition slept :: "nat \<Rightarrow> sys \<Rightarrow> sys \<Rightarrow> bool" where
  "slept k s s' \<longleftrightarrow> sleeps (trace s') \<le> sleeps (trace s) + k"

named_theorems slept_intros \<open>how often an operation sleeps\<close>

lemma slept_step [slept_intros]:
  "slept k a b \<Longrightarrow> \<forall>d. x \<noteq> Msleep d \<Longrightarrow> slept k a (emit x b)"
  "slept k a b \<Longrightarrow> slept k a (upd_car f b)"
  "slept k a x' \<Longrightarrow> slept k a y \<Longrightarrow> slept k a (if c then x' else y)"
  by (cases x) (auto simp: slept_def sleeps_def)

lemma slept_let:
  "slept k a v \<Longrightarrow> (\<And>b. slept k a b \<Longrightarrow> slept m a (f b)) \<Longrightarrow> slept m a (Let v f)"
  by (simp add: Let_def)

lemma slept_mono: "slept k a b \<Longrightarrow> k \<le> m \<Longrightarrow> slept m a b"
  by (simp add: slept_def)

lemma slept_wait: "slept k a b \<Longrightarrow> slept (k + n) a (wait_rpt e d n b)"
proof (induction n arbitrary: k b)
  case (Suc n)
  have "slept (Suc k) a (msleep e d b)"
    using Suc.prems by (simp add: msleep_def slept_def sleeps_def Let_def)
  with Suc.IH [of "Suc k" "msleep e d b"] show ?case
    by (auto simp: Let_def intro: slept_mono)
qed simp

lemma slept_soft: "slept k a b \<Longrightarrow> slept k a (power_soft_off b)"
  unfolding power_soft_off_def Let_def by (intro slept_intros) simp_all

text \<open>Powering off never hangs: whatever the other threads do, the works 43 and 45 sleep at most
  120 times in all.\<close>

theorem power_off_bounded:
  "sleeps (trace (work_43 e s)) \<le> sleeps (trace s) + 120 \<and>
   sleeps (trace (work_45 e s)) \<le> sleeps (trace s) + 120"
proof -
  have s: "slept 0 s s" by (simp add: slept_def)
  have head: "slept 40 s (if c then wait_rpt e d 40 t else u)"
    if "slept 0 s t" "slept 0 s u" for c d t u
    using slept_wait [OF that(1), of 40] slept_mono [OF that(2)] by simp
  have tail: "slept 120 s (wait_rpt e 50 80 (power_soft_off t))" if "slept 40 s t" for t
    using slept_wait [OF slept_soft [OF that], of 80] by simp
  let ?a = "upd_car (\<lambda>c. c\<lparr>power_refcnt := 0\<rparr>) s"
  let ?b = "if cam_signal (car ?a) \<noteq> 0 then call_capture 0x37 0 0 True ?a else ?a"
  let ?c = "if call_active (car ?b) \<noteq> 0
    then wait_rpt e 50 40 (vs_send2 0xF0 [] (upd_car (\<lambda>c. c\<lparr>rpt_power := 1\<rparr>) ?b)) else ?b"
  have "slept 0 s ?b" by (intro slept_intros s) simp_all
  then have "slept 40 s ?c" by (intro head slept_step(1) slept_step(2); simp)
  then have 1: "slept 120 s (work_43 e s)"
    unfolding work_43_def Let_def by (intro slept_step(1) tail; simp)
  let ?x = "vs_send2 0x8A [] s"
  let ?y = "if cam_state (car ?x) \<noteq> 0 then call_capture 0x3B 0 0 True ?x
    else if cam_signal (car ?x) \<noteq> 0 then call_capture 0x37 0 0 True ?x else ?x"
  let ?z = "if power_refcnt (car ?y) \<noteq> 0
    then wait_rpt e 40 40 (vs_send2 0xF0 []
      (upd_car (\<lambda>c. c\<lparr>power_refcnt := 0, rpt_power := 1\<rparr>) ?y)) else ?y"
  have "slept 0 s ?y" by (intro slept_intros s) simp_all
  then have "slept 40 s ?z" by (intro head slept_step(1) slept_step(2); simp)
  then have "slept 120 s (work_45 e s)"
    unfolding work_45_def Let_def by (rule tail)
  with 1 show ?thesis by (simp add: slept_def)
qed

section \<open>Key presses from the steering wheel\<close>

text \<open>Wheel keys are debounced by whole seconds only, and by a 32-bit product: a key is taken
  when the clock shows a later second than at the last key, up to 2147 seconds later; from
  2148 to 4294 seconds later it is dropped.\<close>

theorem wheel_debounce:
  assumes "0 \<le> old_sec" "old_sec \<le> 4294"
  shows "key_debounced old_sec \<longleftrightarrow> old_sec = 0 \<or> 2147 < old_sec"
proof (cases "old_sec \<le> 2147")
  case True
  then have "sint (word_of_int (1000000 * old_sec) :: u32) = 1000000 * old_sec"
    using assms by (simp add: signed_of_int signed_take_bit_int_eq_self del: of_int_mult)
  with True assms show ?thesis by (auto simp: key_debounced_def simp del: of_int_mult)
next
  case False
  have "signed_take_bit 31 (1000000 * old_sec) = 1000000 * old_sec - 4294967296"
  proof -
    have "signed_take_bit 31 (1000000 * old_sec) =
        signed_take_bit 31 (1000000 * old_sec - 4294967296)"
      by (rule signed_take_bit_eq_iff_take_bit_eq [THEN iffD2])
         (simp add: take_bit_eq_mod mod_diff_eq [symmetric, of _ _ 4294967296] mod_diff_right_eq)
    also have "\<dots> = 1000000 * old_sec - 4294967296"
      using False assms by (simp add: signed_take_bit_int_eq_self)
    finally show ?thesis .
  qed
  then have "sint (word_of_int (1000000 * old_sec) :: u32) = 1000000 * old_sec - 4294967296"
    by (simp add: signed_of_int del: of_int_mult)
  with False assms show ?thesis by (auto simp: key_debounced_def simp del: of_int_mult)
qed

theorem wheel_debounce_witness: "key_debounced 2148 \<and> \<not> key_debounced 2147"
  using wheel_debounce [of 2148] wheel_debounce [of 2147] by simp

lemma key_code_sent:
  assumes "isKeyDisable (car s) = 0" "input_ready (car s) \<noteq> 0" "backlight_status (car s) \<noteq> 0"
    and "backlight_sw (keys s) = 0" "key_mode (car s) \<noteq> 1"
    and "k \<notin> {54, 55, 56, 64, 65, 66, 79, 85}"
  shows "car (send_ir_key k s) = car s" "backlight_sw (keys (send_ir_key k s)) = 0"
    "Vs_send 2 0x8E [word_of_int k] \<in> set (trace (send_ir_key k s))"
  using assms
  by (auto simp: send_ir_key_def ir_kdisable_def ir_backlight_flow_def key_beep_def Let_def
      split: if_splits)

lemma trace_grows: "x \<in> set (trace s) \<Longrightarrow> x \<in> set (trace (send_ir_key k s))"
proof -
  assume x: "x \<in> set (trace s)"
  from runs_ir [OF runs_refl, of s k] obtain es where "trace (send_ir_key k s) = es @ trace s"
    by (auto simp: runs_def)
  with x show ?thesis by simp
qed

definition wheel_key_codes :: "(int \<times> int) list" where
  "wheel_key_codes = [(2, 26), (3, 58), (4, 57), (5, 68), (6, 3), (7, 1), (8, 69), (9, 5),
     (10, 13), (11, 8), (12, 10), (13, 9), (18, 50)]"

text \<open>Every mapped wheel key reports its own code and, because \<open>break\<close> leaves only the inner
  \<open>switch\<close>, the code of key 1 as well.\<close>

theorem wheel_key_reports_two:
  assumes "isKeyDisable (car s) = 0" "input_ready (car s) \<noteq> 0" "backlight_status (car s) \<noteq> 0"
    and "backlight_sw (keys s) = 0" "key_mode (car s) \<noteq> 1"
    and "(cmd2, k) \<in> set wheel_key_codes"
  shows "Vs_send 2 0x8E [word_of_int k] \<in> set (trace (wheel_key cmd2 s)) \<and>
    Vs_send 2 0x8E [1] \<in> set (trace (wheel_key cmd2 s))"
proof -
  from assms(6) have w: "wheel_key cmd2 s = send_ir_key 1 (send_ir_key k s)"
    and k: "k \<notin> {54, 55, 56, 64, 65, 66, 79, 85}"
    by (auto simp: wheel_key_codes_def wheel_key_def)
  note 1 = key_code_sent [OF assms(1-5) k]
  have "Vs_send 2 0x8E [word_of_int 1] \<in> set (trace (send_ir_key 1 (send_ir_key k s)))"
    using assms by (intro key_code_sent(3)) (simp_all add: 1)
  then have "Vs_send 2 0x8E [1] \<in> set (trace (wheel_key cmd2 s))" by (simp add: w)
  moreover have "Vs_send 2 0x8E [word_of_int k] \<in> set (trace (wheel_key cmd2 s))"
    unfolding w using 1(3) by (rule trace_grows)
  ultimately show ?thesis by simp
qed

theorem wheel_key_reports_two_witness:
  "Vs_send 2 0x8E [26] \<in> set (trace (wheel_key 2 awake_sys)) \<and>
   Vs_send 2 0x8E [1] \<in> set (trace (wheel_key 2 awake_sys))"
  using wheel_key_reports_two [of awake_sys 2 26]
  by (simp add: wheel_key_codes_def isKeyDisable_def sys_0_def car_0_def upd_car_def)

end
