(* ===== verification/Font.thy ===== *)
theory Font
  imports Mtc_Prelude
begin

text \<open>
  The 8x16 bitmap font of the debug screen (\<open>font_8x16\<close> in car.c): sixteen bytes a glyph, one
  a row, the leftmost pixel in the top bit. The sixteen bytes of a glyph are written as one
  number here, the first row in its most significant byte.
\<close>

text \<open>Glyphs 0 to 89, 90 to 179 and 180 to 255.\<close>

definition font_glyphs_a :: "nat list" where
  "font_glyphs_a = [
     0x00000000000000000000000000000000, 0x00007E81A58181BD9981817E00000000,
     0x00007EFFDBFFFFC3E7FFFF7E00000000, 0x000000006CFEFEFEFE7C381000000000,
     0x0000000010387CFE7C38100000000000, 0x000000183C3CE7E7E718183C00000000,
     0x000000183C7EFFFF7E18183C00000000, 0x000000000000183C3C18000000000000,
     0xFFFFFFFFFFFFE7C3C3E7FFFFFFFFFFFF, 0x00000000003C664242663C0000000000,
     0xFFFFFFFFFFC399BDBD99C3FFFFFFFFFF, 0x00001E0E1A3278CCCCCCCC7800000000,
     0x00003C666666663C187E181800000000, 0x00003F333F3030303070F0E000000000,
     0x00007F637F6363636367E7E6C0000000, 0x0000001818DB3CE73CDB181800000000,
     0x0080C0E0F0F8FEF8F0E0C08000000000, 0x0002060E1E3EFE3E1E0E060200000000,
     0x0000183C7E1818187E3C180000000000, 0x00006666666666666600666600000000,
     0x00007FDBDBDB7B1B1B1B1B1B00000000, 0x007CC660386CC6C66C380CC67C000000,
     0x0000000000000000FEFEFEFE00000000, 0x0000183C7E1818187E3C187E00000000,
     0x0000183C7E1818181818181800000000, 0x0000181818181818187E3C1800000000,
     0x0000000000180CFE0C18000000000000, 0x00000000003060FE6030000000000000,
     0x000000000000C0C0C0FE000000000000, 0x0000000000286CFE6C28000000000000,
     0x000000001038387C7CFEFE0000000000, 0x00000000FEFE7C7C3838100000000000,
     0x00000000000000000000000000000000, 0x0000183C3C3C18181800181800000000,
     0x00666666240000000000000000000000, 0x0000006C6CFE6C6C6CFE6C6C00000000,
     0x18187CC6C2C07C060686C67C18180000, 0x00000000C2C60C183060C68600000000,
     0x0000386C6C3876DCCCCCCC7600000000, 0x00303030600000000000000000000000,
     0x00000C18303030303030180C00000000, 0x000030180C0C0C0C0C0C183000000000,
     0x0000000000663CFF3C66000000000000, 0x000000000018187E1818000000000000,
     0x00000000000000000018181830000000, 0x00000000000000FE0000000000000000,
     0x00000000000000000000181800000000, 0x0000000002060C183060C08000000000,
     0x0000386CC6C6D6D6C6C66C3800000000, 0x00001838781818181818187E00000000,
     0x00007CC6060C183060C0C6FE00000000, 0x00007CC606063C060606C67C00000000,
     0x00000C1C3C6CCCFE0C0C0C1E00000000, 0x0000FEC0C0C0FC060606C67C00000000,
     0x00003860C0C0FCC6C6C6C67C00000000, 0x0000FEC606060C183030303000000000,
     0x00007CC6C6C67CC6C6C6C67C00000000, 0x00007CC6C6C67E0606060C7800000000,
     0x00000000181800000018180000000000, 0x00000000181800000018183000000000,
     0x000000060C18306030180C0600000000, 0x00000000007E00007E00000000000000,
     0x0000006030180C060C18306000000000, 0x00007CC6C60C18181800181800000000,
     0x0000007CC6C6DEDEDEDCC07C00000000, 0x000010386CC6C6FEC6C6C6C600000000,
     0x0000FC6666667C66666666FC00000000, 0x00003C66C2C0C0C0C0C2663C00000000,
     0x0000F86C6666666666666CF800000000, 0x0000FE6662687868606266FE00000000,
     0x0000FE6662687868606060F000000000, 0x00003C66C2C0C0DEC6C6663A00000000,
     0x0000C6C6C6C6FEC6C6C6C6C600000000, 0x00003C18181818181818183C00000000,
     0x00001E0C0C0C0C0CCCCCCC7800000000, 0x0000E666666C78786C6666E600000000,
     0x0000F06060606060606266FE00000000, 0x0000C6EEFEFED6C6C6C6C6C600000000,
     0x0000C6E6F6FEDECEC6C6C6C600000000, 0x00007CC6C6C6C6C6C6C6C67C00000000,
     0x0000FC6666667C60606060F000000000, 0x00007CC6C6C6C6C6C6D6DE7C0C0E0000,
     0x0000FC6666667C6C666666E600000000, 0x00007CC6C660380C06C6C67C00000000,
     0x00007E7E5A1818181818183C00000000, 0x0000C6C6C6C6C6C6C6C6C67C00000000,
     0x0000C6C6C6C6C6C6C66C381000000000, 0x0000C6C6C6C6D6D6D6FEEE6C00000000,
     0x0000C6C66C7C38387C6CC6C600000000, 0x0000666666663C181818183C00000000]"

definition font_glyphs_b :: "nat list" where
  "font_glyphs_b = [
     0x0000FEC6860C183060C2C6FE00000000, 0x00003C30303030303030303C00000000,
     0x00000080C0E070381C0E060200000000, 0x00003C0C0C0C0C0C0C0C0C3C00000000,
     0x10386CC6000000000000000000000000, 0x00000000000000000000000000FF0000,
     0x0030180C000000000000000000000000, 0x0000000000780C7CCCCCCC7600000000,
     0x0000E06060786C666666667C00000000, 0x00000000007CC6C0C0C0C67C00000000,
     0x00001C0C0C3C6CCCCCCCCC7600000000, 0x00000000007CC6FEC0C0C67C00000000,
     0x00001C36323078303030307800000000, 0x000000000076CCCCCCCCCC7C0CCC7800,
     0x0000E060606C7666666666E600000000, 0x00001818003818181818183C00000000,
     0x00000606000E06060606060666663C00, 0x0000E06060666C78786C66E600000000,
     0x00003818181818181818183C00000000, 0x0000000000ECFED6D6D6D6C600000000,
     0x0000000000DC66666666666600000000, 0x00000000007CC6C6C6C6C67C00000000,
     0x0000000000DC66666666667C6060F000, 0x000000000076CCCCCCCCCC7C0C0C1E00,
     0x0000000000DC7666606060F000000000, 0x00000000007CC660380CC67C00000000,
     0x0000103030FC30303030361C00000000, 0x0000000000CCCCCCCCCCCC7600000000,
     0x0000000000C6C6C6C6C66C3800000000, 0x0000000000C6C6D6D6D6FE6C00000000,
     0x0000000000C66C3838386CC600000000, 0x0000000000C6C6C6C6C6C67E060CF800,
     0x0000000000FECC183060C6FE00000000, 0x00000E18181870181818180E00000000,
     0x00001818181818181818181800000000, 0x0000701818180E181818187000000000,
     0x0076DC00000000000000000000000000, 0x0000000010386CC6C6C6FE0000000000,
     0x00003C66C2C0C0C0C0C2663C18700000, 0x0000CC0000CCCCCCCCCCCC7600000000,
     0x000C1830007CC6FEC0C0C67C00000000, 0x0010386C00780C7CCCCCCC7600000000,
     0x0000CC0000780C7CCCCCCC7600000000, 0x0060301800780C7CCCCCCC7600000000,
     0x00386C3800780C7CCCCCCC7600000000, 0x00000000007CC6C0C0C0C67C18700000,
     0x0010386C007CC6FEC0C0C67C00000000, 0x0000C600007CC6FEC0C0C67C00000000,
     0x00603018007CC6FEC0C0C67C00000000, 0x00006600003818181818183C00000000,
     0x00183C66003818181818183C00000000, 0x00603018003818181818183C00000000,
     0x00C60010386CC6C6FEC6C6C600000000, 0x386C3810386CC6FEC6C6C6C600000000,
     0x0C1800FE66626878686266FE00000000, 0x0000000000EC36367ED8D86E00000000,
     0x00003E6CCCCCFECCCCCCCCCE00000000, 0x0010386C007CC6C6C6C6C67C00000000,
     0x0000C600007CC6C6C6C6C67C00000000, 0x00603018007CC6C6C6C6C67C00000000,
     0x003078CC00CCCCCCCCCCCC7600000000, 0x0060301800CCCCCCCCCCCC7600000000,
     0x0000C60000C6C6C6C6C6C67E060C7800, 0x00C6007CC6C6C6C6C6C6C67C00000000,
     0x00C600C6C6C6C6C6C6C6C67C00000000, 0x0018187CC6C0C0C0C67C181800000000,
     0x00386C6460F060606060E6FC00000000, 0x000066663C187E187E18181800000000,
     0x00F8CCCCF8C4CCDECCCCCCC600000000, 0x000E1B1818187E181818D87000000000,
     0x0018306000780C7CCCCCCC7600000000, 0x000C1830003818181818183C00000000,
     0x00183060007CC6C6C6C6C67C00000000, 0x0018306000CCCCCCCCCCCC7600000000,
     0x000076DC00DC66666666666600000000, 0x76DC00C6E6F6FEDECEC6C6C600000000,
     0x00003C6C6C3E007E0000000000000000, 0x0000386C6C38007C0000000000000000,
     0x0000303000303060C0C6C67C00000000, 0x000000000000FEC0C0C0C00000000000,
     0x000000000000FE060606060000000000, 0x0060E062666C183060DC860C183E0000,
     0x0060E062666C183066CE9A3F06060000, 0x00001818001818183C3C3C1800000000,
     0x0000000000366CD86C36000000000000, 0x0000000000D86C366CD8000000000000,
     0x11441144114411441144114411441144, 0x55AA55AA55AA55AA55AA55AA55AA55AA,
     0xDD77DD77DD77DD77DD77DD77DD77DD77, 0x18181818181818181818181818181818]"

definition font_glyphs_c :: "nat list" where
  "font_glyphs_c = [
     0x18181818181818F81818181818181818, 0x1818181818F818F81818181818181818,
     0x36363636363636F63636363636363636, 0x00000000000000FE3636363636363636,
     0x0000000000F818F81818181818181818, 0x3636363636F606F63636363636363636,
     0x36363636363636363636363636363636, 0x0000000000FE06F63636363636363636,
     0x3636363636F606FE0000000000000000, 0x36363636363636FE0000000000000000,
     0x1818181818F818F80000000000000000, 0x00000000000000F81818181818181818,
     0x181818181818181F0000000000000000, 0x18181818181818FF0000000000000000,
     0x00000000000000FF1818181818181818, 0x181818181818181F1818181818181818,
     0x00000000000000FF0000000000000000, 0x18181818181818FF1818181818181818,
     0x18181818181F181F1818181818181818, 0x36363636363636373636363636363636,
     0x363636363637303F0000000000000000, 0x00000000003F30373636363636363636,
     0x3636363636F700FF0000000000000000, 0x0000000000FF00F73636363636363636,
     0x36363636363730373636363636363636, 0x0000000000FF00FF0000000000000000,
     0x3636363636F700F73636363636363636, 0x1818181818FF00FF0000000000000000,
     0x36363636363636FF0000000000000000, 0x0000000000FF00FF1818181818181818,
     0x00000000000000FF3636363636363636, 0x363636363636363F0000000000000000,
     0x18181818181F181F0000000000000000, 0x00000000001F181F1818181818181818,
     0x000000000000003F3636363636363636, 0x36363636363636FF3636363636363636,
     0x1818181818FF18FF1818181818181818, 0x18181818181818F80000000000000000,
     0x000000000000001F1818181818181818, 0xFFFFFFFFFFFFFFFFFFFFFFFFFFFFFFFF,
     0x00000000000000FFFFFFFFFFFFFFFFFF, 0xF0F0F0F0F0F0F0F0F0F0F0F0F0F0F0F0,
     0x0F0F0F0F0F0F0F0F0F0F0F0F0F0F0F0F, 0xFFFFFFFFFFFFFF000000000000000000,
     0x000000000076DCD8D8D8DC7600000000, 0x000078CCCCCCD8CCC6C6C6CC00000000,
     0x0000FEC6C6C0C0C0C0C0C0C000000000, 0x0000000000FE6C6C6C6C6C6C00000000,
     0x0000FEC6603018183060C6FE00000000, 0x00000000007ED8D8D8D8D87000000000,
     0x00000000006666666666667C6060C000, 0x0000000076DC18181818181800000000,
     0x00007E183C666666663C187E00000000, 0x0000386CC6C6FEC6C6C66C3800000000,
     0x0000386CC6C6C66C6C6C6CEE00000000, 0x00001E30180C3E666666663C00000000,
     0x00000000007EDBDBDB7E000000000000, 0x00000003067EDBDBF37E60C000000000,
     0x00001C3060607C606060301C00000000, 0x0000007CC6C6C6C6C6C6C6C600000000,
     0x00000000FE0000FE0000FE0000000000, 0x0000000018187E181800007E00000000,
     0x00000030180C060C1830007E00000000, 0x0000000C18306030180C007E00000000,
     0x00000E1B1B1818181818181818181818, 0x181818181818181818D8D8D870000000,
     0x000000000018007E0018000000000000, 0x000000000076DC0076DC000000000000,
     0x00386C6C380000000000000000000000, 0x00000000000000181800000000000000,
     0x00000000000000180000000000000000, 0x000F0C0C0C0C0CEC6C6C3C1C00000000,
     0x006C3636363636000000000000000000, 0x003C660C18327E000000000000000000,
     0x000000007E7E7E7E7E7E7E0000000000, 0x00000000000000000000000000000000]"

definition font_glyphs :: "nat list" where
  "font_glyphs = font_glyphs_a @ font_glyphs_b @ font_glyphs_c"

lemmas font_glyphs_defs = font_glyphs_def font_glyphs_a_def font_glyphs_b_def font_glyphs_c_def

definition font_8x16 :: "nat \<Rightarrow> u8" where
  "font_8x16 i = of_nat (font_glyphs ! (i div 16) div 256 ^ (15 - i mod 16))"

lemma length_font: "length font_glyphs = 256"
  by (simp add: font_glyphs_defs)

lemma font_top_of_A: "font_8x16 (16 * 65 + 3) = 0x38"
  by (simp add: font_8x16_def font_glyphs_defs)

end
