(* ===== verification/Screen.thy ===== *)
theory Screen
  imports Font Mtc_State
begin

text \<open>
  The debug screen of the board test (car.c): filling the framebuffer with a colour or with
  the test pattern, and drawing characters and strings. The framebuffer is a map from word
  offsets to ARGB words; offsets are integers, as pointers may be moved before its start.
\<close>

type_synonym fb = "int \<Rightarrow> u32"

definition fb_width :: "mtc_car_status \<Rightarrow> nat" where
  "fb_width c = (if is1024screen c \<noteq> 0 then 1024 else 800)"

section \<open>Filling the screen\<close>

definition test_pattern :: "int \<Rightarrow> int \<Rightarrow> u32" where
  "test_pattern x y =
     (let grey = (word_of_int (x - 1) :: u32) AND 0xFF in
      if word_of_int (y - 16) > (0x1BF :: u32) \<or> word_of_int (x - 1) > (0x2FF :: u32) then 0
      else if y \<le> 279 then 0xFF404040
      else if y > 399 then
        if word_of_int (x - 1) > (255 :: u32) then
          if word_of_int (x - 1) > (511 :: u32) then 0xFF000000 OR push_bit 16 grey
          else 0xFF000000 OR push_bit 8 grey
        else 0xFF000000 OR grey
      else if y > 339 then
        let g = word_of_int (255 - (x - 1) div 3) :: u32
        in 0xFF000000 OR push_bit 16 g OR push_bit 8 g OR g
      else 0)"

fun paint_row :: "(int \<Rightarrow> u32) \<Rightarrow> int \<Rightarrow> nat \<Rightarrow> fb \<Rightarrow> fb" where
  "paint_row pix row 0 fb = fb"
| "paint_row pix row (Suc x) fb = (paint_row pix row x fb)(row + int x := pix (int x))"

fun paint :: "(int \<Rightarrow> int \<Rightarrow> u32) \<Rightarrow> nat \<Rightarrow> nat \<Rightarrow> fb \<Rightarrow> fb" where
  "paint pix w 0 fb = fb"
| "paint pix w (Suc y) fb =
     paint_row (\<lambda>x. pix x (int y)) (int y * int w) w (paint pix w y fb)"

definition mtc_clear_screen :: "u32 \<Rightarrow> mtc_car_status \<Rightarrow> fb \<Rightarrow> fb" where
  "mtc_clear_screen color c fb =
     (if color AND 0xFF000000 = 0 then paint test_pattern (fb_width c) 480 fb
      else paint (\<lambda>x y. color) (fb_width c) 480 fb)"

section \<open>Characters\<close>

fun put_row :: "nat \<Rightarrow> u8 \<Rightarrow> u32 \<Rightarrow> u32 \<Rightarrow> int \<Rightarrow> fb \<Rightarrow> fb" where
  "put_row 0 px fg bg dst fb = fb"
| "put_row (Suc n) px fg bg dst fb =
     put_row n (push_bit 1 px) fg bg (dst + 1) (fb(dst := (if px AND 0x80 \<noteq> 0 then fg else bg)))"

fun put_rows :: "nat \<Rightarrow> (nat \<Rightarrow> u8) \<Rightarrow> u32 \<Rightarrow> u32 \<Rightarrow> int \<Rightarrow> int \<Rightarrow> fb \<Rightarrow> fb" where
  "put_rows 0 g fg bg p stride fb = fb"
| "put_rows (Suc n) g fg bg p stride fb =
     put_row 8 (g n) fg bg (p + int n * stride) (put_rows n g fg bg p stride fb)"

definition mtc_debug_putc ::
    "mtc_car_status \<Rightarrow> nat \<Rightarrow> int \<Rightarrow> int \<Rightarrow> u32 \<Rightarrow> u32 \<Rightarrow> fb \<Rightarrow> fb" where
  "mtc_debug_putc c glyph x y fg bg fb =
     (let width = (if is1024screen c \<noteq> 0 then 1024 else 800);
          stride = (if is1024screen c \<noteq> 0 then 4096 else 3200)
      in put_rows 16 (\<lambda>row. font_8x16 (16 * glyph + row)) fg bg (8 * (x + width * 2 * y))
           (stride div 4) fb)"

fun put_chars :: "mtc_car_status \<Rightarrow> u8 list \<Rightarrow> nat \<Rightarrow> int \<Rightarrow> int \<Rightarrow> u32 \<Rightarrow> u32 \<Rightarrow> fb \<Rightarrow> fb" where
  "put_chars c s 0 x0 y fg bg fb = fb"
| "put_chars c s (Suc i) x0 y fg bg fb =
     mtc_debug_putc c (if length s > i then unat (s ! i) else 32) (x0 + int i) y fg bg
       (put_chars c s i x0 y fg bg fb)"

definition mtc_debug_put_string ::
    "mtc_car_status \<Rightarrow> u8 list \<Rightarrow> nat \<Rightarrow> int \<Rightarrow> int \<Rightarrow> u32 \<Rightarrow> u32 \<Rightarrow> fb \<Rightarrow> fb" where
  "mtc_debug_put_string c s len x0 y fg bg fb = put_chars c s len x0 y fg bg fb"

section \<open>What is drawn where\<close>

lemma paint_row_at:
  "paint_row pix row n fb i = (if row \<le> i \<and> i < row + int n then pix (i - row) else fb i)"
  by (induction n) auto

lemma paint_at:
  assumes "0 < w"
  shows "paint pix w n fb i =
    (if 0 \<le> i \<and> i < int n * int w then pix (i mod int w) (i div int w) else fb i)"
proof (induction n)
  case 0
  then show ?case by auto
next
  case (Suc n)
  show ?case
  proof (cases "int n * int w \<le> i \<and> i < int n * int w + int w")
    case True
    then have "i div int w = int n"
      using assms by (intro int_div_pos_eq [of _ _ _ "i - int n * int w"]) (auto simp: algebra_simps)
    then have "i mod int w = i - int n * int w"
      by (metis minus_div_mult_eq_mod)
    moreover have "0 \<le> i" using True by (meson order_trans zero_le_mult_iff of_nat_0_le_iff)
    moreover have "i < int (Suc n) * int w" using True by (simp add: algebra_simps)
    ultimately show ?thesis
      using True \<open>i div int w = int n\<close> by (simp add: paint_row_at)
  next
    case False
    then show ?thesis using Suc.IH by (auto simp: paint_row_at algebra_simps)
  qed
qed

lemma put_row_at:
  "n \<le> 8 \<Longrightarrow> put_row n (push_bit (8 - n) px) fg bg dst fb i =
     (if dst \<le> i \<and> i < dst + int n
      then (if bit px (n - 1 - nat (i - dst)) then fg else bg) else fb i)"
proof (induction n arbitrary: dst fb)
  case 0
  then show ?case by auto
next
  case (Suc n)
  have top: "push_bit (8 - Suc n) px AND 0x80 \<noteq> 0 \<longleftrightarrow> bit px n"
  proof -
    have "(0x80 :: u8) = 2 ^ 7" by simp
    then have "push_bit (8 - Suc n) px AND 0x80 \<noteq> 0 \<longleftrightarrow> bit (push_bit (8 - Suc n) px) 7"
      by (simp only: and_exp_eq_0_iff_not_bit) simp
    then show ?thesis using Suc.prems by (auto simp: bit_push_bit_iff)
  qed
  have "1 + (8 - Suc n) = 8 - n" using Suc.prems by simp
  then have shift: "push_bit 1 (push_bit (8 - Suc n) px) = push_bit (8 - n) px"
    by (simp only: push_bit_push_bit)
  have "put_row (Suc n) (push_bit (8 - Suc n) px) fg bg dst fb i =
      (if dst + 1 \<le> i \<and> i < dst + 1 + int n
       then (if bit px (n - 1 - nat (i - (dst + 1))) then fg else bg)
       else (fb(dst := if bit px n then fg else bg)) i)"
    using Suc.IH Suc.prems by (simp only: put_row.simps shift top)
  moreover have "n - 1 - nat (i - (dst + 1)) = Suc n - 1 - nat (i - dst)" if "dst + 1 \<le> i"
    using that by (simp add: nat_diff_distrib)
  ultimately show ?case by auto
qed

text \<open>The cell of a character: \<open>d\<close> words after the cell's first pixel.\<close>

lemma put_rows_at:
  assumes "8 \<le> w"
  shows "put_rows n g fg bg p w fb i =
    (let d = i - p in
     if 0 \<le> d \<and> d div w < int n \<and> d mod w < 8
     then (if bit (g (nat (d div w))) (7 - nat (d mod w)) then fg else bg) else fb i)"
proof (induction n)
  case 0
  have "0 \<le> (i - p) div w" if "p \<le> i"
    using that assms by (simp add: pos_imp_zdiv_nonneg_iff)
  then show ?case by (auto simp: Let_def)
next
  case (Suc n)
  let ?d = "i - p"
  have row: "put_rows (Suc n) g fg bg p w fb i =
      (if p + int n * w \<le> i \<and> i < p + int n * w + 8
       then (if bit (g n) (7 - nat (i - (p + int n * w))) then fg else bg)
       else put_rows n g fg bg p w fb i)"
    using put_row_at [of 8 "g n" fg bg "p + int n * w" "put_rows n g fg bg p w fb" i] by simp
  have hit: "p + int n * w \<le> i \<and> i < p + int n * w + 8 \<longleftrightarrow>
      0 \<le> ?d \<and> ?d div w = int n \<and> ?d mod w < 8"
  proof
    assume *: "p + int n * w \<le> i \<and> i < p + int n * w + 8"
    then have "?d div w = int n"
      using assms by (intro int_div_pos_eq [of _ _ _ "?d - int n * w"]) (auto simp: algebra_simps)
    moreover have "0 \<le> int n * w" using assms by simp
    ultimately show "0 \<le> ?d \<and> ?d div w = int n \<and> ?d mod w < 8"
      using * by (auto simp: minus_div_mult_eq_mod [symmetric])
  next
    assume *: "0 \<le> ?d \<and> ?d div w = int n \<and> ?d mod w < 8"
    then have "?d = int n * w + ?d mod w" by (metis div_mult_mod_eq)
    moreover have "0 \<le> ?d mod w" using assms by (intro pos_mod_sign) simp
    ultimately show "p + int n * w \<le> i \<and> i < p + int n * w + 8"
      using * by linarith
  qed
  have md: "?d mod w = i - (p + int n * w)" if "?d div w = int n"
    using that by (simp add: minus_div_mult_eq_mod [symmetric])
  show ?case
    unfolding row hit Suc.IH Let_def using md by auto
qed

text \<open>Clearing the screen writes exactly the visible words: every pixel of the 480 lines gets
  its colour, by its own row and column, and no word outside is touched.\<close>

theorem clear_screen_exact:
  "mtc_clear_screen color c fb i =
    (if 0 \<le> i \<and> i < 480 * int (fb_width c)
     then (if color AND 0xFF000000 = 0
           then test_pattern (i mod int (fb_width c)) (i div int (fb_width c)) else color)
     else fb i)"
proof -
  have "0 < fb_width c" by (simp add: fb_width_def)
  note paint_at [OF this, of _ 480 fb i]
  then show ?thesis by (simp add: mtc_clear_screen_def)
qed

lemma putc_at:
  "mtc_debug_putc c glyph x y fg bg fb i =
    (let w = int (fb_width c); d = i - (8 * x + 16 * y * w) in
     if 0 \<le> d \<and> d div w < 16 \<and> d mod w < 8
     then (if bit (font_8x16 (16 * glyph + nat (d div w))) (7 - nat (d mod w)) then fg else bg)
     else fb i)"
proof -
  have "8 \<le> int (fb_width c)" by (simp add: fb_width_def)
  note put_rows_at [OF this, of 16 "\<lambda>row. font_8x16 (16 * glyph + row)" fg bg
      "8 * x + 16 * y * int (fb_width c)" fb i]
  then show ?thesis
    by (cases "is1024screen c = 0")
       (simp_all add: mtc_debug_putc_def fb_width_def Let_def mult.assoc distrib_left)
qed

text \<open>Pixel \<open>(8 * col + b, 16 * y + r)\<close>, the one in row \<open>r\<close> and column \<open>b\<close> of cell \<open>(col, y)\<close>.\<close>

definition pixel :: "mtc_car_status \<Rightarrow> int \<Rightarrow> int \<Rightarrow> nat \<Rightarrow> nat \<Rightarrow> int" where
  "pixel c col y r b = (16 * y + int r) * int (fb_width c) + (8 * col + int b)"

lemma putc_pixel:
  assumes "r < 16" "b < 8" "0 \<le> col" "8 * col + 8 \<le> int (fb_width c)"
    and "0 \<le> x" "8 * x + 8 \<le> int (fb_width c)"
  shows "mtc_debug_putc c glyph x y fg bg fb (pixel c col y r b) =
    (if col = x then if bit (font_8x16 (16 * glyph + r)) (7 - b) then fg else bg
     else fb (pixel c col y r b))"
proof -
  let ?w = "int (fb_width c)" and ?d = "pixel c col y r b - (8 * x + 16 * y * int (fb_width c))"
  have d: "?d = int r * ?w + (8 * (col - x) + int b)"
    by (simp add: pixel_def algebra_simps)
  show ?thesis
  proof (cases "col \<ge> x")
    case True
    then have low: "0 \<le> 8 * (col - x) + int b" "8 * (col - x) + int b < ?w"
      using assms by auto
    then have "?d div ?w = int r"
      unfolding d by (intro int_div_pos_eq [of _ _ _ "8 * (col - x) + int b"]) (auto simp: mult.commute)
    moreover have "?d mod ?w = 8 * (col - x) + int b"
      unfolding d using low by (simp add: mod_pos_pos_trivial)
    moreover have "0 \<le> ?d" unfolding d using low by simp
    ultimately show ?thesis using assms True
      unfolding putc_at Let_def by (auto simp: nat_int)
  next
    case False
    have neg: "?d = (int r - 1) * ?w + (?w + 8 * (col - x) + int b)"
      unfolding d by (simp add: algebra_simps)
    have low: "8 \<le> ?w + 8 * (col - x) + int b" "?w + 8 * (col - x) + int b < ?w"
      using False assms by auto
    have "?d mod ?w = ?w + 8 * (col - x) + int b"
      unfolding neg using low by (simp add: mod_pos_pos_trivial)
    then show ?thesis using low False
      unfolding putc_at Let_def by auto
  qed
qed

lemma put_chars_pixel:
  assumes "r < 16" "b < 8" "0 \<le> x0" "8 * (x0 + int n) \<le> int (fb_width c)"
    and "0 \<le> col" "8 * col + 8 \<le> int (fb_width c)"
  shows "put_chars c s n x0 y fg bg fb (pixel c col y r b) =
    (if x0 \<le> col \<and> col < x0 + int n
     then (let i = nat (col - x0); ch = (if i < length s then unat (s ! i) else 32)
           in if bit (font_8x16 (16 * ch + r)) (7 - b) then fg else bg)
     else fb (pixel c col y r b))"
  using assms(4)
proof (induction n)
  case 0
  then show ?case by auto
next
  case (Suc n)
  then have IH: "put_chars c s n x0 y fg bg fb (pixel c col y r b) =
    (if x0 \<le> col \<and> col < x0 + int n
     then (let i = nat (col - x0); ch = (if i < length s then unat (s ! i) else 32)
           in if bit (font_8x16 (16 * ch + r)) (7 - b) then fg else bg)
     else fb (pixel c col y r b))" by auto
  show ?case
    unfolding put_chars.simps
    by (subst putc_pixel) (use assms Suc.prems in \<open>auto simp: IH Let_def\<close>)
qed

text \<open>C37. A string drawn inside the screen appears as it is: each of its \<open>len\<close> cells shows the font
  image of its character, or a space past the end of the string, and every other cell of the
  line keeps what it showed.\<close>

theorem put_string_shows:
  assumes "r < 16" "b < 8" "0 \<le> x0" "8 * (x0 + int len) \<le> int (fb_width c)"
    and "0 \<le> col" "8 * col + 8 \<le> int (fb_width c)"
  shows "mtc_debug_put_string c s len x0 y fg bg fb (pixel c col y r b) =
    (if x0 \<le> col \<and> col < x0 + int len
     then (let i = nat (col - x0); ch = (if i < length s then unat (s ! i) else 32)
           in if bit (font_8x16 (16 * ch + r)) (7 - b) then fg else bg)
     else fb (pixel c col y r b))"
  unfolding mtc_debug_put_string_def by (rule put_chars_pixel [OF assms])

theorem put_string_shows_witness:
  "mtc_debug_put_string car_0 [0x41, 0x42] 3 5 2 0xFFFFFFFF 0 (\<lambda>_. 7) (pixel car_0 6 2 3 1) =
    (if bit (font_8x16 (16 * 0x42 + 3)) 6 then 0xFFFFFFFF else 0)"
  using put_string_shows [of 3 1 5 3 car_0 6 "[0x41, 0x42]" 2 "0xFFFFFFFF" 0 "\<lambda>_. 7"]
  by (simp add: fb_width_def car_0_def Let_def)

end
