(* ===== verification/Car_Misc.thy ===== *)
theory Car_Misc
  imports Screen
begin

text \<open>
  The helpers of car.c: matching the customer string, parsing numbers, the pin map and the
  board test that uses it, and the pin multiplexer. C strings are byte lists without their
  terminating zero.
\<close>

section \<open>Strings\<close>

definition c_string :: "u8 list \<Rightarrow> u8 list" where
  "c_string bs = takeWhile (\<lambda>b. b \<noteq> 0) bs"

abbreviation (input) KLD :: "u8 list" where "KLD \<equiv> [0x4B, 0x4C, 0x44]"
abbreviation (input) KLDY :: "u8 list" where "KLDY \<equiv> [0x4B, 0x4C, 0x44, 0x59]"

definition check_customer :: "u8 list \<Rightarrow> mtc_car_status \<Rightarrow> bool" where
  "check_customer name c =
     (let cs = c_string (mcuver1 c); cs_len = length cs; n_len = length name
      in if cs_len < n_len then False
         else if cs_len = n_len then cs = name
         else if cs_len \<noteq> n_len + 1 then False
         else if name = KLD \<and> cs = KLDY then True
         else if take n_len cs \<noteq> name then False
         else if cs ! n_len > 0x2F then cs ! n_len \<le> 0x39
         else False)"

definition is_digit :: "u8 \<Rightarrow> bool" where
  "is_digit ch \<longleftrightarrow> ch - 0x30 \<le> 9"

text \<open>
  \<open>get_token_int\<close>: the result and the rest of the text at \<open>*pos\<close>. \<open>val\<close> is a 32-bit \<open>int\<close>.
  The loop is entered with \<open>c\<close>, the digit at \<open>p\<close>, and the text after it.
\<close>

fun token_loop :: "u32 \<Rightarrow> u8 \<Rightarrow> u8 list \<Rightarrow> int \<times> u8 list" where
  "token_loop val c [] = (sint (val * 10 + (ucast c - 0x30)), [])"
| "token_loop val c (next # rest) =
     (let val = val * 10 + (ucast c - 0x30)
      in if next = 0x2C then (sint val, rest)
         else if \<not> is_digit next then (-1, next # rest)
         else token_loop val next rest)"

definition get_token_int :: "u8 list \<Rightarrow> int \<times> u8 list" where
  "get_token_int pos =
     (case pos of [] \<Rightarrow> (-1, [])
      | c # rest \<Rightarrow>
          if c = 0x2C then (0, rest)
          else if \<not> is_digit c then (-1, pos)
          else token_loop 0 c rest)"

section \<open>Pin multiplexer\<close>

definition mtc_iomux_set :: "u32 \<Rightarrow> sys \<Rightarrow> sys" where
  "mtc_iomux_set mode s =
     (let bank = drop_bit 12 mode AND 0xF;
          n = unat (drop_bit 4 mode AND 0xF);
          pin = drop_bit 8 mode AND 0xF;
          val = push_bit (2 * n) (mode AND 0xF) + push_bit (2 * (n + 8)) 3
      in if mode = 0xFFFFFFFF then emit (Iomux_invalid mode) s
         else if bank > 3 then emit (Iomux_invalid mode) s
         else emit (Iomux_write (push_bit 2 (0x7FB4200E + bank * 4 + pin)) val) s)"

section \<open>The pin map\<close>

text \<open>
  The records of 16 bytes at \<open>pin_map_tbl + 0x74\<close>: id, gpio, iomux mode, the cell of the debug
  screen, and the flag at offset 14. A record with id 0 ends the table.
\<close>

record pin_rec =
  pin_id :: u8
  pin_gpio :: nat
  pin_iomux :: u32
  pin_col :: u8
  pin_line :: u8
  pin_flag :: u8

text \<open>The records before the terminator.\<close>

definition live :: "pin_rec list \<Rightarrow> pin_rec list" where
  "live tbl = takeWhile (\<lambda>r. pin_id r \<noteq> 0) tbl"

fun pin_search :: "u8 \<Rightarrow> nat \<Rightarrow> pin_rec list \<Rightarrow> nat option" where
  "pin_search i k [] = None"
| "pin_search i k (r # rs) =
     (if pin_id r = 0 then None else if pin_id r = i then Some k else pin_search i (k + 1) rs)"

definition mtc_get_pin_map :: "u8 \<Rightarrow> pin_rec list \<Rightarrow> nat option" where
  "mtc_get_pin_map i tbl = pin_search i 0 tbl"

definition set_flag :: "nat \<Rightarrow> u8 \<Rightarrow> pin_rec list \<Rightarrow> pin_rec list" where
  "set_flag i f tbl = tbl[i := (tbl ! i)\<lparr>pin_flag := f\<rparr>]"

fun init_test_io :: "nat \<Rightarrow> pin_rec list \<Rightarrow> sys \<Rightarrow> pin_rec list \<times> sys" where
  "init_test_io idx [] s = ([], s)"
| "init_test_io idx (r # rs) s =
     (if pin_id r = 0 then (r # rs, s)
      else
        let s = (if pin_iomux r \<noteq> 0 then mtc_iomux_set (pin_iomux r) s else s);
            s = emit (Gpio_request (pin_gpio r) (''tp'' @ map (\<lambda>d. char_of (48 + d)) (decimal idx))) s;
            s = gpio_direction_input (pin_gpio r) (emit (Gpio_pull (pin_gpio r) False) s);
            (rs', s) = init_test_io (idx + 1) rs s
        in (r\<lparr>pin_flag := 0\<rparr> # rs', s))"

definition mtc_init_test_io :: "pin_rec list \<Rightarrow> sys \<Rightarrow> pin_rec list \<times> sys" where
  "mtc_init_test_io tbl s = init_test_io 0 tbl s"

section \<open>The board test\<close>

text \<open>\<open>_const_udelay(1073740)\<close>, recorded with its raw argument.\<close>

abbreviation (input) test_delay :: "sys \<Rightarrow> sys" where
  "test_delay s \<equiv> udelay 1073740 s"

text \<open>
  One direction of the pair test: drive \<open>g\<close> high, then low; \<open>True\<close> when \<open>other\<close> failed to
  follow (\<open>goto ok\<close>).
\<close>

definition drive_pair :: "env \<Rightarrow> nat \<Rightarrow> nat \<Rightarrow> sys \<Rightarrow> bool \<times> sys" where
  "drive_pair e g other s =
     (let s = gpio_direction_output g True (gpio_direction_input other s);
          s = test_delay (gpio_set_value g True s);
          (v, s) = gpio_get_value e other s
      in if \<not> v then (True, s)
         else
           let s = test_delay (gpio_set_value g False s)
           in gpio_get_value e other s)"

fun test_port2_loop :: "env \<Rightarrow> nat \<Rightarrow> nat \<Rightarrow> nat \<Rightarrow> sys \<Rightarrow> bool \<times> sys" where
  "test_port2_loop e ga gb 0 s = (False, s)"
| "test_port2_loop e ga gb (Suc i) s =
     (let (ok, s) = drive_pair e ga gb s
      in if ok then (True, s)
         else
           let (ok, s) = drive_pair e gb ga s
           in if ok then (True, s) else test_port2_loop e ga gb i s)"

definition mtc_test_port2 ::
    "env \<Rightarrow> nat \<Rightarrow> nat \<Rightarrow> pin_rec list \<times> sys \<Rightarrow> pin_rec list \<times> sys" where
  "mtc_test_port2 e pa pb ts =
     (case ts of (tbl, s) \<Rightarrow>
        let ga = pin_gpio (tbl ! pa); gb = pin_gpio (tbl ! pb);
            (ok, s) = test_port2_loop e ga gb 3 s;
            s = gpio_direction_input gb (gpio_direction_input ga s);
            flag = (if ok then 0 else 1)
        in (set_flag pb flag (set_flag pa flag tbl), s))"

text \<open>\<open>if (gpio_get_value(g) == bad) p[14] |= m\<close>.\<close>

definition note_if :: "env \<Rightarrow> bool \<Rightarrow> u8 \<Rightarrow> nat \<Rightarrow> pin_rec list \<times> sys \<Rightarrow> pin_rec list \<times> sys" where
  "note_if e bad m p ts =
     (case ts of (tbl, s) \<Rightarrow>
        let (v, s) = gpio_get_value e (pin_gpio (tbl ! p)) s
        in (if v = bad then set_flag p (pin_flag (tbl ! p) OR m) tbl else tbl, s))"

text \<open>The part of a round that drives one pin and looks at the other two.\<close>

definition drive_one ::
    "env \<Rightarrow> u8 \<Rightarrow> nat \<Rightarrow> nat \<Rightarrow> nat \<Rightarrow> pin_rec list \<times> sys \<Rightarrow> pin_rec list \<times> sys" where
  "drive_one e m d x y ts =
     (case ts of (tbl, s) \<Rightarrow>
        let g = pin_gpio (tbl ! d);
            s = test_delay (gpio_set_value g True (gpio_direction_output g True s));
            (tbl, s) = note_if e False m y (note_if e False m x (tbl, s));
            s = test_delay (gpio_set_value g False s)
        in note_if e True m y (note_if e True m x (tbl, s)))"

definition dir_in :: "nat \<Rightarrow> pin_rec list \<times> sys \<Rightarrow> pin_rec list \<times> sys" where
  "dir_in p ts = (case ts of (tbl, s) \<Rightarrow> (tbl, gpio_direction_input (pin_gpio (tbl ! p)) s))"

definition test_port3_round ::
    "env \<Rightarrow> nat \<Rightarrow> nat \<Rightarrow> nat \<Rightarrow> pin_rec list \<times> sys \<Rightarrow> pin_rec list \<times> sys" where
  "test_port3_round e pa pb pc ts =
     drive_one e 4 pc pa pb (dir_in pb (dir_in pa
       (drive_one e 2 pb pc pa (dir_in pa (dir_in pc
         (drive_one e 1 pa pb pc (dir_in pc (dir_in pb ts))))))))"

definition flag_check :: "nat \<Rightarrow> u8 \<Rightarrow> pin_rec list \<Rightarrow> pin_rec list" where
  "flag_check p good tbl = set_flag p (if pin_flag (tbl ! p) \<noteq> good then 1 else 0) tbl"

definition mtc_test_port3 ::
    "env \<Rightarrow> nat \<Rightarrow> nat \<Rightarrow> nat \<Rightarrow> pin_rec list \<times> sys \<Rightarrow> pin_rec list \<times> sys" where
  "mtc_test_port3 e pa pb pc ts =
     (case ts of (tbl, s) \<Rightarrow>
        let tbl = set_flag pc 0 (set_flag pb 0 (set_flag pa 0 tbl));
            (tbl, s) = dir_in pc (dir_in pb (dir_in pa ((test_port3_round e pa pb pc ^^ 3) (tbl, s))))
        in (flag_check pc 3 (flag_check pb 5 (flag_check pa 6 tbl)), s))"

definition test_seq_tbl :: "(u8 \<times> u8 \<times> u8) list" where
  "test_seq_tbl = [
     (1, 74, 107), (3, 7, 0), (5, 9, 0), (123, 131, 0), (125, 127, 0), (133, 141, 0),
     (139, 143, 0), (147, 153, 0), (149, 155, 0), (76, 80, 0), (78, 82, 0), (84, 88, 0),
     (86, 90, 0), (92, 106, 0), (102, 108, 0), (112, 118, 0), (116, 120, 0), (122, 130, 0),
     (126, 132, 0), (134, 138, 0), (136, 140, 0), (144, 150, 0), (148, 152, 0), (154, 160, 0),
     (158, 164, 0), (166, 170, 0), (168, 172, 0), (174, 178, 0), (176, 180, 0)]"

definition test_pin :: "u8 \<Rightarrow> pin_rec list \<Rightarrow> nat option" where
  "test_pin a tbl = (if a = 1 then Some 0 else mtc_get_pin_map a tbl)"

definition test_step ::
    "env \<Rightarrow> u8 \<times> u8 \<times> u8 \<Rightarrow> pin_rec list \<times> sys \<Rightarrow> pin_rec list \<times> sys" where
  "test_step e abc ts =
     (case abc of (a, b, c) \<Rightarrow>
        case (test_pin a (fst ts), test_pin b (fst ts)) of
          (Some pa, Some pb) \<Rightarrow>
            (case test_pin c (fst ts) of
               Some pc \<Rightarrow> mtc_test_port3 e pa pb pc ts
             | None \<Rightarrow> mtc_test_port2 e pa pb ts)
        | _ \<Rightarrow> ts)"

text \<open>The star of a pin: red when its flag is 0, green otherwise.\<close>

definition show_pin :: "mtc_car_status \<Rightarrow> pin_rec \<Rightarrow> fb \<Rightarrow> fb" where
  "show_pin c r fb =
     mtc_debug_put_string c [0x2A] 1 (uint (pin_col r)) (uint (pin_line r) - 1)
       (if pin_flag r = 0 then 0xFFFF0000 else 0xFF00FF00) 0xFF404040 fb"

definition mtc_test_port ::
    "env \<Rightarrow> fb \<Rightarrow> pin_rec list \<times> sys \<Rightarrow> fb \<times> pin_rec list \<times> sys" where
  "mtc_test_port e fb ts =
     (let (tbl, s) = fold (test_step e) test_seq_tbl ts
      in (fold (show_pin (car s)) (live tbl) fb, tbl, s))"

section \<open>Strings\<close>

text \<open>\<open>check_customer\<close> accepts exactly the customer name itself, the name followed by one
  decimal digit, and KLDY for KLD.\<close>

theorem check_customer_accepts:
  "check_customer name c \<longleftrightarrow>
    (let cs = c_string (mcuver1 c)
     in cs = name \<or> (\<exists>d. 0x30 \<le> d \<and> d \<le> 0x39 \<and> cs = name @ [d]) \<or> (name = KLD \<and> cs = KLDY))"
proof -
  let ?cs = "c_string (mcuver1 c)" and ?n = "length name"
  have gt: "(x :: u8) > 0x2F \<longleftrightarrow> 0x30 \<le> x" for x
    by (simp add: word_less_nat_alt word_le_nat_alt) linarith
  consider "length ?cs < ?n" | "length ?cs = ?n" | "length ?cs = Suc ?n" | "length ?cs > Suc ?n"
    by linarith
  then show ?thesis
  proof cases
    case 3
    have "?cs = take ?n ?cs @ [?cs ! ?n]"
      using 3 by (metis lessI order_refl take_Suc_conv_app_nth take_all)
    then have "(\<exists>d. 0x30 \<le> d \<and> d \<le> 0x39 \<and> ?cs = name @ [d]) \<longleftrightarrow>
        take ?n ?cs = name \<and> 0x30 \<le> ?cs ! ?n \<and> ?cs ! ?n \<le> 0x39"
      by (metis append_eq_conv_conj nth_append_length)
    then show ?thesis using 3 by (auto simp: check_customer_def Let_def gt)
  qed (auto simp: check_customer_def Let_def)
qed

abbreviation (input) digit_byte :: "nat \<Rightarrow> u8" where
  "digit_byte d \<equiv> 0x30 + of_nat d"

definition decimal_bytes :: "nat \<Rightarrow> u8 list" where
  "decimal_bytes n = map digit_byte (decimal n)"

lemma decimal_digits: "\<forall>d \<in> set (decimal n). d < 10"
  by (induction n rule: decimal.induct) (subst decimal.simps, auto)

lemma decimal_value: "foldl (\<lambda>v d. v * 10 + of_nat d) 0 (decimal n) = (of_nat n :: u32)"
proof (induction n rule: decimal.induct)
  case (1 n)
  have "(of_nat (n div 10) * 10 + of_nat (n mod 10) :: u32) = of_nat (n div 10 * 10 + n mod 10)"
    by (simp only: of_nat_add of_nat_mult of_nat_numeral)
  then have "\<not> n < 10 \<Longrightarrow> foldl (\<lambda>v d. v * 10 + of_nat d) 0 (decimal (n div 10) @ [n mod 10]) = (of_nat n :: u32)"
    using 1 by simp
  then show ?case by (subst decimal.simps) simp
qed

lemma digit_byte_facts:
  assumes "d < 10"
  shows "is_digit (digit_byte d)" "digit_byte d \<noteq> 0x2C"
    "(ucast (digit_byte d) - 0x30 :: u32) = of_nat d"
proof -
  have "d \<in> {0, 1, 2, 3, 4, 5, 6, 7, 8, 9}" using assms by auto
  then show "is_digit (digit_byte d)" "digit_byte d \<noteq> 0x2C"
    "(ucast (digit_byte d) - 0x30 :: u32) = of_nat d"
    by (auto simp: is_digit_def)
qed

lemma token_loop_digits:
  assumes "d < 10" "\<forall>x \<in> set ds. x < 10"
  shows "token_loop val (digit_byte d) (map digit_byte ds @ 0x2C # rest) =
      (sint (foldl (\<lambda>v d. v * 10 + of_nat d) val (d # ds)), rest)"
    "token_loop val (digit_byte d) (map digit_byte ds) =
      (sint (foldl (\<lambda>v d. v * 10 + of_nat d) val (d # ds)), [])"
  using assms
  by (induction ds arbitrary: val d) (simp_all add: digit_byte_facts Let_def)

text \<open>Numbers are read back: \<open>get_token_int\<close> on the decimal digits of \<open>n\<close> (up to the largest
  32-bit \<open>int\<close>), followed by a comma or by the end of the text, returns \<open>n\<close> and leaves the text
  after the comma.\<close>

theorem get_token_int_decimal:
  assumes "n < 2 ^ 31"
  shows "get_token_int (decimal_bytes n @ 0x2C # rest) = (int n, rest) \<and>
    get_token_int (decimal_bytes n) = (int n, [])"
proof -
  obtain d ds where dec: "decimal n = d # ds"
    by (metis decimal.simps list.exhaust append_is_Nil_conv not_Cons_self2)
  have d: "d < 10" "\<forall>x \<in> set ds. x < 10"
    using decimal_digits [of n] by (auto simp: dec)
  have "sint (of_nat n :: u32) = int n"
  proof -
    have "sint (of_nat n :: u32) = signed_take_bit 31 (int n)"
      by (simp add: signed_of_nat)
    then show ?thesis using assms by (simp add: signed_take_bit_int_eq_self)
  qed
  moreover have "foldl (\<lambda>v d. v * 10 + of_nat d) 0 (d # ds) = (of_nat n :: u32)"
    using decimal_value [of n] by (simp only: dec)
  ultimately show ?thesis
    using d token_loop_digits [OF d, of 0] digit_byte_facts [OF d(1)]
    by (simp add: get_token_int_def decimal_bytes_def dec del: foldl_Cons)
qed

theorem get_token_int_decimal_witness:
  "get_token_int (decimal_bytes 1024 @ [0x2C, 0x37]) = (1024, [0x37]) \<and>
   get_token_int (decimal_bytes 1024) = (1024, [])"
  using get_token_int_decimal [of 1024 "[0x37]"] by simp

section \<open>Pins\<close>

lemma pin_search_spec:
  "pin_search i k tbl =
     (if \<exists>j < length (live tbl). pin_id (live tbl ! j) = i
      then Some (k + (LEAST j. j < length (live tbl) \<and> pin_id (live tbl ! j) = i)) else None)"
proof (induction tbl arbitrary: k)
  case Nil
  then show ?case by (simp add: live_def)
next
  case (Cons r rs)
  show ?case
  proof (cases "pin_id r = 0")
    case True
    then show ?thesis by (simp add: live_def)
  next
    case False
    then have live: "live (r # rs) = r # live rs" by (simp add: live_def)
    show ?thesis
    proof (cases "pin_id r = i")
      case True
      then have "(LEAST j. j < length (r # live rs) \<and> pin_id ((r # live rs) ! j) = i) = 0"
        by (intro Least_equality) auto
      then show ?thesis using True False by (auto simp: live intro!: exI [of _ 0])
    next
      case ne: False
      let ?P = "\<lambda>j. j < length (r # live rs) \<and> pin_id ((r # live rs) ! j) = i"
      have step: "pin_search i k (r # rs) = pin_search i (k + 1) rs" using False ne by simp
      have P: "\<not> ?P 0" "?P (Suc j) \<longleftrightarrow> j < length (live rs) \<and> pin_id (live rs ! j) = i" for j
        using ne by simp_all
      show ?thesis
      proof (cases "\<exists>j < length (live rs). pin_id (live rs ! j) = i")
        case True
        then obtain m where m: "?P (Suc m)" unfolding P by blast
        have "(LEAST j. ?P j) = Suc (LEAST j. ?P (Suc j))"
          using m P(1) by (rule Least_Suc)
        moreover have "\<exists>j < length (r # live rs). pin_id ((r # live rs) ! j) = i"
          using m by blast
        ultimately show ?thesis
          unfolding step Cons.IH live using True by (simp only: P if_True simp_thms) simp
      next
        case none: False
        have "\<not> ?P j" for j
        proof (cases j)
          case 0
          then show ?thesis using P(1) by blast
        next
          case (Suc m)
          then show ?thesis using none P(2) [of m] by blast
        qed
        then show ?thesis unfolding step Cons.IH live using none by (simp only: if_False) auto
      qed
    qed
  qed
qed

text \<open>Looking a pin up finds the first record with its id before the end of the table, and finds
  nothing when there is none.\<close>

theorem pin_map_first:
  "mtc_get_pin_map i tbl =
    (if \<exists>j < length (live tbl). pin_id (live tbl ! j) = i
     then Some (LEAST j. j < length (live tbl) \<and> pin_id (live tbl ! j) = i) else None)"
  by (simp add: mtc_get_pin_map_def pin_search_spec)

text \<open>
  Two pins joined by a wire show each other's level; a loose pin shows the same level
  whatever is driven elsewhere.
\<close>

definition wired :: "env \<Rightarrow> nat \<Rightarrow> nat \<Rightarrow> bool" where
  "wired e ga gb \<longleftrightarrow>
     (\<forall>h d v. level e (Udelay d # Wr ga v # h) gb = v \<and> level e (Udelay d # Wr gb v # h) ga = v)"

definition loose :: "env \<Rightarrow> nat \<Rightarrow> bool" where
  "loose e g \<longleftrightarrow> (\<forall>h h'. level e h g = level e h' g)"

lemma drive_pair_wired:
  "wired e ga gb \<Longrightarrow> fst (drive_pair e ga gb s) = False \<and> fst (drive_pair e gb ga s) = False"
  by (simp add: drive_pair_def wired_def op_defs Let_def)

lemma drive_pair_loose:
  assumes "loose e gb"
  shows "fst (drive_pair e ga gb s) = True"
proof (cases "level e [] gb")
  case True
  then have "level e h gb" for h using assms unfolding loose_def by blast
  then show ?thesis by (simp add: drive_pair_def op_defs Let_def)
next
  case False
  then have "\<not> level e h gb" for h using assms unfolding loose_def by blast
  then show ?thesis by (simp add: drive_pair_def op_defs Let_def)
qed

lemma test_port2_loop_wired: "wired e ga gb \<Longrightarrow> fst (test_port2_loop e ga gb n s) = False"
proof (induction n arbitrary: s)
  case (Suc n)
  obtain s1 where 1: "drive_pair e ga gb s = (False, s1)"
    using drive_pair_wired [OF Suc.prems, of s] by (cases "drive_pair e ga gb s") simp
  obtain s2 where 2: "drive_pair e gb ga s1 = (False, s2)"
    using drive_pair_wired [OF Suc.prems, of s1] by (cases "drive_pair e gb ga s1") simp
  show ?case using Suc.IH [OF Suc.prems, of s2] by (simp add: 1 2)
qed simp

lemma test_port2_loop_loose:
  assumes "loose e gb"
  shows "fst (test_port2_loop e ga gb (Suc n) s) = True"
  using drive_pair_loose [OF assms, of ga s] by (cases "drive_pair e ga gb s") simp

text \<open>The pair test tells joined pins from loose ones: on a board where the two pins are wired
  together both flags become 1, on a board where the second is loose both become 0. (Comments in
  the source say the opposite, that 1 means no contact.)\<close>

theorem test_port2_flags:
  assumes "pa < length tbl" "pb < length tbl"
    and "wired e (pin_gpio (tbl ! pa)) (pin_gpio (tbl ! pb)) \<and> flag = 1 \<or>
         loose e (pin_gpio (tbl ! pb)) \<and> flag = 0"
  shows "pin_flag (fst (mtc_test_port2 e pa pb (tbl, s)) ! pa) = flag \<and>
    pin_flag (fst (mtc_test_port2 e pa pb (tbl, s)) ! pb) = flag"
proof -
  let ?ga = "pin_gpio (tbl ! pa)" and ?gb = "pin_gpio (tbl ! pb)"
  have "(if fst (test_port2_loop e ?ga ?gb 3 s) then 0 else 1) = flag"
    using assms(3)
  proof (elim disjE conjE)
    assume "wired e ?ga ?gb" "flag = 1"
    then show ?thesis by (simp add: test_port2_loop_wired)
  next
    assume "loose e ?gb" "flag = 0"
    then show ?thesis
      using test_port2_loop_loose [of e ?gb ?ga 2 s] by (simp add: numeral_3_eq_3 numeral_2_eq_2)
  qed
  then show ?thesis
    using assms(1,2)
    by (auto simp: mtc_test_port2_def set_flag_def Let_def nth_list_update split: prod.splits)
qed

theorem test_port2_flags_witness:
  "let tbl = [\<lparr>pin_id = 1, pin_gpio = 40, pin_iomux = 0, pin_col = 0, pin_line = 0, pin_flag = 9\<rparr>,
              \<lparr>pin_id = 2, pin_gpio = 41, pin_iomux = 0, pin_col = 0, pin_line = 0, pin_flag = 9\<rparr>];
       e = \<lparr>level = (\<lambda>_ _. False), sec = (\<lambda>_. 0), usec = (\<lambda>_. 0), junk = (\<lambda>_. 0),
              others = (\<lambda>_ c. c), mcu_data = (\<lambda>_. [])\<rparr>
   in pin_flag (fst (mtc_test_port2 e 0 1 (tbl, sys_0)) ! 0) = 0 \<and>
      pin_flag (fst (mtc_test_port2 e 0 1 (tbl, sys_0)) ! 1) = 0"
  unfolding Let_def by (rule test_port2_flags) (simp_all add: loose_def)

text \<open>
  The pin registers keep a write mask in their upper half: a write changes the bits whose
  mask bit is set.
\<close>

definition masked_write :: "u32 \<Rightarrow> u32 \<Rightarrow> u32" where
  "masked_write old v = (old AND NOT (drop_bit 16 v)) OR (v AND drop_bit 16 v)"

lemma iomux_bits:
  assumes "mode AND 0xC = (0 :: u32)" "n < 8"
  shows "bit (push_bit (2 * n) (mode AND 0xF) + push_bit (2 * (n + 8)) 3 :: u32) i \<longleftrightarrow>
    i = 2 * n \<and> bit mode 0 \<or> i = 2 * n + 1 \<and> bit mode 1 \<or> i = 2 * n + 16 \<or> i = 2 * n + 17"
proof -
  have c: "\<not> bit mode 2" "\<not> bit mode 3"
  proof -
    have "(0xC :: u32) = push_bit 2 (mask 2)" by (simp add: mask_eq_exp_minus_1)
    then have "bit (0xC :: u32) 2" "bit (0xC :: u32) 3"
      by (simp_all only: bit_push_bit_iff bit_mask_iff) simp_all
    then have "bit (mode AND 0xC) 2 = bit mode 2" "bit (mode AND 0xC) 3 = bit mode 3"
      by (simp_all only: bit_and_iff) simp_all
    then show "\<not> bit mode 2" "\<not> bit mode 3" by (simp_all add: assms(1))
  qed
  have four: "bit (0xF :: u32) k \<longleftrightarrow> k < 4" for k
  proof -
    have "(0xF :: u32) = mask 4" by (simp add: mask_eq_exp_minus_1)
    then show ?thesis by (simp only: bit_mask_iff) (auto simp: possible_bit_word)
  qed
  have m: "bit (mode AND 0xF) k \<longleftrightarrow> k = 0 \<and> bit mode 0 \<or> k = 1 \<and> bit mode 1" for k
  proof -
    have "k < 4 \<longleftrightarrow> k = 0 \<or> k = 1 \<or> k = 2 \<or> k = 3" by auto
    then show ?thesis unfolding bit_and_iff four using c by blast
  qed
  have three: "bit (3 :: u32) k \<longleftrightarrow> k = 0 \<or> k = 1" for k
  proof -
    have "(3 :: u32) = mask 2" by (simp add: mask_eq_exp_minus_1)
    then have "bit (3 :: u32) k \<longleftrightarrow> k < 2"
      by (simp only: bit_mask_iff) (auto simp: possible_bit_word)
    moreover have "k < 2 \<longleftrightarrow> k = 0 \<or> k = 1" by auto
    ultimately show ?thesis by simp
  qed
  define a b :: u32 where ab: "a = push_bit (2 * n) (mode AND 0xF)" "b = push_bit (2 * (n + 8)) 3"
  have shifted: "bit (push_bit q w) k \<longleftrightarrow> k = q \<and> bit w 0 \<or> k = q + 1 \<and> bit w 1"
    if "\<And>j. bit w j \<Longrightarrow> j = 0 \<or> j = 1" "q + 1 < 32" for w :: u32 and q k
  proof (cases "q \<le> k")
    case True
    then obtain d where "k = q + d" by (metis le_Suc_ex)
    have iff: "bit (push_bit q w) k \<longleftrightarrow> k < 32 \<and> bit w d"
      by (simp add: bit_push_bit_iff \<open>k = q + d\<close>)
    consider "d = 0" | "d = 1" | "1 < d" by linarith
    then show ?thesis
    proof cases
      case 3
      then have "\<not> bit w d" using that(1) [of d] by auto
      then show ?thesis using 3 unfolding iff by (simp add: \<open>k = q + d\<close>)
    qed (use that(2) in \<open>unfold iff, simp_all add: \<open>k = q + d\<close>\<close>)
  next
    case False
    then show ?thesis by (auto simp: bit_push_bit_iff)
  qed
  have bits: "bit a k \<longleftrightarrow> k = 2 * n \<and> bit mode 0 \<or> k = 2 * n + 1 \<and> bit mode 1"
    "bit b k \<longleftrightarrow> k = 2 * n + 16 \<or> k = 2 * n + 17" for k
  proof -
    have "bit a k \<longleftrightarrow> k = 2 * n \<and> bit (mode AND 0xF) 0 \<or> k = 2 * n + 1 \<and> bit (mode AND 0xF) 1"
      unfolding ab by (rule shifted) (use m assms(2) in auto)
    then show "bit a k \<longleftrightarrow> k = 2 * n \<and> bit mode 0 \<or> k = 2 * n + 1 \<and> bit mode 1"
      unfolding m by auto
    have "bit b k \<longleftrightarrow> k = 2 * (n + 8) \<and> bit (3 :: u32) 0 \<or> k = 2 * (n + 8) + 1 \<and> bit (3 :: u32) 1"
      unfolding ab by (rule shifted) (use three assms(2) in auto)
    then show "bit b k \<longleftrightarrow> k = 2 * n + 16 \<or> k = 2 * n + 17"
      unfolding three by auto
  qed
  have "a AND b = 0" by (rule bit_word_eqI) (auto simp: bit_and_iff bits)
  then have "a + b = a OR b" by (rule disjunctive_add_eq_or)
  then show ?thesis unfolding ab [symmetric] by (auto simp: bit_or_iff bits)
qed

text \<open>A valid multiplexer mode (a two-bit function, one of eight fields) writes one register once
  and, under the write mask, changes exactly the two bits of its own field.\<close>

theorem iomux_own_field:
  assumes "mode \<noteq> 0xFFFFFFFF" "drop_bit 12 mode AND 0xF \<le> 3"
    and "mode AND 0xC = 0" "n = unat (drop_bit 4 mode AND 0xF)" "n < 8"
  shows "\<exists>addr val. mtc_iomux_set mode s = emit (Iomux_write addr val) s \<and>
    (\<forall>old i. i < 16 \<longrightarrow> bit (masked_write old val) i =
       (if i = 2 * n then bit mode 0 else if i = 2 * n + 1 then bit mode 1 else bit old i))"
proof (intro exI conjI allI impI)
  let ?val = "push_bit (2 * n) (mode AND 0xF) + push_bit (2 * (n + 8)) 3 :: u32"
  let ?addr = "push_bit 2 (0x7FB4200E + (drop_bit 12 mode AND 0xF) * 4 + (drop_bit 8 mode AND 0xF)) :: u32"
  show "mtc_iomux_set mode s = emit (Iomux_write ?addr ?val) s"
    using assms(1,2) by (simp add: mtc_iomux_set_def Let_def assms(4) not_less)
  fix old :: u32 and i :: nat
  assume i: "i < 16"
  then have "bit (drop_bit 16 ?val) i \<longleftrightarrow> i = 2 * n \<or> i = 2 * n + 1"
    unfolding bit_drop_bit_eq o_def iomux_bits [OF assms(3,5)] using assms(5) by auto
  moreover have "bit ?val i \<longleftrightarrow> i = 2 * n \<and> bit mode 0 \<or> i = 2 * n + 1 \<and> bit mode 1"
    unfolding iomux_bits [OF assms(3,5)] using i by auto
  ultimately show "bit (masked_write old ?val) i =
      (if i = 2 * n then bit mode 0 else if i = 2 * n + 1 then bit mode 1 else bit old i)"
    unfolding masked_write_def bit_or_iff bit_and_iff bit_not_iff
    using i by (auto simp: possible_bit_word)
qed

theorem iomux_own_field_witness:
  "\<exists>addr val. mtc_iomux_set 0x2131 sys_0 = emit (Iomux_write addr val) sys_0 \<and>
    (\<forall>old i. i < 16 \<longrightarrow> bit (masked_write old val) i =
       (if i = 2 * 3 then bit (0x2131 :: u32) 0 else if i = 2 * 3 + 1 then bit (0x2131 :: u32) 1 else bit old i))"
  by (rule iomux_own_field) simp_all

end
