(* ===== verification/Wheel.thy ===== *)
theory Wheel
  imports Keys
begin

text \<open>
  The steering wheel keys of car.c: the callback of the wheel's analogue channel and the
  spacing of the studied key values. The function that posts a wheel key
  (\<open>add_wheel_work\<close>) is declared but not defined in the sources: it is the parameter \<open>aww\<close>,
  and may change the state of the wheel in any way.
\<close>

record mtc_wheel_state =
  key_repeat_cnt :: u32
  adc_ref_up :: u32            \<comment> \<open>the value the pointer shows\<close>
  adc_ref_dn :: u32
  wheel_state :: u8
  wheel_last_key :: u8
  adc_up_val :: u32
  adc_dn_val :: u32

record mtc_wheel_study =
  adc_enabled :: u32
  adc_type :: u8
  dir_inv :: u8
  stw_min_a :: u8
  stw_min_b :: u8

type_synonym post_key = "int \<Rightarrow> mtc_wheel_state \<Rightarrow> int \<times> mtc_wheel_state"

section \<open>The wheel callback\<close>

abbreviation (input) within :: "int \<Rightarrow> int \<Rightarrow> u32 \<Rightarrow> bool" where
  "within v base span \<equiv> (word_of_int (v - base) :: u32) \<le> span"

definition both :: "u8 \<Rightarrow> u8" where
  "both d = (d OR push_bit 4 d)"

text \<open>A reading that differs from the last one only replaces the upper nibble.\<close>

definition turn :: "u8 \<Rightarrow> mtc_wheel_state \<Rightarrow> mtc_wheel_state" where
  "turn dir ws = ws\<lparr>wheel_state := (wheel_state ws AND 0xF) OR push_bit 4 dir\<rparr>"

definition settle :: "u8 \<Rightarrow> int \<times> mtc_wheel_state \<Rightarrow> int \<times> mtc_wheel_state" where
  "settle dir rw = (case rw of (ret, ws) \<Rightarrow> (ret, ws\<lparr>wheel_state := both dir\<rparr>))"

definition study_dir :: "mtc_wheel_study \<Rightarrow> int \<Rightarrow> int \<Rightarrow> u8" where
  "study_dir stu up dn =
     (if up > 199 then if dn \<le> 199 then if dir_inv stu \<noteq> 0 then 2 else 1 else 4
      else if dn > 199 then if dir_inv stu \<noteq> 0 then 1 else 2
      else 3)"

text \<open>\<open>LABEL_25\<close> and \<open>LABEL_27\<close> of the study mode.\<close>

definition study_post :: "post_key \<Rightarrow> u8 \<Rightarrow> int \<Rightarrow> int \<Rightarrow> mtc_wheel_state \<Rightarrow> int \<times> mtc_wheel_state" where
  "study_post aww skip key ret ws =
     (let lk = wheel_last_key ws
      in if lk \<noteq> skip then
           let ws = (if lk = 0x40 then ws\<lparr>wheel_last_key := wheel_state ws\<rparr> else ws)
           in aww key (ws\<lparr>key_repeat_cnt := 40\<rparr>)
         else (ret, ws))"

definition study_callback ::
    "post_key \<Rightarrow> mtc_wheel_study \<Rightarrow> u32 \<Rightarrow> int \<Rightarrow> mtc_wheel_state \<Rightarrow> int \<times> mtc_wheel_state" where
  "study_callback aww stu cur adc_val ws =
     (let ws = (if cur = adc_ref_up ws then ws\<lparr>adc_up_val := word_of_int adc_val\<rparr>
                else if cur = adc_ref_dn ws then ws\<lparr>adc_dn_val := word_of_int adc_val\<rparr>
                else ws);
          up = sint (adc_up_val ws); dn = sint (adc_dn_val ws)
      in if up < 0 then (0, ws)
         else if dn < 0 then (0, ws)
         else
           let ret = sint (key_repeat_cnt ws);
               (ret, ws) = (if ret > 0 then (ret - 1, ws\<lparr>key_repeat_cnt := word_of_int (ret - 1)\<rparr>)
                            else (ret, ws));
               dir = study_dir stu up dn;
               st = wheel_state ws; hi = drop_bit 4 st
           in if hi \<noteq> dir then (ret, turn dir ws)
              else
                let (ret, ws) = (if ret = 0 then
                                   if st = 20 then study_post aww 0x41 ret ret ws
                                   else if st = 36 then study_post aww 0x42 1 ret ws
                                   else (ret, ws)
                                 else (ret, ws))
                in if st AND 0xF = hi then settle dir (ret, ws)
                   else settle dir (ret, ws\<lparr>wheel_last_key := st\<rparr>))"

definition normal_dir :: "mtc_wheel_study \<Rightarrow> int \<Rightarrow> u8" where
  "normal_dir stu adc_val =
     (if adc_type stu = 1 then
        if within adc_val 488 0x30 then 1
        else if within adc_val 658 0x30 then 2
        else if within adc_val 385 0x30 then 3
        else if adc_val > 1000 then 4
        else 0
      else
        if within adc_val 437 0x30 then 1
        else if within adc_val 590 0x30 then 2
        else if within adc_val 330 0x30 then 3
        else if adc_val > 1000 then 4
        else 0)"

definition normal_callback ::
    "post_key \<Rightarrow> mtc_wheel_study \<Rightarrow> int \<Rightarrow> int \<Rightarrow> mtc_wheel_state \<Rightarrow> int \<times> mtc_wheel_state" where
  "normal_callback aww stu adc_val ret ws =
     (let dir = normal_dir stu adc_val; st = wheel_state ws; hi = drop_bit 4 st
      in if hi \<noteq> dir then (ret, turn dir ws)
         else if dir \<noteq> 0 then
           if ret \<noteq> 0 then settle hi (ret, ws)
           else if st \<noteq> 20 \<and> st \<noteq> 35 then
             if st \<noteq> 36 then
               if st \<noteq> 19 then settle hi (ret, ws)
               else settle hi (aww 1 (ws\<lparr>key_repeat_cnt := 40\<rparr>))
             else settle hi (aww 1 (ws\<lparr>key_repeat_cnt := 40\<rparr>))
           else (ret, ws)
         else (ret, ws))"

definition steering_dir :: "int \<Rightarrow> u8" where
  "steering_dir adc_val =
     (if \<not> within adc_val 316 0x3A then
        if \<not> within adc_val 483 0x3A then
          if \<not> within adc_val 585 0x3A then 0 else 3
        else 2
      else 1)"

definition steering_callback ::
    "post_key \<Rightarrow> int \<Rightarrow> int \<Rightarrow> mtc_wheel_state \<Rightarrow> int \<times> mtc_wheel_state" where
  "steering_callback aww adc_val ret ws =
     (let dir = steering_dir adc_val; st = wheel_state ws; hi = drop_bit 4 st
      in if hi \<noteq> dir then (ret, turn dir ws)
         else if dir \<noteq> 0 then
           if ret \<noteq> 0 then settle hi (ret, ws)
           else if st = 33 \<or> st = 50 \<or> st = 19 then
             settle hi (aww 1 (ws\<lparr>key_repeat_cnt := 40\<rparr>))
           else if st \<noteq> 49 \<and> st \<noteq> 18 \<and> st \<noteq> 35 then settle hi (ret, ws)
           else settle hi (aww ret (ws\<lparr>key_repeat_cnt := 40\<rparr>))
         else (ret, ws))"

definition adc_wheel_callback ::
    "post_key \<Rightarrow> mtc_wheel_study \<Rightarrow> config \<Rightarrow> u32 \<Rightarrow> int \<Rightarrow> mtc_wheel_state \<Rightarrow> int \<times> mtc_wheel_state" where
  "adc_wheel_callback aww stu cf adc_cur adc_val ws =
     (if adc_enabled stu \<noteq> 0 then study_callback aww stu adc_cur adc_val ws
      else
        let ret = sint (key_repeat_cnt ws);
            ws = (if ret > 0 then ws\<lparr>key_repeat_cnt := word_of_int (ret - 1)\<rparr> else ws)
        in if adc_wheel_gate cf = 0 then normal_callback aww stu adc_val ret ws
           else steering_callback aww adc_val ret ws)"

section \<open>Spacing of the studied values\<close>

definition stw_value :: "config \<Rightarrow> nat \<Rightarrow> nat \<Rightarrow> u16" where
  "stw_value cf base i = (ucast (cf (base + 3 * i)) OR push_bit 8 (ucast (cf (base + 1 + 3 * i))))"

definition stw_diff :: "config \<Rightarrow> nat \<Rightarrow> nat \<Rightarrow> nat \<Rightarrow> nat" where
  "stw_diff cf base i j =
     (let u = stw_value cf base i; v = stw_value cf base j
      in if u > v then unat u - unat v else unat v - unat u)"

text \<open>The two nested loops over one table; \<open>off = 3 * j\<close>.\<close>

definition stw_min :: "config \<Rightarrow> nat \<Rightarrow> nat" where
  "stw_min cf base =
     fold (\<lambda>i m. fold (\<lambda>j m. let d = stw_diff cf base i j in if m \<ge> d then d else m) [i + 1..<25] m)
       [0..<24] 50"

definition stw_range_check :: "config \<Rightarrow> mtc_wheel_study \<Rightarrow> mtc_wheel_study" where
  "stw_range_check cf stu =
     stu\<lparr>stw_min_a := of_nat (stw_min cf 329 div 2), stw_min_b := of_nat (stw_min cf 404 div 2)\<rparr>"

section \<open>Key repeat\<close>

text \<open>While the repeat counter is above one nothing is posted: whatever posting a key would do,
  the callback behaves the same.\<close>

theorem repeat_blocks_keys:
  assumes "1 < sint (key_repeat_cnt ws)"
  shows "adc_wheel_callback aww stu cf cur v ws = adc_wheel_callback aww' stu cf cur v ws"
proof -
  have study: "study_callback aww stu cur v ws = study_callback aww' stu cur v ws"
    using assms by (auto simp: study_callback_def Let_def split: if_splits)
  show ?thesis
    using assms
    by (simp only: adc_wheel_callback_def study Let_def normal_callback_def steering_callback_def)
       simp
qed

theorem repeat_blocks_keys_witness:
  "let stu = \<lparr>adc_enabled = 1, adc_type = 1, dir_inv = 0, stw_min_a = 20, stw_min_b = 20\<rparr>;
       ws = \<lparr>key_repeat_cnt = 40, adc_ref_up = 1, adc_ref_dn = 2, wheel_state = 20, wheel_last_key = 0,
             adc_up_val = 500, adc_dn_val = 100\<rparr>
   in adc_wheel_callback (\<lambda>k w. (k, w)) stu (\<lambda>_. 0) 1 488 ws =
      adc_wheel_callback (\<lambda>k w. (0, w\<lparr>wheel_state := 7\<rparr>)) stu (\<lambda>_. 0) 1 488 ws"
  unfolding Let_def by (rule repeat_blocks_keys) simp

section \<open>What the spacing is good for\<close>

lemma fold_min_le:
  fixes f :: "nat \<Rightarrow> nat"
  shows "fold (\<lambda>j m. let d = f j in if m \<ge> d then d else m) js m \<le> m"
    "j \<in> set js \<Longrightarrow> fold (\<lambda>j m. let d = f j in if m \<ge> d then d else m) js m \<le> f j"
proof -
  show *: "fold (\<lambda>j m. let d = f j in if m \<ge> d then d else m) js m \<le> m" for js m
    by (induction js arbitrary: m) (auto simp: Let_def intro: order_trans)
  show "j \<in> set js \<Longrightarrow> fold (\<lambda>j m. let d = f j in if m \<ge> d then d else m) js m \<le> f j"
  proof (induction js arbitrary: m)
    case (Cons a js)
    show ?case
    proof (cases "j = a")
      case True
      then show ?thesis
        using * [of js "if m \<ge> f a then f a else m"] by (auto simp: Let_def split: if_splits)
    next
      case False
      with Cons show ?thesis by (simp add: Let_def)
    qed
  qed simp
qed

lemma stw_min_le:
  assumes "i < j" "j < 25"
  shows "stw_min cf base \<le> stw_diff cf base i j"
proof -
  let ?g = "\<lambda>i m. fold (\<lambda>j m. let d = stw_diff cf base i j in if m \<ge> d then d else m) [i + 1..<25] m"
  have mono: "fold ?g is m \<le> m" for "is" m
    by (induction "is" arbitrary: m) (auto intro: order_trans fold_min_le(1))
  have "fold ?g is m \<le> stw_diff cf base i j" if "i \<in> set is" for "is" m
    using that
  proof (induction "is" arbitrary: m)
    case (Cons a "is")
    show ?case
    proof (cases "i = a")
      case True
      have "?g i m \<le> stw_diff cf base i j"
        using assms by (intro fold_min_le(2)) simp
      then show ?thesis using True mono [of "is" "?g i m"] by simp
    next
      case False
      with Cons show ?thesis by simp
    qed
  qed simp
  then show ?thesis using assms by (simp add: stw_min_def)
qed

lemma stw_min_50: "stw_min cf base \<le> 50"
proof -
  have "fold (\<lambda>i m. fold (\<lambda>j m. let d = stw_diff cf base i j in if m \<ge> d then d else m) [i + 1..<25] m) is m \<le> m"
    for "is" m
    by (induction "is" arbitrary: m) (auto intro: order_trans fold_min_le(1))
  then show ?thesis by (simp add: stw_min_def)
qed

lemma stw_diff_int:
  "int (stw_diff cf base i j) = \<bar>int (unat (stw_value cf base i)) - int (unat (stw_value cf base j))\<bar>"
  unfolding stw_diff_def Let_def word_less_nat_alt by arith

lemma study_tolerance: "unat (stw_min_a (stw_range_check cf stu)) = stw_min cf 329 div 2"
proof -
  have "stw_min cf 329 div 2 < 256" using stw_min_50 [of cf 329] by simp
  then show ?thesis by (simp add: stw_range_check_def unat_of_nat)
qed

lemma study_tolerance_b: "unat (stw_min_b (stw_range_check cf stu)) = stw_min cf 404 div 2"
proof -
  have "stw_min cf 404 div 2 < 256" using stw_min_50 [of cf 404] by simp
  then show ?thesis by (simp add: stw_range_check_def unat_of_nat)
qed

lemma fold_min_ge:
  "b \<le> m \<Longrightarrow> \<forall>j \<in> set js. b \<le> f j \<Longrightarrow> b \<le> fold (\<lambda>j m. let d = f j in if m \<ge> d then d else m) js m"
  by (induction js arbitrary: m) (auto simp: Let_def)

lemma stw_min_ge:
  assumes "b \<le> 50" "\<And>i j. i < j \<Longrightarrow> j < 25 \<Longrightarrow> b \<le> stw_diff cf base i j"
  shows "b \<le> stw_min cf base"
proof -
  let ?g = "\<lambda>i m. fold (\<lambda>j m. let d = stw_diff cf base i j in if m \<ge> d then d else m) [i + 1..<25] m"
  have "b \<le> fold ?g is m" if "b \<le> m" for "is" m
    using that
  proof (induction "is" arbitrary: m)
    case (Cons i "is")
    have "b \<le> ?g i m" using Cons.prems assms(2) by (intro fold_min_ge) auto
    with Cons.IH show ?case by simp
  qed simp
  with assms(1) show ?thesis by (simp add: stw_min_def)
qed

text \<open>
  The spacing in terms of numbers: an entry is a little-endian number, and \<open>distances\<close> holds
  the distances between any two of the 25 entries of a table.
\<close>

definition entry :: "config \<Rightarrow> nat \<Rightarrow> nat \<Rightarrow> nat" where
  "entry cf base i = unat (cf (base + 3 * i)) + 256 * unat (cf (base + 3 * i + 1))"

definition distances :: "config \<Rightarrow> nat \<Rightarrow> nat set" where
  "distances cf base = {nat \<bar>int (entry cf base i) - int (entry cf base j)\<bar> | i j. i < j \<and> j < 25}"

lemma stw_value_entry: "unat (stw_value cf base i) = entry cf base i"
proof -
  let ?lo = "cf (base + 3 * i)" and ?hi = "cf (base + 1 + 3 * i)"
  have "stw_value cf base i = ucast (ucast ?lo OR push_bit 8 (ucast ?hi) :: u32)"
    by (rule bit_word_eqI) (auto simp: stw_value_def bit_simps)
  then have "unat (stw_value cf base i) = unat (ucast ?lo OR push_bit 8 (ucast ?hi) :: u32) mod 65536"
    by (simp only: unsigned_ucast_eq take_bit_eq_mod) simp
  then show ?thesis
    unfolding unat_byte_pair using unat_u8 [of ?lo] unat_u8 [of ?hi] by (simp add: entry_def add.commute)
qed

lemma stw_diff_distance: "stw_diff cf base i j = nat \<bar>int (entry cf base i) - int (entry cf base j)\<bar>"
  using stw_diff_int [of cf base i j] by (simp add: stw_value_entry)

lemma stw_min_Min: "stw_min cf base = Min (insert 50 (distances cf base))"
proof -
  have "distances cf base \<subseteq> (\<lambda>(i, j). stw_diff cf base i j) ` ({..<25} \<times> {..<25})"
    by (force simp: distances_def stw_diff_distance)
  then have fin: "finite (insert 50 (distances cf base))" by (simp add: finite_subset)
  have "stw_min cf base \<le> d" if "d \<in> insert 50 (distances cf base)" for d
    using that stw_min_50 stw_min_le by (fastforce simp: distances_def simp flip: stw_diff_distance)
  then have "stw_min cf base \<le> Min (insert 50 (distances cf base))"
    using fin by (intro Min.boundedI) auto
  moreover have "Min (insert 50 (distances cf base)) \<le> stw_min cf base"
    using fin by (intro stw_min_ge) (auto intro!: Min_le simp: distances_def stw_diff_distance)
  ultimately show ?thesis by simp
qed

text \<open>C38. \<open>stw_range_check\<close> leaves in its two tolerances half of the least distance between any
  two of the 25 little-endian values of the table from offset 329 on, and of the one from
  offset 404 on, and never more than 25; nothing else of the study data changes.\<close>

theorem stw_range_check_least:
  "unat (stw_min_a (stw_range_check cf stu)) = Min (insert 50 (distances cf 329)) div 2 \<and>
   unat (stw_min_b (stw_range_check cf stu)) = Min (insert 50 (distances cf 404)) div 2 \<and>
   adc_enabled (stw_range_check cf stu) = adc_enabled stu \<and> adc_type (stw_range_check cf stu) = adc_type stu \<and>
   dir_inv (stw_range_check cf stu) = dir_inv stu"
  by (simp only: study_tolerance study_tolerance_b stw_min_Min) (simp add: stw_range_check_def)

text \<open>So no reading lies within tolerance of two different entries of a table.\<close>

theorem tolerance_separates:
  assumes "i < 25" "j < 25" "i \<noteq> j"
    and "\<bar>v - int (entry cf 329 i)\<bar> < int (unat (stw_min_a (stw_range_check cf stu)))"
  shows "\<not> \<bar>v - int (entry cf 329 j)\<bar> < int (unat (stw_min_a (stw_range_check cf stu)))"
proof -
  have "stw_min cf 329 \<le> stw_diff cf 329 (min i j) (max i j)"
    using assms(1-3) by (intro stw_min_le) auto
  then have "2 * int (stw_min cf 329 div 2) \<le> \<bar>int (entry cf 329 i) - int (entry cf 329 j)\<bar>"
    by (auto simp: stw_diff_distance min_def max_def split: if_splits)
  then show ?thesis using assms(4) by (simp add: study_tolerance)
qed

text \<open>But rows that were never studied are compared too: as soon as two of the 25 rows hold the
  same value the tolerance is zero, and no reading is within tolerance of anything.\<close>

theorem unused_rows_zero_tolerance:
  assumes "i < j" "j < 25" "entry cf 329 i = entry cf 329 j"
  shows "stw_min_a (stw_range_check cf stu) = 0"
proof -
  have "stw_diff cf 329 i j = 0" by (simp add: stw_diff_distance assms(3))
  then have "stw_min cf 329 = 0" using stw_min_le [OF assms(1,2), of cf 329] by simp
  then show ?thesis by (simp add: stw_range_check_def)
qed

theorem unused_rows_zero_tolerance_witness:
  "stw_min_a (stw_range_check (\<lambda>_. 0) \<lparr>adc_enabled = 0, adc_type = 0, dir_inv = 0, stw_min_a = 7, stw_min_b = 7\<rparr>) = 0"
  by (rule unused_rows_zero_tolerance [where i = 0 and j = 1]) (simp_all add: entry_def)

end
