(* ===== verification/Virtual_Serial.thy ===== *)
theory Virtual_Serial
  imports Mtc_State
begin

text \<open>
  The virtual serial ports (vs.c) that carry reports to Android: the frame of \<open>vs_send\<close>, raw
  transmission, and the port operations with a state. The tty layer is behind the events:
  \<open>Put\<close> stores one character in the flip buffer (directly or through
  \<open>tty_insert_flip_string_flags\<close>, which does the same), \<open>Push\<close> hands the buffer over.

  \<open>vs_stop_rx\<close> may run at any time: \<open>rx i\<close> is the value of \<open>vs_rx\<close> the sender sees before
  character \<open>i\<close>. Lengths are not negative. \<open>vs_work\<close> and \<open>vs_dowork\<close> are in Vs_Work; the driver
  registration is not modelled.
\<close>

datatype vs_event =
    Put u8
  | Push
  | Vs_lock
  | Vs_unlock
  | Wq_create string
  | Wq_flush
  | Wq_destroy

record vs_port =
  mctrl_type :: int
  tx_empty :: u32
  value1 :: int
  vs_uart_speed :: nat
  vs_rx :: int
  port_n :: nat
  vs_wq :: "string option"
  shutdown :: int
  port_disabled :: int
  uart_type :: nat
  icount_rx :: u32
  vs_trace :: "vs_event list"     \<comment> \<open>newest first\<close>

definition vs_emit :: "vs_event \<Rightarrow> vs_port \<Rightarrow> vs_port" where
  "vs_emit x p = p\<lparr>vs_trace := x # vs_trace p\<rparr>"

section \<open>Port operations\<close>

definition vs_stop_rx :: "vs_port \<Rightarrow> vs_port" where
  "vs_stop_rx p = p\<lparr>vs_rx := 0\<rparr>"

definition vs_get_mctrl :: "vs_port \<Rightarrow> u32" where
  "vs_get_mctrl p = (let result = 0x100 OR 0x040 in if mctrl_type p \<noteq> 0 then result OR 0x020 else result)"

definition vs_type :: "vs_port \<Rightarrow> string option" where
  "vs_type p = (if uart_type p = 86 then Some ''MAX3100'' else None)"

definition vs_config_port :: "u32 \<Rightarrow> vs_port \<Rightarrow> vs_port" where
  "vs_config_port flags p = (if flags AND 1 \<noteq> 0 then p\<lparr>uart_type := 86\<rparr> else p)"

definition vs_verify_port :: "nat \<Rightarrow> int" where
  "vs_verify_port ser_type = (if ser_type = 0 \<or> ser_type = 86 then 0 else -22)"

definition vs_shutdown :: "vs_port \<Rightarrow> vs_port" where
  "vs_shutdown p =
     (if port_disabled p = 0 then
        let p = p\<lparr>shutdown := 1\<rparr>
        in if vs_wq p \<noteq> None then (vs_emit Wq_destroy (vs_emit Wq_flush p))\<lparr>vs_wq := None\<rparr> else p
      else p)"

text \<open>\<open>created\<close>: whether \<open>create_workqueue\<close> succeeds.\<close>

definition vs_startup :: "bool \<Rightarrow> vs_port \<Rightarrow> int \<times> vs_port" where
  "vs_startup created p =
     (let p = p\<lparr>vs_uart_speed := 115200\<rparr>
      in if port_disabled p \<noteq> 0 then (0, p)
         else
           let name = ''vs-'' @ [char_of (48 + port_n p)];
               p = vs_emit (Wq_create name) (p\<lparr>shutdown := 0, value1 := 0\<rparr>);
               p = p\<lparr>vs_wq := (if created then Some name else None)\<rparr>
           in if \<not> created then (-12, p) else (0, p\<lparr>vs_rx := 1\<rparr>))"

section \<open>Sending\<close>

text \<open>The frame \<open>vs_send\<close> builds in its buffer of \<open>count + 4\<close> bytes.\<close>

definition vs_frame :: "u8 \<Rightarrow> u8 list \<Rightarrow> u8 list" where
  "vs_frame cmd buf =
     (let n = of_nat (length buf)
      in [46, cmd, n] @ buf @ [NOT (foldl (+) (n + cmd) buf)])"

text \<open>
  The loop over the characters from number \<open>i\<close> on, the count of characters having been
  advanced and \<open>vs_rx\<close> read for character \<open>i\<close>. \<open>LABEL_22\<close> is reached only when the last
  character was stored.
\<close>

fun vs_chars :: "(nat \<Rightarrow> bool) \<Rightarrow> nat \<Rightarrow> u8 list \<Rightarrow> vs_port \<Rightarrow> vs_port" where
  "vs_chars rx i [] p = p"
| "vs_chars rx i (b # bs) p =
     (let p = p\<lparr>icount_rx := icount_rx p + 1\<rparr>
      in if \<not> rx i then p
         else
           let p = vs_emit (Put b) p;
               flip_buf = (i AND 0xF = 15);
               p = (if flip_buf then vs_emit Push p else p)
           in if bs = [] then if flip_buf then p else vs_emit Push p
              else vs_chars rx (i + 1) bs p)"

text \<open>
  \<open>allocated\<close>: whether \<open>kmalloc\<close> finds memory for the frame. Its result is not looked at, so a
  failure is a write through the null pointer: no outcome.
\<close>

definition vs_send ::
    "bool \<Rightarrow> bool \<Rightarrow> mtc_car_status \<Rightarrow> (nat \<Rightarrow> bool) \<Rightarrow> u8 \<Rightarrow> u8 list \<Rightarrow> vs_port \<Rightarrow>
     (bool \<times> vs_port) option" where
  "vs_send allocated vs_uart_init c rx cmd buf p =
     (if vs_uart_init \<and> call_active c \<noteq> 0 \<and> vs_rx p \<noteq> 0 then
        let p = vs_emit Vs_lock p
        in if \<not> allocated then None
           else Some (False, vs_emit Vs_unlock (vs_chars rx 0 (vs_frame cmd buf) p))
      else Some (vs_uart_init, p))"

text \<open>\<open>flip_buf\<close> is uninitialised when there is nothing to send (\<open>undef\<close>).\<close>

fun vs_raw_chars :: "(nat \<Rightarrow> bool) \<Rightarrow> bool \<Rightarrow> nat \<Rightarrow> u8 list \<Rightarrow> vs_port \<Rightarrow> vs_port" where
  "vs_raw_chars rx flip_buf i [] p = (if flip_buf then p else vs_emit Push p)"
| "vs_raw_chars rx flip_buf i (b # bs) p =
     (let p = p\<lparr>icount_rx := icount_rx p + 1\<rparr>
      in if \<not> rx i then p
         else
           let p = vs_emit (Put b) p;
               flip_buf = (i AND 0xF = 15);
               p = (if flip_buf then vs_emit Push p else p)
           in vs_raw_chars rx flip_buf (i + 1) bs p)"

definition vs_send_raw ::
    "bool \<Rightarrow> mtc_car_status \<Rightarrow> (nat \<Rightarrow> bool) \<Rightarrow> bool \<Rightarrow> u8 list \<Rightarrow> vs_port \<Rightarrow> vs_port" where
  "vs_send_raw vs_uart_init c rx undef data p =
     (if vs_uart_init \<and> call_active c \<noteq> 0 \<and> vs_rx p \<noteq> 0 then
        vs_emit Vs_unlock (vs_raw_chars rx undef 0 data (vs_emit Vs_lock p))
      else p)"

section \<open>What arrives\<close>

text \<open>The characters handed over to the tty: those stored before the last push, oldest first.\<close>

fun stored :: "vs_event list \<Rightarrow> u8 list" where
  "stored [] = []"
| "stored (Put b # h) = stored h @ [b]"
| "stored (_ # h) = stored h"

definition delivered :: "vs_port \<Rightarrow> u8 list" where
  "delivered p = stored (dropWhile (\<lambda>x. x \<noteq> Push) (vs_trace p))"

text \<open>
  A receiver of frames: skip what is not a start byte, then command, length, data, and a
  check byte that makes the sum of all bytes after the start byte 255.
\<close>

fun vs_parse :: "nat \<Rightarrow> u8 list \<Rightarrow> (u8 \<times> u8 list) list" where
  "vs_parse 0 bs = []"
| "vs_parse (Suc k) (b # cmd # n # rest) =
     (if b \<noteq> 46 then vs_parse k (cmd # n # rest)
      else
        let buf = take (unat n) rest
        in case drop (unat n) rest of
             [] \<Rightarrow> []
           | chk # rest' \<Rightarrow>
               if cmd + n + sum_list buf + chk = 255 then (cmd, buf) # vs_parse k rest'
               else vs_parse k (cmd # n # rest))"
| "vs_parse (Suc k) bs = []"

lemma foldl_sum: "foldl (+) (a :: u8) bs = a + sum_list bs"
  by (induction bs arbitrary: a) (simp_all add: add.assoc)

lemma not_sum: "x + NOT x = (255 :: u8)"
proof -
  have "x + NOT x = - 1" by (simp add: not_eq_complement)
  then show ?thesis by simp
qed

lemma vs_parse_frame:
  assumes "length buf < 256"
  shows "vs_parse (Suc k) (vs_frame cmd buf @ rest) = (cmd, buf) # vs_parse k rest"
proof -
  have n: "unat (of_nat (length buf) :: u8) = length buf"
    using assms by (simp add: unat_of_nat)
  have "cmd + of_nat (length buf) + sum_list buf + NOT (foldl (+) (of_nat (length buf) + cmd) buf) = 255"
    using not_sum [of "of_nat (length buf) + cmd + sum_list buf"]
    by (simp only: foldl_sum add.commute add.left_commute)
  then show ?thesis
    by (simp add: vs_frame_def Let_def n)
qed

lemma vs_chars_trace:
  "(\<And>j. j < i + length bs \<Longrightarrow> rx j) \<Longrightarrow> bs \<noteq> [] \<Longrightarrow>
     \<exists>h. vs_trace (vs_chars rx i bs p) = Push # h \<and> stored h = stored (vs_trace p) @ bs"
proof (induction bs arbitrary: i p)
  case (Cons b bs)
  have "rx i" using Cons.prems(1) by simp
  show ?case
  proof (cases "bs = []")
    case True
    with \<open>rx i\<close> show ?thesis by (auto simp: Let_def vs_emit_def)
  next
    case False
    let ?q = "let p = vs_emit (Put b) (p\<lparr>icount_rx := icount_rx p + 1\<rparr>)
      in if i AND 0xF = 15 then vs_emit Push p else p"
    have "vs_chars rx i (b # bs) p = vs_chars rx (i + 1) bs ?q"
      using \<open>rx i\<close> False by (simp add: Let_def)
    moreover have "stored (vs_trace ?q) = stored (vs_trace p) @ [b]"
      by (simp add: Let_def vs_emit_def)
    moreover have "rx j" if "j < i + 1 + length bs" for j
      using that Cons.prems(1) by simp
    ultimately show ?thesis
      using Cons.IH [of "i + 1" ?q] False by auto
  qed
qed simp

text \<open>
  What one report does to an open port: everything stored is handed over, the last push comes
  after the last character, and the port stays open.
\<close>

lemma vs_send_delivers:
  assumes "call_active c \<noteq> 0" "vs_rx p \<noteq> 0" "\<And>j. j < length buf + 4 \<Longrightarrow> rx j"
  shows "\<exists>p'. vs_send True True c rx cmd buf p = Some (False, p') \<and> vs_rx p' \<noteq> 0 \<and>
    stored (vs_trace p') = stored (vs_trace p) @ vs_frame cmd buf \<and> delivered p' = stored (vs_trace p')"
proof -
  have rx: "vs_rx (vs_chars rx i bs p) = vs_rx p" for rx i bs p
    by (induction bs arbitrary: i p) (auto simp: Let_def vs_emit_def)
  have "length (vs_frame cmd buf) = length buf + 4" "vs_frame cmd buf \<noteq> []"
    by (simp_all add: vs_frame_def Let_def)
  then obtain h where "vs_trace (vs_chars rx 0 (vs_frame cmd buf) (vs_emit Vs_lock p)) = Push # h"
    "stored h = stored (vs_trace p) @ vs_frame cmd buf"
    using vs_chars_trace [of 0 "vs_frame cmd buf" rx "vs_emit Vs_lock p"] assms(3)
    by (auto simp: vs_emit_def)
  with assms(1,2) show ?thesis
    by (simp add: vs_send_def delivered_def vs_emit_def rx Let_def)
qed

text \<open>One report after another, while the port stays open and memory is found.\<close>

fun vs_sends :: "mtc_car_status \<Rightarrow> (u8 \<times> u8 list) list \<Rightarrow> vs_port \<Rightarrow> vs_port option" where
  "vs_sends c [] p = Some p"
| "vs_sends c ((cmd, buf) # ms) p =
     Option.bind (vs_send True True c (\<lambda>_. True) cmd buf p) (\<lambda>(_, p). vs_sends c ms p)"

lemma vs_sends_delivered:
  assumes "call_active c \<noteq> 0" "vs_rx p \<noteq> 0" "delivered p = stored (vs_trace p)"
  shows "\<exists>p'. vs_sends c ms p = Some p' \<and>
    delivered p' = delivered p @ concat (map (\<lambda>(cmd, buf). vs_frame cmd buf) ms)"
  using assms(2,3)
proof (induction ms arbitrary: p)
  case (Cons m ms)
  obtain cmd buf where m: "m = (cmd, buf)" by (cases m)
  obtain q where q: "vs_send True True c (\<lambda>_. True) cmd buf p = Some (False, q)" "vs_rx q \<noteq> 0"
    "stored (vs_trace q) = stored (vs_trace p) @ vs_frame cmd buf" "delivered q = stored (vs_trace q)"
    using vs_send_delivers [OF assms(1) Cons.prems(1), where rx = "\<lambda>_. True" and buf = buf and cmd = cmd]
    by blast
  from Cons.IH [OF q(2,4)] q Cons.prems(2) show ?case by (auto simp: m)
qed simp

lemma vs_parse_frames:
  "\<forall>(cmd, buf) \<in> set ms. length buf < 256 \<Longrightarrow>
     vs_parse (length ms) (concat (map (\<lambda>(cmd, buf). vs_frame cmd buf) ms)) = ms"
proof (induction ms)
  case (Cons m ms)
  obtain cmd buf where m: "m = (cmd, buf)" by (cases m)
  from Cons.prems have "length buf < 256" by (simp add: m)
  from vs_parse_frame [OF this] Cons show ?case by (simp add: m)
qed simp

definition vs_open_port :: vs_port where
  "vs_open_port = \<lparr>mctrl_type = 0, tx_empty = 0, value1 = 0, vs_uart_speed = 115200, vs_rx = 1,
     port_n = 0, vs_wq = None, shutdown = 0, port_disabled = 0, uart_type = 86, icount_rx = 0,
     vs_trace = []\<rparr>"

lemma vs_open_ready: "call_active car_0 \<noteq> 0" "vs_rx vs_open_port \<noteq> 0" "vs_trace vs_open_port = []"
  by (simp_all add: vs_open_port_def car_0_def)

text \<open>C3. Reports of at most 255 data bytes each, sent one after another over a virtual serial port
  that is initialised and stays open, with a call active and memory for every frame: what has
  been handed over to the tty when the last one is sent is read back by a receiver of frames as
  exactly these reports, in order, each with its command and its data, and with a correct check
  byte. Nothing had been stored in the port before.\<close>

theorem vs_reports_roundtrip:
  assumes "call_active c \<noteq> 0" "vs_rx p \<noteq> 0" "stored (vs_trace p) = []"
    and "\<forall>(cmd, buf) \<in> set ms. length buf < 256"
  shows "\<exists>p'. vs_sends c ms p = Some p' \<and> vs_parse (length ms) (delivered p') = ms"
proof -
  have "stored (dropWhile (\<lambda>x. x \<noteq> Push) h) = []" if "stored h = []" for h
    using that by (induction h rule: stored.induct) auto
  then have "delivered p = []" using assms(3) by (simp add: delivered_def)
  then show ?thesis
    using vs_sends_delivered [OF assms(1,2), of ms] assms(3) vs_parse_frames [OF assms(4)] by auto
qed

theorem vs_reports_roundtrip_witness:
  "\<exists>p'. vs_sends car_0 [(0x8E, [5]), (0x92, [46, 255, 46])] vs_open_port = Some p' \<and>
     vs_parse 2 (delivered p') = [(0x8E, [5]), (0x92, [46, 255, 46])]"
  using vs_reports_roundtrip [of car_0 vs_open_port "[(0x8E, [5]), (0x92, [46, 255, 46])]"]
  by (simp add: vs_open_ready numeral_2_eq_2 del: vs_parse.simps vs_sends.simps)

text \<open>A report is handed over whole if the port stays open while it is sent.\<close>

theorem vs_send_pushes:
  assumes "call_active c \<noteq> 0" "vs_rx p \<noteq> 0" "\<forall>j < length buf + 4. rx j"
  shows "\<exists>p'. vs_send True True c rx cmd buf p = Some (False, p') \<and>
    delivered p' = stored (vs_trace p) @ vs_frame cmd buf"
  using vs_send_delivers [OF assms(1,2), where buf = buf and rx = rx and cmd = cmd] assms(3) by auto

theorem vs_send_pushes_witness:
  "\<exists>p'. vs_send True True car_0 (\<lambda>_. True) 0x8E [5] vs_open_port = Some (False, p') \<and>
     delivered p' = vs_frame 0x8E [5]"
  using vs_send_pushes [of car_0 vs_open_port "[5]" "\<lambda>_. True" "0x8E"]
  by (simp add: vs_open_ready)

end
