(* ===== verification/Lcd.thy ===== *)
theory Lcd
  imports Mtc_State
begin

text \<open>
  The segment display (lcd.c): the page of 32 nibbles, the digits and symbols drawn into it,
  flashing, the text interface \<open>lcd_show\<close>, and the two ways of talking to the display chip.
  The framebuffer glue at the end of lcd.c is not modelled; \<open>lcd_probe\<close> is in Probe.
\<close>

record lcd_state =
  lcd_page :: "u8 list"
  lcd_enabled :: bool
  lcd_flash_mode :: bool
  lcd_flash_idx :: nat

section \<open>Tables\<close>

definition symbol_map :: "u32 list" where
  "symbol_map = [
     0xC0804000, 0x41810242, 0x0804C2C1, 0x9EDE100C,
     0x0B07035E, 0x1B19150F, 0x5F9FDF1F, 0x00001713]"

definition dig_seg :: "u32 list" where
  "dig_seg = [
     0x0000FC00, 0x00006000, 0x0000DB00, 0x0000F300,
     0x00006700, 0x0000B700, 0x0000BF00, 0x0000E000,
     0x0000FF00, 0x0000F700, 0x00000000, 0x00000300,
     0x0000EF00, 0x0000F148, 0x00009C00, 0x0000F048,
     0x00009F00, 0x00008F00, 0x0000BD00, 0x00006F00,
     0x00009048, 0x00007800, 0x00000E30, 0x00001C00,
     0x00006CA0, 0x00006C90, 0x0000FC00, 0x0000CF00,
     0x0000FC10, 0x0000CF10, 0x0000B700, 0x00008048,
     0x00007C00, 0x00000C24, 0x00006C54, 0x000000B4,
     0x00007700, 0x00009024]"

definition dig_map :: "u32 list" where
  "dig_map = [
     0x0647C7C6, 0x8784C444, 0x468685C5, 0xCBCA0545,
     0xC8480A4B, 0x89C98B88, 0x09494A8A, 0x0E4FCFCE,
     0x8F8CCC4C, 0x4E8E8DCD, 0xD3D20D4D, 0xD0501253,
     0x91D19390, 0x11515292, 0x1455D5D4, 0x95959454,
     0x00000000, 0xD7D60000, 0x96561657, 0x00009797,
     0x00000000, 0x1859D9D8, 0x99999858, 0x00000000,
     0xDBDA0000, 0x9A5A1A5B, 0x00009B9B, 0x00000000,
     0x1C5DDDDC, 0x9D9D9C5C, 0x00000000, 0x00000000]"

definition flash_tab :: "u32 list" where
  "flash_tab = [
     0x00000071, 0x000000B3, 0x00000137, 0x0000007F,
     0x000000B8, 0x00000134, 0x00000072, 0x000000B1,
     0x00000133, 0x00000077, 0x000000BF, 0x00000138,
     0x00000074, 0x000000B2, 0x00000131, 0x00000073,
     0x000000B7, 0x0000013F, 0x00000078, 0x000000B4,
     0x00000132]"

text \<open>The bytes of a table of little-endian words.\<close>

definition byte_of :: "u32 list \<Rightarrow> nat \<Rightarrow> u8" where
  "byte_of tab i = ucast (drop_bit (8 * (i mod 4)) (tab ! (i div 4)))"

section \<open>The wire\<close>

partial_function (option) lcd_delay_loop :: "env \<Rightarrow> int \<Rightarrow> sys \<Rightarrow> sys option" where
  "lcd_delay_loop e us s =
     (let (tv, s) = do_gettimeofday e s;
          check = (if us > snd tv then snd tv + 1000000 - us else snd tv - us)
      in if check \<le> 5 then lcd_delay_loop e us s else Some s)"

definition lcd_delay :: "env \<Rightarrow> sys \<Rightarrow> sys option" where
  "lcd_delay e s = (let (tv, s) = do_gettimeofday e s in lcd_delay_loop e (snd tv) s)"

fun lcd_send_bits :: "env \<Rightarrow> nat \<Rightarrow> u16 \<Rightarrow> sys \<Rightarrow> sys option" where
  "lcd_send_bits e 0 bit_pos s = Some s"
| "lcd_send_bits e (Suc n) bit_pos s = do {
     let s = gpio_direction_output gpio_LCD_CLK False s;
     s \<leftarrow> lcd_delay e (gpio_direction_output gpio_LCD_DAT (bit_pos AND 0x800 \<noteq> 0) s);
     s \<leftarrow> lcd_delay e (gpio_direction_output gpio_LCD_CLK True s);
     lcd_send_bits e n (bit_pos * 2) s }"

definition lcd_send_cmd :: "env \<Rightarrow> u16 \<Rightarrow> sys \<Rightarrow> sys option" where
  "lcd_send_cmd e cmd s = do {
     s \<leftarrow> lcd_delay e (gpio_direction_output gpio_LCD_CS False s);
     s \<leftarrow> lcd_send_bits e 12 ((cmd AND 0x1FF) OR 0x800) s;
     let s = gpio_direction_output gpio_LCD_CS True s;
     lcd_delay e (gpio_direction_output gpio_LCD_DAT True s) }"

text \<open>The nine command bits of \<open>Lcd_work\<close>, and its \<open>while (4)\<close> for one nibble of the page.\<close>

fun lcd_work_cmd :: "env \<Rightarrow> nat \<Rightarrow> u32 \<Rightarrow> sys \<Rightarrow> sys option" where
  "lcd_work_cmd e 0 v s = Some s"
| "lcd_work_cmd e (Suc n) v s = do {
     let s = gpio_direction_output gpio_LCD_CLK False s;
     s \<leftarrow> lcd_delay e (gpio_direction_output gpio_LCD_DAT (v AND 0x100 \<noteq> 0) s);
     s \<leftarrow> lcd_delay e (gpio_direction_output gpio_LCD_CLK True s);
     lcd_work_cmd e n (push_bit 1 v) s }"

partial_function (option) lcd_work_nibble :: "env \<Rightarrow> u32 \<Rightarrow> sys \<Rightarrow> sys option" where
  "lcd_work_nibble e v s =
     Option.bind (lcd_delay e (gpio_direction_output gpio_LCD_DAT (v AND 1 \<noteq> 0)
                    (gpio_direction_output gpio_LCD_CLK False s))) (\<lambda>s.
     Option.bind (lcd_delay e (gpio_direction_output gpio_LCD_CLK True s)) (\<lambda>s.
     lcd_work_nibble e (drop_bit 1 v) s))"

fun lcd_work_page :: "env \<Rightarrow> u8 list \<Rightarrow> sys \<Rightarrow> sys option" where
  "lcd_work_page e [] s = Some s"
| "lcd_work_page e (v # vs) s = Option.bind (lcd_work_nibble e (ucast v) s) (lcd_work_page e vs)"

abbreviation (input) lcd_mutex :: string where "lcd_mutex \<equiv> ''lcd_mutex''"

definition Lcd_work :: "env \<Rightarrow> lcd_state \<Rightarrow> sys \<Rightarrow> sys option" where
  "Lcd_work e l s = do {
     s \<leftarrow> lcd_delay e (gpio_direction_output gpio_LCD_CS False (emit (Lock lcd_mutex) s));
     s \<leftarrow> lcd_work_cmd e 9 320 s;
     s \<leftarrow> lcd_work_page e (take 32 (lcd_page l)) s;
     let s = gpio_direction_output gpio_LCD_CS True s;
     s \<leftarrow> lcd_delay e (gpio_direction_output gpio_LCD_DAT True s);
     Some (emit (Unlock lcd_mutex) s) }"

section \<open>The page\<close>

definition put_seg :: "u8 \<Rightarrow> bool \<Rightarrow> u8 list \<Rightarrow> u8 list" where
  "put_seg v on page =
     (let k = unat (v AND 0x1F); b = push_bit (unat (drop_bit 6 v)) 1
      in page[k := (if on then page ! k OR b else page ! k AND NOT b)])"

fun show_symbols :: "u32 \<Rightarrow> nat list \<Rightarrow> u8 list \<Rightarrow> u8 list" where
  "show_symbols result [] page = page"
| "show_symbols result (i # is) page =
     show_symbols (drop_bit 1 result) is
       (if i > 8 then put_seg (byte_of symbol_map i) (result AND 1 \<noteq> 0) page else page)"

definition lcd_show_symbol :: "u32 \<Rightarrow> u8 list \<Rightarrow> u8 list" where
  "lcd_show_symbol msk page = show_symbols (drop_bit 1 msk) [1..<30] page"

definition glyph :: "u8 \<Rightarrow> u8" where
  "glyph c =
     (if c - 48 > 9 then
        if c - 97 > 0x19 then
          if c - 65 > 0x19 then if c = 0x2D then 11 else 10
          else c - 53
        else c - 85
      else c - 48)"

fun seg_walk :: "u32 \<Rightarrow> u8 list \<Rightarrow> u8 list \<Rightarrow> u8 list" where
  "seg_walk v4 [] page = page"
| "seg_walk v4 (v9 # vs) page =
     seg_walk (push_bit 1 v4) vs (put_seg v9 (v4 AND 0x8000 \<noteq> 0) page)"

definition dig_pattern :: "u8 \<Rightarrow> nat \<Rightarrow> u32 \<times> nat" where
  "dig_pattern c idx =
     (if glyph c > 0xB \<and> idx > 3 then (0, 8)
      else (dig_seg ! unat (glyph c), if idx > 3 then 8 else 14))"

definition lcd_show_dig :: "u8 \<Rightarrow> nat \<Rightarrow> u8 list \<Rightarrow> u8 list" where
  "lcd_show_dig c idx page =
     (let (v4, v5) = dig_pattern c idx
      in seg_walk v4 (map (\<lambda>i. byte_of dig_map (14 * idx + i)) [0..<v5]) page)"

section \<open>Flashing and text\<close>

fun flash_segs :: "u32 \<Rightarrow> nat list \<Rightarrow> u8 list \<Rightarrow> u8 list" where
  "flash_segs msk [] page = page"
| "flash_segs msk (i # is) page =
     flash_segs (drop_bit 1 msk) is (put_seg (byte_of symbol_map i) (msk AND 1 \<noteq> 0) page)"

definition lcd_flash :: "u32 \<Rightarrow> lcd_state \<times> sys \<Rightarrow> lcd_state \<times> sys" where
  "lcd_flash msk ls =
     (case ls of (l, s) \<Rightarrow>
        if lcd_enabled l then
          let s = emit (Lock lcd_mutex) (emit (Cancel_delayed ''lcd_work'') s);
              l = l\<lparr>lcd_page := flash_segs msk [0..<9] (lcd_page l)\<rparr>
          in (l, emit (Queue_delayed ''lcd_work'' 0) (emit (Unlock lcd_mutex) s))
        else (l, s))"

definition Lcd_Flash_work :: "lcd_state \<times> sys \<Rightarrow> lcd_state \<times> sys" where
  "Lcd_Flash_work ls =
     (if lcd_enabled (fst ls) \<and> lcd_flash_mode (fst ls) then
        let (l, s) = lcd_flash (flash_tab ! lcd_flash_idx (fst ls)) ls;
            idx = lcd_flash_idx l + 1;
            l = l\<lparr>lcd_flash_idx := (if idx > 0x14 then 0 else idx)\<rparr>
        in (l, emit (Queue_delayed ''lcd_flash_work'' 120) s)
      else ls)"

text \<open>A character of the text, with the terminating zero.\<close>

definition char_at :: "u8 list \<Rightarrow> nat \<Rightarrow> u8" where
  "char_at str i = (if i < length str then str ! i else 0)"

text \<open>\<open>while (v8) { v8--; v9 = 10 * v9 - 48 + str[12 + (9 - v8)]; }\<close>\<close>

fun symbol_number :: "u8 list \<Rightarrow> nat \<Rightarrow> u32 \<Rightarrow> u32" where
  "symbol_number str 0 v9 = v9"
| "symbol_number str (Suc v8) v9 =
     symbol_number str v8 (10 * v9 - 48 + ucast (char_at str (12 + (9 - v8))))"

text \<open>Which character goes to which digit.\<close>

definition digit_chars :: "nat list" where
  "digit_chars = [0, 1, 2, 3, 5, 6, 8, 9, 10]"

definition show_digits :: "u8 list \<Rightarrow> u8 list \<Rightarrow> u8 list" where
  "show_digits str page =
     fold (\<lambda>idx page. lcd_show_dig (char_at str (digit_chars ! idx)) idx page) [0..<9] page"

definition symbol_mask :: "u8 list \<Rightarrow> u32" where
  "symbol_mask str =
     (let v11 = symbol_number str 9 0 AND 0xFFFFFFF;
          v11 = (if char_at str 4 = 0x2E then v11 OR 0x10000000 else v11)
      in if char_at str 7 = 0x2E then v11 OR 0x20000000 else v11)"

definition lcd_show :: "u8 list \<Rightarrow> lcd_state \<times> sys \<Rightarrow> lcd_state \<times> sys" where
  "lcd_show str ls =
     (case ls of (l, s) \<Rightarrow>
        if \<not> lcd_enabled l then (l, s)
        else if str = [0x30] then
          lcd_flash 0 (l\<lparr>lcd_flash_mode := False\<rparr>, emit (Cancel_delayed ''lcd_flash_work'') s)
        else if str = [0x31] then
          if \<not> lcd_flash_mode l then
            (l\<lparr>lcd_flash_idx := 0, lcd_flash_mode := True\<rparr>, emit (Queue_delayed ''lcd_flash_work'' 0) s)
          else (l, s)
        else if length str \<noteq> 21 then (l, s)
        else
          let s = emit (Lock lcd_mutex) (emit (Cancel_delayed ''lcd_work'') s);
              page = lcd_show_symbol (symbol_mask str) (show_digits str (lcd_page l))
          in (l\<lparr>lcd_page := page\<rparr>, emit (Queue_delayed ''lcd_work'' 0) (emit (Unlock lcd_mutex) s)))"

definition lcd_on :: "env \<Rightarrow> lcd_state \<Rightarrow> sys \<Rightarrow> sys option" where
  "lcd_on e l s = (if lcd_enabled l then lcd_send_cmd e 6 s else Some s)"

definition lcd_off :: "env \<Rightarrow> lcd_state \<Rightarrow> sys \<Rightarrow> sys option" where
  "lcd_off e l s = (if lcd_enabled l then lcd_send_cmd e 4 s else Some s)"

section \<open>The page is never sent\<close>

lemma lcd_work_nibble_stuck: "lcd_work_nibble e v s = None"
proof (rule ccontr)
  assume "lcd_work_nibble e v s \<noteq> None"
  then obtain r where "lcd_work_nibble e v s = Some r" by blast
  then show False
    by (rule lcd_work_nibble.raw_induct [rotated, where P = "\<lambda>e v s r. False"])
       (auto simp: bind_eq_Some)
qed

text \<open>Refreshing the display never ends: the loop that should send four bits of a nibble,
  \<open>while (4)\<close>, has no exit, so \<open>Lcd_work\<close>, which has taken the
  display mutex, does not return.\<close>

theorem Lcd_work_hangs:
  assumes "lcd_page l \<noteq> []"
  shows "Lcd_work e l s = None"
proof -
  obtain v vs where "lcd_page l = v # vs" using assms by (cases "lcd_page l") auto
  then have "lcd_work_page e (take 32 (lcd_page l)) t = None" for t
    by (simp add: lcd_work_nibble_stuck)
  then show ?thesis by (auto simp: Lcd_work_def bind_eq_None)
qed

theorem Lcd_work_hangs_witness:
  "Lcd_work \<lparr>level = (\<lambda>_ _. False), sec = (\<lambda>_. 0), usec = (\<lambda>h. int (length h)), junk = (\<lambda>_. 0),
     others = (\<lambda>_ c. c), mcu_data = (\<lambda>_. [])\<rparr>
     \<lparr>lcd_page = replicate 32 0, lcd_enabled = True, lcd_flash_mode = False, lcd_flash_idx = 0\<rparr> sys_0 = None"
  by (rule Lcd_work_hangs) simp

section \<open>Text on the display\<close>

text \<open>A segment is a bit of a nibble of the page.\<close>

definition seg_key :: "u8 \<Rightarrow> nat \<times> nat" where
  "seg_key v = (unat (v AND 0x1F), unat (drop_bit 6 v))"

definition lit :: "u8 list \<Rightarrow> nat \<times> nat \<Rightarrow> bool" where
  "lit page k = bit (page ! fst k) (snd k)"

definition dig_len :: "nat \<Rightarrow> nat" where
  "dig_len idx = (if idx > 3 then 8 else 14)"

definition dig_keys :: "nat \<Rightarrow> (nat \<times> nat) list" where
  "dig_keys idx = map (\<lambda>i. seg_key (byte_of dig_map (14 * idx + i))) [0..<dig_len idx]"

definition symbol_keys :: "(nat \<times> nat) list" where
  "symbol_keys = map (\<lambda>i. seg_key (byte_of symbol_map i)) [9..<30]"

lemma dig_keys_table: "map dig_keys [0..<9] = [
     [(6, 3), (7, 3), (7, 1), (6, 0), (4, 1), (4, 3), (4, 2), (7, 2), (5, 3), (5, 2), (6, 2), (6, 1), (5, 1), (5, 0)],
     [(10, 3), (11, 3), (11, 1), (10, 0), (8, 1), (8, 3), (8, 2), (11, 2), (9, 3), (9, 2), (10, 2), (10, 1), (9, 1), (9, 0)],
     [(14, 3), (15, 3), (15, 1), (14, 0), (12, 1), (12, 3), (12, 2), (15, 2), (13, 3), (13, 2), (14, 2), (14, 1), (13, 1), (13, 0)],
     [(18, 3), (19, 3), (19, 1), (18, 0), (16, 1), (16, 3), (16, 2), (19, 2), (17, 3), (17, 2), (18, 2), (18, 1), (17, 1), (17, 0)],
     [(20, 3), (21, 3), (21, 1), (20, 0), (20, 1), (20, 2), (21, 2), (21, 2)],
     [(22, 3), (23, 3), (23, 1), (22, 0), (22, 1), (22, 2), (23, 2), (23, 2)],
     [(24, 3), (25, 3), (25, 1), (24, 0), (24, 1), (24, 2), (25, 2), (25, 2)],
     [(26, 3), (27, 3), (27, 1), (26, 0), (26, 1), (26, 2), (27, 2), (27, 2)],
     [(28, 3), (29, 3), (29, 1), (28, 0), (28, 1), (28, 2), (29, 2), (29, 2)]]"
  by code_simp

lemma symbol_keys_table: "symbol_keys = [(2, 3), (4, 0), (8, 0), (12, 0), (16, 0), (30, 3), (30, 2), (30, 1), (3, 0), (7, 0), (11, 0), (15, 0), (21, 0), (25, 0), (27, 0), (31, 0), (31, 3), (31, 2), (31, 1), (19, 0), (23, 0)]"
  by code_simp

lemma keys_apart:
  "\<forall>i < 9. \<forall>j < 9. i \<noteq> j \<longrightarrow> set (dig_keys i) \<inter> set (dig_keys j) = {}"
  "\<forall>i < 9. set (dig_keys i) \<inter> set symbol_keys = {}"
proof -
  have "list_all (\<lambda>i. list_all (\<lambda>j. i = j \<or> list_all (\<lambda>x. x \<notin> set (map dig_keys [0..<9] ! j))
      (map dig_keys [0..<9] ! i)) [0..<9]) [0..<9]"
    unfolding dig_keys_table by code_simp
  then have L: "i = j \<or> (\<forall>x \<in> set (map dig_keys [0..<9] ! i). x \<notin> set (map dig_keys [0..<9] ! j))"
    if "i \<in> set [0..<9]" "j \<in> set [0..<9]" for i j
    using that unfolding list_all_iff by blast
  have at: "map dig_keys [0..<9] ! i = dig_keys i" "i \<in> set [0..<9]" if "i < 9" for i
    using that by simp_all
  have "x \<notin> set (dig_keys j)" if "i < 9" "j < 9" "i \<noteq> j" "x \<in> set (dig_keys i)" for i j x
    using L [OF at(2) [OF that(1)] at(2) [OF that(2)]] that(3,4)
    unfolding at(1) [OF that(1)] at(1) [OF that(2)] by blast
  then show "\<forall>i < 9. \<forall>j < 9. i \<noteq> j \<longrightarrow> set (dig_keys i) \<inter> set (dig_keys j) = {}"
    by blast
  have "list_all (\<lambda>i. list_all (\<lambda>x. x \<notin> set symbol_keys) (map dig_keys [0..<9] ! i)) [0..<9]"
    unfolding dig_keys_table symbol_keys_table by code_simp
  then show "\<forall>i < 9. set (dig_keys i) \<inter> set symbol_keys = {}"
    by (auto simp: list_all_iff)
qed

lemma keys_within:
  "\<forall>i < 4. distinct (dig_keys i)"
  "\<forall>i < 9. 3 < i \<longrightarrow> distinct (take 6 (dig_keys i) @ [dig_keys i ! 7]) \<and> dig_keys i ! 6 = dig_keys i ! 7"
proof -
  have "list_all (\<lambda>i. distinct (map dig_keys [0..<9] ! i)) [0..<4]"
    unfolding dig_keys_table by code_simp
  then show "\<forall>i < 4. distinct (dig_keys i)" by (auto simp: list_all_iff)
  have "list_all (\<lambda>i. distinct (take 6 (map dig_keys [0..<9] ! i) @ [map dig_keys [0..<9] ! i ! 7]) \<and>
      map dig_keys [0..<9] ! i ! 6 = map dig_keys [0..<9] ! i ! 7) [4..<9]"
    unfolding dig_keys_table by code_simp
  then have small: "distinct (take 6 (map dig_keys [0..<9] ! i) @ [map dig_keys [0..<9] ! i ! 7]) \<and>
      map dig_keys [0..<9] ! i ! 6 = map dig_keys [0..<9] ! i ! 7" if "i \<in> set [4..<9]" for i
    using that unfolding list_all_iff by blast
  show "\<forall>i < 9. 3 < i \<longrightarrow> distinct (take 6 (dig_keys i) @ [dig_keys i ! 7]) \<and> dig_keys i ! 6 = dig_keys i ! 7"
  proof (intro allI impI)
    fix i :: nat assume "i < 9" "3 < i"
    then have "i \<in> set [4..<9]" "map dig_keys [0..<9] ! i = dig_keys i" by (auto simp only: set_upt atLeastLessThan_iff nth_map_upt)
      simp_all
    then show "distinct (take 6 (dig_keys i) @ [dig_keys i ! 7]) \<and> dig_keys i ! 6 = dig_keys i ! 7"
      using small by metis
  qed
qed

lemma length_put_seg [simp]: "length (put_seg v on page) = length page"
  by (simp add: put_seg_def Let_def)

lemma lit_put_seg:
  assumes "length page = 32"
  shows "lit (put_seg v on page) k = (if k = seg_key v then on else lit page k)"
proof -
  have k: "unat (v AND 0x1F) < 32"
  proof -
    have "v AND 0x1F = take_bit 5 v" by (simp add: take_bit_eq_mask mask_eq_exp_minus_1)
    then have "unat (v AND 0x1F) = take_bit 5 (unat v)" by (simp add: unsigned_take_bit_eq)
    then show ?thesis using take_bit_nat_less_exp [of 5 "unat v"] by simp
  qed
  have b: "unat (drop_bit 6 v) < 4"
    using unat_u8 [of v] by (simp add: drop_bit_eq_div unat_div)
  define m :: u8 where "m = push_bit (unat (drop_bit 6 v)) 1"
  with b have one: "bit m n \<longleftrightarrow> n = unat (drop_bit 6 v)" for n
    by (auto simp: bit_exp_iff)
  have put: "put_seg v on page = page[unat (v AND 0x1F) :=
      (if on then page ! unat (v AND 0x1F) OR m else page ! unat (v AND 0x1F) AND NOT m)]"
    by (simp add: put_seg_def m_def Let_def)
  have n8: "bit (NOT (w :: u8)) n \<longleftrightarrow> n < 8 \<and> \<not> bit w n" for w n
    by (simp add: bit_not_iff)
  show ?thesis
  proof (cases "fst k = unat (v AND 0x1F)")
    case True
    have "bit (page ! fst k) (snd k) \<Longrightarrow> snd k < 8" by (auto dest: bit_imp_le_length)
    then show ?thesis
      using True k assms
      by (auto simp: lit_def put seg_key_def bit_or_iff bit_and_iff one n8 prod_eq_iff)
  next
    case False
    then show ?thesis by (auto simp: lit_def put seg_key_def nth_list_update_neq)
  qed
qed

definition put_all :: "(u8 \<times> bool) list \<Rightarrow> u8 list \<Rightarrow> u8 list" where
  "put_all ws page = fold (\<lambda>(v, on). put_seg v on) ws page"

lemma length_put_all [simp]: "length (put_all ws page) = length page"
  by (induction ws arbitrary: page) (auto simp: put_all_def)

lemma lit_put_other:
  "length page = 32 \<Longrightarrow> k \<notin> seg_key ` fst ` set ws \<Longrightarrow> lit (put_all ws page) k = lit page k"
  by (induction ws arbitrary: page) (auto simp: put_all_def lit_put_seg)

lemma lit_put_last:
  assumes "length page = 32" "i < length ws" "\<And>j. i < j \<Longrightarrow> j < length ws \<Longrightarrow> seg_key (fst (ws ! j)) \<noteq> seg_key (fst (ws ! i))"
  shows "lit (put_all ws page) (seg_key (fst (ws ! i))) = snd (ws ! i)"
proof -
  have ws: "ws = take i ws @ ws ! i # drop (Suc i) ws" by (rule id_take_nth_drop [OF assms(2)])
  have "seg_key (fst (ws ! i)) \<notin> seg_key ` fst ` set (drop (Suc i) ws)"
  proof
    assume "seg_key (fst (ws ! i)) \<in> seg_key ` fst ` set (drop (Suc i) ws)"
    then obtain n where "n < length ws - Suc i" "seg_key (fst (ws ! i)) = seg_key (fst (drop (Suc i) ws ! n))"
      by (auto simp: in_set_conv_nth image_iff)
    moreover from this have "Suc i + n < length ws" by linarith
    ultimately show False using assms(3) [of "Suc i + n"] by simp
  qed
  moreover have "put_all ws page = put_all (drop (Suc i) ws)
      (put_seg (fst (ws ! i)) (snd (ws ! i)) (put_all (take i ws) page))"
    by (subst ws) (simp add: put_all_def case_prod_unfold)
  ultimately show ?thesis
    using assms(1) by (simp add: lit_put_other lit_put_seg)
qed

lemma seg_walk_put_all:
  "length vs + k \<le> 16 \<Longrightarrow> seg_walk (push_bit k v4) vs page =
     put_all (zip vs (map (\<lambda>i. bit v4 (15 - i)) [k..<k + length vs])) page"
proof (induction vs arbitrary: k page)
  case Nil
  then show ?case by (simp add: put_all_def)
next
  case (Cons v vs)
  have "(0x8000 :: u32) = 2 ^ 15" by simp
  then have "push_bit k v4 AND 0x8000 \<noteq> 0 \<longleftrightarrow> bit (push_bit k v4) 15"
    by (simp only: and_exp_eq_0_iff_not_bit) simp
  then have top: "push_bit k v4 AND 0x8000 \<noteq> 0 \<longleftrightarrow> bit v4 (15 - k)"
    using Cons.prems by (auto simp: bit_push_bit_iff)
  have "push_bit 1 (push_bit k v4) = push_bit (Suc k) v4"
    by (simp only: push_bit_push_bit) simp
  moreover have "[k..<k + length (v # vs)] = k # [Suc k..<Suc k + length vs]"
    by (subst upt_conv_Cons) simp_all
  ultimately show ?case
    using Cons.IH [of "Suc k"] Cons.prems top
    by (simp only: seg_walk.simps top) (simp add: put_all_def)
qed

lemma show_dig_put_all:
  "lcd_show_dig c idx page =
     put_all (map (\<lambda>i. (byte_of dig_map (14 * idx + i), bit (fst (dig_pattern c idx)) (15 - i)))
       [0..<dig_len idx]) page"
proof -
  have n: "snd (dig_pattern c idx) = dig_len idx"
    by (simp add: dig_pattern_def dig_len_def)
  then obtain v4 where v4: "dig_pattern c idx = (v4, dig_len idx)" by (metis prod.collapse)
  have zip: "zip (map f xs) (map g xs) = map (\<lambda>i. (f i, g i)) xs" for f :: "nat \<Rightarrow> u8" and g :: "nat \<Rightarrow> bool" and xs
    by (induction xs) simp_all
  have "dig_len idx \<le> 16" by (simp add: dig_len_def)
  then show ?thesis
    using seg_walk_put_all [of "map (\<lambda>i. byte_of dig_map (14 * idx + i)) [0..<dig_len idx]" 0 v4 page]
    by (simp add: lcd_show_dig_def v4 zip)
qed

lemma length_show_dig [simp]: "length (lcd_show_dig c idx page) = length page"
  by (simp add: show_dig_put_all)

lemma show_dig_other:
  "length page = 32 \<Longrightarrow> k \<notin> set (dig_keys idx) \<Longrightarrow> lit (lcd_show_dig c idx page) k = lit page k"
  unfolding show_dig_put_all by (rule lit_put_other) (auto simp: dig_keys_def image_image)

lemma show_dig_own:
  assumes "length page = 32" "idx < 9" "i < dig_len idx" "\<not> (3 < idx \<and> i = 6)"
  shows "lit (lcd_show_dig c idx page) (dig_keys idx ! i) = bit (fst (dig_pattern c idx)) (15 - i)"
proof -
  let ?ws = "map (\<lambda>i. (byte_of dig_map (14 * idx + i), bit (fst (dig_pattern c idx)) (15 - i))) [0..<dig_len idx]"
  have key: "seg_key (fst (?ws ! j)) = dig_keys idx ! j" if "j < dig_len idx" for j
    using that by (simp add: dig_keys_def)
  have len: "length (dig_keys idx) = dig_len idx" by (simp add: dig_keys_def)
  have apart: "dig_keys idx ! j \<noteq> dig_keys idx ! i" if "i < j" "j < dig_len idx" for j
  proof (cases "3 < idx")
    case False
    then show ?thesis
      using keys_within(1) that assms(2) len by (auto simp: nth_eq_iff_index_eq)
  next
    case True
    then have d: "distinct (take 6 (dig_keys idx) @ [dig_keys idx ! 7])" "dig_keys idx ! 6 = dig_keys idx ! 7"
      and l: "dig_len idx = 8"
      using keys_within(2) assms(2) by (auto simp: dig_len_def)
    from d(1) have "dig_keys idx ! m \<noteq> dig_keys idx ! 7" if "m < 6" for m
      using that len l by (auto simp: in_set_conv_nth)
    moreover from d(1) have "distinct (take 6 (dig_keys idx))" by simp
    then have "take 6 (dig_keys idx) ! m \<noteq> take 6 (dig_keys idx) ! n" if "m < n" "n < 6" for m n
      using that len l by (subst nth_eq_iff_index_eq) auto
    then have "dig_keys idx ! m \<noteq> dig_keys idx ! n" if "m < n" "n < 6" for m n
      using that by (metis nth_take order.strict_trans)
    moreover have "i < 6" using that assms(4) True l by auto
    moreover have "j < 6 \<or> j = 6 \<or> j = 7" using that(2) l by linarith
    ultimately show ?thesis
      using that(1) d(2) by (elim disjE) metis+
  qed
  have "lit (put_all ?ws page) (seg_key (fst (?ws ! i))) = snd (?ws ! i)"
    using assms(1,3) by (intro lit_put_last) (use key apart in auto)
  then show ?thesis
    unfolding show_dig_put_all key [OF assms(3)] using assms(3) by simp
qed

lemma length_show_digits: "length (fold (\<lambda>idx page. lcd_show_dig (f idx) idx page) is page) = length page"
  by (induction "is" arbitrary: page) simp_all

lemma show_digits_own:
  assumes "length page = 32" "idx < 9" "i < dig_len idx" "\<not> (3 < idx \<and> i = 6)"
  shows "lit (show_digits str page) (dig_keys idx ! i) =
    bit (fst (dig_pattern (char_at str (digit_chars ! idx)) idx)) (15 - i)"
proof -
  let ?f = "\<lambda>idx. char_at str (digit_chars ! idx)"
  let ?k = "dig_keys idx ! i"
  have k: "?k \<in> set (dig_keys idx)" using assms(3) by (simp add: dig_keys_def)
  have other: "lit (fold (\<lambda>idx page. lcd_show_dig (?f idx) idx page) js q) ?k = lit q ?k"
    if "length q = 32" "\<forall>j \<in> set js. j < 9 \<and> j \<noteq> idx" for js q
    using that
  proof (induction js arbitrary: q)
    case (Cons j js)
    then have "?k \<notin> set (dig_keys j)" using keys_apart(1) assms(2) k by fastforce
    then show ?case using Cons by (simp add: show_dig_other)
  qed simp
  have "[0..<9] = [0..<idx] @ idx # [Suc idx..<9]"
    using assms(2) by (metis less_imp_add_positive upt_add_eq_append upt_conv_Cons le_add1 le0 add_0 order_less_imp_le)
  then have "show_digits str page = fold (\<lambda>idx page. lcd_show_dig (?f idx) idx page) [Suc idx..<9]
      (lcd_show_dig (?f idx) idx (fold (\<lambda>idx page. lcd_show_dig (?f idx) idx page) [0..<idx] page))"
    by (simp only: show_digits_def fold_append fold.simps o_apply)
  then show ?thesis
    using other [of "lcd_show_dig (?f idx) idx (fold (\<lambda>idx page. lcd_show_dig (?f idx) idx page) [0..<idx] page)"
        "[Suc idx..<9]"] assms show_dig_own
    by (simp add: length_show_digits del: upt_Suc)
qed

lemma show_symbols_put_all:
  "\<exists>ws. show_symbols m is page = put_all ws page \<and>
     seg_key ` fst ` set ws \<subseteq> (\<lambda>i. seg_key (byte_of symbol_map i)) ` {i \<in> set is. 8 < i}"
proof (induction "is" arbitrary: m page)
  case Nil
  then show ?case by (intro exI [of _ "[]"]) (simp add: put_all_def)
next
  case (Cons i "is")
  let ?w = "(byte_of symbol_map i, m AND 1 \<noteq> 0)"
  let ?p = "if i > 8 then put_seg (byte_of symbol_map i) (m AND 1 \<noteq> 0) page else page"
  obtain ws where ws: "show_symbols (drop_bit 1 m) is ?p = put_all ws ?p"
    "seg_key ` fst ` set ws \<subseteq> (\<lambda>i. seg_key (byte_of symbol_map i)) ` {i \<in> set is. 8 < i}"
    using Cons.IH [of "drop_bit 1 m" ?p] by blast
  show ?case
  proof (intro exI conjI)
    show "show_symbols m (i # is) page = put_all (if i > 8 then ?w # ws else ws) page"
      by (simp only: show_symbols.simps ws(1)) (simp add: put_all_def)
    show "seg_key ` fst ` set (if i > 8 then ?w # ws else ws) \<subseteq>
        (\<lambda>i. seg_key (byte_of symbol_map i)) ` {j \<in> set (i # is). 8 < j}"
      using ws(2) by auto
  qed
qed

lemma show_symbol_keeps_digits:
  assumes "length page = 32" "idx < 9" "k \<in> set (dig_keys idx)"
  shows "lit (lcd_show_symbol m page) k = lit page k"
proof -
  from show_symbols_put_all [of "drop_bit 1 m" "[1..<30]" page] obtain ws where
    ws: "lcd_show_symbol m page = put_all ws page"
    "seg_key ` fst ` set ws \<subseteq> (\<lambda>i. seg_key (byte_of symbol_map i)) ` {i \<in> set [1..<30]. 8 < i}"
    unfolding lcd_show_symbol_def by blast
  have "(\<lambda>i. seg_key (byte_of symbol_map i)) ` {i \<in> set [1..<30]. 8 < i} \<subseteq> set symbol_keys"
    by (auto simp: symbol_keys_def simp del: upt_rec_numeral)
  then have "k \<notin> seg_key ` fst ` set ws"
    using ws(2) keys_apart(2) assms(2,3) by blast
  with assms(1) show ?thesis by (simp add: ws(1) lit_put_other)
qed

text \<open>
  What a text of 21 characters leaves in the page buffer while the display is enabled: each of
  the nine digit places holds the segments of its own character, undisturbed by the other
  digits and by the symbols. In the five small places position 6 is excepted: it shares its
  segment with position 5. The page never reaches the controller (\<open>Lcd_work_hangs\<close>).
\<close>

theorem lcd_text_shown:
  assumes "lcd_enabled l" "length (lcd_page l) = 32" "length str = 21"
    and "idx < 9" "i < dig_len idx" "\<not> (3 < idx \<and> i = 6)"
  shows "lit (lcd_page (fst (lcd_show str (l, s)))) (dig_keys idx ! i) =
    bit (fst (dig_pattern (str ! (digit_chars ! idx)) idx)) (15 - i)"
proof -
  have "str \<noteq> [0x30]" "str \<noteq> [0x31]" using assms(3) by auto
  with assms have page: "lcd_page (fst (lcd_show str (l, s))) =
      lcd_show_symbol (symbol_mask str) (show_digits str (lcd_page l))"
    by (simp add: lcd_show_def Let_def)
  have len: "length (show_digits str (lcd_page l)) = 32"
    by (simp only: show_digits_def length_show_digits assms(2))
  have "dig_keys idx ! i \<in> set (dig_keys idx)" using assms(5) by (simp add: dig_keys_def)
  moreover have "digit_chars ! idx < 21"
  proof -
    have "list_all (\<lambda>x. x < 21) digit_chars" "length digit_chars = 9" by (simp_all add: digit_chars_def)
    then show ?thesis using assms(4) by (simp add: list_all_length)
  qed
  ultimately show ?thesis
    using show_symbol_keeps_digits [OF len assms(4)] show_digits_own [OF assms(2,4-6), of str]
    by (simp add: page char_at_def assms(3))
qed

theorem lcd_text_shown_witness:
  "let l = \<lparr>lcd_page = replicate 32 0, lcd_enabled = True, lcd_flash_mode = False, lcd_flash_idx = 0\<rparr>;
       str = replicate 21 0x38
   in lit (lcd_page (fst (lcd_show str (l, sys_0)))) (dig_keys 2 ! 3) =
      bit (fst (dig_pattern (str ! (digit_chars ! 2)) 2)) 12"
  using lcd_text_shown [of "\<lparr>lcd_page = replicate 32 0, lcd_enabled = True, lcd_flash_mode = False, lcd_flash_idx = 0\<rparr>"
      "replicate 21 0x38" 2 3 sys_0]
  by (simp add: Let_def dig_len_def del: replicate.simps)

end
