(* ===== verification/Dvd.thy ===== *)
theory Dvd
  imports Peers
begin

text \<open>
  The DVD drive (dvd.c): the three-wire link to the drive in both directions, the work items
  that use it, power, and the commands of the player. The state is the drive's record next to
  the shared state; \<open>live\<close> is what \<open>dvd_power_on\<close> has become after a transfer, during which
  another thread may have switched the drive off.

  \<open>cmd_work\<close> and \<open>media_work\<close> are empty in the sources. \<open>dvd_get_folder\<close>, \<open>dvd_get_media\<close> and
  \<open>dvd_get_media_title\<close> read through uninitialised pointers and are not modelled;
  \<open>dvd_probe\<close> is in Device_Probes.
\<close>

section \<open>State\<close>

text \<open>\<open>struct mtc_dvd_drv\<close> and the two globals behind it; a list is the list of its nodes.\<close>

record mtc_dvd_drv =
  play_status :: u8
  dvd_power_on :: bool
  dvd_irq :: nat
  dvd_intval_2 :: u32
  dvd_u16val_3 :: u16
  folder_list :: "nat list"
  media_list :: "nat list"
  media_state :: u8
  dvd_byteval_5 :: u8
  dvd_byteval_6 :: u8
  array1 :: "u8 list"
  array2 :: "u8 list"
  array3 :: "u8 list"
  array4 :: "u8 list"
  folders_count :: u16
  media_count :: u16
  dvd_u16val_7 :: u16
  folder_idx :: u16
  dvd_u16val_8 :: u16
  media_idx :: u16
  dvd_length :: u16
  dvd_position :: u16
  dvd_u16val_9 :: u16
  surface_flag :: u16
  dvd_u16val_10 :: u16
  track_flag :: u8
  do_media_index :: u8
  mcu_cmd_data :: u32
  mcu_cmd_t9 :: u32
  mcu_cmd_tD :: u32
  dvd_byteval_16 :: u8
  dvd_byteval_17 :: u8
  dvd_command_byte2 :: u32
  dvd_flag1 :: u32
  dvd_cmd_bit_count :: nat

type_synonym dvd_sys = "mtc_dvd_drv \<times> sys"

abbreviation (input) rev_lock :: string where "rev_lock \<equiv> ''dvd_rev_mutex''"

section \<open>The wire\<close>

definition dvd_CheckTimeOut :: "env \<Rightarrow> int \<Rightarrow> sys \<Rightarrow> bool \<times> sys" where
  "dvd_CheckTimeOut e timeout s =
     (let (tv, s) = do_gettimeofday e s;
          us = (if snd tv < timeout then snd tv + 1000000 else snd tv)
      in (us - timeout > 49999, s))"

text \<open>\<open>while (gpio_get_value(gpio) != want) if (CheckTimeOut(timeout)) fail\<close>, and with its timer.\<close>

partial_function (option) dvd_await ::
    "env \<Rightarrow> nat \<Rightarrow> bool \<Rightarrow> int \<Rightarrow> sys \<Rightarrow> (bool \<times> sys) option" where
  "dvd_await e gpio want timeout s =
     (let (v, s1) = gpio_get_value e gpio s
      in if v = want then Some (True, s1)
         else let (expired, s2) = dvd_CheckTimeOut e timeout s1
              in if expired then Some (False, s2) else dvd_await e gpio want timeout s2)"

definition dvd_await_from :: "env \<Rightarrow> nat \<Rightarrow> bool \<Rightarrow> sys \<Rightarrow> (bool \<times> sys) option" where
  "dvd_await_from e gpio want s =
     (let (tv, s) = do_gettimeofday e s in dvd_await e gpio want (snd tv) s)"

text \<open>\<open>n\<close> more bits from the drive; \<open>None\<close> inside is a time-out.\<close>

fun dvd_rev_bits :: "env \<Rightarrow> nat \<Rightarrow> u32 \<Rightarrow> sys \<Rightarrow> (u32 option \<times> sys) option" where
  "dvd_rev_bits e 0 cmd s = Some (Some cmd, s)"
| "dvd_rev_bits e (Suc n) cmd s = do {
     (ok, s) \<leftarrow> dvd_await_from e gpio_DVD_STB False (gpio_direction_output gpio_DVD_ACK True s);
     if \<not> ok then Some (None, gpio_direction_input gpio_DVD_ACK s) else do {
       let (b, s) = gpio_get_value e gpio_DVD_DATA s;
       (ok, s) \<leftarrow> dvd_await_from e gpio_DVD_STB True (gpio_direction_output gpio_DVD_ACK False s);
       if \<not> ok then Some (None, gpio_direction_input gpio_DVD_ACK s)
       else dvd_rev_bits e n (shift_in cmd b) s } }"

text \<open>The end of a frame: both lines handed back and the strobe answered.\<close>

definition dvd_rev_close :: "env \<Rightarrow> u32 option \<Rightarrow> sys \<Rightarrow> (u32 option \<times> sys) option" where
  "dvd_rev_close e r s =
     (case r of None \<Rightarrow> Some (None, s)
      | Some cmd \<Rightarrow> do {
          (ok, s) \<leftarrow> dvd_await_from e gpio_DVD_ACK False (gpio_direction_input gpio_DVD_ACK s);
          if \<not> ok then Some (None, s) else do {
            (ok, s) \<leftarrow> dvd_await_from e gpio_DVD_ACK True (gpio_direction_output gpio_DVD_STB False s);
            let s = gpio_direction_input gpio_DVD_STB s;
            if \<not> ok then Some (None, s) else Some (Some cmd, s) } })"

definition dvd_rev_word :: "env \<Rightarrow> sys \<Rightarrow> (u32 option \<times> sys) option" where
  "dvd_rev_word e s = do {
     (ok, s) \<leftarrow> dvd_await_from e gpio_DVD_DATA True (gpio_direction_output gpio_DVD_ACK False s);
     if \<not> ok then Some (None, gpio_direction_input gpio_DVD_ACK s) else do {
       (r, s) \<leftarrow> dvd_rev_bits e 16 0 s;
       dvd_rev_close e r s } }"

partial_function (option) dvd_rev_loop :: "env \<Rightarrow> sys \<Rightarrow> (int \<times> sys) option" where
  "dvd_rev_loop e s =
     (let (v, s) = gpio_get_value e gpio_DVD_DATA s
      in if v then Some (0, s)
         else Option.bind (dvd_rev_word e s) (\<lambda>(r, s).
           case r of None \<Rightarrow> Some (0, s)
           | Some cmd \<Rightarrow>
               let (v, s) = gpio_get_value e gpio_DVD_DATA (emit (Dvd_add_work 5 cmd) s)
               in if v then Some (1, s) else dvd_rev_loop e s))"

definition dvd_rev_part_2 :: "env \<Rightarrow> sys \<Rightarrow> (int \<times> sys) option" where
  "dvd_rev_part_2 e s = do {
     (r, s) \<leftarrow> dvd_rev_loop e (emit (Lock rev_lock) s);
     Some (r, emit (Unlock rev_lock) s) }"

text \<open>\<open>LABEL_12\<close> of \<open>cmd_send\<close>: \<open>k\<close> of \<open>n\<close> bits still to send.\<close>

fun dvd_send_bits :: "env \<Rightarrow> u32 \<Rightarrow> nat \<Rightarrow> nat \<Rightarrow> sys \<Rightarrow> (bool \<times> sys) option" where
  "dvd_send_bits e cmd n 0 s = Some (True, s)"
| "dvd_send_bits e cmd n (Suc k) s = do {
     let bit_val = (cmd AND drop_bit (n - Suc k) 0x800000 \<noteq> 0);
     let s = gpio_direction_output gpio_DVD_DATA bit_val s;
     (ok, s) \<leftarrow> dvd_await_from e gpio_DVD_ACK False (gpio_direction_output gpio_DVD_STB False s);
     if \<not> ok then
       Some (False, gpio_direction_input gpio_DVD_DATA (gpio_direction_input gpio_DVD_STB s))
     else do {
       (ok, s) \<leftarrow> dvd_await_from e gpio_DVD_ACK True (gpio_direction_output gpio_DVD_STB True s);
       if \<not> ok then
         Some (False, gpio_direction_input gpio_DVD_DATA (gpio_direction_input gpio_DVD_STB s))
       else dvd_send_bits e cmd n k s } }"

text \<open>The call for attention before the bits, and the drive's answer after them.\<close>

definition dvd_send_open :: "env \<Rightarrow> sys \<Rightarrow> (bool \<times> sys) option" where
  "dvd_send_open e s = do {
     let (tv, s) = do_gettimeofday e (gpio_direction_output gpio_DVD_DATA False s);
     (ok, s) \<leftarrow> dvd_await e gpio_DVD_ACK False (snd tv) s;
     if \<not> ok then Some (False, gpio_direction_input gpio_DVD_DATA s) else do {
       (ok, s) \<leftarrow> dvd_await e gpio_DVD_ACK True (snd tv) (gpio_direction_output gpio_DVD_DATA True s);
       Some (ok, if ok then s else gpio_direction_input gpio_DVD_DATA s) } }"

definition dvd_send_close :: "env \<Rightarrow> sys \<Rightarrow> (bool \<times> sys) option" where
  "dvd_send_close e s = do {
     let s = gpio_direction_input gpio_DVD_STB (gpio_direction_input gpio_DVD_DATA s);
     (ok, s) \<leftarrow> dvd_await_from e gpio_DVD_STB False (gpio_direction_output gpio_DVD_ACK False s);
     if \<not> ok then Some (False, gpio_direction_input gpio_DVD_ACK s) else do {
       (ok, s) \<leftarrow> dvd_await_from e gpio_DVD_STB True (gpio_direction_output gpio_DVD_ACK True s);
       Some (ok, gpio_direction_input gpio_DVD_ACK s) } }"

definition dvd_send_word :: "env \<Rightarrow> u32 \<Rightarrow> nat \<Rightarrow> sys \<Rightarrow> (bool \<times> sys) option" where
  "dvd_send_word e cmd n s = do {
     (ok, s) \<leftarrow> dvd_send_open e s;
     if \<not> ok then Some (False, s) else do {
       (ok, s) \<leftarrow> dvd_send_bits e cmd n n s;
       if \<not> ok then Some (False, s) else dvd_send_close e s } }"

section \<open>Work items\<close>

definition dvd_isr :: "dvd_sys \<Rightarrow> dvd_sys" where
  "dvd_isr ds = (case ds of (d, s) \<Rightarrow>
     (d, emit (Queue_work ''dvd_work'') (emit (Irq_off (dvd_irq d)) s)))"

definition dvd_add_work :: "u32 \<Rightarrow> u32 \<Rightarrow> sys \<Rightarrow> sys" where
  "dvd_add_work cmd1 cmd2 s = emit (Dvd_add_work cmd1 cmd2) s"

definition input_event_func :: "u16 \<Rightarrow> sys \<Rightarrow> sys" where
  "input_event_func cmd s = emit (Vs_send 2 0x89 [ucast (drop_bit 8 cmd), ucast cmd]) s"

definition cmd_surface :: "u16 \<Rightarrow> dvd_sys \<Rightarrow> dvd_sys" where
  "cmd_surface cmd ds = (case ds of (d, s) \<Rightarrow>
     if surface_flag d \<noteq> cmd then
       (d\<lparr>surface_flag := cmd\<rparr>, input_event_func (if cmd \<noteq> 0 then 0x9702 else 0x9701) s)
     else (d, s))"

type_synonym liveness = "event list \<Rightarrow> bool \<Rightarrow> bool"

definition look :: "liveness \<Rightarrow> dvd_sys \<Rightarrow> dvd_sys" where
  "look live ds = (case ds of (d, s) \<Rightarrow>
     (d\<lparr>dvd_power_on := live (trace s) (dvd_power_on d)\<rparr>, s))"

definition rev_work :: "env \<Rightarrow> liveness \<Rightarrow> dvd_sys \<Rightarrow> dvd_sys option" where
  "rev_work e live ds = (case ds of (d, s) \<Rightarrow>
     if dvd_power_on d then do {
       (_, s) \<leftarrow> dvd_rev_part_2 e s;
       let (d, s) = look live (d, s);
       if dvd_power_on d then do {
         let (d, s) = look live (d, emit (Irq_on (dvd_irq d)) s);
         if dvd_power_on d then do { (_, s) \<leftarrow> dvd_rev_part_2 e s; Some (d, s) }
         else Some (d, s) }
       else Some (d, s) }
     else Some (d, s))"

definition cmd_send :: "env \<Rightarrow> liveness \<Rightarrow> u32 \<Rightarrow> dvd_sys \<Rightarrow> dvd_sys option" where
  "cmd_send e live cmd ds = (case ds of (d, s) \<Rightarrow> do {
     let s = emit (Irq_off (dvd_irq d)) s;
     if dvd_power_on d then do {
       (_, s) \<leftarrow> dvd_send_word e cmd (dvd_cmd_bit_count d) (emit (Lock rev_lock) s);
       let (d, s) = look live (d, emit (Unlock rev_lock) s);
       if dvd_power_on d then do {
         let (d, s) = look live (d, emit (Irq_on (dvd_irq d)) s);
         if dvd_power_on d then do { (_, s) \<leftarrow> dvd_rev_part_2 e s; Some (d, s) }
         else Some (d, s) }
       else Some (d, s) }
     else Some (d, s) })"

text \<open>The two commands that select a track, in the form of either protocol.\<close>

definition track_commands :: "u32 \<Rightarrow> u32 \<Rightarrow> u32 \<times> u32" where
  "track_commands flag c =
     (if flag AND 0xFF \<noteq> 0 then
        ((c AND 0xFF00) OR 0x620000, drop_bit 16 (push_bit 24 c) OR 0x630000)
      else
        ((c AND 0xFF00) OR 0xB0000 OR drop_bit 8 (c XOR 0xB00),
         (c XOR 0xC) OR (push_bit 8 c AND 0xFFFF) OR 0xC0000))"

definition media_index_work :: "env \<Rightarrow> liveness \<Rightarrow> dvd_sys \<Rightarrow> dvd_sys option" where
  "media_index_work e live ds = (case ds of (d, s) \<Rightarrow>
     if dvd_power_on d then
       if do_media_index d = 1 then Some (d, emit (Queue_delayed ''media_index_work'' 1000) s)
       else do {
         (d, s) \<leftarrow> (if track_flag d AND 1 \<noteq> 0 then Some (d\<lparr>mcu_cmd_data := 0\<rparr>, s)
           else if mcu_cmd_data d \<noteq> 0 then do {
             let (c1, c2) = track_commands (dvd_flag1 d) (mcu_cmd_data d);
             (d, s) \<leftarrow> cmd_send e live c1 (d, s);
             (d, s) \<leftarrow> cmd_send e live c2 (d, s);
             Some (d\<lparr>mcu_cmd_data := 0, dvd_byteval_6 := 1\<rparr>, s) }
           else Some (d, s));
         Some (d\<lparr>dvd_byteval_17 := 0\<rparr>, s) }
     else Some (d, s))"

text \<open>The choice of the command reads memory next to the variable \<open>dvd_dev\<close>.\<close>

definition stop_work :: "env \<Rightarrow> liveness \<Rightarrow> dvd_sys \<Rightarrow> dvd_sys option" where
  "stop_work e live ds =
     (if dvd_byteval_5 (fst ds) \<noteq> 0 then do {
        let (d, s) = cmd_surface 0 ds;
        (d, s) \<leftarrow> cmd_send e live (if junk e (trace s) \<noteq> 0 then 0x30F00 else 0x20F0D) (d, s);
        Some (d, emit (Queue_delayed ''stop_work'' 2000) s) }
      else Some ((fst ds)\<lparr>do_media_index := 0\<rparr>, snd ds))"

section \<open>Power\<close>

definition cancel_works :: "sys \<Rightarrow> sys" where
  "cancel_works s =
     emit (Flush_queue ''dvd_wq'') (emit (Cancel_delayed ''media_index_work'')
       (emit (Cancel_delayed ''media_work'') (emit (Cancel_delayed ''stop_work'') s)))"

definition release_pins :: "sys \<Rightarrow> sys" where
  "release_pins s =
     gpio_direction_input gpio_DVD_ACK (gpio_direction_input gpio_DVD_STB
       (gpio_direction_input gpio_DVD_DATA s))"

definition dvd_poweroff :: "env \<Rightarrow> dvd_sys \<Rightarrow> int \<times> dvd_sys" where
  "dvd_poweroff e ds = (case ds of (d, s) \<Rightarrow>
     if dvd_power_on d then
       let d = d\<lparr>dvd_power_on := False\<rparr>;
           s = release_pins (emit (Irq_off (dvd_irq d)) (cancel_works s));
           s = msleep e 100 (emit (Arm_send_multi 0x9101 []) s)
       in (0, (d, emit (Arm_send 0x104) s))
     else (-1, (d, s)))"

text \<open>\<open>free_folder\<close> and \<open>free_media\<close>: unlink and free the first node until none is left.\<close>

fun free_nodes :: "nat list \<Rightarrow> nat list" where
  "free_nodes [] = []"
| "free_nodes (x # xs) = free_nodes xs"

definition dvd_reset :: "mtc_dvd_drv \<Rightarrow> mtc_dvd_drv" where
  "dvd_reset d = d\<lparr>dvd_command_byte2 := 0, mcu_cmd_data := 0, mcu_cmd_t9 := 0, mcu_cmd_tD := 0,
     dvd_byteval_16 := 0, dvd_byteval_17 := 0, dvd_intval_2 := 0, media_state := 0,
     dvd_u16val_3 := 0, dvd_byteval_5 := 0, dvd_byteval_6 := 0, dvd_u16val_9 := 0,
     surface_flag := 0, dvd_u16val_10 := 0, track_flag := 0, media_count := 0, dvd_length := 0,
     dvd_position := 0, dvd_u16val_7 := 0, folder_idx := -1, dvd_u16val_8 := 0, media_idx := 0,
     do_media_index := 0, folder_list := free_nodes (folder_list d),
     media_list := free_nodes (media_list d), array1 := replicate 32 0, array2 := replicate 32 0,
     array3 := replicate 32 0, array4 := replicate 32 0, dvd_flag1 := 0, dvd_power_on := True,
     dvd_cmd_bit_count := 24\<rparr>"

definition dvd_power :: "env \<Rightarrow> int \<Rightarrow> dvd_sys \<Rightarrow> int \<times> dvd_sys" where
  "dvd_power e pwr ds =
     (if pwr \<noteq> 0 then
        let (d, s) = ds;
            (d, s) = (if dvd_power_on d
              then let d = d\<lparr>dvd_power_on := False\<rparr> in (d, emit (Irq_off (dvd_irq d)) (cancel_works s))
              else (d, s));
            d = dvd_reset d;
            s = upd_car (\<lambda>c. c\<lparr>decoder_state := 0\<rparr>) (emit (Arm_send 0x103) s);
            s = emit (Arm_send_multi 0x9100 []) (emit (Arm_send_multi 0x9102 []) (release_pins s));
            s = emit (Arm_send_multi 0x9103 []) (msleep e 150 s);
            s = emit (Irq_on (dvd_irq d)) (msleep e 150 s)
        in (0, (d, s))
      else dvd_poweroff e ds)"

section \<open>Player commands\<close>

definition dvd_play_cmd :: "mtc_dvd_drv \<Rightarrow> u32" where
  "dvd_play_cmd d = (if play_status d \<noteq> 0 then 0x30D00 else 0x20D0F)"

definition dvd_stop_cmd :: "mtc_dvd_drv \<Rightarrow> u32" where
  "dvd_stop_cmd d = (if play_status d \<noteq> 0 then 0x30F00 else 0x20F0D)"

text \<open>\<open>LABEL_36\<close>: any pending selection is dropped and a running disc is stopped.\<close>

definition dvd_clear_selection :: "dvd_sys \<Rightarrow> dvd_sys" where
  "dvd_clear_selection ds = (case ds of (d, s) \<Rightarrow>
     let d = d\<lparr>mcu_cmd_data := 0, mcu_cmd_t9 := 0, mcu_cmd_tD := 0\<rparr>;
         s = emit (Cancel_delayed ''media_index_work'') s
     in if (media_state d = 2 \<or> media_state d = 3) \<and> dvd_byteval_5 d \<noteq> 0 then
          (d\<lparr>do_media_index := 1\<rparr>,
           emit (Queue_delayed ''stop_work'' 0) (emit (Cancel_delayed ''stop_work'') s))
        else (d, s))"

text \<open>\<open>LABEL_31\<close>: entry of a number, committed two seconds later.\<close>

definition dvd_media_soon :: "dvd_sys \<Rightarrow> dvd_sys" where
  "dvd_media_soon ds = (case ds of (d, s) \<Rightarrow>
     (d\<lparr>dvd_byteval_16 := 1\<rparr>,
      emit (Queue_delayed ''media_work'' 2000) (emit (Cancel_delayed ''media_work'') s)))"

text \<open>The selection of a track; the comparison is one of signed integers.\<close>

definition dvd_select_track :: "u32 \<Rightarrow> dvd_sys \<Rightarrow> dvd_sys" where
  "dvd_select_track command ds = (case ds of (d, s) \<Rightarrow>
     if sint (command + 1) \<le> int (unat (media_count d)) then
       let s = dvd_add_work 6 0xE800 s;
           d = d\<lparr>media_idx := ucast command, mcu_cmd_data := (command + 1) OR 0xB0000\<rparr>
       in if media_state d = 1 then
            (d\<lparr>dvd_length := 0, dvd_position := 0, array1 := replicate 32 0, array2 := replicate 32 0,
               array3 := replicate 32 0, array4 := replicate 32 0, dvd_byteval_16 := 1\<rparr>,
             emit (Queue_delayed ''media_index_work'' 500)
               (emit (Cancel_delayed ''media_index_work'') s))
          else
            (d\<lparr>do_media_index := 1, dvd_byteval_17 := 1\<rparr>,
             emit (Queue_delayed ''media_index_work'' 1500)
               (emit (Cancel_delayed ''media_index_work'')
                 (emit (Queue_delayed ''stop_work'' 0) (emit (Cancel_delayed ''stop_work'') s))))
     else (d, s))"

definition dvd_send_command_direct :: "u32 \<Rightarrow> dvd_sys \<Rightarrow> dvd_sys" where
  "dvd_send_command_direct command ds = (case ds of (d, s) \<Rightarrow>
     if \<not> dvd_power_on d then (d, s)
     else if dvd_u16val_3 d \<noteq> 1 \<and> dvd_u16val_3 d \<noteq> 2 then (d, dvd_add_work 1 command s)
     else if command = 0x22220 \<and> dvd_flag1 d AND 0xFF = 0 then dvd_clear_selection (d, s)
     else if command = 0x32200 \<and> dvd_flag1 d AND 0xFF = 1 then dvd_clear_selection (d, s)
     else if command AND 0xFF0000 = 0x90000 then
       dvd_media_soon (d\<lparr>mcu_cmd_data := 0, mcu_cmd_t9 := (command + 1) OR 0x90000\<rparr>, s)
     else if command AND 0xFF0000 = 0xD0000 then
       dvd_media_soon (d\<lparr>mcu_cmd_data := 0, mcu_cmd_t9 := 0,
                         mcu_cmd_tD := drop_bit 8 command OR 0xD0000\<rparr>, s)
     else if track_flag d AND 1 \<noteq> 0 then (d, s)
     else if command = (if dvd_flag1 d AND 0xFF = 0 then 0x20F0D else 0x30F00) then
       (d\<lparr>mcu_cmd_data := 0, mcu_cmd_t9 := 0, mcu_cmd_tD := 0, dvd_byteval_17 := 0\<rparr>,
        dvd_add_work 1 command (emit (Cancel_delayed ''media_index_work'') s))
     else if command AND 0xFF0000 \<noteq> 0xB0000 then (d, dvd_add_work 1 command s)
     else dvd_select_track command (d, s))"

definition dvd_send_command :: "u32 \<Rightarrow> dvd_sys \<Rightarrow> dvd_sys" where
  "dvd_send_command command ds = (case ds of (d, s) \<Rightarrow>
     let b3 = command AND 0xFF0000 in
     if dvd_power_on d then
       if dvd_flag1 d = 1 then
         if b3 = 0x20000 then dvd_send_command_direct ((command AND 0xFF00) OR 0x30000) (d, s)
         else if b3 = 0x30000 then dvd_send_command_direct 0x100000 (d, s)
         else if b3 = 0xF0000 then dvd_send_command_direct ((command AND 0xFF00) OR 0x570000) (d, s)
         else dvd_send_command_direct command (d, s)
       else dvd_send_command_direct command (d, s)
     else if b3 = 0xF0000 then (d\<lparr>dvd_command_byte2 := command AND 0xFF00\<rparr>, s)
     else (d, s))"

text \<open>The getters print with \<open>%d\<close>.\<close>

definition decimal_text :: "int \<Rightarrow> u8 list" where
  "decimal_text n =
     (if n < 0 then 0x2D # map (\<lambda>d. 0x30 + of_nat d) (decimal (nat (- n)))
      else map (\<lambda>d. 0x30 + of_nat d) (decimal (nat n)))"

definition dvd_get_media_cnt :: "mtc_dvd_drv \<Rightarrow> u8 list" where
  "dvd_get_media_cnt d = decimal_text (uint (media_count d))"

definition dvd_get_folder_cnt :: "mtc_dvd_drv \<Rightarrow> u8 list" where
  "dvd_get_folder_cnt d = decimal_text (uint (folders_count d))"

definition dvd_get_media_idx :: "mtc_dvd_drv \<Rightarrow> u8 list" where
  "dvd_get_media_idx d = decimal_text (sint (media_idx d))"

definition dvd_get_folder_idx :: "mtc_dvd_drv \<Rightarrow> u8 list" where
  "dvd_get_folder_idx d = decimal_text (sint (folder_idx d))"

definition dvd_get_length :: "mtc_dvd_drv \<Rightarrow> u8 list" where
  "dvd_get_length d = decimal_text (uint (dvd_length d))"

definition dvd_get_position :: "mtc_dvd_drv \<Rightarrow> u8 list" where
  "dvd_get_position d = decimal_text (uint (dvd_position d))"

lemma dvd_await_now:
  "level e (trace s) p = want \<Longrightarrow> dvd_await e p want t s = Some (True, emit (Rd p want) s)"
  by (simp add: dvd_await.simps op_defs)

lemma dvd_await_from_now:
  "level e (Clock (sec e (trace s)) (usec e (trace s)) # trace s) p = want \<Longrightarrow>
     dvd_await_from e p want s =
       Some (True, emit (Rd p want) (emit (Clock (sec e (trace s)) (usec e (trace s))) s))"
  by (simp add: dvd_await_from_def op_defs dvd_await_now Let_def)

section \<open>Polling the drive leaves no mark\<close>

lemma dvd_await_polled:
  assumes "dvd_await e p want t s = Some (ok, s')"
  shows "polled s s' \<and> (ok \<longrightarrow> last_rd p (trace s') = Some want)"
proof -
  have "polled s (snd r) \<and> (fst r \<longrightarrow> last_rd p (trace (snd r)) = Some want)"
    if "dvd_await e p want t s = Some r" for s r
  proof (rule dvd_await.raw_induct
      [where P = "\<lambda>e p want t s r. polled s (snd r) \<and>
          (fst r \<longrightarrow> last_rd p (trace (snd r)) = Some want)", OF _ that])
    fix f e p want t s r
    assume IH: "\<And>e p want t s r. f e p want t s = Some r \<Longrightarrow>
        polled s (snd r) \<and> (fst r \<longrightarrow> last_rd p (trace (snd r)) = Some want)"
      and eq: "(let (v, s1) = gpio_get_value e p s
          in if v = want then Some (True, s1)
             else let (expired, s2) = dvd_CheckTimeOut e t s1
                  in if expired then Some (False, s2) else f e p want t s2) = Some r"
    show "polled s (snd r) \<and> (fst r \<longrightarrow> last_rd p (trace (snd r)) = Some want)"
      using eq by (auto simp: dvd_CheckTimeOut_def op_defs Let_def polled_emit
          split: if_splits dest!: IH polled_poll)
  qed
  from this [OF assms] show ?thesis by simp
qed

lemma dvd_await_from_polled:
  "dvd_await_from e p want s = Some (ok, s') \<Longrightarrow>
     polled s s' \<and> (ok \<longrightarrow> last_rd p (trace s') = Some want)"
  by (auto simp: dvd_await_from_def op_defs Let_def dest!: dvd_await_polled polled_poll)

text \<open>
  The bits taken from the drive: DATA as last read whenever ACK is pulled low. The bits shown
  to it: DATA as last driven whenever STB is pulled low. The words handed on. All newest first.
\<close>

fun dvd_taken :: "event list \<Rightarrow> bool option list" where
  "dvd_taken [] = []"
| "dvd_taken (Dir_out p v # h) =
     (if p = gpio_DVD_ACK \<and> \<not> v then last_rd gpio_DVD_DATA h # dvd_taken h else dvd_taken h)"
| "dvd_taken (_ # h) = dvd_taken h"

fun dvd_shown :: "event list \<Rightarrow> bool option list" where
  "dvd_shown [] = []"
| "dvd_shown (Dir_out p v # h) =
     (if p = gpio_DVD_STB \<and> \<not> v then last_wr gpio_DVD_DATA h # dvd_shown h else dvd_shown h)"
| "dvd_shown (_ # h) = dvd_shown h"

fun dvd_posted :: "event list \<Rightarrow> (u32 \<times> u32) list" where
  "dvd_posted [] = []"
| "dvd_posted (Dvd_add_work a b # h) = (a, b) # dvd_posted h"
| "dvd_posted (_ # h) = dvd_posted h"

lemma dvd_poll_obs:
  "list_all poll_event es \<Longrightarrow> dvd_taken (es @ h) = dvd_taken h \<and>
     dvd_shown (es @ h) = dvd_shown h \<and> dvd_posted (es @ h) = dvd_posted h"
proof (induction es)
  case (Cons x es)
  then show ?case by (cases x) simp_all
qed simp

lemma dvd_polled_obs:
  assumes "polled s s'"
  shows "dvd_taken (trace s') = dvd_taken (trace s)" "dvd_shown (trace s') = dvd_shown (trace s)"
    "dvd_posted (trace s') = dvd_posted (trace s)"
  using assms by (auto simp: polled_def dvd_poll_obs)

lemma dvd_wait_obs:
  assumes "dvd_await_from e p want s = Some (ok, s')"
  shows "traced s s'" "dvd_taken (trace s') = dvd_taken (trace s)"
    "dvd_shown (trace s') = dvd_shown (trace s)" "dvd_posted (trace s') = dvd_posted (trace s)"
    "last_wr q (trace s') = last_wr q (trace s)"
  using dvd_await_from_polled [OF assms] by (auto simp: dvd_polled_obs polled_obs polled_traced)

lemma dvd_poll_wait_obs:
  assumes "dvd_await e p want t s = Some (ok, s')"
  shows "traced s s'" "dvd_taken (trace s') = dvd_taken (trace s)"
    "dvd_shown (trace s') = dvd_shown (trace s)" "dvd_posted (trace s') = dvd_posted (trace s)"
    "last_wr q (trace s') = last_wr q (trace s)"
  using dvd_await_polled [OF assms] by (auto simp: dvd_polled_obs polled_obs polled_traced)

section \<open>Words from the drive\<close>

text \<open>A transfer: only the pins are worked and nothing is handed on.\<close>

definition dvd_quiet :: "sys \<Rightarrow> sys \<Rightarrow> bool" where
  "dvd_quiet s s' \<longleftrightarrow> traced s s' \<and> dvd_posted (trace s') = dvd_posted (trace s)"

lemma dvd_quiet_refl [simp, intro]: "dvd_quiet s s"
  by (simp add: dvd_quiet_def)

lemma dvd_quiet_trans: "dvd_quiet a b \<Longrightarrow> dvd_quiet b c \<Longrightarrow> dvd_quiet a c"
  by (auto simp: dvd_quiet_def intro: traced_trans)

lemma dvd_quiet_emit: "dvd_quiet a b \<Longrightarrow> pin_event x \<Longrightarrow> dvd_quiet a (emit x b)"
  by (cases x) (auto simp: dvd_quiet_def)

lemma dvd_quiet_from_emit: "dvd_quiet (emit x a) b \<Longrightarrow> pin_event x \<Longrightarrow> dvd_quiet a b"
  by (rule dvd_quiet_trans [OF dvd_quiet_emit [OF dvd_quiet_refl]])

lemmas dvd_quiet_pin =
  dvd_quiet_from_emit [of "Rd p v" for p v, simplified]
  dvd_quiet_from_emit [of "Dir_out p v" for p v, simplified]
  dvd_quiet_from_emit [of "Dir_in p" for p, simplified]

lemma dvd_wait_quiet:
  "dvd_await_from e p want s = Some (ok, s') \<Longrightarrow> dvd_quiet s s'"
  "dvd_await e p want t s = Some (ok, s') \<Longrightarrow> dvd_quiet s s'"
  by (auto simp: dvd_quiet_def dvd_wait_obs dvd_poll_wait_obs)

lemma dvd_rev_bits_spec:
  "dvd_rev_bits e n cmd s = Some (r, s') \<Longrightarrow>
     dvd_quiet s s' \<and>
     (\<exists>bs. dvd_taken (trace s') = map Some (rev bs) @ dvd_taken (trace s) \<and> length bs \<le> n \<and>
        (\<forall>c. r = Some c \<longrightarrow> length bs = n \<and> c = foldl shift_in cmd bs))"
proof (induction n arbitrary: cmd s)
  case 0
  then show ?case by auto
next
  case (Suc n)
  let ?up = "emit (Dir_out 174 True) s"
  from Suc.prems obtain ok s1 where 1: "dvd_await_from e 168 False ?up = Some (ok, s1)"
    by (auto simp: bind_eq_Some op_defs)
  from dvd_wait_quiet(1) [OF 1] have q1: "dvd_quiet s s1"
    by (auto dest: dvd_quiet_pin)
  have t1: "dvd_taken (trace s1) = dvd_taken (trace s)"
    using dvd_wait_obs(2) [OF 1] by simp
  show ?case
  proof (cases ok)
    case False
    with Suc.prems 1 q1 t1 show ?thesis
      by (auto simp: op_defs intro!: dvd_quiet_emit exI [of _ "[]"])
  next
    case True
    let ?b = "level e (trace s1) 175"
    let ?s2 = "emit (Dir_out 174 False) (emit (Rd 175 ?b) s1)"
    from Suc.prems 1 True obtain ok2 s3 where 2: "dvd_await_from e 168 True ?s2 = Some (ok2, s3)"
      by (auto simp: bind_eq_Some op_defs Let_def)
    from q1 dvd_wait_quiet(1) [OF 2] have q3: "dvd_quiet s s3"
      by (auto intro: dvd_quiet_trans dest!: dvd_quiet_pin)
    have t3: "dvd_taken (trace s3) = Some ?b # dvd_taken (trace s)"
      using dvd_wait_obs(2) [OF 2] t1 by simp
    show ?thesis
    proof (cases ok2)
      case False
      with Suc.prems 1 2 True q3 t3 show ?thesis
        by (auto simp: op_defs Let_def intro!: dvd_quiet_emit exI [of _ "[?b]"])
    next
      case t: True
      with Suc.prems 1 2 True have "dvd_rev_bits e n (shift_in cmd ?b) s3 = Some (r, s')"
        by (auto simp: op_defs Let_def)
      from Suc.IH [OF this] q3 t3 obtain bs where
        "dvd_quiet s s'" "dvd_taken (trace s') = map Some (rev (?b # bs)) @ dvd_taken (trace s)"
        "length bs \<le> n" "\<forall>c. r = Some c \<longrightarrow> length bs = n \<and> c = foldl shift_in (shift_in cmd ?b) bs"
        by (auto intro: dvd_quiet_trans)
      then show ?thesis by (intro conjI exI [of _ "?b # bs"]) auto
    qed
  qed
qed

lemma from_bits_16:
  assumes "length bs = 16"
  shows "(from_bits bs :: u32) = ucast (from_bits bs :: u16)"
  using assms by (intro bit_word_eqI) (auto simp: bit_simps bit_from_bits)

text \<open>A frame: the start bit of the handshake, then the sixteen bits of a word.\<close>

definition dvd_frame :: "u16 \<Rightarrow> bool option list" where
  "dvd_frame w = map Some (rev (bits_msb w))"

lemma dvd_rev_close_spec:
  assumes "dvd_rev_close e rb s = Some (r, s')"
  shows "dvd_quiet s s' \<and> dvd_taken (trace s') = dvd_taken (trace s) \<and> (r = None \<or> r = rb)"
proof (cases rb)
  case None
  then show ?thesis using assms by (simp add: dvd_rev_close_def)
next
  case (Some cmd)
  let ?s1 = "emit (Dir_in 174) s"
  from Some assms obtain ok s2 where 1: "dvd_await_from e 174 False ?s1 = Some (ok, s2)"
    by (auto simp: dvd_rev_close_def bind_eq_Some op_defs)
  have q2: "dvd_quiet s s2" "dvd_taken (trace s2) = dvd_taken (trace s)"
    using dvd_wait_quiet(1) [OF 1] dvd_wait_obs(2) [OF 1] by (auto dest: dvd_quiet_pin)
  show ?thesis
  proof (cases ok)
    case False
    then show ?thesis using Some assms 1 q2 by (simp add: dvd_rev_close_def op_defs)
  next
    case True
    let ?s3 = "emit (Dir_out 168 False) s2"
    from Some True assms 1 obtain ok2 s4 where 2: "dvd_await_from e 174 True ?s3 = Some (ok2, s4)"
      by (auto simp: dvd_rev_close_def bind_eq_Some op_defs)
    have q4: "dvd_quiet s s4" "dvd_taken (trace s4) = dvd_taken (trace s)"
      using q2 dvd_wait_quiet(1) [OF 2] dvd_wait_obs(2) [OF 2]
      by (auto intro: dvd_quiet_trans dest!: dvd_quiet_pin)
    then show ?thesis using Some True assms 1 2
      by (auto simp: dvd_rev_close_def op_defs Let_def intro: dvd_quiet_emit split: if_splits)
  qed
qed

lemma dvd_rev_word_spec:
  assumes "dvd_rev_word e s = Some (r, s')"
  shows "dvd_quiet s s' \<and>
    (\<exists>part. dvd_taken (trace s') = part @ last_rd gpio_DVD_DATA (trace s) # dvd_taken (trace s) \<and>
       length part \<le> 16 \<and> (\<forall>w. r = Some w \<longrightarrow> (\<exists>v. w = ucast v \<and> part = dvd_frame v)))"
proof -
  let ?dn = "emit (Dir_out 174 False) s"
  from assms obtain ok s1 where 1: "dvd_await_from e 175 True ?dn = Some (ok, s1)"
    by (auto simp: dvd_rev_word_def bind_eq_Some op_defs)
  from dvd_wait_quiet(1) [OF 1] have q1: "dvd_quiet s s1" by (auto dest: dvd_quiet_pin)
  have t1: "dvd_taken (trace s1) = last_rd 175 (trace s) # dvd_taken (trace s)"
    using dvd_wait_obs(2) [OF 1] by simp
  show ?thesis
  proof (cases ok)
    case False
    with assms 1 q1 t1 show ?thesis
      by (auto simp: dvd_rev_word_def op_defs intro!: dvd_quiet_emit)
  next
    case True
    with assms 1 obtain rb s2 where 2: "dvd_rev_bits e 16 0 s1 = Some (rb, s2)"
      by (auto simp: dvd_rev_word_def bind_eq_Some op_defs simp del: dvd_rev_bits.simps)
    from dvd_rev_bits_spec [OF 2] q1 t1 obtain bs where
      q2: "dvd_quiet s s2" and
      t2: "dvd_taken (trace s2) = map Some (rev bs) @ last_rd 175 (trace s) # dvd_taken (trace s)" and
      bs: "length bs \<le> 16" "\<And>c. rb = Some c \<Longrightarrow> length bs = 16 \<and> c = from_bits bs"
      by (auto simp: from_bits_def intro: dvd_quiet_trans)
    have rest: "dvd_quiet s2 s' \<and> dvd_taken (trace s') = dvd_taken (trace s2) \<and> (r = None \<or> r = rb)"
    proof (rule dvd_rev_close_spec)
      show "dvd_rev_close e rb s2 = Some (r, s')"
        using assms 1 2 True by (auto simp: dvd_rev_word_def op_defs simp del: dvd_rev_bits.simps)
    qed
    show ?thesis
    proof (intro conjI exI [of _ "map Some (rev bs)"] allI impI)
      show "dvd_quiet s s'" using q2 rest by (blast intro: dvd_quiet_trans)
      show "dvd_taken (trace s') = map Some (rev bs) @ last_rd 175 (trace s) # dvd_taken (trace s)"
        using rest t2 by simp
      show "length (map Some (rev bs)) \<le> 16" using bs(1) by simp
      fix w assume "r = Some w"
      with rest have "rb = Some w" by auto
      with bs(2) have "length bs = 16" "w = from_bits bs" by auto
      then show "\<exists>v. w = ucast v \<and> map Some (rev bs) = dvd_frame v"
        using bits_msb_from_bits [of bs, where 'a = 16]
        by (intro exI [of _ "from_bits bs"]) (simp add: dvd_frame_def from_bits_16)
    qed
  qed
qed

lemma traced_logged [intro]: "traced a b \<Longrightarrow> logged a b"
  by (auto simp: logged_def traced_def)

text \<open>What has come over the wire is the words handed on, in order, and at most one frame more.\<close>

definition dvd_received :: "sys \<Rightarrow> int \<Rightarrow> sys \<Rightarrow> bool" where
  "dvd_received s r s' \<longleftrightarrow> logged s s' \<and>
     (\<exists>ws rest. dvd_posted (trace s') = map (\<lambda>w. (5, ucast w)) (rev ws) @ dvd_posted (trace s) \<and>
        dvd_taken (trace s') =
          rest @ concat (map (\<lambda>w. dvd_frame w @ [Some False]) (rev ws)) @ dvd_taken (trace s) \<and>
        length rest \<le> 17 \<and> (r = 1 \<longrightarrow> ws \<noteq> [] \<and> rest = []))"

lemma dvd_received_more:
  assumes "dvd_received s1 r s'" and "logged s s1"
    and "dvd_posted (trace s1) = (5, ucast w) # dvd_posted (trace s)"
    and "dvd_taken (trace s1) = dvd_frame w @ Some False # dvd_taken (trace s)"
  shows "dvd_received s r s'"
proof -
  from assms(1) obtain ws rest where
    "logged s1 s'" "dvd_posted (trace s') = map (\<lambda>w. (5, ucast w)) (rev ws) @ dvd_posted (trace s1)"
    "dvd_taken (trace s') =
      rest @ concat (map (\<lambda>w. dvd_frame w @ [Some False]) (rev ws)) @ dvd_taken (trace s1)"
    "length rest \<le> 17" "r = 1 \<longrightarrow> ws \<noteq> [] \<and> rest = []"
    by (auto simp: dvd_received_def)
  then show ?thesis using assms(2-) unfolding dvd_received_def
    by (intro conjI exI [of _ "w # ws"] exI [of _ rest]) (auto intro: logged_trans)
qed

lemma dvd_rev_loop_spec:
  assumes "dvd_rev_loop e s = Some (r, s')"
  shows "dvd_received s r s'"
proof -
  have "dvd_received s (fst q) (snd q)" if "dvd_rev_loop e s = Some q" for s q
  proof (rule dvd_rev_loop.raw_induct
      [where P = "\<lambda>e s q. dvd_received s (fst q) (snd q)", OF _ that])
    fix f e s q
    assume IH: "\<And>e s q. f e s = Some q \<Longrightarrow> dvd_received s (fst q) (snd q)"
      and eq: "(let (v, s) = gpio_get_value e gpio_DVD_DATA s
        in if v then Some (0, s)
           else Option.bind (dvd_rev_word e s) (\<lambda>(r, s).
             case r of None \<Rightarrow> Some (0, s)
             | Some cmd \<Rightarrow>
                 let (v, s) = gpio_get_value e gpio_DVD_DATA (emit (Dvd_add_work 5 cmd) s)
                 in if v then Some (1, s) else f e s)) = Some q"
    let ?v = "level e (trace s) 175"
    let ?s1 = "emit (Rd 175 ?v) s"
    show "dvd_received s (fst q) (snd q)"
    proof (cases ?v)
      case True
      with eq have "q = (0, ?s1)" by (simp add: op_defs)
      then show ?thesis by (auto simp: dvd_received_def)
    next
      case False
      with eq obtain c s2 where 1: "dvd_rev_word e ?s1 = Some (c, s2)"
        by (auto simp: op_defs bind_eq_Some)
      from dvd_rev_word_spec [OF 1] False obtain part where
        q2: "dvd_quiet s s2" and t2: "dvd_taken (trace s2) = part @ Some False # dvd_taken (trace s)"
        and part: "length part \<le> 16" "\<And>w. c = Some w \<Longrightarrow> \<exists>v. w = ucast v \<and> part = dvd_frame v"
        by (auto dest: dvd_quiet_pin)
      show ?thesis
      proof (cases c)
        case None
        with eq False 1 have "q = (0, s2)" by (simp add: op_defs)
        then show ?thesis using q2 t2 part(1)
          by (auto simp: dvd_received_def dvd_quiet_def intro!: exI [of _ "[]"]
              exI [of _ "part @ [Some False]"])
      next
        case (Some w)
        then obtain v where v: "w = ucast v" "part = dvd_frame v" using part(2) by blast
        let ?b = "level e (Dvd_add_work 5 w # trace s2) 175"
        let ?s3 = "emit (Rd 175 ?b) (emit (Dvd_add_work 5 w) s2)"
        have 3: "logged s ?s3" "dvd_posted (trace ?s3) = (5, ucast v) # dvd_posted (trace s)"
          "dvd_taken (trace ?s3) = dvd_frame v @ Some False # dvd_taken (trace s)"
          using q2 t2 v by (auto simp: dvd_quiet_def intro!: logged_emit)
        have "dvd_received ?s3 (fst q) (snd q)" if "\<not> ?b"
          using eq False 1 Some that by (intro IH) (simp add: op_defs)
        moreover have "dvd_received s 1 ?s3"
          using 3 unfolding dvd_received_def
          by (intro conjI exI [of _ "[v]"] exI [of _ "[]"]) auto
        ultimately show ?thesis using eq False 1 Some 3
          by (cases ?b) (auto simp: op_defs intro: dvd_received_more)
      qed
    qed
  qed
  from this [OF assms] show ?thesis by simp
qed

section \<open>Commands to the drive\<close>

text \<open>The bits \<open>i, i + 1, \<dots>, n - 1\<close> of a command, counted from bit 23 down.\<close>

definition dvd_bits :: "u32 \<Rightarrow> nat \<Rightarrow> nat \<Rightarrow> bool list" where
  "dvd_bits cmd i n = map (\<lambda>i. cmd AND drop_bit i 0x800000 \<noteq> 0) [i..<n]"

lemma bit_0x800000: "bit (0x800000 :: u32) k \<longleftrightarrow> k = 23"
proof -
  have "(0x800000 :: u32) = push_bit 23 1" by (simp add: push_bit_eq_mult)
  then show ?thesis
    by (simp only: bit_push_bit_iff bit_1_iff) auto
qed

lemma drop_bit_23: "i < 24 \<Longrightarrow> drop_bit i (0x800000 :: u32) = push_bit (23 - i) 1"
  by (rule bit_word_eqI)
     (auto simp: bit_drop_bit_eq bit_0x800000 [simplified] bit_exp_iff)

lemma dvd_bits_24: "dvd_bits cmd 0 24 = bits_msb (ucast cmd :: 24 word)"
proof (rule nth_equalityI)
  fix i assume "i < length (dvd_bits cmd 0 24)"
  then have "i < 24" "23 - i < 24" by (simp_all add: dvd_bits_def)
  then show "dvd_bits cmd 0 24 ! i = bits_msb (ucast cmd :: 24 word) ! i"
    using bit_iff_and_push_bit_not_eq_0 [of cmd "23 - i"]
    by (simp add: dvd_bits_def bits_msb_def drop_bit_23 rev_nth bit_simps)
qed (simp add: dvd_bits_def bits_msb_def)

lemma dvd_send_bits_spec:
  "dvd_send_bits e cmd n k s = Some (ok, s') \<Longrightarrow> k \<le> n \<Longrightarrow>
     traced s s' \<and> (\<exists>j \<le> k. (ok \<longrightarrow> j = k) \<and>
       dvd_shown (trace s') = map Some (rev (take j (dvd_bits cmd (n - k) n))) @ dvd_shown (trace s))"
proof (induction k arbitrary: s)
  case 0
  then show ?case by auto
next
  case (Suc k)
  let ?b = "cmd AND drop_bit (n - Suc k) 0x800000 \<noteq> 0"
  let ?s1 = "emit (Dir_out 168 False) (emit (Dir_out 175 ?b) s)"
  from Suc.prems obtain ok1 s2 where 1: "dvd_await_from e 174 False ?s1 = Some (ok1, s2)"
    by (auto simp: bind_eq_Some op_defs Let_def)
  have bits: "dvd_bits cmd (n - Suc k) n = ?b # dvd_bits cmd (n - k) n"
    using Suc.prems(2) by (simp add: dvd_bits_def upt_rec [of "n - Suc k" n] Suc_diff_Suc)
  have t2: "traced s s2" "dvd_shown (trace s2) = Some ?b # dvd_shown (trace s)"
    using dvd_wait_obs(1) [OF 1] dvd_wait_obs(3) [OF 1] by (auto dest!: traced_pin)
  show ?case
  proof (cases ok1)
    case False
    with Suc.prems 1 t2 show ?thesis unfolding bits
      by (auto simp: op_defs Let_def intro!: traced_emit exI [of _ 1])
  next
    case True
    let ?s3 = "emit (Dir_out 168 True) s2"
    from Suc.prems 1 True obtain ok2 s4 where 2: "dvd_await_from e 174 True ?s3 = Some (ok2, s4)"
      by (auto simp: bind_eq_Some op_defs Let_def)
    have t4: "traced s s4" "dvd_shown (trace s4) = Some ?b # dvd_shown (trace s)"
      using t2 dvd_wait_obs(1) [OF 2] dvd_wait_obs(3) [OF 2]
      by (auto intro: traced_trans dest!: traced_pin)
    show ?thesis
    proof (cases ok2)
      case False
      with Suc.prems 1 2 True t4 show ?thesis unfolding bits
        by (auto simp: op_defs Let_def intro!: traced_emit exI [of _ 1])
    next
      case t: True
      with Suc.prems 1 2 True have "dvd_send_bits e cmd n k s4 = Some (ok, s')"
        by (simp add: op_defs Let_def)
      from Suc.IH [OF this] Suc.prems(2) obtain j where
        "traced s4 s'" "j \<le> k" "ok \<longrightarrow> j = k"
        "dvd_shown (trace s') = map Some (rev (take j (dvd_bits cmd (n - k) n))) @ dvd_shown (trace s4)"
        by auto
      then show ?thesis using t4 unfolding bits
        by (auto intro: traced_trans intro!: exI [of _ "Suc j"])
    qed
  qed
qed

text \<open>The strobe is not pulled low.\<close>

definition dvd_mute :: "sys \<Rightarrow> sys \<Rightarrow> bool" where
  "dvd_mute s s' \<longleftrightarrow> traced s s' \<and> dvd_shown (trace s') = dvd_shown (trace s)"

lemma dvd_mute_refl [simp, intro]: "dvd_mute s s"
  by (simp add: dvd_mute_def)

lemma dvd_mute_trans [trans]: "dvd_mute a b \<Longrightarrow> dvd_mute b c \<Longrightarrow> dvd_mute a c"
  by (auto simp: dvd_mute_def intro: traced_trans)

lemma dvd_mute_emit:
  "dvd_mute a b \<Longrightarrow> pin_event x \<Longrightarrow> x \<noteq> Dir_out 168 False \<Longrightarrow> dvd_mute a (emit x b)"
  by (cases x) (auto simp: dvd_mute_def)

lemma dvd_mute_waits:
  "dvd_await e p want t s = Some (ok, s1) \<Longrightarrow> dvd_mute a s \<Longrightarrow> dvd_mute a s1"
  "dvd_await_from e p want s = Some (ok, s1) \<Longrightarrow> dvd_mute a s \<Longrightarrow> dvd_mute a s1"
  using dvd_poll_wait_obs(1,3) dvd_wait_obs(1,3) by (auto simp: dvd_mute_def intro: traced_trans)

lemma dvd_send_open_mute: "dvd_send_open e s = Some (ok, s') \<Longrightarrow> dvd_mute s s'"
  by (auto simp: dvd_send_open_def bind_eq_Some op_defs Let_def split: if_splits)
     (rule dvd_mute_refl | rule dvd_mute_emit | erule dvd_mute_waits | simp)+

lemma dvd_send_close_mute: "dvd_send_close e s = Some (ok, s') \<Longrightarrow> dvd_mute s s'"
  by (auto simp: dvd_send_close_def bind_eq_Some op_defs Let_def split: if_splits)
     (rule dvd_mute_refl | rule dvd_mute_emit | erule dvd_mute_waits | simp)+

lemma dvd_send_word_spec:
  assumes "dvd_send_word e cmd n s = Some (ok, s')"
  shows "traced s s' \<and> (\<exists>j \<le> n. (ok \<longrightarrow> j = n) \<and>
    dvd_shown (trace s') = map Some (rev (take j (dvd_bits cmd 0 n))) @ dvd_shown (trace s))"
proof -
  from assms obtain ok1 s1 where 1: "dvd_send_open e s = Some (ok1, s1)"
    by (auto simp: dvd_send_word_def bind_eq_Some)
  note m1 = dvd_send_open_mute [OF 1]
  show ?thesis
  proof (cases ok1)
    case False
    with assms 1 m1 show ?thesis
      by (auto simp: dvd_send_word_def dvd_mute_def intro!: exI [of _ 0])
  next
    case True
    with assms 1 obtain ok2 s2 where 2: "dvd_send_bits e cmd n n s1 = Some (ok2, s2)"
      by (auto simp: dvd_send_word_def bind_eq_Some)
    from dvd_send_bits_spec [OF 2] obtain j where
      j: "traced s1 s2" "j \<le> n" "ok2 \<longrightarrow> j = n"
        "dvd_shown (trace s2) = map Some (rev (take j (dvd_bits cmd 0 n))) @ dvd_shown (trace s1)"
      by auto
    have "dvd_mute s2 s'" "ok \<longrightarrow> ok2"
      using assms 1 2 True by (auto simp: dvd_send_word_def split: if_splits dest: dvd_send_close_mute)
    with j m1 show ?thesis
      by (intro conjI exI [of _ j]) (auto simp: dvd_mute_def intro: traced_trans)
  qed
qed

section \<open>Locks and interrupts\<close>

text \<open>
  \<open>dvd_keeps\<close>: the shared state changed in its log alone and the locks are as they were;
  \<open>dvd_even\<close>: so is the depth of every interrupt line, and no lock was touched.
\<close>

definition dvd_keeps :: "sys \<Rightarrow> sys \<Rightarrow> bool" where
  "dvd_keeps s s' \<longleftrightarrow> logged s s' \<and> (\<forall>l. held l (trace s') = held l (trace s))"

definition dvd_even :: "sys \<Rightarrow> sys \<Rightarrow> bool" where
  "dvd_even s s' \<longleftrightarrow> logged s s' \<and> (\<forall>l. held l (trace s') = held l (trace s)) \<and>
     (\<forall>i. irq_depth i (trace s') = irq_depth i (trace s))"

lemma dvd_even_refl [simp, intro]: "dvd_even s s"
  by (simp add: dvd_even_def)

lemma dvd_even_trans [trans]: "dvd_even a b \<Longrightarrow> dvd_even b c \<Longrightarrow> dvd_even a c"
  by (auto simp: dvd_even_def intro: logged_trans)

lemma dvd_even_keeps: "dvd_even s s' \<Longrightarrow> dvd_keeps s s'"
  by (simp add: dvd_even_def dvd_keeps_def)

fun irq_event :: "event \<Rightarrow> bool" where
  "irq_event (Irq_off _) = True"
| "irq_event (Irq_on _) = True"
| "irq_event _ = False"

lemma dvd_even_emit:
  "dvd_even a b \<Longrightarrow> \<not> lock_event x \<Longrightarrow> \<not> irq_event x \<Longrightarrow> dvd_even a (emit x b)"
  by (cases x) (auto simp: dvd_even_def held_def irq_depth_def)

lemma pin_events_even:
  "list_all pin_event es \<Longrightarrow> held l (es @ h) = held l h \<and> irq_depth i (es @ h) = irq_depth i h"
proof (induction es)
  case (Cons x es)
  then show ?case by (cases x) (simp_all add: held_def irq_depth_def)
qed simp

lemma traced_even: "traced s s' \<Longrightarrow> dvd_even s s'"
  by (auto simp: dvd_even_def traced_def pin_events_even intro: loggedI)

lemma dvd_rev_loop_even:
  assumes "dvd_rev_loop e s = Some (r, s')"
  shows "dvd_even s s'"
proof -
  have "dvd_even s (snd q)" if "dvd_rev_loop e s = Some q" for s q
  proof (rule dvd_rev_loop.raw_induct [where P = "\<lambda>e s q. dvd_even s (snd q)", OF _ that])
    fix f e s q
    assume IH: "\<And>e s q. f e s = Some q \<Longrightarrow> dvd_even s (snd q)"
      and eq: "(let (v, s) = gpio_get_value e gpio_DVD_DATA s
        in if v then Some (0, s)
           else Option.bind (dvd_rev_word e s) (\<lambda>(r, s).
             case r of None \<Rightarrow> Some (0, s)
             | Some cmd \<Rightarrow>
                 let (v, s) = gpio_get_value e gpio_DVD_DATA (emit (Dvd_add_work 5 cmd) s)
                 in if v then Some (1, s) else f e s)) = Some q"
    let ?s1 = "emit (Rd 175 (level e (trace s) 175)) s"
    have word: "dvd_even s s2" if "dvd_rev_word e ?s1 = Some (c, s2)" for c s2
      using dvd_rev_word_spec [OF that]
      by (auto simp: dvd_quiet_def intro: traced_even dest: traced_pin)
    have next_: "dvd_even s t" if "dvd_rev_word e ?s1 = Some (c, s2)"
      "dvd_even (emit (Rd 175 v) (emit (Dvd_add_work 5 w) s2)) t" for c s2 v w t
      by (rule dvd_even_trans [OF _ that(2)]) (intro dvd_even_emit word [OF that(1)]; simp)
    show "dvd_even s (snd q)"
    proof (cases "level e (trace s) 175")
      case True
      then show ?thesis using eq by (auto simp: op_defs Let_def intro!: dvd_even_emit)
    next
      case False
      with eq obtain c s2 where 1: "dvd_rev_word e ?s1 = Some (c, s2)"
        by (auto simp: op_defs bind_eq_Some Let_def)
      show ?thesis
      proof (cases c)
        case None
        then show ?thesis using eq False 1 word [OF 1] by (auto simp: op_defs Let_def)
      next
        case (Some w)
        let ?v = "level e (Dvd_add_work 5 w # trace s2) 175"
        let ?s3 = "emit (Rd 175 ?v) (emit (Dvd_add_work 5 w) s2)"
        have "q = (1, ?s3) \<or> f e ?s3 = Some q"
          using eq False 1 Some by (auto simp: op_defs Let_def split: if_splits)
        then have "dvd_even ?s3 (snd q)" by (auto dest: IH)
        then show ?thesis by (rule next_ [OF 1])
      qed
    qed
  qed
  from this [OF assms] show ?thesis by simp
qed

lemma dvd_even_locked:
  assumes "dvd_even (emit (Lock l) s) b"
  shows "dvd_even s (emit (Unlock l) b)"
proof -
  have "logged s (emit (Unlock l) b)"
    using assms logged_trans [of s "emit (Lock l) s" b] by (auto simp: dvd_even_def)
  moreover have "held k (trace (emit (Unlock l) b)) = held k (trace s)" for k
  proof -
    have "held k (trace b) = held k (Lock l # trace s)" using assms by (simp add: dvd_even_def)
    then show ?thesis by (auto simp: held_def)
  qed
  moreover have "irq_depth i (trace (emit (Unlock l) b)) = irq_depth i (trace s)" for i
  proof -
    have "irq_depth i (trace b) = irq_depth i (Lock l # trace s)"
      using assms by (simp add: dvd_even_def)
    then show ?thesis by (simp add: irq_depth_def)
  qed
  ultimately show ?thesis by (simp add: dvd_even_def)
qed

lemma dvd_rev_part_2_even: "dvd_rev_part_2 e s = Some (r, s') \<Longrightarrow> dvd_even s s'"
  by (auto simp: dvd_rev_part_2_def bind_eq_Some intro: dvd_even_locked dest!: dvd_rev_loop_even)

text \<open>What an item of the queue does to the depth of the drive's interrupt.\<close>

lemma dvd_send_word_even: "dvd_send_word e cmd n s = Some (ok, s') \<Longrightarrow> dvd_even s s'"
  by (auto dest!: dvd_send_word_spec intro: traced_even)

lemma dvd_keeps_refl [simp, intro]: "dvd_keeps s s"
  by (simp add: dvd_keeps_def)

lemma dvd_keeps_trans [trans]: "dvd_keeps a b \<Longrightarrow> dvd_keeps b c \<Longrightarrow> dvd_keeps a c"
  by (auto simp: dvd_keeps_def intro: logged_trans)

lemma dvd_keeps_emit: "dvd_keeps a b \<Longrightarrow> \<not> lock_event x \<Longrightarrow> dvd_keeps a (emit x b)"
  by (cases x) (auto simp: dvd_keeps_def held_def)

lemma dvd_keeps_even: "dvd_even b c \<Longrightarrow> dvd_keeps a b \<Longrightarrow> dvd_keeps a c"
  by (rule dvd_keeps_trans [OF _ dvd_even_keeps])

lemma rev_work_keeps: "rev_work e live (d, s) = Some (d', s') \<Longrightarrow> dvd_keeps s s'"
  by (auto simp: rev_work_def look_def bind_eq_Some Let_def split: if_splits
      dest!: dvd_rev_part_2_even)
     (erule dvd_keeps_even | rule dvd_keeps_refl | rule dvd_keeps_emit | simp)+

lemma cmd_send_keeps: "cmd_send e live cmd (d, s) = Some (d', s') \<Longrightarrow> dvd_keeps s s'"
  by (auto simp: cmd_send_def look_def bind_eq_Some Let_def split: if_splits
      dest!: dvd_rev_part_2_even dvd_send_word_even dvd_even_locked)
     (erule dvd_keeps_even | rule dvd_keeps_refl | rule dvd_keeps_emit | simp)+

text \<open>
  The items that run while the drive is in use: an interrupt with the work it queues, and the two
  delayed works. \<open>steady_power\<close>: no other thread switches the drive off.
\<close>

datatype dvd_item = Interrupt_item | Media_index_item | Stop_item

fun dvd_item_work :: "env \<Rightarrow> liveness \<Rightarrow> dvd_item \<Rightarrow> dvd_sys \<Rightarrow> dvd_sys option" where
  "dvd_item_work e live Interrupt_item ds = rev_work e live (dvd_isr ds)"
| "dvd_item_work e live Media_index_item ds = media_index_work e live ds"
| "dvd_item_work e live Stop_item ds = stop_work e live ds"

definition steady_power :: "liveness \<Rightarrow> bool" where
  "steady_power live \<longleftrightarrow> (\<forall>h b. live h b = b)"

definition dvd_item_keeps :: "liveness \<Rightarrow> dvd_sys \<Rightarrow> dvd_sys \<Rightarrow> bool" where
  "dvd_item_keeps live ds ds' \<longleftrightarrow> dvd_irq (fst ds') = dvd_irq (fst ds) \<and>
     dvd_keeps (snd ds) (snd ds') \<and>
     (steady_power live \<and> dvd_power_on (fst ds) \<longrightarrow>
        dvd_power_on (fst ds') \<and> dvd_even (snd ds) (snd ds'))"

lemma dvd_item_keeps_refl [simp, intro]: "dvd_item_keeps live ds ds"
  by (simp add: dvd_item_keeps_def)

lemma dvd_item_keeps_trans [trans]:
  "dvd_item_keeps live a b \<Longrightarrow> dvd_item_keeps live b c \<Longrightarrow> dvd_item_keeps live a c"
  by (auto simp: dvd_item_keeps_def intro: dvd_keeps_trans dvd_even_trans)

text \<open>A section between \<open>disable_irq\<close> and \<open>enable_irq\<close>.\<close>

lemma dvd_even_enabled:
  assumes "dvd_even (emit (Irq_off i) s) b"
  shows "dvd_even s (emit (Irq_on i) b)"
proof -
  have "logged s (emit (Irq_on i) b)"
    using assms logged_trans [of s "emit (Irq_off i) s" b] by (auto simp: dvd_even_def)
  moreover have "held k (trace (emit (Irq_on i) b)) = held k (trace s)" for k
  proof -
    have "held k (trace b) = held k (Irq_off i # trace s)" using assms by (simp add: dvd_even_def)
    then show ?thesis by (simp add: held_def)
  qed
  moreover have "irq_depth j (trace (emit (Irq_on i) b)) = irq_depth j (trace s)" for j
  proof -
    have "irq_depth j (trace b) = irq_depth j (Irq_off i # trace s)"
      using assms by (simp add: dvd_even_def)
    then show ?thesis by (auto simp: irq_depth_def)
  qed
  ultimately show ?thesis by (simp add: dvd_even_def)
qed

lemma dvd_even_part: "dvd_even b c \<Longrightarrow> dvd_even a b \<Longrightarrow> dvd_even a c"
  by (rule dvd_even_trans)

lemma cmd_send_item:
  assumes "cmd_send e live cmd (d, s) = Some (d', s')"
  shows "dvd_item_keeps live (d, s) (d', s')"
proof -
  have "dvd_power_on d' \<and> dvd_even s s'" if "steady_power live" "dvd_power_on d"
  proof -
    from assms that obtain ok s1 where
      1: "dvd_send_word e cmd (dvd_cmd_bit_count d)
        (emit (Lock rev_lock) (emit (Irq_off (dvd_irq d)) s)) = Some (ok, s1)"
      by (auto simp: cmd_send_def bind_eq_Some)
    have 2: "dvd_even s (emit (Irq_on (dvd_irq d)) (emit (Unlock rev_lock) s1))"
      by (rule dvd_even_enabled [OF dvd_even_locked [OF dvd_send_word_even [OF 1]]])
    from assms that 1 show ?thesis
      by (auto simp: cmd_send_def look_def steady_power_def bind_eq_Some Let_def
          intro: dvd_even_part [OF _ 2] dest!: dvd_rev_part_2_even)
  qed
  moreover have "dvd_irq d' = dvd_irq d"
    using assms by (auto simp: cmd_send_def look_def bind_eq_Some Let_def split: if_splits)
  ultimately show ?thesis using cmd_send_keeps [OF assms] by (simp add: dvd_item_keeps_def)
qed

lemma interrupt_item:
  assumes "rev_work e live (dvd_isr (d, s)) = Some (d', s')"
  shows "dvd_item_keeps live (d, s) (d', s')"
proof -
  let ?s1 = "emit (Queue_work ''dvd_work'') (emit (Irq_off (dvd_irq d)) s)"
  from assms have *: "rev_work e live (d, ?s1) = Some (d', s')" by (simp add: dvd_isr_def)
  have 1: "dvd_keeps s s'"
    by (rule dvd_keeps_trans [OF _ rev_work_keeps [OF *]]) (intro dvd_keeps_emit; simp)
  have "dvd_power_on d' \<and> dvd_even s s'" if "steady_power live" "dvd_power_on d"
  proof -
    from * that obtain r s2 where 2: "dvd_rev_part_2 e ?s1 = Some (r, s2)"
      by (auto simp: rev_work_def bind_eq_Some)
    have 3: "dvd_even (emit (Irq_off (dvd_irq d)) s) s2"
      by (rule dvd_even_trans [OF _ dvd_rev_part_2_even [OF 2]])
         (rule dvd_even_emit, rule dvd_even_refl; simp)
    from * that 2 show ?thesis
      by (auto simp: rev_work_def look_def steady_power_def bind_eq_Some Let_def
          intro: dvd_even_part [OF _ dvd_even_enabled [OF 3]] dest!: dvd_rev_part_2_even)
  qed
  moreover have "dvd_irq d' = dvd_irq d"
    using * by (auto simp: rev_work_def look_def bind_eq_Some Let_def split: if_splits)
  ultimately show ?thesis using 1 by (simp add: dvd_item_keeps_def)
qed

lemma dvd_item_local:
  assumes "dvd_item_keeps live (d, s) ds"
    and "dvd_irq d0 = dvd_irq d" and "dvd_power_on d0 = dvd_power_on d"
    and "dvd_even s0 s"
  shows "dvd_item_keeps live (d0, s0) ds"
  using assms by (auto simp: dvd_item_keeps_def intro: dvd_keeps_trans dvd_even_trans dvd_even_keeps)

lemma dvd_item_local':
  assumes "dvd_item_keeps live ds (d, s)"
    and "dvd_irq d1 = dvd_irq d" and "dvd_power_on d1 = dvd_power_on d"
    and "dvd_even s s1"
  shows "dvd_item_keeps live ds (d1, s1)"
  using assms by (auto simp: dvd_item_keeps_def intro: dvd_keeps_trans dvd_even_trans dvd_even_keeps)

lemma media_index_item:
  assumes "media_index_work e live (d, s) = Some (d', s')"
  shows "dvd_item_keeps live (d, s) (d', s')"
proof -
  have two: "dvd_item_keeps live (d, s) (d2, s2)"
    if "cmd_send e live c1 (d, s) = Some (d1, s1)" "cmd_send e live c2 (d1, s1) = Some (d2, s2)"
    for c1 c2 d1 s1 d2 s2
    using cmd_send_item [OF that(1)] cmd_send_item [OF that(2)] by (rule dvd_item_keeps_trans)
  have again: "dvd_item_keeps live (u, s) (u, emit (Queue_delayed w n) s)" for u w n
    by (rule dvd_item_local' [OF dvd_item_keeps_refl]) (auto intro: dvd_even_emit)
  show ?thesis using assms
    by (auto simp: again media_index_work_def bind_eq_Some Let_def split: if_splits prod.splits
        dest!: two intro: dvd_item_local' [OF dvd_item_keeps_refl] dvd_item_local' dvd_even_emit)
qed

lemma stop_item:
  assumes "stop_work e live (d, s) = Some (d', s')"
  shows "dvd_item_keeps live (d, s) (d', s')"
proof (cases "dvd_byteval_5 d = 0")
  case True
  with assms show ?thesis
    by (auto simp: stop_work_def intro: dvd_item_local' [OF dvd_item_keeps_refl])
next
  case False
  let ?ds = "cmd_surface 0 (d, s)"
  from assms False obtain c d2 s2 where
    1: "cmd_send e live c ?ds = Some (d2, s2)"
    and 2: "d' = d2" "s' = emit (Queue_delayed ''stop_work'' 2000) s2"
    by (auto simp: stop_work_def bind_eq_Some split: prod.splits)
  obtain d1 s1 where ds: "?ds = (d1, s1)" by fastforce
  have "dvd_irq d = dvd_irq d1" "dvd_power_on d = dvd_power_on d1" "dvd_even s s1"
    using ds by (auto simp: cmd_surface_def input_event_func_def split: if_splits intro: dvd_even_emit)
  from dvd_item_local [OF cmd_send_item this] 1 ds have "dvd_item_keeps live (d, s) (d2, s2)"
    by simp
  then show ?thesis unfolding 2 by (rule dvd_item_local') (auto intro: dvd_even_emit)
qed

interpretation dq: work_queue "dvd_item_work e live" "dvd_item_keeps live" for e live
proof
  fix w ds ds' assume "dvd_item_work e live w ds = Some ds'"
  then show "dvd_item_keeps live ds ds'"
    by (cases w; cases ds; cases ds') (auto intro: interrupt_item media_index_item stop_item)
qed (blast intro: dvd_item_keeps_trans dvd_item_keeps_refl)+

section \<open>What holds of the drive\<close>

text \<open>C4. Whatever the drive sends and however the transfer ends, the words put on the work queue
  are exactly those that came over the wire, in order: each took one start bit and the sixteen bits
  read at its handshakes. At most one frame more was begun, and none when the drive has let go of
  the line. The link lock is free again and nothing but the log changed.\<close>

theorem dvd_receives:
  assumes "dvd_rev_part_2 e s = Some (r, s')"
  shows "logged s s' \<and> held l (trace s') = held l (trace s) \<and>
    (\<exists>ws rest. dvd_posted (trace s') = map (\<lambda>w. (5, ucast w)) (rev ws) @ dvd_posted (trace s) \<and>
       dvd_taken (trace s') =
         rest @ concat (map (\<lambda>w. map Some (rev (bits_msb (w::u16))) @ [Some False]) (rev ws)) @
         dvd_taken (trace s) \<and>
       length rest \<le> 17 \<and> (r = 1 \<longrightarrow> ws \<noteq> [] \<and> rest = []))"
proof -
  from assms obtain s1 where 1: "dvd_rev_loop e (emit (Lock rev_lock) s) = Some (r, s1)"
    and s': "s' = emit (Unlock rev_lock) s1"
    by (auto simp: dvd_rev_part_2_def bind_eq_Some)
  have "dvd_received (emit (Lock rev_lock) s) r s1" by (rule dvd_rev_loop_spec [OF 1])
  then show ?thesis
    using dvd_rev_part_2_even [OF assms]
    by (simp add: dvd_received_def dvd_frame_def dvd_even_def s')
qed

text \<open>How often a pin was read.\<close>

fun count_rd :: "nat \<Rightarrow> event list \<Rightarrow> nat" where
  "count_rd p [] = 0"
| "count_rd p (Rd q v # h) = (if q = p then 1 else 0) + count_rd p h"
| "count_rd p (_ # h) = count_rd p h"

text \<open>A drive that hands over one word, following ACK with its strobe.\<close>

definition calling_drive :: "u16 \<Rightarrow> env" where
  "calling_drive w = with_pins (\<lambda>h p.
     if p = gpio_DVD_DATA then (False # True # bits_msb w @ [True]) ! count_rd p h
     else if p = gpio_DVD_STB then last_wr gpio_DVD_ACK h \<noteq> Some True
     else last_wr gpio_DVD_STB h = Some False)"

abbreviation (input) wire :: "u16 \<Rightarrow> nat \<Rightarrow> bool" where
  "wire w i \<equiv> (False # True # bits_msb w @ [True]) ! i"

lemma calling_drive_level:
  "level (calling_drive w) h 175 = wire w (count_rd 175 h)"
  "level (calling_drive w) h 168 \<longleftrightarrow> last_wr 174 h \<noteq> Some True"
  "level (calling_drive w) h 174 \<longleftrightarrow> last_wr 168 h = Some False"
  by (simp_all add: calling_drive_def with_pins_def)

lemma calling_bits:
  "last_wr 168 (trace s) = None \<Longrightarrow> \<exists>s'.
     dvd_rev_bits (calling_drive w) n cmd s =
       Some (Some (foldl shift_in cmd (map (\<lambda>i. wire w (count_rd 175 (trace s) + i)) [0..<n])), s') \<and>
     last_wr 168 (trace s') = None \<and> count_rd 175 (trace s') = count_rd 175 (trace s) + n \<and>
     dvd_posted (trace s') = dvd_posted (trace s)"
proof (induction n arbitrary: cmd s)
  case 0
  then show ?case by simp
next
  case (Suc n)
  let ?b = "wire w (count_rd 175 (trace s))" and ?e = "calling_drive w"
  define s1 where "s1 = emit (Dir_out 174 True) s"
  define s2 where "s2 = emit (Rd 168 False) (emit (Clock (sec ?e (trace s1)) (usec ?e (trace s1))) s1)"
  define s3 where "s3 = emit (Dir_out 174 False) (emit (Rd 175 ?b) s2)"
  define s4 where "s4 = emit (Rd 168 True) (emit (Clock (sec ?e (trace s3)) (usec ?e (trace s3))) s3)"
  have 1: "dvd_await_from ?e 168 False s1 = Some (True, s2)"
    unfolding s2_def by (rule dvd_await_from_now) (simp add: calling_drive_level s1_def)
  have 2: "dvd_await_from ?e 168 True s3 = Some (True, s4)"
    unfolding s4_def by (rule dvd_await_from_now) (simp add: calling_drive_level s3_def)
  have "dvd_rev_bits ?e (Suc n) cmd s = dvd_rev_bits ?e n (shift_in cmd ?b) s4"
    using 1 2 by (simp add: op_defs Let_def s1_def [symmetric] calling_drive_level s3_def [symmetric])
       (simp add: s3_def s2_def s1_def)
  then show ?case
    using Suc.IH [of s4 "shift_in cmd ?b"] Suc.prems
    by (simp add: map_upt_Suc s4_def s3_def s2_def s1_def del: upt_Suc)
qed

lemma calling_word:
  assumes "last_wr 168 (trace s) = None" and "count_rd 175 (trace s) = 1"
  shows "\<exists>s'. dvd_rev_word (calling_drive w) s = Some (Some (ucast w), s') \<and>
    count_rd 175 (trace s') = 18 \<and> dvd_posted (trace s') = dvd_posted (trace s)"
proof -
  let ?e = "calling_drive w"
  define s1 where "s1 = emit (Dir_out 174 False) s"
  define s2 where "s2 = emit (Rd 175 True) (emit (Clock (sec ?e (trace s1)) (usec ?e (trace s1))) s1)"
  have 1: "dvd_await_from ?e 175 True s1 = Some (True, s2)"
    unfolding s2_def by (rule dvd_await_from_now) (simp add: calling_drive_level s1_def assms)
  have "map (\<lambda>i. wire w (2 + i)) [0..<16] = bits_msb w"
    by (rule nth_equalityI) (simp_all add: nth_append)
  then have bits: "foldl shift_in 0 (map (\<lambda>i. wire w (2 + i)) [0..<16]) = (ucast w :: u32)"
    using from_bits_16 [of "bits_msb w"] by (simp add: from_bits_def [symmetric])
  from calling_bits [of s2 w 16 0] assms obtain s3 where
    3: "dvd_rev_bits ?e 16 0 s2 = Some (Some (ucast w), s3)" "last_wr 168 (trace s3) = None"
      "count_rd 175 (trace s3) = 18" "dvd_posted (trace s3) = dvd_posted (trace s)"
    using bits by (auto simp: s2_def s1_def numeral_2_eq_2 simp del: upt_Suc)
  obtain s4 where "dvd_rev_close ?e (Some (ucast w)) s3 = Some (Some (ucast w), s4)"
    "count_rd 175 (trace s4) = 18" "dvd_posted (trace s4) = dvd_posted (trace s)"
    using 3(2-) by (simp add: dvd_rev_close_def op_defs dvd_await_from_now calling_drive_level Let_def)
  then show ?thesis using 1 3
    by (simp add: dvd_rev_word_def op_defs s1_def [symmetric] del: dvd_rev_bits.simps)
qed

theorem dvd_receives_witness:
  "\<exists>s'. dvd_rev_part_2 (calling_drive 0x1234) sys_0 = Some (1, s') \<and>
     held ''dvd_rev_mutex'' (trace s') = 0 \<and> dvd_posted (trace s') = [(5, 0x1234)]"
proof -
  let ?e = "calling_drive 0x1234" and ?s = "emit (Rd 175 False) (emit (Lock rev_lock) sys_0)"
  obtain t where t: "dvd_rev_word ?e ?s = Some (Some 0x1234, t)" "count_rd 175 (trace t) = 18"
    "dvd_posted (trace t) = []"
    using calling_word [of ?s "0x1234"] by auto
  have "wire 0x1234 18" by (simp add: bits_msb_def nth_append)
  with t have "dvd_rev_part_2 ?e sys_0 =
      Some (1, emit (Unlock rev_lock) (emit (Rd 175 True) (emit (Dvd_add_work 5 0x1234) t)))"
    by (simp add: dvd_rev_part_2_def dvd_rev_loop.simps op_defs calling_drive_level Let_def)
  with t(3) dvd_receives [OF this, of "''dvd_rev_mutex''"] show ?thesis
    by (simp add: held_def)
qed

text \<open>C5. A command that was sent showed the drive its 24 bits, most significant first, one at
  each falling strobe and nothing more; a transfer that failed showed a prefix of them.\<close>

theorem dvd_send_word_shows:
  assumes "dvd_send_word e cmd 24 s = Some (ok, s')"
  shows "\<exists>j \<le> 24. (ok \<longrightarrow> j = 24) \<and> dvd_shown (trace s') =
    map Some (rev (take j (bits_msb (ucast cmd :: 24 word)))) @ dvd_shown (trace s)"
  using dvd_send_word_spec [OF assms] by (simp add: dvd_bits_24)

text \<open>A drive that takes a command, answering each edge of the strobe.\<close>

definition taking_drive :: env where
  "taking_drive = with_pins (\<lambda>h p.
     if p = gpio_DVD_ACK then
       (case last_wr gpio_DVD_STB h of
          None \<Rightarrow> last_wr gpio_DVD_DATA h \<noteq> Some False
        | Some v \<Rightarrow> v)
     else p = gpio_DVD_STB \<and> last_wr gpio_DVD_ACK h = Some True)"

lemma taking_drive_level:
  "level taking_drive h 174 \<longleftrightarrow> (case last_wr 168 h of None \<Rightarrow> last_wr 175 h \<noteq> Some False | Some v \<Rightarrow> v)"
  "level taking_drive h 168 \<longleftrightarrow> last_wr 174 h = Some True"
  by (simp_all add: taking_drive_def with_pins_def)

lemma taking_drive_bits: "\<exists>s'. dvd_send_bits taking_drive cmd n k s = Some (True, s')"
  by (induction k arbitrary: s) (simp_all add: op_defs dvd_await_from_now taking_drive_level Let_def)

lemma taking_drive_word:
  assumes "last_wr 168 (trace s) = None"
  shows "\<exists>s'. dvd_send_word taking_drive cmd n s = Some (True, s')"
proof -
  have close: "\<exists>s'. dvd_send_close taking_drive s = Some (True, s')" for s
    by (simp add: dvd_send_close_def op_defs dvd_await_from_now taking_drive_level Let_def)
  obtain s1 where "dvd_send_open taking_drive s = Some (True, s1)"
    using assms by (simp add: dvd_send_open_def op_defs dvd_await_now taking_drive_level Let_def)
  moreover obtain s2 where "dvd_send_bits taking_drive cmd n n s1 = Some (True, s2)"
    using taking_drive_bits by blast
  ultimately show ?thesis using close [of s2] by (simp add: dvd_send_word_def)
qed

theorem dvd_send_word_shows_witness:
  "\<exists>s'. dvd_send_word taking_drive 0x20F0D 24 sys_0 = Some (True, s') \<and>
     dvd_shown (trace s') = map Some (rev (bits_msb (0x20F0D :: 24 word)))"
proof -
  obtain s' where "dvd_send_word taking_drive 0x20F0D 24 sys_0 = Some (True, s')"
    using taking_drive_word [of sys_0 "0x20F0D" 24] by auto
  with dvd_send_word_shows [OF this] show ?thesis by auto
qed

text \<open>C6. Any sequence of interrupts and delayed works leaves status, configuration and keys alone
  and gives every mutex back, whenever the drive is switched off meanwhile. While it stays on,
  every interrupt line is enabled as often as it was disabled.\<close>

theorem dvd_queue_balanced:
  assumes "run_queue (dvd_item_work e live) ws (d, s) = Some (d', s')"
  shows "logged s s' \<and> held l (trace s') = held l (trace s) \<and>
    ((\<forall>h b. live h b = b) \<and> dvd_power_on d \<longrightarrow>
      dvd_power_on d' \<and> irq_depth i (trace s') = irq_depth i (trace s))"
  using dq.run_keeps [OF assms]
  by (auto simp: dvd_item_keeps_def dvd_keeps_def dvd_even_def steady_power_def)

theorem dvd_queue_balanced_witness:
  "\<exists>d' s'. run_queue (dvd_item_work (with_pins (\<lambda>_ _. True)) (\<lambda>_ b. b))
       [Interrupt_item, Media_index_item, Stop_item] (dvd_reset undefined, sys_0) = Some (d', s') \<and>
     irq_depth 175 (trace s') = 0"
proof -
  let ?e = "with_pins (\<lambda>_ _. True)" and ?d = "dvd_reset undefined"
  have part: "dvd_rev_part_2 ?e s =
      Some (0, emit (Unlock rev_lock) (emit (Rd 175 True) (emit (Lock rev_lock) s)))" for s
    by (simp add: dvd_rev_part_2_def dvd_rev_loop.simps op_defs with_pins_def)
  have "\<exists>ds. run_queue (dvd_item_work ?e (\<lambda>_ b. b))
      [Interrupt_item, Media_index_item, Stop_item] (?d, sys_0) = Some ds"
    by (simp add: dvd_isr_def rev_work_def look_def part media_index_work_def stop_work_def
        dvd_reset_def)
  then obtain d' s' where "run_queue (dvd_item_work ?e (\<lambda>_ b. b))
      [Interrupt_item, Media_index_item, Stop_item] (?d, sys_0) = Some (d', s')" by auto
  with dvd_queue_balanced [OF this, of _ 175] show ?thesis
    by (auto simp: dvd_reset_def irq_depth_def)
qed

lemma irq_depth_others:
  "\<not> irq_event x \<Longrightarrow> irq_depth i (x # h) = irq_depth i h"
  by (cases x) (simp_all add: irq_depth_def)

lemma irq_depth_cancel: "irq_depth i (trace (cancel_works s)) = irq_depth i (trace s)"
  by (simp add: cancel_works_def irq_depth_others)

lemma irq_depth_release: "irq_depth i (trace (release_pins s)) = irq_depth i (trace s)"
  by (simp add: release_pins_def op_defs irq_depth_others)

lemma trace_upd_car: "trace (upd_car f s) = trace s"
  by (simp add: upd_car_def)

lemma irq_depth_steps:
  "irq_depth i (Irq_off j # h) = irq_depth i h + (if i = j then 1 else 0)"
  "irq_depth i (Irq_on j # h) = irq_depth i h - (if i = j then 1 else 0)"
  by (simp_all add: irq_depth_def)

lemmas irq_depths = irq_depth_steps irq_depth_others irq_depth_cancel irq_depth_release trace_upd_car

text \<open>C7. Switching a running drive off and on again leaves its interrupt as enabled as it was. But
  if an interrupt arrived just before, its work finds the drive off and does nothing, so the
  interrupt stays disabled once more often and the drive is deaf after the power-on.\<close>

theorem dvd_irq_lost:
  assumes "dvd_power_on d"
  shows "irq_depth (dvd_irq d) (trace (snd (snd (dvd_power e 1 (snd (dvd_poweroff e (d, s))))))) =
      irq_depth (dvd_irq d) (trace s) \<and>
    rev_work e live (fst (snd (dvd_poweroff e (dvd_isr (d, s)))), t) =
      Some (fst (snd (dvd_poweroff e (dvd_isr (d, s)))), t) \<and>
    irq_depth (dvd_irq d)
        (trace (snd (snd (dvd_power e 1 (snd (dvd_poweroff e (dvd_isr (d, s)))))))) =
      irq_depth (dvd_irq d) (trace s) + 1"
  using assms by (simp_all add: dvd_power_def dvd_poweroff_def dvd_isr_def dvd_reset_def
      rev_work_def msleep_def Let_def irq_depths)

theorem dvd_irq_lost_witness:
  "irq_depth (dvd_irq (dvd_reset undefined)) (trace (snd (snd
     (dvd_power dead_mcu 1 (snd (dvd_poweroff dead_mcu (dvd_isr (dvd_reset undefined, sys_0)))))))) = 1"
  using dvd_irq_lost [of "dvd_reset undefined" dead_mcu sys_0] by (simp add: dvd_reset_def irq_depth_def)

lemma sint_below:
  fixes w :: u32
  assumes "w < 0x80000000"
  shows "sint w = uint w"
proof -
  have "uint w < 2 ^ 31" using assms by (simp add: word_less_def)
  moreover have "- (2 ^ 31) \<le> uint w" by (rule order_trans [OF _ uint_nonnegative]) simp
  ultimately show ?thesis by (simp add: sint_uint signed_take_bit_int_eq_self)
qed

text \<open>A command that selects a track is dropped: the whole command with its operation code
  0x0B, rather than the track number in it, is compared with the number of tracks, and that has
  sixteen bits.\<close>

theorem dvd_track_never_selected:
  assumes "command AND 0xFF0000 = 0xB0000" and "command \<le> 0xFFFFFF"
    and "dvd_u16val_3 d = 1 \<or> dvd_u16val_3 d = 2"
  shows "dvd_send_command_direct command (d, s) = (d, s)"
proof -
  have "0xB0000 \<le> command" using assms(1) word_and_le1 [of command "0xFF0000"] word_and_le2
    by metis
  moreover have "unat (command + 1) = unat command + 1"
    using assms(2) by (simp add: word_le_nat_alt unat_word_ariths)
  ultimately have "0xB0001 \<le> command + 1" "command + 1 < 0x80000000"
    using assms(2) by (simp_all add: word_le_nat_alt word_less_nat_alt)
  then have "0xB0001 \<le> sint (command + 1)"
    by (simp add: sint_below word_le_def)
  moreover have "unat (media_count d) < 0x10000" using unsigned_less [of "media_count d"] by simp
  ultimately have "\<not> sint (command + 1) \<le> int (unat (media_count d))" by linarith
  moreover have "command \<notin> {0x22220, 0x32200, 0x20F0D, 0x30F00}" using assms(1) by auto
  ultimately show ?thesis using assms(1,3)
    by (auto simp: dvd_send_command_direct_def dvd_select_track_def)
qed

theorem dvd_track_never_selected_witness:
  "dvd_send_command_direct 0xB0005 ((dvd_reset undefined)\<lparr>dvd_u16val_3 := 1, media_count := 20\<rparr>, sys_0) =
     ((dvd_reset undefined)\<lparr>dvd_u16val_3 := 1, media_count := 20\<rparr>, sys_0)"
  by (rule dvd_track_never_selected) simp_all

section \<open>Selecting a track\<close>

text \<open>A command of three bytes carries the exclusive or of the first two as its last one.\<close>

definition dvd_wellformed :: "u32 \<Rightarrow> bool" where
  "dvd_wellformed c \<longleftrightarrow> c AND 0xFF = (drop_bit 8 c XOR drop_bit 16 c) AND 0xFF"

text \<open>The stored selection carries its operation code, which runs over the argument and turns
  the operation code of the second command into 0x0F. No track below 256 yields a good command.\<close>

lemma track_commands_malformed:
  assumes "n \<le> 0xFF" and "flag AND 0xFF = 0"
  shows "let (c1, c2) = track_commands flag (n OR 0xB0000)
    in \<not> dvd_wellformed c1 \<and> \<not> dvd_wellformed c2 \<and> drop_bit 16 c2 = 0xF"
proof -
  have "unat n < 2 ^ 8" using assms(1) by (simp add: word_le_nat_alt)
  then have "take_bit 8 n = n"
    by (simp add: word_unat_eq_iff unsigned_take_bit_eq take_bit_nat_eq_self)
  then have n: "\<not> bit n k" if "8 \<le> k" for k
    using that bit_take_bit_iff [of 8 n k] by simp
  have wf: "bit c 0 = (bit c 8 \<noteq> bit c 16)" if "dvd_wellformed c" for c
    using that [unfolded dvd_wellformed_def, THEN arg_cong [where f = "\<lambda>w. bit w 0"]]
    by (simp add: bit_simps)
  show ?thesis
  proof (unfold Let_def track_commands_def, simp add: assms(2), intro conjI notI)
    have "drop_bit 16 n = 0" by (rule bit_word_eqI) (simp add: bit_simps n)
    then show "(drop_bit 16 n OR 11) OR 12 = 15" by simp
  qed (drule wf; simp add: bit_simps n)+
qed

end
