(* ===== verification/Radio.thy ===== *)
theory Radio
  imports Rds_Input Peers "HOL-Library.Signed_Division"
begin

text \<open>
  The tuner (radio_tef6606.c): station reports, frequencies and bands, the signal estimates of
  the five tuner types, RDS reception with alternative frequencies and traffic announcements.

  \<open>radio._s2\<close>, which the sources clear as a whole and read and write across its members, is a
  byte memory with the offsets of its members; the other members of \<open>radio\<close> that are read or
  written are fields. Bytes at \<open>_gap13\<close> that are accessed as words are a byte memory too, and the
  eight bytes of \<open>_gap14\<close>, accessed as one word, are one word. Cancelling a delayed work
  (\<open>del_timer_sync\<close> and \<open>clear_bit\<close> of its pending bit) is one event.
\<close>

section \<open>State\<close>

type_synonym memory = "nat \<Rightarrow> u8"
type_synonym u64 = "64 word"

definition ld16 :: "memory \<Rightarrow> nat \<Rightarrow> u16" where
  "ld16 m a = (ucast (m a) OR push_bit 8 (ucast (m (a + 1))))"

definition st16 :: "nat \<Rightarrow> u16 \<Rightarrow> memory \<Rightarrow> memory" where
  "st16 a w m = m(a := ucast w, a + 1 := ucast (drop_bit 8 w))"

record mtc_radio_struct =
  sta_valid :: u8
  radio_pwr :: u32                 \<comment> \<open>\<open>power\<close>\<close>
  tef_cur_band :: u8               \<comment> \<open>of \<open>tef_drv\<close>\<close>
  s2 :: memory
  sta_flag :: u8                   \<comment> \<open>\<open>sta_rds_cache[0]\<close>\<close>
  sta_cache :: "u8 list"           \<comment> \<open>\<open>sta_rds_cache[4..7]\<close>\<close>
  psn_cache :: "u8 list"           \<comment> \<open>\<open>psn_data\<close>\<close>
  radio_freq :: u32
  gap7_1 :: u8
  has_af_work :: u8
  gap8_0 :: u8
  has_ta_work :: u8
  gap9_0 :: u8
  gap9_1 :: u8
  gap9_2 :: u8
  radio_af :: u8
  cur_freq :: u32
  gap11_1 :: u8
  gap11_2 :: u8
  u16_1 :: u16
  gap12_0 :: u8
  u16_2 :: u16
  gap13 :: memory
  gap14 :: u64
  gap15_0 :: u8
  alt_psn_pair :: u16              \<comment> \<open>\<open>rds_alt_block\<close>\<close>
  alt_rds_pti :: u8
  alt_rds_ps_bit :: u8

type_synonym radio_sys = "mtc_radio_struct \<times> sys"

text \<open>Offsets in \<open>struct mtc_radio_struct2\<close>.\<close>

abbreviation (input) o_psn :: nat where "o_psn \<equiv> 0"
abbreviation (input) o_pti :: nat where "o_pti \<equiv> 12"
abbreviation (input) o_buf :: nat where "o_buf \<equiv> 16"
abbreviation (input) o_pi_words :: nat where "o_pi_words \<equiv> 6324"
abbreviation (input) o_ps_bit :: nat where "o_ps_bit \<equiv> 6326"
abbreviation (input) o_ta_cnt :: nat where "o_ta_cnt \<equiv> 6327"
abbreviation (input) o_psn_word :: nat where "o_psn_word \<equiv> 6328"
abbreviation (input) o_psn_l :: nat where "o_psn_l \<equiv> 6329"
abbreviation (input) o_psn_h :: nat where "o_psn_h \<equiv> 6330"
abbreviation (input) o_ps_grp :: nat where "o_ps_grp \<equiv> 6331"
abbreviation (input) o_ps_text :: nat where "o_ps_text \<equiv> 6332"
abbreviation (input) o_ps_text_ext :: nat where "o_ps_text_ext \<equiv> 6397"
abbreviation (input) o_pty_extra :: nat where "o_pty_extra \<equiv> 6398"
abbreviation (input) o_af_last :: nat where "o_af_last \<equiv> 6403"
abbreviation (input) o_word :: nat where "o_word \<equiv> 6404"
abbreviation (input) o_fw_a :: nat where "o_fw_a \<equiv> 6406"
abbreviation (input) o_fw_b :: nat where "o_fw_b \<equiv> 6407"
abbreviation (input) o_fw_c :: nat where "o_fw_c \<equiv> 6408"
abbreviation (input) o_fw_d :: nat where "o_fw_d \<equiv> 6409"

abbreviation (input) ta_check_cmd :: u8 where "ta_check_cmd \<equiv> 155"

definition radio_emit :: "event \<Rightarrow> radio_sys \<Rightarrow> radio_sys" where
  "radio_emit x rs = (fst rs, emit x (snd rs))"

definition upd_radio :: "(mtc_radio_struct \<Rightarrow> mtc_radio_struct) \<Rightarrow> radio_sys \<Rightarrow> radio_sys" where
  "upd_radio f rs = (f (fst rs), snd rs)"

definition put_s2 :: "nat \<Rightarrow> u8 \<Rightarrow> radio_sys \<Rightarrow> radio_sys" where
  "put_s2 a v = upd_radio (\<lambda>r. r\<lparr>s2 := (s2 r)(a := v)\<rparr>)"

definition get_s2 :: "nat \<Rightarrow> radio_sys \<Rightarrow> u8" where
  "get_s2 a rs = s2 (fst rs) a"

definition rcfg :: "radio_sys \<Rightarrow> config" where
  "rcfg rs = cfg (snd rs)"

section \<open>Reports\<close>

definition sta_invalid :: "radio_sys \<Rightarrow> radio_sys" where
  "sta_invalid rs =
     radio_emit (Queue_delayed ''dwork_sta_valid'' 20)
       (upd_radio (\<lambda>r. r\<lparr>sta_flag := 0, sta_valid := 0\<rparr>)
         (radio_emit (Cancel_delayed ''dwork_sta_valid'') rs))"

definition radio_send_sta :: "u8 list \<Rightarrow> u8 \<Rightarrow> u8 \<Rightarrow> sys \<Rightarrow> sys" where
  "radio_send_sta cmd d1 d2 s =
     emit (Vs_send 2 0x97 [cmd ! 3, cmd ! 2, cmd ! 1, cmd ! 0, d1, d2]) s"

definition rds_send_sta :: "radio_sys \<Rightarrow> radio_sys" where
  "rds_send_sta rs =
     (let cmd_data = [get_s2 (o_psn + 1) rs, get_s2 o_psn rs, get_s2 o_pti rs,
                      get_s2 (o_buf + 156) rs, get_s2 (o_buf + 157) rs]
      in if take 4 cmd_data = sta_cache (fst rs) then radio_emit (Vs_send 2 0x98 cmd_data) rs
         else upd_radio (\<lambda>r. r\<lparr>sta_cache := take 4 cmd_data\<rparr>) rs)"

definition rds_send_sta_empty :: "radio_sys \<Rightarrow> radio_sys" where
  "rds_send_sta_empty rs = radio_emit (Vs_send 2 0x98 [0, 0, 0, 0, 0]) rs"

definition ta_check_start :: "radio_sys \<Rightarrow> radio_sys" where
  "ta_check_start rs =
     (if has_ta_work (fst rs) \<noteq> 0 then radio_emit (Vs_send 2 ta_check_cmd [1]) rs else rs)"

definition ta_check_back :: "radio_sys \<Rightarrow> radio_sys" where
  "ta_check_back rs =
     (if has_ta_work (fst rs) \<noteq> 0 then radio_emit (Vs_send 2 ta_check_cmd [0]) rs else rs)"

definition rds_send_psn :: "radio_sys \<Rightarrow> radio_sys" where
  "rds_send_psn rs =
     (let new = map (\<lambda>i. get_s2 (o_psn + i) rs) [2..<10];
          head = [get_s2 (o_psn + 1) rs, get_s2 o_psn rs];
          old = drop 2 (psn_cache (fst rs));
          rs = upd_radio (\<lambda>r. r\<lparr>psn_cache := head @ old\<rparr>) rs
      in if old = new then radio_emit (Vs_send 2 0x99 (psn_cache (fst rs))) rs
         else upd_radio (\<lambda>r. r\<lparr>psn_cache := head @ new\<rparr>) rs)"

text \<open>The bytes of a string; the text of at most \<open>n\<close> bytes ends at its first zero.\<close>

fun c_string :: "memory \<Rightarrow> nat \<Rightarrow> nat \<Rightarrow> u8 list" where
  "c_string m a 0 = []"
| "c_string m a (Suc n) = (if m a = 0 then [] else m a # c_string m (a + 1) n)"

text \<open>The text lies at offset 178 and the structure has 6410 bytes.\<close>

definition rds_send_rt :: "radio_sys \<Rightarrow> radio_sys" where
  "rds_send_rt rs =
     (let t = c_string (s2 (fst rs)) (o_buf + 162) 6232
      in radio_emit (Vs_send 2 0x9C
           ([get_s2 (o_psn + 1) rs, get_s2 o_psn rs] @ t @ [0])) rs)"

section \<open>Frequencies\<close>

definition Radio_Set_Mute :: "bool \<Rightarrow> radio_sys \<Rightarrow> radio_sys" where
  "Radio_Set_Mute mute rs =
     (if mute then radio_emit (Arm_send_multi 0x9204 []) rs
      else radio_emit (Arm_send_multi 0x9205 []) rs)"

definition Radio_Set_Search :: "u8 \<Rightarrow> radio_sys \<Rightarrow> radio_sys" where
  "Radio_Set_Search arg rs = radio_emit (Arm_send_multi 0x920C [arg]) rs"

definition Radio_Set_Stereo :: "bool \<Rightarrow> radio_sys \<Rightarrow> radio_sys" where
  "Radio_Set_Stereo val rs =
     (if val then radio_emit (Arm_send_multi 0x9201 []) rs
      else radio_emit (Arm_send_multi 0x9202 []) rs)"

definition Radio_Get_Stereo :: int where
  "Radio_Get_Stereo = 0"

text \<open>The word for a frequency. The comparisons are signed here and unsigned in \<open>Af_Check\<close>.\<close>

definition freq_word :: "u32 \<Rightarrow> u32 option" where
  "freq_word freq =
     (let quot = (\<lambda>d. word_of_int (sint freq sdiv d)) in
      if sint (freq - 144000) > 1576000 then
        if sint (freq - 76000000) > 32000000 then
          if sint (freq - 2940000) \<le> 15195000 then Some (quot 5000 OR 0x4000)
          else if sint (freq - 65000000) > 9000000 then None
          else Some (quot 10000 OR 0x6000)
        else Some (quot 50000 OR 0x2000)
      else Some (quot 1000))"

definition word_bytes :: "u32 \<Rightarrow> u8 list" where
  "word_bytes v = [ucast (drop_bit 8 v), ucast v]"

definition Radio_Set_Frequency_com :: "u32 \<Rightarrow> bool \<Rightarrow> radio_sys \<Rightarrow> radio_sys" where
  "Radio_Set_Frequency_com freq a2 rs =
     (let rs = sta_invalid rs in
      case freq_word freq of
        None \<Rightarrow> rs
      | Some v5 \<Rightarrow>
          let rs = upd_radio (\<lambda>r. r\<lparr>gap11_1 := 0, gap11_2 := 0\<rparr>) rs;
              rs = radio_emit (Arm_send_multi (if a2 then 0x9208 else 0x9200) (word_bytes v5)) rs;
              (r, s) = rds_send_sta_empty rs
          in (r, upd_car (\<lambda>c. c\<lparr>radio_rds_flag := 0, reserved_18 := 0\<rparr>) s))"

text \<open>The arguments of \<open>ta_back\<close> are not used.\<close>

definition ta_back :: "radio_sys \<Rightarrow> radio_sys" where
  "ta_back rs =
     (let rs =
        (if has_ta_work (fst rs) = 1 then
           let rs = sta_invalid (upd_radio (\<lambda>r. r\<lparr>has_ta_work := 0\<rparr>) rs);
               rs = radio_emit (Cancel_delayed ''dwork_ta'') rs;
               rs = upd_radio (\<lambda>r. r\<lparr>radio_freq := cur_freq r\<rparr>) rs
           in Radio_Set_Mute False (Radio_Set_Frequency_com (cur_freq (fst rs)) False rs)
         else if has_ta_work (fst rs) = 2 then upd_radio (\<lambda>r. r\<lparr>has_ta_work := 0\<rparr>) rs
         else rs)
      in radio_emit (Audio_add_work 25 1 0 0) (radio_emit (Vs_send 2 ta_check_cmd [0]) rs))"

definition Radio_TA :: "u8 \<Rightarrow> radio_sys \<Rightarrow> radio_sys" where
  "Radio_TA enable rs =
     (if cfg_rds (rcfg rs) \<noteq> 0 then
        let rs = upd_radio (\<lambda>r. r\<lparr>gap11_2 := enable\<rparr>) rs
        in if enable = 0 \<and> has_ta_work (fst rs) \<noteq> 0 then ta_back rs else rs
      else upd_radio (\<lambda>r. r\<lparr>gap11_2 := 0\<rparr>) rs)"

definition Radio_AF :: "u8 \<Rightarrow> radio_sys \<Rightarrow> radio_sys" where
  "Radio_AF af rs =
     upd_radio (\<lambda>r. r\<lparr>radio_af := if cfg_rds (rcfg rs) \<noteq> 0 then af else 0\<rparr>) rs"

definition clear_s2 :: "radio_sys \<Rightarrow> radio_sys" where
  "clear_s2 = upd_radio (\<lambda>r. r\<lparr>s2 := (\<lambda>_. 0)\<rparr>)"

definition radio_sleep :: "env \<Rightarrow> nat \<Rightarrow> radio_sys \<Rightarrow> radio_sys" where
  "radio_sleep e d rs = (fst rs, msleep e d (snd rs))"

definition drop_rds_works :: "radio_sys \<Rightarrow> radio_sys" where
  "drop_rds_works rs =
     (let rs = upd_radio (\<lambda>r. r\<lparr>has_af_work := 0\<rparr>) rs;
          rs = radio_emit (Flush_queue ''af_wq'') (radio_emit (Cancel_delayed ''dwork_af'') rs);
          ta_was = has_ta_work (fst rs);
          rs = radio_emit (Cancel_delayed ''dwork_ta'') (upd_radio (\<lambda>r. r\<lparr>has_ta_work := 0\<rparr>) rs)
      in if ta_was = 1 then radio_emit (Vs_send 2 ta_check_cmd [0]) rs else rs)"

definition Radio_Set_Frequency :: "env \<Rightarrow> u32 \<Rightarrow> bool \<Rightarrow> radio_sys \<Rightarrow> radio_sys" where
  "Radio_Set_Frequency e freq with_data rs =
     (let rs = (if cfg_rds (rcfg rs) \<noteq> 0 then drop_rds_works rs else rs);
          rs = upd_radio (\<lambda>r. r\<lparr>radio_freq := freq, gap7_1 := 0, gap12_0 := 0\<rparr>) rs;
          band = tef_cur_band (fst rs);
          new_band = (if sint freq > 10000000 then 2 else 1);
          vendor = cfg_radio (rcfg rs);
          tune = (\<lambda>rs. clear_s2 (Radio_Set_Frequency_com freq with_data rs))
      in if band = new_band then tune rs
         else let rs =
           (if band \<noteq> 255 \<or> vendor = 2 \<or> vendor = 4 \<or> vendor = 5 then
              let rs = radio_emit (Audio_add_work 19 1 0 0) rs;
                  rs = radio_sleep e (if vendor = 5 then 100 else 25) rs;
                  rs = tune (Radio_Set_Mute True rs)
              in radio_sleep e (if vendor = 2 \<or> vendor = 4 then 250
                                else if vendor = 5 then 500 else 50) rs
            else tune rs)
         in upd_radio (\<lambda>r. r\<lparr>tef_cur_band := new_band\<rparr>) rs)"

definition Radio_Power :: "u32 \<Rightarrow> radio_sys \<Rightarrow> radio_sys" where
  "Radio_Power pwr rs =
     (if pwr = radio_pwr (fst rs) then rs
      else let rs = upd_radio (\<lambda>r. r\<lparr>gap15_0 := 0xA0\<rparr>) rs
        in if pwr \<noteq> 0 then
             radio_emit (Arm_send_multi 0x9206 []) (upd_radio (\<lambda>r. r\<lparr>tef_cur_band := 255\<rparr>) rs)
           else upd_radio (\<lambda>r. r\<lparr>radio_pwr := pwr\<rparr>) (radio_emit (Arm_send_multi 0x9207 []) rs))"

definition tef6606_s_suspend :: "radio_sys \<Rightarrow> radio_sys" where
  "tef6606_s_suspend = upd_radio (\<lambda>r. r\<lparr>radio_pwr := 0\<rparr>)"

definition tef6606_s_resume :: "radio_sys \<Rightarrow> radio_sys" where
  "tef6606_s_resume = upd_radio (\<lambda>r. r\<lparr>radio_pwr := 0\<rparr>)"

section \<open>Signal estimates\<close>

text \<open>An \<open>unsigned int\<close> cut to a byte, and the conversion of a byte.\<close>

abbreviation (input) low8 :: "u32 \<Rightarrow> u32" where "low8 w \<equiv> take_bit 8 w"

definition freq_fm :: "mtc_radio_struct \<Rightarrow> bool" where
  "freq_fm r \<longleftrightarrow> radio_freq r > 10000000"

definition TEF6686_signal :: "mtc_radio_struct \<Rightarrow> u32 \<Rightarrow> u32" where
  "TEF6686_signal r v =
     (let v = (if v AND 0x80 \<noteq> 0 then 0 else v)
      in if sint (radio_freq r) \<le> 10000000 then (if v = 1 then 255 else 0)
         else if v = 1 then 172 else if v = 2 then 240 else 0)"

definition Tef_signal :: "mtc_radio_struct \<Rightarrow> u32 \<Rightarrow> u32 \<Rightarrow> u8 \<Rightarrow> u32" where
  "Tef_signal r result a2 a3 =
     (let v3 = low8 (result + 127) in
      if freq_fm r then
        let v4 = drop_bit 4 a2;
            result = (if v3 \<le> 0x5E then low8 (result + ucast (drop_bit 8 (radio_pwr r) AND 0xFF)) else result)
        in if v4 \<le> 5 then
             if a3 AND 0x1F > 2 then 0
             else if v4 > 2 \<and> low8 (result - 5 * v4 + 15) \<le> 0xA9 then 0
             else result
           else 0
      else
        let result = (if v3 \<le> 0x5E then low8 (result + (radio_pwr r AND 0xFF)) else result)
        in if a2 AND 0xF \<noteq> 0 then 0
           else if a3 AND 0x1F \<noteq> 0 \<or> result \<le> 0xCC then 0
           else result)"

text \<open>\<open>LOBYTE(result) = v + k\<close> with the check for overflow.\<close>

definition cap255 :: "u32 \<Rightarrow> u32" where
  "cap255 v = (if v > 0xFF then 255 else low8 v)"

definition SI4754_signal :: "mtc_radio_struct \<Rightarrow> u32 \<Rightarrow> u32 \<Rightarrow> u32 \<Rightarrow> u32 \<Rightarrow> u32" where
  "SI4754_signal r a1 a2 a3 a4 =
     (let a2 = (if a2 AND 0x80 \<noteq> 0 then low8 (- low8 a2) else a2);
          seek = (a3 AND 0x80 = 0 \<and> a1 \<noteq> 0 \<and> a3 > 9);
          a3 = (if a3 AND 0x80 \<noteq> 0 then 0 else a3);
          a4 = (if a4 AND 0x80 \<noteq> 0 then 0 else a4)
      in if \<not> freq_fm r then
           if seek then (if a4 \<le> 4 then 0 else cap255 (5 * a3 + 85)) else 0
         else if seek then
           if \<not> (a4 > 7 \<and> \<not> a2 > 0x12) then 165 else cap255 (5 * a3 + 120)
         else low8 (5 * (if a3 \<ge> 9 then 9 else a3) + 120))"

text \<open>
  \<open>Hit_signal\<close>. The multipath value is corrected and a class \<open>v5\<close> chosen by customer, then the
  level is graded. \<open>undef\<close> is what the variable \<open>v8\<close> holds before it is assigned: the grading reads
  it when a station of the third class is good.
\<close>

definition fade :: "u32 \<Rightarrow> u32 \<Rightarrow> u32 \<Rightarrow> u32" where
  "fade k result a3 = low8 ((k - result) * a3) div 10"

definition hit_class :: "u8 \<Rightarrow> u32 \<Rightarrow> u32 \<Rightarrow> nat \<times> u32" where
  "hit_class cust result a3 =
     (if cust \<in> {6, 1, 7, 14, 3} then
        (1, if result > 0xC2 then (if result \<le> 0xCD then fade (- 51) result a3 else 0) else a3)
      else if cust = 17 then
        (2, if result > 0xC7 then
              (if result \<le> 0xD2 then low8 (word_of_int (sint ((210 - result) * a3) sdiv 10)) else 0)
            else a3)
      else (0, if result \<le> 0xCC then a3 else if result > 0xD7 then 0 else fade (- 41) result a3))"

definition hit_base :: "u32 \<Rightarrow> nat \<Rightarrow> u32 \<Rightarrow> u32 \<Rightarrow> u32 \<Rightarrow> u32 \<Rightarrow> u32 option" where
  "hit_base undef v5 result a2 a3 a4 =
     (if v5 = 1 then
        if a3 \<le> 0x41 \<and> result > 0xB3 then
          if a4 > 0x14 \<or> a4 \<le> 0x14 \<and> a2 > 4 then None else Some 180
        else if result > 0xB3 then None else Some 180
      else if v5 \<noteq> 2 then
        if a3 \<le> 0x28 \<and> result > 0xB7 then
          if a4 > 0x14 \<or> a4 \<le> 0x14 \<and> a2 > 3 then None else Some undef
        else if result \<le> 0xB7 then Some 184 else None
      else
        if a3 \<le> 0x34 \<and> result > 0xB5 then
          if a4 > 0x14 \<or> a4 \<le> 0x14 \<and> a2 > 4 then None else Some 182
        else if result > 0xB5 then None else Some 182)"

definition hit_level :: "u32 \<Rightarrow> int" where
  "hit_level d = sint (3000 * d) sdiv 1275 + 170"

definition Hit_signal :: "u32 \<Rightarrow> u8 \<Rightarrow> mtc_radio_struct \<Rightarrow> u32 \<Rightarrow> u32 \<Rightarrow> u32 \<Rightarrow> u32 \<Rightarrow> u32" where
  "Hit_signal undef cust r result a2 a3 a4 =
     (let (v5, a3) = hit_class cust result a3 in
      if freq_fm r then
        case hit_base undef v5 result a2 a3 a4 of
          None \<Rightarrow> 168
        | Some v8 \<Rightarrow>
            let v9 = hit_level (result - v8)
            in if v9 > 255 then 255 else low8 (word_of_int v9)
      else
        let result = (if cust = 1 then if result \<le> 0xEF then low8 (result + 7) else result
                      else if cust = 5 \<and> result \<le> 0xEF then low8 (result + 5) else result)
        in if result > 0xA3 \<and> a2 \<le> 0x10 then low8 result else 0)"

definition hit8_seek :: "mtc_radio_struct \<Rightarrow> u32 \<Rightarrow> u32 \<Rightarrow> u32 \<Rightarrow> u8 \<Rightarrow> u8 \<Rightarrow> u8 \<Rightarrow> u8 \<Rightarrow> bool" where
  "hit8_seek r a1 a2 a3 a5 a6 a7 a8 =
     (if a8 AND 1 \<noteq> 0 then
        if a3 > 0x12 \<or> a6 > 0x55 then
          if (a3 > 5 \<or> a2 > 4) \<or> a1 \<le> 0xB0 then radio_freq r - 144000 \<le> 0x1685A0 else True
        else if (a2 = 9 \<or> radio_freq r = 99100000) \<and> a1 > 0xB8 then True
        else if \<not> (radio_freq r = 99000000 \<or> radio_freq r = 101600000) then True
        else a7 = 0 \<and> a3 \<le> 0xF
      else a5 \<noteq> 0 \<and> \<not> a2 > 5 \<and> a3 \<le> 0x1F \<and> \<not> a1 \<le> 0xAF)"

definition Hit_signal8 ::
    "u32 \<Rightarrow> u32 \<Rightarrow> u32 \<Rightarrow> u8 \<Rightarrow> u8 \<Rightarrow> u8 \<Rightarrow> u8 \<Rightarrow> radio_sys \<Rightarrow> u32 \<times> radio_sys" where
  "Hit_signal8 a1 a2 a3 a5 a6 a7 a8 rs =
     (let r = fst rs in
      if gap7_1 r \<noteq> 0 then (ucast (gap7_1 r), rs)
      else
        let v12 = hit8_seek r a1 a2 a3 a5 a6 a7 a8;
            v14 =
              (if \<not> freq_fm r then
                 let a1 = (if mtc_customer (car (snd rs)) = 1 \<and> a1 \<le> 0xEF then low8 (a1 + 7) else a1)
                 in if a1 > 0xA3 \<and> v12 then a1 else 0
               else if v12 \<and> a1 > 0xB7 \<or> a1 \<le> 0xB7 then
                 let v13 = hit_level (a1 - 184)
                 in if v13 > 255 then 255 else word_of_int (max 0 v13)
               else 168)
        in (low8 v14, upd_radio (\<lambda>r. r\<lparr>gap7_1 := ucast v14\<rparr>) rs))"

definition radio_read :: "env \<Rightarrow> u32 \<Rightarrow> nat \<Rightarrow> radio_sys \<Rightarrow> u8 list \<times> radio_sys" where
  "radio_read e cmd n rs =
     (let rs = radio_emit (Arm_read_multi cmd n) rs
      in (take n (mcu_data e (trace (snd rs)) @ replicate n 0), rs))"

definition Radio_Get_Signal :: "env \<Rightarrow> radio_sys \<Rightarrow> u32 \<times> radio_sys" where
  "Radio_Get_Signal e rs =
     (let vendor = cfg_radio (rcfg rs) in
      if vendor = 2 then
        let (b, rs) = radio_read e 0x120E 8 rs
        in Hit_signal8 (ucast (b ! 0)) (ucast (b ! 1)) (ucast (b ! 2)) (b ! 4) (b ! 5) (b ! 6) (b ! 7) rs
      else
        let (b, rs) = radio_read e 0x1203 5 rs;
            u = (\<lambda>i. ucast (b ! i))
        in (if vendor = 3 then TEF6686_signal (fst rs) (u 0)
            else if vendor = 2 \<or> vendor = 4 then
              Hit_signal (word_of_int (junk e (trace (snd rs)))) (mtc_customer (car (snd rs))) (fst rs)
                (u 0) (u 1) (u 2) (u 3)
            else if vendor = 5 then SI4754_signal (fst rs) (u 0) (u 1) (u 2) (u 3)
            else Tef_signal (fst rs) (u 1) (u 2) (b ! 3), rs))"

text \<open>The frequency word of \<open>Af_Check\<close>, which then listens for 50 ms and grades the signal.\<close>

definition af_word :: "u32 \<Rightarrow> u32 option" where
  "af_word a1 =
     (if a1 - 144000 \<le> 0x180C40 then Some (a1 div 1000)
      else if a1 - 76000000 \<le> 0x1E84800 then Some (a1 div 50000 OR 0x2000)
      else if a1 - 294000 \<le> 0xE7DB78 then Some (a1 div 5000 OR 0x4000)
      else if a1 - 65000000 > 0x895440 then None
      else Some (a1 div 10000 OR 0x6000))"

definition Af_Check :: "env \<Rightarrow> u32 \<Rightarrow> radio_sys \<Rightarrow> u32 \<times> radio_sys" where
  "Af_Check e freq rs =
     (case af_word freq of
        None \<Rightarrow> (0, rs)
      | Some v13 \<Rightarrow>
          let rs = radio_sleep e 50 (radio_emit (Arm_send_multi 0x9209 (word_bytes v13)) rs);
              (b, rs) = radio_read e 0x120A 5 rs;
              u = (\<lambda>i. ucast (b ! i));
              vendor = cfg_radio (rcfg rs)
          in (if vendor = 2 \<or> vendor = 4 then
                Hit_signal (word_of_int (junk e (trace (snd rs)))) (mtc_customer (car (snd rs))) (fst rs)
                  (u 0) (u 1) (u 2) (u 3)
              else if vendor = 3 then
                let v14 = (if b ! 0 AND 0x80 \<noteq> 0 then 0 else b ! 0)
                in if sint (radio_freq (fst rs)) \<le> 10000000 then (if v14 = 1 then - 1 else 0)
                   else if v14 = 1 then - 84 else if v14 = 2 then - 16 else 0
              else if vendor = 5 then SI4754_signal (fst rs) (u 0) (u 1) (u 2) (u 3)
              else Tef_signal (fst rs) (u 1) (u 2) (b ! 3), rs))"

section \<open>Alternative frequencies\<close>

text \<open>
  The list at \<open>b\<close>: its length, then the entries up to a zero. \<open>rds_af_scan\<close> walks it from
  position \<open>pos\<close>; \<open>None\<close> is the early return. At most 25 entries are looked at.
\<close>

fun rds_af_scan :: "memory \<Rightarrow> nat \<Rightarrow> nat \<Rightarrow> nat \<Rightarrow> nat \<Rightarrow> nat option" where
  "rds_af_scan m b af pos 0 = None"
| "rds_af_scan m b af pos (Suc k) =
     (if m (b + pos + 1) = 0 then Some pos
      else if af = unat (m (b + pos + 1)) \<or> pos + 1 = 25 then None
      else rds_af_scan m b af (pos + 1) k)"

definition rds_af_add :: "nat \<Rightarrow> nat \<Rightarrow> memory \<Rightarrow> memory" where
  "rds_af_add b af m =
     (if af \<noteq> 0 then
        case rds_af_scan m b af 0 25 of
          None \<Rightarrow> m
        | Some pos \<Rightarrow> m(b + (pos + 1) := of_nat af, b := of_nat (pos + 1))
      else m)"

text \<open>Is the pair \<open>v4\<close> among the 35 remembered ones (or stale memory in their place)?\<close>

fun af_known :: "memory \<Rightarrow> nat \<Rightarrow> u32 \<Rightarrow> nat \<Rightarrow> bool" where
  "af_known m a v4 0 = False"
| "af_known m a v4 (Suc n) = (ucast (ld16 m a) = v4 \<or> af_known m (a + 2) v4 n)"

definition af_sane :: "u16 \<Rightarrow> u16" where
  "af_sane v = (if (ucast (v - 1) :: u8) > 0xCB then 0 else v)"

definition af_pair :: "nat \<Rightarrow> u8 \<Rightarrow> u16 \<Rightarrow> memory \<Rightarrow> memory" where
  "af_pair b a2 a3 m = rds_af_add b (unat a3) (rds_af_add b (unat a2) m)"

definition af_remember :: "nat \<Rightarrow> u32 \<Rightarrow> memory \<Rightarrow> memory" where
  "af_remember b v4 m =
     (let v12 = m (b + 154);
          m = st16 (b + 2 * unat v12 + 82) (ucast v4) m
      in m(b + 154 := if v12 > 0x21 then 0 else v12 + 1))"

text \<open>The first pair that differs from the stored one decides the method of the list.\<close>

definition af_decide :: "nat \<Rightarrow> u8 \<Rightarrow> u16 \<Rightarrow> memory \<Rightarrow> memory" where
  "af_decide b a2 a3 m =
     (let v8 = ld16 m (b + 152);
          v9 = af_sane (drop_bit 8 v8);
          v8 = af_sane (v8 AND 0xFF)
      in if a2 \<noteq> 0 \<and> (ucast a2 = v9 \<or> ucast a2 = v8) \<or> a3 \<noteq> 0 then
           let m = st16 (b + 156) 2 m;
               m = (if (a2 = 0 \<or> ucast a2 < a3) \<or> a3 = 0 then af_pair b a2 a3 m else m)
           in if \<not> (v9 = 0 \<or> v9 < v8) \<and> v8 \<noteq> 0 then m
              else rds_af_add b (unat v8) (rds_af_add b (unat v9) m)
         else
           let m = rds_af_add b 0 (rds_af_add b (unat a2) (st16 (b + 156) 1 m))
           in rds_af_add b (unat v8) (rds_af_add b (unat v9) m))"

definition rds_af_process :: "nat \<Rightarrow> u8 \<Rightarrow> u16 \<Rightarrow> memory \<Rightarrow> memory" where
  "rds_af_process b hi wrd m =
     (let v4 = (ucast wrd OR push_bit 8 (ucast hi) :: u32) in
      if hi \<noteq> 250 then
        let a2 = (if hi - 1 > 0xCB then 0 else hi);
            a3 = af_sane wrd
        in if a3 OR ucast a2 \<noteq> 0 then
             let v7 = ld16 m (b + 156);
                 m = (if \<not> af_known m (b + 82) v4 35 then m
                      else if v7 \<noteq> 0 then
                        if v7 = 1 then af_pair b a2 a3 m
                        else if v7 = 2 \<and> ((a2 = 0 \<or> ucast a2 < a3) \<or> a3 = 0) then af_pair b a2 a3 m
                        else m
                      else if ld16 m (b + 152) \<noteq> 0 then
                        if v4 \<noteq> ucast (ld16 m (b + 152)) then af_decide b a2 a3 m else m
                      else st16 (b + 152) (ucast v4) m)
             in af_remember b v4 m
           else m
      else m)"

section \<open>RDS groups\<close>

definition ps_text_byte :: "nat \<Rightarrow> u8 \<Rightarrow> radio_sys \<Rightarrow> radio_sys" where
  "ps_text_byte i v = put_s2 (o_ps_text + i) v"

text \<open>\<open>LABEL_11\<close>, which else only prints.\<close>

definition rds_note_af :: "radio_sys \<Rightarrow> radio_sys" where
  "rds_note_af rs = put_s2 o_af_last (get_s2 (o_pti + 2) rs) rs"

text \<open>\<open>LABEL_14\<close>: a group with a part of the station name.\<close>

definition rds_name_part :: "u16 \<Rightarrow> radio_sys \<Rightarrow> radio_sys" where
  "rds_name_part v0 rs =
     (let rs = radio_emit (Queue_delayed ''rdslost_dwork'' 2000)
                 (radio_emit (Cancel_delayed ''rdslost_dwork'') rs);
          cnt = get_s2 o_ta_cnt rs;
          rs = put_s2 o_ta_cnt
                 (if v0 AND 0x10 \<noteq> 0 then (if cnt \<noteq> 255 then cnt + 1 else cnt) else 0) rs;
          widx = unat (v0 AND 3);
          words = get_s2 o_pi_words rs OR push_bit widx 1;
          rs = put_s2 (o_psn + 2 * widx + 3) (get_s2 o_fw_d rs)
                 (put_s2 (o_psn + 2 * widx + 2) (get_s2 o_fw_c rs) (put_s2 o_pi_words words rs));
          rs = (if words = 15 then rds_send_psn (put_s2 o_pi_words 0 rs) else rs)
      in if has_ta_work (fst rs) \<noteq> 0 then
           if get_s2 o_ta_cnt rs = 0 \<or> get_s2 o_ps_bit rs = 0 then ta_back rs else rds_note_af rs
         else if gap11_2 (fst rs) = 0 \<or> get_s2 o_ps_bit rs = 0 \<or> get_s2 o_ta_cnt rs \<le> 5 then
           rds_note_af rs
         else if radio_rds_flag (car (snd rs)) > 0xA9 then
           let rs = (if backlight_status (car (snd rs)) = 0
                     then radio_emit (Vs_send 2 ta_check_cmd [1]) rs else rs)
           in radio_emit (Audio_add_work 24 1 0 0) (upd_radio (\<lambda>r. r\<lparr>has_ta_work := 2\<rparr>) rs)
         else rs)"

text \<open>Groups 4 and 5: text. A new text clears the old one.\<close>

definition rds_text_new :: "u16 \<Rightarrow> radio_sys \<Rightarrow> radio_sys" where
  "rds_text_new v0 rs =
     (let grp = ucast (drop_bit 4 v0 AND 1) in
      if get_s2 o_ps_grp rs \<noteq> grp then
        let rs = upd_radio (\<lambda>r. r\<lparr>s2 := (\<lambda>a. if o_ps_text \<le> a \<and> a < o_ps_text + 65 then 0x20
                                             else s2 r a)\<rparr>) rs
        in put_s2 o_ps_grp grp (put_s2 o_ps_text_ext 0 (put_s2 o_psn (get_s2 o_fw_c rs) rs))
      else rs)"

definition rds_text_4 :: "u16 \<Rightarrow> radio_sys \<Rightarrow> radio_sys" where
  "rds_text_4 v0 rs =
     (let p = 4 * unat (v0 AND 0xF);
          rs = ps_text_byte (p + 1) (get_s2 o_fw_a rs) (ps_text_byte p (get_s2 o_fw_b rs) rs);
          rs = ps_text_byte (p + 3) (get_s2 o_fw_c rs) (ps_text_byte (p + 2) (get_s2 o_fw_d rs) rs)
      in if get_s2 o_psn rs = 0 then rds_note_af rs
         else if get_s2 (o_ps_text + p) rs = 13 then rds_note_af (rds_send_rt (ps_text_byte p 0 rs))
         else if get_s2 (o_ps_text + p + 1) rs = 13 then rds_note_af (rds_send_rt (ps_text_byte (p + 1) 0 rs))
         else if get_s2 (o_ps_text + p + 2) rs = 13 then rds_note_af (rds_send_rt (ps_text_byte (p + 2) 0 rs))
         else if get_s2 o_fw_c rs = 13 then rds_note_af (rds_send_rt (ps_text_byte (p + 3) 0 rs))
         else if p = 60 then rds_send_rt rs
         else rds_note_af rs)"

definition rds_text_5 :: "u16 \<Rightarrow> radio_sys \<Rightarrow> radio_sys" where
  "rds_text_5 v0 rs =
     (let p = 2 * unat (v0 AND 0xF);
          rs = ps_text_byte (p + 1) (get_s2 o_fw_c rs) (ps_text_byte p (get_s2 o_fw_d rs) rs)
      in if get_s2 o_psn rs = 0 then rds_note_af rs
         else if get_s2 (o_ps_text + p) rs = 13 then rds_send_rt (ps_text_byte p 0 rs)
         else if get_s2 o_fw_c rs = 13 then rds_send_rt (ps_text_byte (p + 1) 0 rs)
         else if p = 30 then rds_send_rt rs
         else rds_note_af rs)"

definition rds_process :: "radio_sys \<Rightarrow> radio_sys" where
  "rds_process rs =
     (let v0 = ld16 (s2 (fst rs)) o_word;
          rs = put_s2 o_psn (ucast v0) rs;
          rs = put_s2 o_pti (ucast (drop_bit 5 v0 AND 0x1F)) rs;
          rs = put_s2 o_ps_bit (of_bool (v0 AND 0x400 \<noteq> 0)) rs;
          grp = drop_bit 11 v0
      in if grp = 0 then
           let hi = get_s2 o_fw_b rs;
               wrd = (ucast (get_s2 o_fw_a rs) OR push_bit 8 (ucast hi))
           in rds_name_part v0 (upd_radio (\<lambda>r. r\<lparr>s2 := rds_af_process (o_pti + 2) hi wrd (s2 r)\<rparr>) rs)
         else if grp = 1 then rds_name_part v0 rs
         else if grp = 2 \<or> grp = 3 then
           let rs = put_s2 o_psn_word (ucast grp) rs;
               rs = put_s2 o_psn_l (ucast (drop_bit 6 v0 AND 0x1F)) rs
           in rds_note_af (put_s2 o_psn_h (ucast (v0 AND 0x3F)) rs)
         else if grp = 4 then rds_text_4 v0 (rds_text_new v0 rs)
         else if grp = 5 then rds_text_5 v0 (rds_text_new v0 rs)
         else if grp = 6 then rds_note_af (put_s2 o_pty_extra (ucast (v0 AND 0x1F)) rs)
         else rs)"

text \<open>The bytes of \<open>_gap13\<close> that hold the three last blocks of a group, and the bit count.\<close>

definition put_block :: "nat \<Rightarrow> u16 \<Rightarrow> radio_sys \<Rightarrow> radio_sys" where
  "put_block i w = upd_radio (\<lambda>r. r\<lparr>gap13 := st16 i w (gap13 r)\<rparr>)"

definition set_flag :: "u8 \<Rightarrow> radio_sys \<Rightarrow> radio_sys" where
  "set_flag v = upd_radio (\<lambda>r. r\<lparr>sta_flag := v\<rparr>)"

text \<open>What a second block stores: the station code of the first, programme type and flag.\<close>

definition main_block :: "u16 \<Rightarrow> radio_sys \<Rightarrow> radio_sys" where
  "main_block w rs =
     put_s2 o_pti (ucast (drop_bit 5 w AND 0x1F))
       (put_s2 (o_buf + 156) (of_bool (w AND 0x400 \<noteq> 0))
         (upd_radio (\<lambda>r. r\<lparr>s2 := st16 o_psn (u16_2 r) (s2 r)\<rparr>) rs))"

definition alt_block :: "u16 \<Rightarrow> radio_sys \<Rightarrow> radio_sys" where
  "alt_block w = upd_radio (\<lambda>r. r\<lparr>alt_psn_pair := u16_2 r,
     alt_rds_pti := ucast (drop_bit 5 w AND 0x1F), alt_rds_ps_bit := of_bool (w AND 0x400 \<noteq> 0)\<rparr>)"

definition station_known :: "u16 \<Rightarrow> u16 \<Rightarrow> radio_sys \<Rightarrow> radio_sys" where
  "station_known code w rs =
     (if has_ta_work (fst rs) \<noteq> 1 \<or> code = u16_1 (fst rs) \<and> w AND 0x400 \<noteq> 0
      then rds_send_sta rs else ta_back rs)"

text \<open>The pass over a block with syndrome \<open>v1\<close>; \<open>v12\<close> bits are held.\<close>

definition pass96 :: "u8 \<Rightarrow> radio_sys \<Rightarrow> u8 \<times> radio_sys" where
  "pass96 v12 rs = (v12 - 26,
     upd_radio (\<lambda>r. r\<lparr>gap13 := (gap13 r)(7 := v12 - 26), gap14 := push_bit 26 (gap14 r)\<rparr>) rs)"

definition pass98 :: "u8 \<Rightarrow> radio_sys \<Rightarrow> u8 \<times> radio_sys" where
  "pass98 v12 rs = (v12 - 1,
     upd_radio (\<lambda>r. r\<lparr>sta_flag := 0, gap13 := (gap13 r)(7 := v12 - 1), gap14 := gap14 r * 2\<rparr>) rs)"

definition radio_rds_pass :: "u8 \<Rightarrow> u32 \<Rightarrow> u32 \<Rightarrow> radio_sys \<Rightarrow> u8 \<times> radio_sys" where
  "radio_rds_pass v12 v1 bword rs =
     (let w = ucast bword; flag = sta_flag (fst rs) in
      if v1 = 972 \<or> v1 = 604 then
        if flag = 2 then pass96 v12 (put_block 2 w (set_flag 3 rs)) else pass98 v12 rs
      else if v1 = 980 then
        if flag \<noteq> 1 then pass98 v12 rs
        else let rs = main_block w (set_flag 2 (put_block 0 w rs))
             in pass96 v12 (station_known (u16_2 (fst rs)) w rs)
      else if v1 = 984 then
        pass96 v12 (set_flag 1 (upd_radio (\<lambda>r. r\<lparr>u16_2 := w\<rparr>) rs))
      else if v1 = 600 then
        if flag \<noteq> 3 then pass98 v12 rs
        else pass96 v12 (rds_process (set_flag 0 (put_block 4 w rs)))
      else pass98 v12 rs)"

lemma pass_v12: "fst (radio_rds_pass v12 v1 bword rs) \<in> {v12 - 26, v12 - 1}"
  by (simp add: radio_rds_pass_def pass96_def pass98_def Let_def)

lemma pass_shrinks:
  assumes "v12 > 0x19"
  shows "unat (fst (radio_rds_pass v12 v1 bword rs)) < unat v12"
proof -
  have "26 \<le> unat v12" using assms by (simp add: word_less_nat_alt)
  then have "unat (v12 - 26) = unat v12 - 26" "unat (v12 - 1) = unat v12 - 1"
    by (simp_all add: unat_sub word_le_nat_alt)
  then show ?thesis using pass_v12 [of v12 v1 bword rs] \<open>26 \<le> unat v12\<close> by auto
qed

section \<open>The work items of the tuner\<close>

text \<open>The syndrome of the 26 bits at the top of the accumulator: ten as they are, sixteen by table.\<close>

definition crc_rows :: "(u32 \<times> u32) list" where
  "crc_rows = [(0x40, 0x31B), (0x80, 0x38F), (0x100, 0x2A7), (0x200, 0xF7), (0x400, 0x1EE),
     (0x800, 0x3DC), (0x1000, 0x201), (0x2000, 0x1BB), (0x4000, 0x376), (0x8000, 0x355),
     (0x10000, 0x313), (0x20000, 0x39F), (0x40000, 0x287), (0x80000, 0xB7), (0x100000, 0x16E),
     (0x200000, 0x2DC)]"

definition rds_syndrome :: "u32 \<Rightarrow> u32" where
  "rds_syndrome crc_src =
     foldl (\<lambda>v1 (msk, row). if crc_src AND msk \<noteq> 0 then v1 XOR row else v1)
       (drop_bit 22 crc_src) crc_rows"

definition next_block :: "bool \<Rightarrow> u32 \<Rightarrow> u32 \<Rightarrow> u64 \<Rightarrow> u32 \<times> u32" where
  "next_block cust24 data undef acc =
     (if cust24 then
        let grp = drop_bit 16 data AND 0xFF
        in (if grp = 0 then 984 else if grp = 1 then 980 else if grp = 2 then 604
            else if grp = 3 then 600 else undef, data AND 0xFFFF)
      else (rds_syndrome (ucast (drop_bit 32 acc)), ucast (drop_bit 48 acc) AND 0xFF))"

function rds_stream :: "bool \<Rightarrow> u32 \<Rightarrow> u32 \<Rightarrow> u8 \<Rightarrow> radio_sys \<Rightarrow> radio_sys" where
  "rds_stream cust24 data undef v12 rs =
     (if v12 \<le> 0x19 then rs
      else case next_block cust24 data undef (gap14 (fst rs)) of (v1, bword) \<Rightarrow>
        case radio_rds_pass v12 v1 bword rs of (v, rs') \<Rightarrow>
          rds_stream cust24 data undef v rs')"
  by pat_completeness auto
termination
  by (relation "measure (\<lambda>(_, _, _, v12, _). unat v12)")
     (auto simp: linorder_not_le case_prod_beta pass_shrinks)

declare rds_stream.simps [simp del]

definition radio_work_stream :: "env \<Rightarrow> u32 \<Rightarrow> radio_sys \<Rightarrow> radio_sys" where
  "radio_work_stream e data rs =
     (if sta_valid (fst rs) = 0 then rs
      else
        let vendor = cfg_radio (rcfg rs);
            cust24 = (vendor = 2 \<or> vendor = 4);
            n = gap13 (fst rs) 7;
            bits = (if n \<noteq> 0 then
                      push_bit 32 (ucast (drop_bit (unat n) data)) OR ucast (push_bit (32 - unat n) data)
                    else push_bit 32 (ucast data));
            v12 = (if cust24 then 26 else n + 32);
            rs = upd_radio (\<lambda>r. r\<lparr>gap13 := (gap13 r)(7 := v12), gap14 := gap14 r OR bits\<rparr>) rs
        in rds_stream cust24 data (word_of_int (junk e (trace (snd rs)))) v12 rs)"

text \<open>
  A block of a known number. Block 0 opens a group, the others continue it; the value tells
  whether control goes on to the reset of the flag (\<open>case2_reset\<close>, \<open>case3_reset\<close>).
\<close>

definition rds_block :: "u8 \<Rightarrow> u16 \<Rightarrow> radio_sys \<Rightarrow> bool \<times> radio_sys" where
  "rds_block n w rs =
     (let flag = sta_flag (fst rs) in
      if n = 0 then (True, upd_radio (\<lambda>r. r\<lparr>u16_2 := w\<rparr>) (set_flag 1 rs))
      else if n = 1 then
        if flag \<noteq> 1 then (True, rs)
        else let alt = (has_ta_work (fst rs) \<noteq> 0 \<or> has_af_work (fst rs) \<noteq> 0);
                 rs = set_flag 2 (put_block 0 w rs);
                 rs = (if alt then alt_block w rs else main_block w rs)
             in (False, station_known (u16_2 (fst rs)) w rs)
      else if n = 2 then
        if flag \<noteq> 2 then (True, rs) else (False, put_block 2 w (set_flag 3 rs))
      else if n = 3 then
        if flag \<noteq> 3 then (True, rs) else (False, rds_process (put_block 4 w (set_flag 0 rs)))
      else (True, rs))"

text \<open>Case 2 breaks out of the inner \<open>switch\<close> only, so it always reaches the reset.\<close>

definition radio_work_word :: "u32 \<Rightarrow> radio_sys \<Rightarrow> radio_sys" where
  "radio_work_word data rs =
     set_flag 0
       (if sta_valid (fst rs) \<noteq> 0
        then snd (rds_block (ucast (drop_bit 16 data)) (ucast data) rs) else rs)"

definition radio_work_block :: "u32 \<Rightarrow> u32 \<Rightarrow> radio_sys \<Rightarrow> radio_sys" where
  "radio_work_block data sel rs =
     (if sta_valid (fst rs) \<noteq> 0 then
        let (reset, rs) = rds_block (ucast sel) (ucast data) rs
        in if reset then set_flag 0 rs else rs
      else set_flag 0 rs)"

definition signal_low_off :: "radio_sys \<Rightarrow> radio_sys" where
  "signal_low_off rs =
     radio_emit (Cancel_delayed ''dwork_signal_low'') (upd_radio (\<lambda>r. r\<lparr>gap9_2 := 0\<rparr>) rs)"

definition signal_low_after :: "nat \<Rightarrow> radio_sys \<Rightarrow> radio_sys" where
  "signal_low_after d rs =
     (if gap9_2 (fst rs) = 0 then
        radio_emit (Queue_delayed ''dwork_signal_low'' d) (upd_radio (\<lambda>r. r\<lparr>gap9_2 := 1\<rparr>) rs)
      else rs)"

definition status_check :: "u32 \<Rightarrow> radio_sys \<Rightarrow> radio_sys" where
  "status_check a1 rs =
     (let rs = (fst rs, upd_car (\<lambda>c. c\<lparr>radio_rds_flag := ucast a1\<rparr>) (snd rs));
          vendor = cfg_radio (rcfg rs);
          rds = (cfg_rds (rcfg rs) \<noteq> 0);
          fm = (tef_cur_band (fst rs) = 2)
      in if vendor = 2 \<or> vendor = 4 then
           if fm \<and> a1 \<le> 0xA9 \<and> rds then signal_low_after 1000 rs
           else if fm \<and> a1 \<le> 0x9F \<and> rds then signal_low_after 5000 rs
           else signal_low_off rs
         else if fm \<and> a1 \<le> 0x9F \<and> rds then signal_low_after 5000 rs
         else signal_low_off rs)"

definition radio_cmd_work :: "env \<Rightarrow> u32 \<times> u32 \<times> u32 \<Rightarrow> radio_sys \<Rightarrow> radio_sys" where
  "radio_cmd_work e rw rs = (case rw of (cmd, data, sel) \<Rightarrow>
     if cmd = 1 then radio_work_stream e data rs
     else if cmd = 2 then radio_work_word data rs
     else if cmd = 3 then radio_work_block data sel rs
     else if cmd = 4 then
       if sta_valid (fst rs) \<noteq> 0 then status_check (data AND 0xFF) rs else rs
     else rs)"

definition work_sta_valid :: "radio_sys \<Rightarrow> radio_sys" where
  "work_sta_valid = upd_radio (\<lambda>r. r\<lparr>sta_valid := 1\<rparr>)"

definition rdslost_work :: "radio_sys \<Rightarrow> radio_sys" where
  "rdslost_work rs = (if has_ta_work (fst rs) \<noteq> 0 then ta_back rs else rs)"

definition work_ta :: "radio_sys \<Rightarrow> radio_sys" where
  "work_ta rs =
     (if has_ta_work (fst rs) = 1 then
        if alt_psn_pair (fst rs) = u16_1 (fst rs) then Radio_Set_Mute False rs else ta_back rs
      else rs)"

text \<open>The entries of the list are looked up at a stride of 15 bytes.\<close>

definition af_freq :: "memory \<Rightarrow> nat \<Rightarrow> u32" where
  "af_freq m i = 100000 * ucast (m (o_pti + 2 + 15 * i)) + 87500000"

text \<open>The loop of \<open>work_signal_low\<close>: the first of the \<open>n\<close> indices from \<open>i\<close> with the frequency.\<close>

fun af_find :: "memory \<Rightarrow> u32 \<Rightarrow> nat \<Rightarrow> nat \<Rightarrow> nat option" where
  "af_find m freq i 0 = None"
| "af_find m freq i (Suc n) = (if af_freq m i = freq then Some i else af_find m freq (i + 1) n)"

definition work_signal_low :: "radio_sys \<Rightarrow> radio_sys" where
  "work_signal_low rs =
     (let rs = (if has_ta_work (fst rs) \<noteq> 0 then ta_back rs else rs);
          r = fst rs;
          count = get_s2 (o_pti + 2) rs;
          psn = (\<lambda>i. get_s2 (o_psn + i) rs);
          rs = (if radio_af r \<noteq> 0 \<and> has_af_work r = 0 \<and> count > 1 \<and> (\<exists>i\<in>{0..<4}. psn i \<noteq> 0) then
                  let rs = upd_radio (\<lambda>r. r\<lparr>gap9_0 := psn 0\<rparr>) rs
                  in case af_find (s2 r) (radio_freq r) 1 (unat count - 1) of
                       None \<Rightarrow> rs
                     | Some i \<Rightarrow>
                         radio_emit (Queue_delayed ''dwork_signal_low'' 0)
                           (upd_radio (\<lambda>r. r\<lparr>gap8_0 := of_nat i, gap9_1 := of_nat i,
                                            has_af_work := 1\<rparr>) rs)
                else rs)
      in upd_radio (\<lambda>r. r\<lparr>gap9_2 := 0\<rparr>) rs)"

text \<open>A count of zero would be a division by zero; \<open>None\<close> is that fault.\<close>

definition work_af :: "env \<Rightarrow> radio_sys \<Rightarrow> radio_sys option" where
  "work_af e rs =
     (if has_af_work (fst rs) \<noteq> 0 then
        let count = unat (get_s2 (o_pti + 2) rs);
            idx = (unat (gap8_0 (fst rs)) + 1) mod count;
            f = af_freq (s2 (fst rs)) idx
        in if count = 0 then None
           else
             let rs = upd_radio (\<lambda>r. r\<lparr>gap8_0 := of_nat idx\<rparr>) rs in
             if f = radio_freq (fst rs) then
               Some (Radio_Set_Frequency_com f False (upd_radio (\<lambda>r. r\<lparr>has_af_work := 0\<rparr>) rs))
             else
               let (v, rs) = Af_Check e f rs
               in if sint v \<le> 0xA9 then
                    Some (if has_af_work (fst rs) \<noteq> 0
                          then radio_emit (Queue_delayed ''dwork_signal_low'' 100) rs else rs)
                  else if has_af_work (fst rs) \<noteq> 0 then
                    Some (Radio_Set_Frequency_com f False
                      (upd_radio (\<lambda>r. r\<lparr>radio_freq := f, has_af_work := 0\<rparr>) rs))
                  else Some rs
      else Some rs)"

section \<open>What can happen to the tuner\<close>

text \<open>
  The steps of the component: a work of its queues, a call from another driver, or a change
  of the status and the configuration by another driver.
\<close>

inductive radio_step :: "env \<Rightarrow> radio_sys \<Rightarrow> radio_sys \<Rightarrow> bool" for e where
  cmd: "radio_step e rs (radio_cmd_work e rw rs)"
| valid: "radio_step e rs (work_sta_valid rs)"
| lost: "radio_step e rs (rdslost_work rs)"
| ta: "radio_step e rs (work_ta rs)"
| low: "radio_step e rs (work_signal_low rs)"
| af: "work_af e rs = Some rs' \<Longrightarrow> radio_step e rs rs'"
| tune: "radio_step e rs (Radio_Set_Frequency e freq with_data rs)"
| set_ta: "radio_step e rs (Radio_TA enable rs)"
| set_af: "radio_step e rs (Radio_AF enable rs)"
| pwr: "radio_step e rs (Radio_Power on rs)"
| suspend: "radio_step e rs (tef6606_s_suspend rs)"
| resume: "radio_step e rs (tef6606_s_resume rs)"
| mute: "radio_step e rs (Radio_Set_Mute b rs)"
| search: "radio_step e rs (Radio_Set_Search dir rs)"
| stereo: "radio_step e rs (Radio_Set_Stereo b rs)"
| signal: "radio_step e rs (snd (Radio_Get_Signal e rs))"
| check_start: "radio_step e rs (ta_check_start rs)"
| check_back: "radio_step e rs (ta_check_back rs)"
| other: "trace s' = trace s \<Longrightarrow> radio_step e (r, s) (r, s')"

inductive_cases radio_stepE: "radio_step e rs rs'"

end
