(* ===== verification/Rds_Blocks.thy ===== *)
theory Rds_Blocks
  imports Radio
begin

text \<open>
  The syndromes by which the decoder of \<open>radio_cmd_work\<close> finds the blocks of a stream, compared
  with the code of the RDS standard.
\<close>

section \<open>Block syndromes\<close>

text \<open>
  A block is sixteen bits of information and ten check bits: the remainder of the information,
  shifted by ten, modulo \<open>x^10 + x^8 + x^7 + x^5 + x^4 + x^3 + 1\<close>, plus an offset that tells the
  kind of the block. \<open>rds_check\<close> is that division, a bit at a time.
\<close>

definition rds_check_step :: "u32 \<Rightarrow> bool \<Rightarrow> u32" where
  "rds_check_step c b =
     (let t = (bit c 9 \<noteq> b) in ((push_bit 1 c AND 0x3FF) XOR (if t then 0x1B9 else 0)))"

definition rds_check :: "u16 \<Rightarrow> u32" where
  "rds_check w = foldl rds_check_step 0 (bits_msb w)"

definition rds_encode :: "u16 \<Rightarrow> u32 \<Rightarrow> u32" where
  "rds_encode w offset = (push_bit 16 (ucast w) XOR push_bit 6 (rds_check w XOR offset))"

text \<open>Both are linear, so it is enough to compare them on the sixteen unit words.\<close>

fun row_sum :: "u32 \<Rightarrow> (u32 \<times> u32) list \<Rightarrow> u32" where
  "row_sum a [] = 0"
| "row_sum a ((k, x) # ks) = ((if a AND k \<noteq> 0 then x else 0) XOR row_sum a ks)"

lemma row_fold:
  "foldl (\<lambda>v1 (k, x). if a AND k \<noteq> 0 then v1 XOR x else v1) v ks = (v XOR row_sum a ks)"
  by (induction ks arbitrary: v) (auto simp: xor.assoc)

lemma row_xor:
  fixes k :: u32
  assumes "k = push_bit n 1"
  shows "(if (a XOR b) AND k \<noteq> 0 then x else 0 :: u32) =
    ((if a AND k \<noteq> 0 then x else 0) XOR (if b AND k \<noteq> 0 then x else 0))"
proof -
  have c: "w AND k \<noteq> 0 \<longleftrightarrow> bit w n" for w :: u32
    unfolding assms by (rule bit_iff_and_push_bit_not_eq_0 [symmetric])
  show ?thesis unfolding c bit_xor_iff by auto
qed

lemma row_sum_xor:
  "\<forall>(k, x)\<in>set ks. \<exists>n. k = push_bit n 1 \<Longrightarrow> row_sum (a XOR b) ks = (row_sum a ks XOR row_sum b ks)"
proof (induction ks)
  case (Cons kx ks)
  obtain k x where kx: "kx = (k, x)" by (cases kx)
  with Cons.prems obtain n where "k = push_bit n 1" by auto
  from row_xor [OF this, of a b x] Cons show ?case
    by (simp only: kx row_sum.simps) (simp add: ac_simps)
qed simp

lemma rows_units: "\<forall>(k, x)\<in>set crc_rows. \<exists>n. k = push_bit n 1"
proof -
  have "crc_rows = zip (map (\<lambda>n. push_bit n 1) [6..<22]) (map snd crc_rows)" by code_simp
  then have "k \<in> set (map (\<lambda>n. push_bit n 1) [6..<22])" if "(k, x) \<in> set crc_rows" for k x
    using that set_zip_leftD by metis
  then show ?thesis by (auto simp del: push_bit_of_1)
qed

lemma syndrome_xor: "rds_syndrome (a XOR b) = (rds_syndrome a XOR rds_syndrome b)"
  unfolding rds_syndrome_def row_fold row_sum_xor [OF rows_units] drop_bit_xor
  by (simp only: ac_simps)

lemma check_step_xor:
  "rds_check_step (c XOR d) (a \<noteq> b) = (rds_check_step c a XOR rds_check_step d b)"
  by (rule bit_word_eqI) (auto simp: rds_check_step_def Let_def bit_simps)

lemma check_fold_xor:
  "length xs = length ys \<Longrightarrow> foldl rds_check_step (c XOR d) (map2 (\<noteq>) xs ys) =
     (foldl rds_check_step c xs XOR foldl rds_check_step d ys)"
  by (induction xs ys arbitrary: c d rule: list_induct2)
     (simp_all only: zip_Nil zip_Cons_Cons list.map foldl.simps prod.case check_step_xor)

lemma bits_msb_xor: "bits_msb (a XOR b) = map2 (\<noteq>) (bits_msb a) (bits_msb b)"
  by (simp add: bits_msb_def zip_map_map zip_same_conv_map bit_xor_iff del: upt_Suc)

lemma check_xor: "rds_check (a XOR b) = (rds_check a XOR rds_check b)"
  using check_fold_xor [of "bits_msb a" "bits_msb b" 0 0] by (simp add: rds_check_def bits_msb_xor)

lemma linear_ext:
  fixes f g :: "u16 \<Rightarrow> u32"
  assumes f: "\<And>a b. f (a XOR b) = (f a XOR f b)" and g: "\<And>a b. g (a XOR b) = (g a XOR g b)"
    and unit: "\<And>n. n < 16 \<Longrightarrow> f (push_bit n 1) = g (push_bit n 1)"
  shows "f w = g w"
proof -
  have z: "f 0 = 0" "g 0 = 0" using f [of 0 0] g [of 0 0] by simp_all
  have "f (take_bit n w) = g (take_bit n w)" if "n \<le> 16" for n
    using that
  proof (induction n)
    case (Suc n)
    have "take_bit (Suc n) w = (take_bit n w XOR (if bit w n then push_bit n 1 else 0))"
      by (rule bit_word_eqI) (auto simp: bit_simps less_Suc_eq)
    then show ?case using Suc f g z unit [of n] by simp
  qed (simp add: z)
  from this [of 16] show ?thesis by (simp add: take_bit_word_eq_self)
qed

lemma ucast_xor_u16: "(ucast (a XOR b :: u16) :: u32) = (ucast a XOR ucast b)"
  by (rule bit_word_eqI) (auto simp: bit_simps)

text \<open>The check bits cancel the syndrome of the information.\<close>

lemma check_steps:
  "rds_check_step 0 False = 0" "rds_check_step 0 True = 0x1B9"
  "rds_check_step 0x1B9 False = 0x372"
  "rds_check_step 0x372 False = 0x35D"
  "rds_check_step 0x35D False = 0x303"
  "rds_check_step 0x303 False = 0x3BF"
  "rds_check_step 0x3BF False = 0x2C7"
  "rds_check_step 0x2C7 False = 0x37"
  "rds_check_step 0x37 False = 0x6E"
  "rds_check_step 0x6E False = 0xDC"
  "rds_check_step 0xDC False = 0x1B8"
  "rds_check_step 0x1B8 False = 0x370"
  "rds_check_step 0x370 False = 0x359"
  "rds_check_step 0x359 False = 0x30B"
  "rds_check_step 0x30B False = 0x3AF"
  "rds_check_step 0x3AF False = 0x2E7"
  "rds_check_step 0x2E7 False = 0x77"
  by (simp_all add: rds_check_step_def)

lemma check_unit:
  assumes "n < 16"
  shows "rds_check (push_bit n 1) = ((\<lambda>c. rds_check_step c False) ^^ n) 0x1B9"
proof -
  have bits: "bits_msb (push_bit n 1 :: u16) = replicate (15 - n) False @ True # replicate n False"
    using assms by (intro nth_equalityI)
      (auto simp: bits_msb_def rev_nth nth_append nth_Cons' bit_simps bit_exp_iff)
  have rep: "foldl rds_check_step c (replicate k False) = ((\<lambda>c. rds_check_step c False) ^^ k) c" for k c
    by (induction k arbitrary: c) (simp_all add: funpow_Suc_right del: funpow.simps(2))
  have "((\<lambda>c. rds_check_step c False) ^^ k) 0 = 0" for k
    by (induction k) (simp_all add: check_steps)
  then show ?thesis unfolding rds_check_def bits by (simp add: rep check_steps)
qed

lemma check_units: "map (\<lambda>n. rds_check (push_bit n 1)) [0..<16] =
  [0x1B9, 0x372, 0x35D, 0x303, 0x3BF, 0x2C7, 0x37, 0x6E, 0xDC, 0x1B8, 0x370, 0x359, 0x30B,
   0x3AF, 0x2E7, 0x77]"
proof -
  have "map (\<lambda>n. rds_check (push_bit n 1)) [0..<16] =
      map (\<lambda>n. ((\<lambda>c. rds_check_step c False) ^^ n) 0x1B9) [0..<16]"
    by (simp add: check_unit del: push_bit_of_1)
  also have "[0..<16] = [0, 1, 2, 3, 4, 5, 6, 7, 8, 9, 10, 11, 12, 13, 14, 15]" by code_simp
  finally show ?thesis by (simp add: numeral_eq_Suc check_steps)
qed

lemma syndrome_units:
  "map (\<lambda>c. rds_syndrome (push_bit 6 c)) [0x1B9, 0x372, 0x35D, 0x303, 0x3BF, 0x2C7, 0x37, 0x6E,
     0xDC, 0x1B8, 0x370, 0x359, 0x30B, 0x3AF, 0x2E7, 0x77] =
   map (\<lambda>n. rds_syndrome (push_bit (n + 16) 1)) [0..<16]"
proof -
  have up: "[0..<16] = [0, 1, 2, 3, 4, 5, 6, 7, 8, 9, 10, 11, 12, 13, 14, 15]" by code_simp
  show ?thesis by (simp add: up rds_syndrome_def crc_rows_def)
qed

lemma syndrome_check: "rds_syndrome (push_bit 6 (rds_check w)) = rds_syndrome (push_bit 16 (ucast w))"
proof (rule linear_ext)
  fix n :: nat assume n: "n < 16"
  have "map (\<lambda>n. rds_syndrome (push_bit 6 (rds_check (push_bit n 1)))) [0..<16] =
      map (\<lambda>c. rds_syndrome (push_bit 6 c)) (map (\<lambda>n. rds_check (push_bit n 1)) [0..<16])"
    by (simp only: list.map_comp o_def)
  also have "\<dots> = map (\<lambda>n. rds_syndrome (push_bit (n + 16) 1)) [0..<16]"
    by (simp only: check_units syndrome_units)
  finally have "\<forall>n \<in> set [0..<16]. rds_syndrome (push_bit 6 (rds_check (push_bit n 1))) =
      rds_syndrome (push_bit (n + 16) 1)" by (simp only: map_eq_conv)
  then have "rds_syndrome (push_bit 6 (rds_check (push_bit n 1))) = rds_syndrome (push_bit (n + 16) 1)"
    using n by (simp only: set_upt atLeastLessThan_iff) simp
  moreover have "push_bit 16 (ucast (push_bit n 1 :: u16)) = (push_bit (n + 16) 1 :: u32)"
    using n by (intro bit_word_eqI) (auto simp: bit_simps bit_exp_iff)
  ultimately show "rds_syndrome (push_bit 6 (rds_check (push_bit n 1))) =
      rds_syndrome (push_bit 16 (ucast (push_bit n 1 :: u16)))" by simp
qed (simp_all add: check_xor syndrome_xor ucast_xor_u16 push_bit_xor)

lemma syndrome_powers:
  "map (\<lambda>n. rds_syndrome (2 ^ n)) [6, 7, 8, 9, 10, 11, 12, 13, 14, 15, 16, 17, 18] =
     [0x31B, 0x38F, 0x2A7, 0xF7, 0x1EE, 0x3DC, 0x201, 0x1BB, 0x376, 0x355, 0x313, 0x39F, 0x287]"
  "map (\<lambda>n. rds_syndrome (2 ^ n)) [19, 20, 21, 22, 23, 24, 25, 26, 27, 28, 29, 30, 31] =
     [0xB7, 0x16E, 0x2DC, 1, 2, 4, 8, 0x10, 0x20, 0x40, 0x80, 0x100, 0x200]"
  by (simp_all add: rds_syndrome_def crc_rows_def)

lemma syndrome_single: "\<forall>n \<in> {6..<32}. rds_syndrome (push_bit n 1) \<noteq> 0"
proof
  fix n :: nat assume "n \<in> {6..<32}"
  moreover have "[6..<32] = [6, 7, 8, 9, 10, 11, 12, 13, 14, 15, 16, 17, 18] @
      [19, 20, 21, 22, 23, 24, 25, 26, 27, 28, 29, 30, 31]" by code_simp
  ultimately have "n \<in> set ([6, 7, 8, 9, 10, 11, 12, 13, 14, 15, 16, 17, 18] @
      [19, 20, 21, 22, 23, 24, 25, 26, 27, 28, 29, 30, 31])"
    by (metis set_upt)
  then have "rds_syndrome (2 ^ n) \<in> (\<lambda>n. rds_syndrome (2 ^ n)) ` set ([6, 7, 8, 9, 10, 11, 12, 13, 14,
      15, 16, 17, 18] @ [19, 20, 21, 22, 23, 24, 25, 26, 27, 28, 29, 30, 31])" by (rule imageI)
  then have "rds_syndrome (2 ^ n) \<in> set [0x31B, 0x38F, 0x2A7, 0xF7, 0x1EE, 0x3DC, 0x201, 0x1BB, 0x376,
      0x355, 0x313, 0x39F, 0x287] \<union> set [0xB7, 0x16E, 0x2DC, 1, 2, 4, 8, 0x10, 0x20, 0x40, 0x80, 0x100, 0x200]"
    by (simp only: set_append image_Un list.set_map [symmetric] syndrome_powers)
  then have "rds_syndrome (2 ^ n) \<noteq> 0" by auto
  then show "rds_syndrome (push_bit n 1) \<noteq> 0" by simp
qed

text \<open>C20. The syndrome table recognises the blocks of the standard: whatever the information, a block
  made with the offset word A, B, C, C' or D yields exactly the syndrome the decoder expects for
  its kind, and a single wrong bit changes it.\<close>

theorem rds_blocks_recognised:
  shows "rds_syndrome (rds_encode w 0x0FC) = 984 \<and> rds_syndrome (rds_encode w 0x198) = 980 \<and>
    rds_syndrome (rds_encode w 0x168) = 604 \<and> rds_syndrome (rds_encode w 0x350) = 972 \<and>
    rds_syndrome (rds_encode w 0x1B4) = 600 \<and>
    (\<forall>n \<in> {6..<32}. rds_syndrome (x XOR push_bit n 1) \<noteq> rds_syndrome x)"
proof -
  have enc: "rds_syndrome (rds_encode w off) = rds_syndrome (push_bit 6 off)" for off
    by (simp add: rds_encode_def push_bit_xor syndrome_xor syndrome_check)
  have off: "rds_syndrome (push_bit 6 0x0FC) = 984 \<and> rds_syndrome (push_bit 6 0x198) = 980 \<and>
      rds_syndrome (push_bit 6 0x168) = 604 \<and> rds_syndrome (push_bit 6 0x350) = 972 \<and>
      rds_syndrome (push_bit 6 0x1B4) = 600" by (simp add: rds_syndrome_def crc_rows_def)
  have "(a XOR b) \<noteq> a" if "b \<noteq> 0" for a b :: u32
    using that by (metis xor.assoc xor.left_neutral xor_self_eq)
  then have "\<forall>n \<in> {6..<32}. rds_syndrome (x XOR push_bit n 1) \<noteq> rds_syndrome x"
    using syndrome_single by (simp add: syndrome_xor)
  with off show ?thesis unfolding enc by blast
qed

theorem rds_blocks_recognised_witness:
  "rds_syndrome (rds_encode 0xD314 0x0FC) = 984 \<and>
     rds_syndrome (rds_encode 0xD314 0x0FC XOR push_bit 20 1) \<noteq> 984"
proof -
  have "(20::nat) \<in> {6..<32}" by simp
  with rds_blocks_recognised [of "0xD314" "rds_encode 0xD314 0x0FC"] show ?thesis by metis
qed

end
