(* ===== verification/Radio_Facts.thy ===== *)
theory Radio_Facts
  imports Radio
begin

text \<open>
  What holds of the tuner: what no sequence of steps ever does, the words that are ignored, the
  list of alternative frequencies, the bands, the signal grades, and the end of every stream.
\<close>

section \<open>What never happens\<close>

text \<open>
  The group \<open>rds_process\<close> decodes is read from members of \<open>_s2\<close> that nothing writes: it is
  always zero. So no list of alternative frequencies is ever built, and neither an alternative
  frequency nor a traffic announcement is ever pursued. \<open>Radio_Power\<close> stores the power only when
  it switches off, which it never does as the stored power is zero.
\<close>

definition rds_blank :: "memory \<Rightarrow> bool" where
  "rds_blank m \<longleftrightarrow> (\<forall>a \<in> {o_pti + 2, o_word, o_word + 1, o_fw_a, o_fw_b, o_fw_c, o_fw_d, o_ps_bit}. m a = 0) \<and>
     (m o_pi_words = 0 \<or> m o_pi_words = 1)"

definition radio_inv :: "mtc_radio_struct \<Rightarrow> bool" where
  "radio_inv r \<longleftrightarrow> has_ta_work r = 0 \<and> has_af_work r = 0 \<and> rds_blank (s2 r) \<and> radio_pwr r = 0"

text \<open>
  Station names, radio text, announcements, the search for an alternative frequency, and the
  command that switches the tuner off.
\<close>

fun dead_event :: "event \<Rightarrow> bool" where
  "dead_event (Vs_send p c d) = (p = 2 \<and> c \<in> {0x99, 0x9C, ta_check_cmd})"
| "dead_event (Audio_add_work a b c d) = (a = 24 \<or> a = 25)"
| "dead_event (Arm_send_multi c d) = (c = 0x9207)"
| "dead_event (Queue_delayed w d) = (w = ''dwork_af'' \<or> w = ''dwork_ta'')"
| "dead_event _ = False"

text \<open>An operation that keeps the invariant and shows none of these, if the invariant holds.\<close>

definition calm :: "radio_sys \<Rightarrow> radio_sys \<Rightarrow> bool" where
  "calm rs rs' \<longleftrightarrow> (radio_inv (fst rs) \<longrightarrow> radio_inv (fst rs') \<and>
     (\<exists>es. trace (snd rs') = es @ trace (snd rs) \<and> \<not> list_ex dead_event es))"

named_theorems calm_intros

lemma calm_refl [simp, calm_intros]: "calm rs rs"
  by (simp add: calm_def)

lemma calm_trans [trans]:
  assumes "calm a b" and "calm b c" shows "calm a c"
  unfolding calm_def
proof
  assume "radio_inv (fst a)"
  with assms obtain es es' where "radio_inv (fst c)" "\<not> list_ex dead_event es" "\<not> list_ex dead_event es'"
    "trace (snd b) = es @ trace (snd a)" "trace (snd c) = es' @ trace (snd b)"
    by (auto simp: calm_def)
  then show "radio_inv (fst c) \<and> (\<exists>es. trace (snd c) = es @ trace (snd a) \<and> \<not> list_ex dead_event es)"
    by (intro conjI exI [of _ "es' @ es"]) auto
qed

lemma calm_emit: "\<not> dead_event x \<Longrightarrow> calm rs (radio_emit x rs)"
  by (auto simp: calm_def radio_emit_def intro: exI [of _ "[x]"])

lemma calm_upd: "(\<And>r. radio_inv r \<Longrightarrow> radio_inv (f r)) \<Longrightarrow> calm rs (upd_radio f rs)"
  by (simp add: calm_def upd_radio_def)

lemma calm_sys: "trace s' = trace (snd rs) \<Longrightarrow> calm rs (fst rs, s')"
  by (simp add: calm_def)

lemma calm_if: "(c \<Longrightarrow> calm rs a) \<Longrightarrow> (\<not> c \<Longrightarrow> calm rs b) \<Longrightarrow> calm rs (if c then a else b)"
  by simp

lemma calm_ta: "has_ta_work (fst rs) \<noteq> 0 \<Longrightarrow> calm rs rs'"
  by (simp add: calm_def radio_inv_def)

text \<open>The steps of an operation, in the order they are applied.\<close>

lemma calm_next:
  "calm rs a \<Longrightarrow> \<not> dead_event x \<Longrightarrow> calm rs (radio_emit x a)"
  "calm rs a \<Longrightarrow> (\<And>r. radio_inv r \<Longrightarrow> radio_inv (f r)) \<Longrightarrow> calm rs (upd_radio f a)"
  by (erule calm_trans, erule calm_emit) (erule calm_trans, rule calm_upd)

lemma calm_sta_invalid [calm_intros]: "calm rs a \<Longrightarrow> calm rs (sta_invalid a)"
  unfolding sta_invalid_def by (intro calm_next) (simp_all add: radio_inv_def)

lemma calm_mute [calm_intros]: "calm rs a \<Longrightarrow> calm rs (Radio_Set_Mute b a)"
  by (simp add: Radio_Set_Mute_def calm_next)

lemma calm_send_sta [calm_intros]: "calm rs a \<Longrightarrow> calm rs (rds_send_sta a)"
  unfolding rds_send_sta_def Let_def by (intro calm_if calm_next) (simp_all add: radio_inv_def)

lemma calm_car: "calm rs (r, s) \<Longrightarrow> calm rs (r, upd_car f s)"
  by (simp add: calm_def)

lemma calm_com [calm_intros]: "calm rs a \<Longrightarrow> calm rs (Radio_Set_Frequency_com f d a)"
  unfolding Radio_Set_Frequency_com_def Let_def rds_send_sta_empty_def case_prod_beta
  by (auto split: option.split simp: radio_inv_def intro!: calm_intros calm_next calm_car
      [of _ "fst z" "snd z" for z, simplified])

lemma calm_clear [calm_intros]: "calm rs a \<Longrightarrow> calm rs (clear_s2 a)"
  unfolding clear_s2_def by (erule calm_next) (simp add: radio_inv_def rds_blank_def)

lemma calm_sleep [calm_intros]: "calm rs a \<Longrightarrow> calm rs (radio_sleep e d a)"
  by (erule calm_trans)
     (auto simp: calm_def radio_sleep_def msleep_def Let_def intro: exI [of _ "[Msleep d]"])

lemma af_process_zero: "rds_af_process b 0 0 m = m"
  by (simp add: rds_af_process_def af_sane_def)

text \<open>On blank members a group is always the first part of a station name without a flag.\<close>

lemma rds_process_blank:
  assumes "rds_blank (s2 r)" and "has_ta_work r = 0"
  shows "rds_process (r, s) =
    (r\<lparr>s2 := (s2 r)(o_psn := 0, o_pti := 0, o_ps_bit := 0, o_ta_cnt := 0, o_pi_words := 1,
                    o_psn + 2 := 0, o_psn + 3 := 0, o_af_last := 0)\<rparr>,
     emit (Queue_delayed ''rdslost_dwork'' 2000) (emit (Cancel_delayed ''rdslost_dwork'') s))"
proof -
  have "ld16 (s2 r) 6404 = 0" using assms(1) by (simp add: ld16_def rds_blank_def)
  moreover have "(s2 r) 6324 OR 1 = 1" using assms(1) by (auto simp: rds_blank_def)
  ultimately show ?thesis using assms
    by (auto simp: rds_process_def rds_name_part_def rds_note_af_def put_s2_def get_s2_def upd_radio_def
        radio_emit_def af_process_zero rds_blank_def Let_def)
qed

lemma calm_process [calm_intros]: "calm rs a \<Longrightarrow> calm rs (rds_process a)"
proof (erule calm_trans)
  obtain r s where a: "a = (r, s)" by (cases a)
  show "calm a (rds_process a)"
  proof (cases "radio_inv r")
    case True
    then have "rds_blank (s2 r)" "has_ta_work r = 0" by (simp_all add: radio_inv_def)
    from rds_process_blank [OF this] True show ?thesis
      by (auto simp: a calm_def radio_inv_def rds_blank_def intro!: exI
          [of _ "[Queue_delayed ''rdslost_dwork'' 2000, Cancel_delayed ''rdslost_dwork'']"])
  qed (simp add: a calm_def)
qed

lemma calm_flag [calm_intros]: "calm rs a \<Longrightarrow> calm rs (set_flag v a)"
  unfolding set_flag_def by (erule calm_next) (simp add: radio_inv_def)

lemma calm_block [calm_intros]:
  "calm rs a \<Longrightarrow> calm rs (put_block i w a)" "calm rs a \<Longrightarrow> calm rs (alt_block w a)"
  unfolding put_block_def alt_block_def by (erule calm_next; simp add: radio_inv_def)+

lemma calm_main [calm_intros]: "calm rs a \<Longrightarrow> calm rs (main_block w a)"
  unfolding main_block_def put_s2_def
  by (intro calm_next) (auto simp: radio_inv_def rds_blank_def st16_def)

lemma calm_known [calm_intros]: "calm rs a \<Longrightarrow> calm rs (station_known c w a)"
  unfolding station_known_def
  by (erule calm_trans, intro calm_if calm_intros) (auto intro: calm_ta)

lemma calm_word [calm_intros]: "calm rs a \<Longrightarrow> calm rs (upd_radio (\<lambda>r. r\<lparr>u16_2 := w\<rparr>) a)"
  by (erule calm_next) (simp add: radio_inv_def)

lemma calm_pass [calm_intros]:
  "calm rs a \<Longrightarrow> calm rs (snd (pass96 v a))" "calm rs a \<Longrightarrow> calm rs (snd (pass98 v a))"
  unfolding pass96_def pass98_def snd_conv by (erule calm_next; simp add: radio_inv_def)+

lemma calm_rds_pass [calm_intros]: "calm rs a \<Longrightarrow> calm rs (snd (radio_rds_pass v12 v1 w a))"
  by (simp add: radio_rds_pass_def Let_def calm_intros)

lemma calm_stream [calm_intros]: "calm rs a \<Longrightarrow> calm rs (rds_stream cust24 data undef v12 a)"
proof (induction cust24 data undef v12 a rule: rds_stream.induct)
  case (1 cust24 data undef v12 a)
  show ?case
  proof (cases "v12 \<le> 0x19")
    case True
    then show ?thesis using 1 by (simp add: rds_stream.simps)
  next
    case False
    obtain v1 w where b: "next_block cust24 data undef (gap14 (fst a)) = (v1, w)" by fastforce
    obtain v a' where p: "radio_rds_pass v12 v1 w a = (v, a')"
      by (cases "radio_rds_pass v12 v1 w a")
    have "calm rs a'" using calm_rds_pass [OF 1(2), of v12 v1 w] p by simp
    then show ?thesis using 1(1) [OF False b [symmetric] p [symmetric]] False b p
      by (subst rds_stream.simps) simp
  qed
qed

lemma calm_rds_block [calm_intros]: "calm rs a \<Longrightarrow> calm rs (snd (rds_block n w a))"
  by (simp add: rds_block_def Let_def calm_intros)

lemma calm_cmd: "calm rs (radio_cmd_work e rw rs)"
proof -
  have *: "calm rs (upd_radio (\<lambda>r. r\<lparr>gap13 := (gap13 r)(7 := v), gap14 := gap14 r OR bits\<rparr>) rs)" for v bits
    by (rule calm_upd) (simp add: radio_inv_def)
  have stream: "calm rs (radio_work_stream e data rs)" for data
    unfolding radio_work_stream_def Let_def by (intro calm_if calm_refl calm_stream *)
  have block: "calm rs (radio_work_block data sel rs)" for data sel
    unfolding radio_work_block_def case_prod_beta Let_def by (intro calm_if calm_intros)
  have low: "calm rs (signal_low_after d a)" "calm rs (signal_low_off a)" if "calm rs a" for d a
    using that unfolding signal_low_after_def signal_low_off_def
    by (auto simp: radio_inv_def intro!: calm_next)
  have car: "calm rs (fst rs, upd_car f (snd rs))" for f
    by (rule calm_sys) simp
  have check: "calm rs (status_check a1 rs)" for a1
    unfolding status_check_def Let_def by (intro calm_if low car)
  show ?thesis
    by (cases rw) (auto simp: radio_cmd_work_def radio_work_word_def intro: stream block check calm_intros)
qed

lemma calm_freq: "calm rs (Radio_Set_Frequency e freq with_data rs)"
proof -
  have drop: "calm rs (drop_rds_works rs)"
  proof (cases "has_ta_work (fst rs) = 0")
    case True
    then show ?thesis
      by (auto simp: drop_rds_works_def radio_inv_def upd_radio_def radio_emit_def calm_def
          intro!: exI [of _ "[Cancel_delayed ''dwork_ta'', Flush_queue ''af_wq'',
            Cancel_delayed ''dwork_af'']"])
  qed (rule calm_ta)
  show ?thesis
    unfolding Radio_Set_Frequency_def Let_def
    by (intro calm_if calm_next calm_intros drop) (simp_all add: radio_inv_def)
qed

lemma calm_read: "calm rs (snd (radio_read e c n rs))"
  by (simp add: radio_read_def Let_def calm_emit)

lemma calm_low: "calm rs (work_signal_low rs)"
proof (cases "radio_inv (fst rs)")
  case True
  then have "get_s2 (o_pti + 2) rs = 0" "has_ta_work (fst rs) = 0"
    by (simp_all add: radio_inv_def rds_blank_def get_s2_def)
  then show ?thesis
    using calm_upd [of "\<lambda>r. r\<lparr>gap9_2 := 0\<rparr>" rs] by (simp add: work_signal_low_def Let_def radio_inv_def)
qed (simp add: calm_def)

lemma calm_signal: "calm rs (snd (Radio_Get_Signal e rs))"
proof -
  have "calm rs (snd (Hit_signal8 a1 a2 a3 a5 a6 a7 a8 a))" if "calm rs a" for a1 a2 a3 a5 a6 a7 a8 a
    using that by (auto simp: Hit_signal8_def Let_def radio_inv_def intro: calm_next)
  then show ?thesis
    using calm_read by (simp add: Radio_Get_Signal_def case_prod_beta Let_def)
qed

lemma radio_step_calm: "radio_step e rs rs' \<Longrightarrow> calm rs rs'"
proof (induction rule: radio_step.induct)
  case (lost rs)
  then show ?case by (auto simp: rdslost_work_def intro: calm_ta)
next
  case (ta rs)
  then show ?case by (auto simp: work_ta_def intro: calm_ta)
next
  case (af rs rs')
  then show ?case by (auto simp: work_af_def calm_def radio_inv_def)
next
  case (set_ta rs enable)
  then show ?case
    by (auto simp: Radio_TA_def Let_def upd_radio_def calm_def radio_inv_def split: if_splits)
next
  case (pwr rs on)
  then show ?case
    by (auto simp: Radio_Power_def Let_def upd_radio_def radio_emit_def calm_def radio_inv_def)
next
  case (check_start rs)
  then show ?case by (auto simp: ta_check_start_def intro: calm_ta)
next
  case (check_back rs)
  then show ?case by (auto simp: ta_check_back_def intro: calm_ta)
qed (auto simp: calm_cmd calm_low calm_freq calm_signal calm_emit calm_mute Radio_Set_Search_def
      Radio_Set_Stereo_def Radio_AF_def work_sta_valid_def tef6606_s_suspend_def
      tef6606_s_resume_def radio_inv_def intro!: calm_upd calm_sys [of _ "(r, s)" for r s, simplified])

lemma radio_steps_calm: "(radio_step e)\<^sup>*\<^sup>* rs rs' \<Longrightarrow> calm rs rs'"
  by (induction rule: rtranclp_induct) (auto intro: calm_trans radio_step_calm)

text \<open>The tuner after \<open>tef6606_i2c_probe\<close>; the members the probe leaves alone are zero as well.\<close>

definition radio_0 :: mtc_radio_struct where
  "radio_0 = \<lparr>sta_valid = 0, radio_pwr = 0, tef_cur_band = 0, s2 = (\<lambda>_. 0), sta_flag = 0,
     sta_cache = [0, 0, 0, 0], psn_cache = replicate 10 0, radio_freq = 0, gap7_1 = 0,
     has_af_work = 0, gap8_0 = 0, has_ta_work = 0, gap9_0 = 0, gap9_1 = 0, gap9_2 = 0,
     radio_af = 0, cur_freq = 0, gap11_1 = 0, gap11_2 = 0, u16_1 = 0, gap12_0 = 0, u16_2 = 0,
     gap13 = (\<lambda>_. 0), gap14 = 0, gap15_0 = 0, alt_psn_pair = 0, alt_rds_pti = 0,
     alt_rds_ps_bit = 0\<rparr>"

lemma radio_0_inv: "radio_inv radio_0"
  by (simp add: radio_0_def radio_inv_def rds_blank_def)

text \<open>C19. Whatever blocks arrive and whatever the other drivers call, in any order: no station name
  and no radio text is ever reported, no traffic announcement is ever taken up, and the search for
  an alternative frequency never starts. The group that would tell is read from members that
  nothing writes.\<close>

theorem radio_rds_dead:
  assumes "(radio_step e)\<^sup>*\<^sup>* (r0, s0) (r, s)"
    and "radio_pwr r0 = 0" "has_ta_work r0 = 0" "has_af_work r0 = 0" "s2 r0 = (\<lambda>_. 0)"
  shows "has_ta_work r = 0 \<and> has_af_work r = 0 \<and>
    (\<exists>es. trace s = es @ trace s0 \<and> (\<forall>n d. Queue_delayed ''dwork_af'' n \<notin> set es \<and>
       Vs_send 2 0x99 d \<notin> set es \<and> Vs_send 2 0x9C d \<notin> set es \<and> Vs_send 2 0x9B d \<notin> set es))"
proof -
  have "radio_inv r0" using assms(2-) by (simp add: radio_inv_def rds_blank_def)
  with radio_steps_calm [OF assms(1)] obtain es where
    "radio_inv r" "trace s = es @ trace s0" "\<forall>x\<in>set es. \<not> dead_event x"
    by (auto simp: calm_def list_ex_iff)
  then show ?thesis by (intro conjI exI [of _ es] allI) (auto simp: radio_inv_def)
qed

theorem radio_rds_dead_witness:
  "\<exists>r s. (radio_step dead_mcu)\<^sup>*\<^sup>* (radio_0, sys_0) (r, s) \<and> sta_valid r = 1 \<and> has_ta_work r = 0 \<and>
     Vs_send 2 0x99 [] \<notin> set (trace s)"
proof -
  obtain r s where rs: "work_sta_valid (radio_cmd_work dead_mcu (1, 0, 0) (radio_0, sys_0)) = (r, s)"
    by (cases "work_sta_valid (radio_cmd_work dead_mcu (1, 0, 0) (radio_0, sys_0))")
  have 1: "(radio_step dead_mcu)\<^sup>*\<^sup>* (radio_0, sys_0) (r, s)"
    unfolding rs [symmetric]
    by (rule converse_rtranclp_into_rtranclp, rule radio_step.cmd, rule r_into_rtranclp,
        rule radio_step.valid)
  have "sta_valid r = 1" using rs by (auto simp: work_sta_valid_def upd_radio_def)
  then show ?thesis
    using 1 radio_rds_dead [OF 1] by (fastforce simp: radio_0_def)
qed

text \<open>Once the stored power is zero, as the probe leaves it, no call of \<open>Radio_Power\<close> and nothing
  else ever sends the command that switches the tuner off.\<close>

theorem radio_never_off:
  assumes "(radio_step e)\<^sup>*\<^sup>* (radio_0, s0) (r, s)"
  shows "radio_pwr r = 0 \<and> Radio_Power 0 (r, s) = (r, s) \<and>
    (\<exists>es. trace s = es @ trace s0 \<and> (\<forall>d. Arm_send_multi 0x9207 d \<notin> set es))"
proof -
  from radio_steps_calm [OF assms] radio_0_inv obtain es where
    "radio_inv r" "trace s = es @ trace s0" "\<forall>x\<in>set es. \<not> dead_event x"
    by (auto simp: calm_def list_ex_iff)
  then show ?thesis
    by (intro conjI exI [of _ es] allI) (auto simp: radio_inv_def Radio_Power_def)
qed

theorem radio_never_off_witness:
  "\<exists>r s. (radio_step dead_mcu)\<^sup>*\<^sup>* (radio_0, sys_0) (r, s) \<and> Arm_send_multi 0x9206 [] \<in> set (trace s) \<and>
     Radio_Power 0 (r, s) = (r, s)"
proof -
  obtain r s where rs: "Radio_Power 1 (radio_0, sys_0) = (r, s)"
    by (cases "Radio_Power 1 (radio_0, sys_0)")
  have 1: "(radio_step dead_mcu)\<^sup>*\<^sup>* (radio_0, sys_0) (r, s)"
    unfolding rs [symmetric] by (rule r_into_rtranclp, rule radio_step.pwr)
  have "Arm_send_multi 0x9206 [] \<in> set (trace s)"
    using rs by (auto simp: Radio_Power_def radio_0_def Let_def radio_emit_def upd_radio_def)
  then show ?thesis using 1 radio_never_off [OF 1] by blast
qed

lemma flag_same: "sta_flag r = 0 \<Longrightarrow> r\<lparr>sta_flag := 0\<rparr> = r"
  by (rule mtc_radio_struct.equality) simp_all

lemma idle_block:
  "sta_flag r = 0 \<Longrightarrow>
     rds_block n w (r, s) = (True, if n = 0 then r\<lparr>sta_flag := 1, u16_2 := w\<rparr> else r, s)"
  by (simp add: rds_block_def set_flag_def upd_radio_def Let_def)

text \<open>RDS words that come one by one or as numbered blocks are lost: from an idle decoder on, any
  sequence of them leaves no trace but the last first block.\<close>

theorem rds_words_ignored:
  assumes "foldl (\<lambda>rs w. radio_cmd_work e w rs) (r, s) ws = (r', s')"
    and "\<forall>w \<in> set ws. fst w = 2 \<or> fst w = 3" and "sta_flag r = 0"
  shows "s' = s \<and> r' = r\<lparr>u16_2 := u16_2 r'\<rparr>"
proof -
  have one: "\<exists>w'. radio_cmd_work e w (r, s) = (r\<lparr>u16_2 := w'\<rparr>, s)"
    if w: "fst w = 2 \<or> fst w = 3" and idle: "sta_flag r = 0" for w r
  proof -
    define n :: u8 where "n = ucast (if fst w = 2 then drop_bit 16 (fst (snd w)) else snd (snd w))"
    define v :: u16 where "v = ucast (fst (snd w))"
    have "radio_cmd_work e w (r, s) =
        (if sta_valid r \<noteq> 0 then set_flag 0 (snd (rds_block n v (r, s))) else set_flag 0 (r, s))"
      using w idle_block [OF idle, of _ _ s]
      by (cases w) (auto simp: radio_cmd_work_def radio_work_word_def radio_work_block_def n_def v_def)
    then show ?thesis
      using idle idle_block [OF idle, of n v s] flag_same [OF idle] flag_same [of "r\<lparr>u16_2 := v\<rparr>"]
      by (auto simp: set_flag_def upd_radio_def intro: exI [of _ "u16_2 r"] exI [of _ v])
  qed
  show ?thesis using assms
  proof (induction ws arbitrary: r)
    case Nil
    then show ?case by simp
  next
    case (Cons w ws)
    from one [of w r] Cons.prems obtain w' where "radio_cmd_work e w (r, s) = (r\<lparr>u16_2 := w'\<rparr>, s)"
      by auto
    with Cons.IH [of "r\<lparr>u16_2 := w'\<rparr>"] Cons.prems show ?case by simp
  qed
qed

theorem rds_words_ignored_witness:
  "\<exists>r'. foldl (\<lambda>rs w. radio_cmd_work dead_mcu w rs) (radio_0\<lparr>sta_valid := 1\<rparr>, sys_0)
       [(2, 0x1234, 0), (2, 0x10420, 0), (3, 0x1234, 0), (3, 0x420, 1)] = (r', sys_0) \<and> sta_flag r' = 0"
proof -
  obtain r' s' where 1: "foldl (\<lambda>rs w. radio_cmd_work dead_mcu w rs) (radio_0\<lparr>sta_valid := 1\<rparr>, sys_0)
      [(2, 0x1234, 0), (2, 0x10420, 0), (3, 0x1234, 0), (3, 0x420, 1)] = (r', s')"
    by (metis surj_pair)
  have "s' = sys_0 \<and> r' = (radio_0\<lparr>sta_valid := 1\<rparr>)\<lparr>u16_2 := u16_2 r'\<rparr>"
    by (rule rds_words_ignored [OF 1]) (simp_all add: radio_0_def)
  moreover from this have "sta_flag r' = sta_flag ((radio_0\<lparr>sta_valid := 1\<rparr>)\<lparr>u16_2 := u16_2 r'\<rparr>)"
    by metis
  then have "sta_flag r' = 0" by (simp add: radio_0_def)
  ultimately show ?thesis using 1 by blast
qed

section \<open>The list of alternative frequencies\<close>

text \<open>
  The abstract list: distinct, at most 25 entries of a byte, none of them zero. \<open>af_rep m b L\<close>:
  the 26 bytes at \<open>b\<close> hold it, its length first, and zeros behind it.
\<close>

definition af_insert :: "nat \<Rightarrow> nat list \<Rightarrow> nat list" where
  "af_insert af L = (if af = 0 \<or> af \<in> set L \<or> length L = 25 then L else L @ [af])"

definition af_rep :: "memory \<Rightarrow> nat \<Rightarrow> nat list \<Rightarrow> bool" where
  "af_rep m b L \<longleftrightarrow> length L \<le> 25 \<and> distinct L \<and> (\<forall>x\<in>set L. 0 < x \<and> x < 256) \<and>
     unat (m b) = length L \<and>
     (\<forall>i<25. unat (m (b + i + 1)) = (if i < length L then L ! i else 0))"

lemma unat_zero_byte: "(m (a::nat) :: u8) = 0 \<longleftrightarrow> unat (m a) = 0"
  by (simp add: unat_eq_0)

lemma af_scan_spec:
  assumes rep: "af_rep m b L" and k: "k + pos = 25" and pos: "pos \<le> length L"
    and seen: "af \<notin> set (take pos L)"
  shows "rds_af_scan m b af pos k = (if af \<in> set L \<or> length L = 25 then None else Some (length L))"
  using k pos seen
proof (induction k arbitrary: pos)
  case 0
  then show ?case using rep by (auto simp: af_rep_def)
next
  case (Suc k)
  then have "pos < 25" by simp
  with rep have at: "unat (m (b + pos + 1)) = (if pos < length L then L ! pos else 0)"
    by (simp add: af_rep_def)
  show ?case
  proof (cases "pos < length L")
    case False
    with Suc.prems have "pos = length L" by simp
    then show ?thesis using Suc.prems at False by (simp add: unat_zero_byte)
  next
    case True
    then have nz: "m (b + pos + 1) \<noteq> 0" using at rep nth_mem [OF True]
      by (auto simp: af_rep_def unat_zero_byte)
    have t: "set (take (Suc pos) L) = insert (L ! pos) (set (take pos L))"
      by (simp add: take_Suc_conv_app_nth True)
    show ?thesis
    proof (cases "af = L ! pos \<or> Suc pos = 25")
      case stop: True
      then show ?thesis using at nz True Suc.prems rep nth_mem [OF True]
        by (auto simp: af_rep_def)
    next
      case False
      then show ?thesis
        using Suc.IH [of "pos + 1"] Suc.prems at nz True t by auto
    qed
  qed
qed

text \<open>C21. Adding an alternative frequency implements insertion into a list of at most 25 distinct
  entries: zero, a known frequency and a frequency for a full list are ignored, any other one is
  appended and counted.\<close>

theorem rds_af_add_refines:
  assumes "af_rep m b L" and "af < 256"
  shows "af_rep (rds_af_add b af m) b (af_insert af L)"
proof -
  have scan: "rds_af_scan m b af 0 25 = (if af \<in> set L \<or> length L = 25 then None else Some (length L))"
    by (rule af_scan_spec [OF assms(1)]) simp_all
  show ?thesis
  proof (cases "af = 0 \<or> af \<in> set L \<or> length L = 25")
    case True
    then show ?thesis using assms(1) scan by (auto simp: rds_af_add_def af_insert_def)
  next
    case False
    then have "length L < 25" using assms(1) by (simp add: af_rep_def)
    then have "unat (of_nat (Suc (length L)) :: u8) = Suc (length L)" "unat (of_nat af :: u8) = af"
      using assms(2) by (simp_all only: unat_of_nat) simp_all
    then show ?thesis using False assms scan \<open>length L < 25\<close>
      by (auto simp: rds_af_add_def af_insert_def af_rep_def nth_append)
  qed
qed

theorem rds_af_add_refines_witness:
  "af_rep (rds_af_add 14 7 (rds_af_add 14 9 (rds_af_add 14 7 (\<lambda>_. 0)))) 14 [7, 9]"
proof -
  have "af_rep (\<lambda>_. 0) 14 []" by (simp add: af_rep_def)
  from rds_af_add_refines [OF rds_af_add_refines [OF rds_af_add_refines [OF this, of 7], of 9], of 7]
  show ?thesis by (simp add: af_insert_def)
qed

section \<open>Words of frequencies\<close>

lemma sint_nat_diff:
  assumes "n < 2 ^ 31" and "k < 2 ^ 31"
  shows "sint ((of_nat n :: u32) - of_nat k) = int n - int k"
proof -
  have "(of_nat n :: u32) - of_nat k = word_of_int (int n - int k)" by simp
  moreover have "signed_take_bit 31 (int n - int k) = int n - int k"
    using assms by (intro signed_take_bit_int_eq_self) auto
  ultimately show ?thesis by (simp only: sint_sbintrunc' len_bit0 len_num1) simp
qed

lemma sdiv_nat: "int n sdiv int d = int (n div d)"
  by (cases "n = 0"; cases "d = 0") (simp_all add: signed_divide_int_def zdiv_int)

lemma unat_nat_31: "n < 2 ^ 31 \<Longrightarrow> unat (of_nat n :: u32) = n"
  by (simp add: unat_of_nat)

lemma word_div_nat:
  assumes "n < 2 ^ 31" and "d < 2 ^ 31"
  shows "(of_nat n :: u32) div of_nat d = of_nat (n div d)"
proof -
  have "n div d < 2 ^ 31" using assms(1) div_le_dividend [of n d] by linarith
  then show ?thesis using assms by (simp add: word_unat_eq_iff unat_div unat_nat_31)
qed

text \<open>The signed comparisons leave \<open>Radio_Set_Frequency_com\<close> two bands: every frequency above
  1.72 and up to 108 MHz is sent as one of the FM band, and nothing is sent above. The word for
  the eastern band, 65 to 74 MHz, which \<open>Af_Check\<close> does use, is never sent.\<close>

theorem radio_bands:
  assumes "n < 2 ^ 31"
  shows "freq_word (of_nat n) =
      (if n \<le> 1720000 then Some (of_nat (n div 1000))
       else if n \<le> 108000000 then Some (of_nat (n div 50000) OR 0x2000)
       else None) \<and>
    (65000000 \<le> n \<and> n \<le> 74000000 \<longrightarrow> af_word (of_nat n) = Some (of_nat (n div 10000) OR 0x6000))"
proof
  have "sint (of_nat n :: u32) = int n" using sint_nat_diff [OF assms, of 0] by simp
  then have quot: "word_of_int (sint (of_nat n :: u32) sdiv int d) = (of_nat (n div d) :: u32)" for d
    by (simp add: sdiv_nat)
  show "freq_word (of_nat n) =
      (if n \<le> 1720000 then Some (of_nat (n div 1000))
       else if n \<le> 108000000 then Some (of_nat (n div 50000) OR 0x2000)
       else None)"
    using quot [of 1000] quot [of 50000] sint_nat_diff [OF assms, of 144000]
      sint_nat_diff [OF assms, of 76000000] sint_nat_diff [OF assms, of 2940000]
      sint_nat_diff [OF assms, of 65000000]
    by (auto simp: freq_word_def Let_def)
  show "65000000 \<le> n \<and> n \<le> 74000000 \<longrightarrow> af_word (of_nat n) = Some (of_nat (n div 10000) OR 0x6000)"
  proof
    assume n: "65000000 \<le> n \<and> n \<le> 74000000"
    have "(of_nat n :: u32) div 10000 = of_nat (n div 10000)"
      using word_div_nat [OF assms, of 10000] by simp
    moreover have "\<not> n - 144000 \<le> 1576000" "\<not> n - 294000 \<le> 15195000" "\<not> 9000000 < n - 65000000"
      using n by auto
    ultimately show "af_word (of_nat n) = Some (of_nat (n div 10000) OR 0x6000)"
      using n by (simp add: af_word_def word_le_nat_alt word_less_nat_alt unat_sub_if' unat_of_nat)
  qed
qed

theorem radio_bands_witness:
  "freq_word 98000000 = Some 0x27A8 \<and> freq_word 70000000 = Some 0x2578 \<and>
     af_word 70000000 = Some 0x7B58 \<and> freq_word 110000000 = None"
  using radio_bands [of 98000000] radio_bands [of 70000000] radio_bands [of 110000000] by simp

section \<open>Signal grades\<close>

text \<open>For tuners of the third type \<open>Af_Check\<close> sign-extends the grades 255, 172 and 240 to negative
  numbers. So \<open>work_af\<close> takes every frequency it tries for too weak and never changes to one.\<close>

theorem af_check_always_weak:
  assumes "Af_Check e freq rs = (v, rs')" and "cfg_radio (rcfg rs) = 3"
  shows "sint v \<le> 0xA9"
  using assms by (auto simp: Af_Check_def radio_read_def radio_sleep_def radio_emit_def rcfg_def msleep_def
      Let_def case_prod_beta split: option.splits if_splits)

theorem af_check_always_weak_witness:
  "\<exists>v rs'. Af_Check ((with_pins (\<lambda>_ _. False))\<lparr>mcu_data := \<lambda>_. [2]\<rparr>) 98000000
       (radio_0\<lparr>radio_freq := 97000000\<rparr>, sys_0\<lparr>cfg := \<lambda>_. 3\<rparr>) = (v, rs') \<and> v = - 16 \<and> sint v \<le> 0xA9"
proof -
  let ?e = "(with_pins (\<lambda>_ _. False))\<lparr>mcu_data := \<lambda>_. [2]\<rparr>"
  let ?rs = "(radio_0\<lparr>radio_freq := 97000000\<rparr>, sys_0\<lparr>cfg := \<lambda>_. 3\<rparr>)"
  have "fst (Af_Check ?e 98000000 ?rs) = - 16"
    by (simp add: Af_Check_def af_word_def radio_read_def radio_sleep_def radio_emit_def rcfg_def
        msleep_def with_pins_def Let_def)
  then show ?thesis
    using af_check_always_weak [of ?e 98000000 ?rs] by (cases "Af_Check ?e 98000000 ?rs") (simp add: rcfg_def)
qed

text \<open>\<open>Hit_signal\<close> cuts a negative grade to a byte: on the FM band a level between 75 and 107,
  which is far too weak, is graded 170 or better, as a station that was found.\<close>

theorem hit_signal_wraps:
  assumes "freq_fm r" and "75 \<le> lvl" and "lvl \<le> 107"
  shows "Hit_signal undef cust r (of_nat lvl) a2 a3 a4 \<ge> 170"
proof -
  have grades: "\<forall>n \<in> set [75..<108]. \<forall>v8 \<in> {180, 182, 184}.
      hit_level (of_nat n - v8) \<le> 255 \<and> low8 (word_of_int (hit_level (of_nat n - v8))) \<ge> 170"
    by code_simp
  have lvl: "lvl \<in> set [75..<108]" 
    using assms(2,3) unfolding set_upt atLeastLessThan_iff by linarith
  have small: "(of_nat lvl :: u32) \<le> 0xB3" "(of_nat lvl :: u32) \<le> 0xB5" "(of_nat lvl :: u32) \<le> 0xB7"
    using assms(3) by (simp_all add: word_le_nat_alt unat_of_nat)
  obtain v5 a3' where c: "hit_class cust (of_nat lvl) a3 = (v5, a3')" by fastforce
  obtain v8 where v8: "v8 \<in> {180, 182, 184}" "hit_base undef v5 (of_nat lvl) a2 a3' a4 = Some v8"
  proof -
    have "hit_base undef v5 (of_nat lvl) a2 a3' a4 =
        Some (if v5 = 1 then 180 else if v5 \<noteq> 2 then 184 else 182)"
      using small by (simp add: hit_base_def linorder_not_less [symmetric])
    then show thesis using that by (auto split: if_splits)
  qed
  from grades lvl v8(1) have "hit_level (of_nat lvl - v8) \<le> 255"
    "low8 (word_of_int (hit_level (of_nat lvl - v8))) \<ge> 170" by blast+
  then show ?thesis using c v8(2) assms(1) by (simp add: Hit_signal_def)
qed

theorem hit_signal_wraps_witness:
  "freq_fm (radio_0\<lparr>radio_freq := 98000000\<rparr>) \<and>
     Hit_signal 0 0 (radio_0\<lparr>radio_freq := 98000000\<rparr>) 90 0 0 0 \<ge> 170"
proof -
  have fm: "freq_fm (radio_0\<lparr>radio_freq := 98000000\<rparr>)" by (simp add: freq_fm_def)
  from hit_signal_wraps [OF fm, of 90 0 0 0 0 0] fm show ?thesis by simp
qed

section \<open>Streams\<close>

lemma pass_count:
  "gap13 (fst (snd (radio_rds_pass v12 v1 w rs))) 7 = fst (radio_rds_pass v12 v1 w rs)"
  by (simp add: radio_rds_pass_def pass96_def pass98_def upd_radio_def Let_def)

text \<open>Decoding a stream always stops, with at most 25 bits kept for the next word: the shifts by
  the number of kept bits stay within a word.\<close>

theorem rds_stream_drains:
  assumes "gap13 (fst rs) 7 = v12"
  shows "gap13 (fst (rds_stream cust24 data undef v12 rs)) 7 \<le> 25"
  using assms
proof (induction cust24 data undef v12 rs rule: rds_stream.induct)
  case (1 cust24 data undef v12 rs)
  show ?case
  proof (cases "v12 \<le> 0x19")
    case True
    then show ?thesis using 1 by (simp add: rds_stream.simps)
  next
    case False
    obtain v1 w where b: "next_block cust24 data undef (gap14 (fst rs)) = (v1, w)" by fastforce
    obtain v rs' where p: "radio_rds_pass v12 v1 w rs = (v, rs')" by (cases "radio_rds_pass v12 v1 w rs")
    have "gap13 (fst rs') 7 = v" using pass_count [of v12 v1 w rs] p by simp
    from 1(1) [OF False b [symmetric] p [symmetric] this] False b p show ?thesis
      by (subst rds_stream.simps) simp
  qed
qed

theorem rds_stream_drains_witness:
  "gap13 (fst (rds_stream False 0 0 57 (radio_0\<lparr>gap13 := (\<lambda>_. 0)(7 := 57), gap14 := 0xFFFF0000FFFF0000\<rparr>, sys_0))) 7 \<le> 25"
  by (rule rds_stream_drains) simp

end
