(* ===== verification/Audio.thy ===== *)
theory Audio
  imports Car_Work Car_Misc Radio Dvd
begin

text \<open>
  The audio mixer (audio_card_glue.c, mtcGetSetVolume.c and the codec switch of codec.c): volume
  and fades, the channel the MCU listens to, balance and equaliser, the interruptions by phone,
  auxiliary input and traffic announcements, and the works of the audio queue.

  The state is the mixer's record next to the tuner, the drive and the shared state, because
  entering a channel switches them on and off. Sources that are read past the end of their
  tables, as the balance of old MCUs and channel numbers above eleven do, come from the
  environment. Returned values nobody reads are left out.
\<close>

section \<open>State\<close>

record mtc_audio_struct =
  audio_ch :: u8
  vol_main :: u8
  vol_aux :: u8
  audio_ch2 :: u8
  switch_mute :: u8                \<comment> \<open>\<open>gap11[0]\<close>\<close>
  input_mute :: u8                 \<comment> \<open>\<open>gap11[1]\<close>\<close>
  muted :: u8                      \<comment> \<open>\<open>mute\<close>\<close>
  mute_all :: u8
  audio_src :: u8
  act_bit1 :: u8
  act_bit3 :: u8
  act_bit2 :: u8
  eq1 :: u8
  eq2 :: u8
  eq3 :: u8
  eq4 :: u8
  balance1 :: u8
  balance2 :: u8
  audio_on :: u8                   \<comment> \<open>\<open>audio_active\<close>\<close>
  mute_pin_latch :: u8
  active_cmd :: u8
  ch_sel_mode :: u8

record head_unit =
  audio :: mtc_audio_struct
  ch_data :: "u8 list"             \<comment> \<open>the static table of twelve bytes\<close>
  tuner :: mtc_radio_struct
  drive :: mtc_dvd_drv
  shared :: sys

text \<open>Memory beside the tables \<open>ChannelSel\<close> and \<open>ch_data\<close>, and what a codec write returns.\<close>

record audio_env =
  unit_env :: env
  past_sel :: "int \<Rightarrow> u8"
  past_data :: "int \<Rightarrow> u8"
  codec_result :: "event list \<Rightarrow> int"

definition upd_audio :: "(mtc_audio_struct \<Rightarrow> mtc_audio_struct) \<Rightarrow> head_unit \<Rightarrow> head_unit" where
  "upd_audio f u = u\<lparr>audio := f (audio u)\<rparr>"

definition on_sys :: "(sys \<Rightarrow> sys) \<Rightarrow> head_unit \<Rightarrow> head_unit" where
  "on_sys f u = u\<lparr>shared := f (shared u)\<rparr>"

definition on_tuner :: "(radio_sys \<Rightarrow> radio_sys) \<Rightarrow> head_unit \<Rightarrow> head_unit" where
  "on_tuner f u = (let (r, s) = f (tuner u, shared u) in u\<lparr>tuner := r, shared := s\<rparr>)"

definition on_drive :: "(dvd_sys \<Rightarrow> dvd_sys) \<Rightarrow> head_unit \<Rightarrow> head_unit" where
  "on_drive f u = (let (d, s) = f (drive u, shared u) in u\<lparr>drive := d, shared := s\<rparr>)"

lemma unit_simps [simp]:
  "audio (upd_audio f u) = f (audio u)" "shared (upd_audio f u) = shared u"
  "tuner (upd_audio f u) = tuner u" "drive (upd_audio f u) = drive u"
  "ch_data (upd_audio f u) = ch_data u"
  "audio (on_sys g u) = audio u" "shared (on_sys g u) = g (shared u)"
  "tuner (on_sys g u) = tuner u" "drive (on_sys g u) = drive u" "ch_data (on_sys g u) = ch_data u"
  by (simp_all add: upd_audio_def on_sys_def)

lemma unit_parts [simp]:
  "audio (on_tuner h u) = audio u" "shared (on_tuner h u) = snd (h (tuner u, shared u))"
  "tuner (on_tuner h u) = fst (h (tuner u, shared u))" "drive (on_tuner h u) = drive u"
  "ch_data (on_tuner h u) = ch_data u"
  "audio (on_drive k u) = audio u" "shared (on_drive k u) = snd (k (drive u, shared u))"
  "tuner (on_drive k u) = tuner u" "drive (on_drive k u) = fst (k (drive u, shared u))"
  "ch_data (on_drive k u) = ch_data u"
  by (simp_all add: on_tuner_def on_drive_def split: prod.split)

abbreviation (input) log_event :: "event \<Rightarrow> head_unit \<Rightarrow> head_unit" where
  "log_event x \<equiv> on_sys (emit x)"

abbreviation (input) nap :: "audio_env \<Rightarrow> nat \<Rightarrow> head_unit \<Rightarrow> head_unit" where
  "nap e d \<equiv> on_sys (msleep (unit_env e) d)"

abbreviation (input) ucar :: "head_unit \<Rightarrow> mtc_car_status" where "ucar u \<equiv> car (shared u)"
abbreviation (input) ucfg :: "head_unit \<Rightarrow> config" where "ucfg u \<equiv> cfg (shared u)"

text \<open>\<open>MTC_AV_CHANNEL\<close>, customers and commands.\<close>

abbreviation (input) ch_sys :: u8 where "ch_sys \<equiv> 1"
abbreviation (input) ch_dvd :: u8 where "ch_dvd \<equiv> 2"
abbreviation (input) ch_line :: u8 where "ch_line \<equiv> 3"
abbreviation (input) ch_fm :: u8 where "ch_fm \<equiv> 4"
abbreviation (input) ch_dtv :: u8 where "ch_dtv \<equiv> 5"
abbreviation (input) customer_KLD :: u8 where "customer_KLD \<equiv> 4"
abbreviation (input) customer_JY :: u8 where "customer_JY \<equiv> 6"
abbreviation (input) customer_AM :: u8 where "customer_AM \<equiv> 8"

text \<open>\<open>cfg_bt == 2 || cfg_bt == 6 || cfg_bt == 7\<close>: the phone module has its own audio path.\<close>

definition own_path :: "config \<Rightarrow> bool" where
  "own_path c \<longleftrightarrow> cfg_bt c = 2 \<or> cfg_bt c = 6 \<or> cfg_bt c = 7"

section \<open>Tables and MCU commands\<close>

definition ChannelSel :: "u8 list" where
  "ChannelSel = [0x80, 0x81, 0x82, 0x83, 0x8A, 0x82, 0x8B, 0x80, 0x80, 0, 0, 0]"

definition SoundEffectTable :: "u8 list" where
  "SoundEffectTable = [0x8A, 0x89, 0x88, 0x87, 0x86, 0x85, 0x84, 0x83, 0x82, 0x81, 0, 1, 2, 3, 4, 5,
     6, 7, 8, 9, 0xA, 0xB, 0xC, 0xD, 0xE, 0xF, 0x10, 0x11, 0x12, 0x13, 0x14, 0]"

definition sel_at :: "audio_env \<Rightarrow> int \<Rightarrow> u8" where
  "sel_at e i = (if 0 \<le> i \<and> i < 12 then ChannelSel ! nat i else past_sel e i)"

definition data_at :: "audio_env \<Rightarrow> head_unit \<Rightarrow> int \<Rightarrow> u8" where
  "data_at e u i = (if 0 \<le> i \<and> i < 12 then ch_data u ! nat i else past_data e i)"

definition Func_set_balance :: "u8 list \<Rightarrow> head_unit \<Rightarrow> head_unit" where
  "Func_set_balance b = log_event (Arm_send_multi 0x9001 (take 4 b))"

definition Func_set_balance_v151 :: "u8 list \<Rightarrow> head_unit \<Rightarrow> head_unit" where
  "Func_set_balance_v151 b = log_event (Arm_send_multi 0x9001 (take 2 b))"

definition Func_set_equalizer :: "u8 list \<Rightarrow> head_unit \<Rightarrow> head_unit" where
  "Func_set_equalizer b = log_event (Arm_send_multi 0x9002 (take 3 b))"

definition Func_set_equalizer_v151 :: "u8 list \<Rightarrow> head_unit \<Rightarrow> head_unit" where
  "Func_set_equalizer_v151 b = log_event (Arm_send_multi 0x9002 (take 4 b))"

definition Func_set_channel :: "u8 list \<Rightarrow> head_unit \<Rightarrow> head_unit" where
  "Func_set_channel b = log_event (Arm_send_multi 0x9004 (take 2 b))"

definition Func_set_volume :: "u8 list \<Rightarrow> head_unit \<Rightarrow> head_unit" where
  "Func_set_volume b = log_event (Arm_send_multi 0x9000 (take 2 b))"

definition inPhoneMode :: int where
  "inPhoneMode = 1"

definition getAudioChannel :: "head_unit \<Rightarrow> int" where
  "getAudioChannel u = uint (audio_ch (audio u))"

definition isAudioMute :: "head_unit \<Rightarrow> bool" where
  "isAudioMute u \<longleftrightarrow> muted (audio u) \<noteq> 0"

definition btMicControl :: "head_unit \<Rightarrow> head_unit" where
  "btMicControl u =
     on_sys (gpio_direction_output gpio_CODEC_PWR
       (\<not> (ch_mode (ucar u) \<noteq> 3 \<or> cfg_bt (ucfg u) = 6 \<or> cfg_bt (ucfg u) = 7))) u"

definition SetbtMicControl :: "bool \<Rightarrow> head_unit \<Rightarrow> head_unit" where
  "SetbtMicControl v = on_sys (gpio_direction_output gpio_CODEC_PWR v)"

definition isAudioEnable :: "head_unit \<Rightarrow> bool" where
  "isAudioEnable u =
     (let a = audio u; c = ucar u in
      if muted a = 1 then False
      else if ajx_active c \<noteq> 0 \<or> ch_status c \<noteq> 0 then vol_main a \<noteq> 0
      else if ch_mode c \<noteq> 0 then if vol_aux a \<noteq> 0 then True else audio_src a \<le> 3
      else if audio_ch a = 1 then if vol_main a \<noteq> 0 then audio_src a \<le> 3 else False
      else if audio_ch a \<noteq> 0 then if vol_main a \<noteq> 0 then True else audio_src a \<le> 3
      else if own_path (ucfg u) then if vol_main a \<noteq> 0 then audio_src a \<le> 3 else False
      else if vol_main a \<noteq> 0 then True else audio_src a \<le> 3)"

definition Audio_SetMutePin :: "u8 \<Rightarrow> head_unit \<Rightarrow> head_unit" where
  "Audio_SetMutePin pin u =
     (if mute_all (audio u) = pin then u
      else log_event (Arm_send_multi (if pin = 1 then 0x9007 else 0x9008) [])
        (upd_audio (\<lambda>a. a\<lparr>mute_all := pin\<rparr>) u))"

definition Audio_SoftMute :: "head_unit \<Rightarrow> head_unit" where
  "Audio_SoftMute = log_event (Arm_send_multi 0x9003 [])"

text \<open>The state of the mute flag to the MCU and to Android.\<close>

definition report_mute :: "head_unit \<Rightarrow> head_unit" where
  "report_mute u =
     (let m = muted (audio u) in
      log_event (Vs_send 2 0x96 [m]) (log_event (Arm_send_multi 0x9024 [m]) u))"

section \<open>Volume\<close>

text \<open>\<open>mtcGetSetVolume\<close>. Every caller passes a byte, so no product overflows.\<close>

definition mtcGetSetVolume :: "u8 \<Rightarrow> u8 \<Rightarrow> u8" where
  "mtcGetSetVolume maxvol a1 =
     (let v1 = 10000 * uint a1;
          v4 = (if v1 \<le> 299999 then (2863311532 * (v1 + 10000)) div 2 ^ 32
                else if v1 \<le> 599999 then
                  ((v1 - 89088) AND NOT 0xFF) OR ((v1 - 89088 + 112) AND 0xFF)
                else (50000 * uint a1 - 950000) div 4)
      in word_of_int (v4 * uint maxvol) div 64)"

definition gain :: "u8 \<Rightarrow> u32" where
  "gain v = (60 * (ucast v + 1)) div 100 AND 0xFF"

text \<open>The level of sound that Android itself plays; zero while nothing plays.\<close>

definition android_level :: "u8 \<Rightarrow> u8 \<Rightarrow> u32" where
  "android_level src v = (if src = 3 \<and> v \<noteq> 0 then gain v + 8 else 0)"

definition volume_channel :: "mtc_audio_struct \<Rightarrow> u8" where
  "volume_channel a =
     (if ch_sel_mode a \<noteq> 4 \<or> audio_ch2 a = 255 then audio_ch a else audio_ch2 a)"

definition source_level :: "mtc_audio_struct \<Rightarrow> mtc_car_status \<Rightarrow> u32" where
  "source_level a c =
     (let v12 = gain (vol_main a) in
      if ch_status c \<noteq> 0 then
        if input_mute a = 1 then 0 else if switch_mute a = 1 then 0 else v12
      else if input_mute a = 1 \<or> switch_mute a = 1 \<or> act_bit2 a \<noteq> 0 then 0
      else if av_gps_monitor c \<noteq> 0 then
        if act_bit1 a \<noteq> 0 then
          if av_gps_switch c = 0 then if v12 \<le> 0xB then 0 else v12 - 12 else 0
        else v12
      else if act_bit3 a \<noteq> 0 then 0 else v12)"

text \<open>\<open>LABEL_55\<close>: the camera picture lowers the sound.\<close>

definition camera_lowered :: "mtc_car_status \<Rightarrow> u32 \<times> u32 \<Rightarrow> u32 \<times> u32" where
  "camera_lowered c l =
     (case l of (v3, v2) \<Rightarrow>
        if cam_state c \<noteq> 0 then
          if backview_vol c > 0xA then (0, 0)
          else let v13 = 11 - ucast (backview_vol c) in ((v13 * v3) div 0xB, (v13 * v2) div 0xB)
        else (v3, v2))"

text \<open>The levels of the selected source (\<open>v3\<close>) and of the second one, Android (\<open>v2\<close>).\<close>

definition volume_levels :: "mtc_audio_struct \<Rightarrow> mtc_car_status \<Rightarrow> config \<Rightarrow> u32 \<times> u32" where
  "volume_levels a c cf =
     (let v1 = volume_channel a; v12 = gain (vol_main a); v9 = gain (vol_aux a) in
      if ajx_active c \<noteq> 0 then (v12, 0)
      else if ch_mode c = 0 then
        if ch_status c = 0 \<and> (v1 = 1 \<or> v1 = 0 \<and> own_path cf) then
          camera_lowered c (android_level (audio_src a) (vol_main a), 0)
        else
          camera_lowered c (source_level a c,
            if ch_status c \<noteq> 0 then
              if audio_src a = 3 \<and> vol_main a \<noteq> 0 \<and> v12 > 3 then v12 - 4 else 0
            else android_level (audio_src a) (vol_main a))
      else if cfg_bt cf = 6 \<or> cfg_bt cf = 7 then (0, android_level (audio_src a) (vol_aux a))
      else if cfg_bt cf \<noteq> 2 then (v9, 0)
      else if ch_mode c = 1 then (0, android_level (audio_src a) (vol_aux a))
      else if ch_mode c = 2 \<or> ch_mode c = 3 then (v9, 0)
      else (v9, android_level (audio_src a) (vol_aux a)))"

text \<open>
  \<open>Audio_SetVolume\<close>. The attenuations go out as the two bytes at \<open>&v14\<close>; the second is \<open>v15\<close>,
  which the stack layout noted in the source puts there.
\<close>

definition attenuation :: "u32 \<Rightarrow> u8" where
  "attenuation v = (if v \<noteq> 0 then ucast (- 67 - v) else 255)"

definition Audio_SetVolume :: "u32 \<Rightarrow> head_unit \<Rightarrow> u32 \<times> head_unit" where
  "Audio_SetVolume volume u =
     (if volume > 60 then (1, u)
      else
        let (v3, v2) = volume_levels (audio u) (ucar u) (ucfg u);
            v14 = attenuation v3; v15 = attenuation v2
        in (volume,
            if muted (audio u) = 1 then u
            else if volume = 60 then Func_set_volume [255, 255] u
            else let v6 = ucast v14 + volume;
                     v14 = (if v6 > 0xCF then 255 else ucast v6)
                 in Func_set_volume [v14, if volume = 0 then v15 else 255] u))"

abbreviation (input) set_volume :: "u32 \<Rightarrow> head_unit \<Rightarrow> head_unit" where
  "set_volume v u \<equiv> snd (Audio_SetVolume v u)"

text \<open>The fades: thirteen steps of five, in reverse order for the fade in.\<close>

definition fade_steps :: "u32 list" where
  "fade_steps = [0, 5, 10, 15, 20, 25, 30, 35, 40, 45, 50, 55, 60]"

fun fade_in :: "audio_env \<Rightarrow> u32 list \<Rightarrow> head_unit \<Rightarrow> head_unit" where
  "fade_in e [] u = u"
| "fade_in e (v # vs) u = fade_in e vs (nap e 15 (set_volume v u))"

fun fade_out :: "audio_env \<Rightarrow> u32 list \<Rightarrow> head_unit \<Rightarrow> head_unit" where
  "fade_out e [] u = u"
| "fade_out e (v # vs) u =
     (let (r, u) = Audio_SetVolume v u in if r \<noteq> 0 then u else fade_out e vs (nap e 15 u))"

definition Audio_FadeIn :: "audio_env \<Rightarrow> head_unit \<Rightarrow> head_unit" where
  "Audio_FadeIn e u =
     (if isAudioEnable u then
        if mtc_customer (ucar u) = customer_AM then set_volume 0 u
        else fade_in e (rev fade_steps) u
      else u)"

definition Audio_FadeOut :: "audio_env \<Rightarrow> head_unit \<Rightarrow> head_unit" where
  "Audio_FadeOut e u =
     (if mute_all (audio u) \<noteq> 1 then
        if mtc_customer (ucar u) = customer_AM then set_volume 60 u
        else fade_out e fade_steps u
      else u)"

definition Audio_Channel :: "audio_env \<Rightarrow> u8 \<Rightarrow> head_unit \<Rightarrow> head_unit" where
  "Audio_Channel e ch u =
     (let i = (if ch = 0 \<and> own_path (ucfg u) then 1 else uint ch)
      in Func_set_channel [sel_at e i, data_at e u i] u)"

definition Audio_Mute :: "audio_env \<Rightarrow> int \<Rightarrow> head_unit \<Rightarrow> head_unit" where
  "Audio_Mute e m u =
     (if uint (muted (audio u)) \<noteq> m then
        if m = 1 then report_mute (upd_audio (\<lambda>a. a\<lparr>muted := 1\<rparr>) (Audio_FadeOut e u))
        else Audio_FadeIn e (report_mute (upd_audio (\<lambda>a. a\<lparr>muted := 0\<rparr>) u))
      else u)"

section \<open>Balance and equaliser\<close>

text \<open>\<open>strcmp(a, b) < 0\<close>; a list ends with its string.\<close>

fun strcmp_less :: "u8 list \<Rightarrow> u8 list \<Rightarrow> bool" where
  "strcmp_less [] ys = (case ys of [] \<Rightarrow> False | y # _ \<Rightarrow> y \<noteq> 0)"
| "strcmp_less (x # xs) [] = False"
| "strcmp_less (x # xs) (y # ys) = (if x = y then x \<noteq> 0 \<and> strcmp_less xs ys else x < y)"

text \<open>Before \<open>"V1.51"\<close>.\<close>

definition old_mcu :: "mtc_car_status \<Rightarrow> bool" where
  "old_mcu c \<longleftrightarrow> strcmp_less (mcuver2 c) [0x56, 0x31, 0x2E, 0x35, 0x31]"

text \<open>The macro \<open>HIDWORD\<close> of this file: the two bytes at offset two.\<close>

definition HIDWORD :: "64 word \<Rightarrow> int" where
  "HIDWORD w = uint (ucast (drop_bit 16 w) :: u16)"

definition balance_place :: "u8 \<Rightarrow> u8" where
  "balance_place ob =
     (let v14 = 14 * (uint ob + 1); v16 = word_of_int (- 1840700269 * v14);
          v22 = HIDWORD v16 + v14
      in word_of_int (v22 div 16))"

text \<open>
  The four attenuations of an old MCU. The first is limited as a byte, the next two as words of
  32 bits; the upper bytes of the last are those of an uninitialised variable.
\<close>

definition old_balance :: "audio_env \<Rightarrow> int \<Rightarrow> mtc_audio_struct \<Rightarrow> u8 list" where
  "old_balance e rest a =
     (let ob1 = uint (balance1 a); ob2 = uint (balance2 a);
          v3 = uint (sel_at e (72 - ob1)); v4 = uint (sel_at e (40 - ob2));
          v5 = uint (sel_at e (ob2 + 12)); v6 = uint (sel_at e (ob1 + 44));
          v8 = word_of_int (v4 + v3 - 128) :: u8;
          limit = (\<lambda>v :: u32. if v > 177 then 255 else ucast v);
          v12 = word_of_int (v3 + v5 - 128);
          v13 = word_of_int (v4 + v6 - 128);
          v17 = (word_of_int rest AND NOT 0xFF) OR ucast (word_of_int (v5 + v6 - 128) :: u8)
      in [if v8 > 0xB1 then 255 else v8, limit v12, limit v13, limit v17])"

definition Audio_Balance :: "audio_env \<Rightarrow> head_unit \<Rightarrow> head_unit" where
  "Audio_Balance e u =
     (let a = audio u in
      if old_mcu (ucar u) then
        let ob = old_balance e (junk (unit_env e) (trace (shared u))) a;
            u = log_event (Arm_send_multi 0x9010
                  [balance_place (balance1 a), balance_place (balance2 a)]) u
        in Func_set_balance ob u
      else if balance1 a \<le> 28 \<and> balance2 a \<le> 28 then
        Func_set_balance_v151 [balance1 a, balance2 a] u
      else u)"

definition Audio_Eq :: "head_unit \<Rightarrow> head_unit" where
  "Audio_Eq u =
     (let a = audio u;
          tab = (\<lambda>i k. if i \<le> 20
                       then SoundEffectTable ! (unat i + (if eq1 a \<noteq> 0 then k else 0)) else 0)
      in if old_mcu (ucar u) then Func_set_equalizer [tab (eq2 a) 10, tab (eq3 a) 0, tab (eq4 a) 5] u
         else if eq2 a \<le> 20 \<and> eq3 a \<le> 20 \<and> eq4 a \<le> 20 then
           Func_set_equalizer_v151 [eq2 a, eq3 a, eq4 a, eq1 a] u
         else u)"

end
