(* ===== verification/Audio_Work.thy ===== *)
theory Audio_Work
  imports Audio
begin

text \<open>
  The audio mixer, second part: the channel that is heard and the interruptions of it, switching
  the mixer on and off, and the works of the audio queue. A work is the four numbers of
  \<open>struct mtc_work\<close> that \<open>audio_add_work\<close> fills in.
\<close>

section \<open>Interruptions\<close>

definition upd_ucar :: "(mtc_car_status \<Rightarrow> mtc_car_status) \<Rightarrow> head_unit \<Rightarrow> head_unit" where
  "upd_ucar f = on_sys (upd_car f)"

abbreviation (input) send_cmd :: "u32 \<Rightarrow> head_unit \<Rightarrow> head_unit" where
  "send_cmd c \<equiv> log_event (Arm_send_multi c [])"

text \<open>Silence, the mute flags dropped and reported: the start of every interruption.\<close>

definition begin_interruption :: "audio_env \<Rightarrow> head_unit \<Rightarrow> head_unit" where
  "begin_interruption e u =
     report_mute (upd_audio (\<lambda>a. a\<lparr>input_mute := 0, muted := 0\<rparr>) (nap e 20 (set_volume 60 u)))"

definition Audio_AJXChannel :: "audio_env \<Rightarrow> bool \<Rightarrow> head_unit \<Rightarrow> head_unit" where
  "Audio_AJXChannel e on u =
     (if on then
        let u = Audio_Channel e (default_ajx_ch (ucfg u)) (begin_interruption e u);
            u = upd_ucar (\<lambda>c. c\<lparr>ajx_active := 1\<rparr>) (send_cmd 0x9030 u)
        in set_volume 0 (nap e 20 u)
      else
        let u = nap e 20 (set_volume 60 u);
            u = Audio_Channel e (if ch_mode (ucar u) \<noteq> 0 then 8
                                 else if ch_status (ucar u) \<noteq> 0 then ch_fm
                                 else audio_ch (audio u)) u;
            u = upd_ucar (\<lambda>c. c\<lparr>ajx_active := 0\<rparr>) (send_cmd 0x9031 u)
        in set_volume 0 (nap e 20 u))"

definition Audio_TAChannel :: "audio_env \<Rightarrow> u8 \<Rightarrow> head_unit \<Rightarrow> head_unit" where
  "Audio_TAChannel e m u =
     (let store = upd_ucar (\<lambda>c. c\<lparr>ch_status := m\<rparr>) in
      if ajx_active (ucar u) \<noteq> 0 \<or> ch_mode (ucar u) > 0 then store u
      else if m \<noteq> 0 then
        if audio_ch (audio u) = ch_fm then
          let u = store u in set_volume (ucast (ch_mode (ucar u))) u
        else
          set_volume 0 (nap e 20 (store (Audio_Channel e ch_fm (begin_interruption e u))))
      else
        if audio_ch (audio u) = ch_fm then set_volume 0 (store u)
        else
          let u = store (nap e 20 (set_volume 60 u))
          in set_volume 0 (nap e 20 (Audio_Channel e (audio_ch (audio u)) u)))"

text \<open>\<open>v2\<close>, kept from before the branch, is zero there.\<close>

definition Audio_PhoneChannel :: "audio_env \<Rightarrow> u8 \<Rightarrow> head_unit \<Rightarrow> head_unit" where
  "Audio_PhoneChannel e m u =
     (if ajx_active (ucar u) \<noteq> 0 then
        btMicControl (send_cmd (if m \<noteq> 0 then 0x9020 else 0x9021)
          (upd_ucar (\<lambda>c. c\<lparr>ch_mode := m\<rparr>) u))
      else if m \<noteq> 0 then
        let u = upd_ucar (\<lambda>c. c\<lparr>ch_mode := m\<rparr>) (Audio_Channel e 8 (begin_interruption e u));
            u = send_cmd 0x9020 (btMicControl u)
        in set_volume 0 (nap e 1500 (nap e 20 u))
      else
        let u = nap e 20 (set_volume 60 u);
            u = Audio_Channel e (if ch_status (ucar u) \<noteq> 0 then ch_fm else audio_ch (audio u)) u;
            u = btMicControl (upd_ucar (\<lambda>c. c\<lparr>ch_mode := 0\<rparr>) u);
            u = nap e 1000 (nap e 20 (send_cmd 0x9021 u))
        in if muted (audio u) \<noteq> 0 then set_volume 0 u else u)"

section \<open>Entering a channel\<close>

definition source_on :: "audio_env \<Rightarrow> u8 \<Rightarrow> head_unit \<Rightarrow> head_unit" where
  "source_on e ch u =
     (if ch = ch_fm then on_tuner (Radio_Power 1) u
      else if ch = ch_dtv then send_cmd 0x9400 u
      else if ch = ch_dvd then on_drive (\<lambda>ds. snd (dvd_power (unit_env e) 1 ds)) u
      else u)"

definition drive_off :: "audio_env \<Rightarrow> head_unit \<Rightarrow> head_unit" where
  "drive_off e = on_drive (\<lambda>ds. snd (dvd_power (unit_env e) 0 ds))"

text \<open>
  The old channel is switched off and the new one noted. A drive is switched off without the
  new channel being noted, as the code returns there.
\<close>

definition leave_channel :: "audio_env \<Rightarrow> nat \<Rightarrow> u8 \<Rightarrow> u8 \<Rightarrow> head_unit \<Rightarrow> head_unit" where
  "leave_channel e d old new u =
     (let note = upd_audio (\<lambda>a. a\<lparr>audio_ch := new\<rparr>) in
      if old = ch_fm then note (on_tuner (Radio_Power 0) u)
      else if old = ch_dtv then note (send_cmd 0x9401 u)
      else if old \<noteq> ch_dvd then note u
      else drive_off e (if d = 0 then u else nap e d u))"

text \<open>The first branch: \<open>ch_sel_mode\<close> is 4 and channel 0 may be heard over another source.\<close>

definition enter_overlay :: "audio_env \<Rightarrow> u8 \<Rightarrow> bool \<Rightarrow> head_unit \<Rightarrow> head_unit" where
  "enter_overlay e set_ch on u =
     (if set_ch = 0 then
        let u = nap e 20 (Audio_FadeOut e u);
            u = report_mute (upd_audio (\<lambda>a. a\<lparr>muted := 0\<rparr>) u);
            u = upd_audio (\<lambda>a. a\<lparr>audio_ch2 := if on then 0 else audio_ch a\<rparr>) u
        in set_volume 0 (nap e 20 (Audio_Channel e (audio_ch2 (audio u)) u))
      else
        let old = audio_ch (audio u) in
        if \<not> on then if old \<noteq> set_ch then u else leave_channel e 0 old ch_sys u
        else if old = set_ch then u
        else if set_ch = ch_dvd then source_on e ch_dvd u
        else leave_channel e 0 old set_ch (source_on e set_ch u))"

text \<open>\<open>LABEL_11\<close>: the change with silence. \<open>(v8, v9, v10)\<close> as in the code.\<close>

definition slow_radio :: "config \<Rightarrow> bool" where
  "slow_radio c \<longleftrightarrow> cfg_radio c = 2 \<or> cfg_radio c = 4"

definition switch_flags :: "config \<Rightarrow> u8 \<Rightarrow> u8 \<Rightarrow> bool \<times> bool \<times> bool" where
  "switch_flags c old new =
     (if new \<noteq> ch_dtv \<and> (new \<noteq> ch_fm \<or> slow_radio c) then
        if old \<noteq> ch_fm \<or> slow_radio c then (False, False, False) else (True, True, False)
      else (True, False, True))"

text \<open>The comparisons behind \<open>v13\<close> and \<open>v14\<close>: sources that settle before they are heard.\<close>

definition settles :: "u8 \<Rightarrow> bool" where
  "settles new =
     (let v12 = ucast new - 4 :: u32;
          (v13, v14) = (if new \<noteq> ch_dvd then (v12 \<ge> 1, v12 = 1) else (True, True))
      in \<not> (\<not> v14 \<and> v13))"

definition switch_on :: "audio_env \<Rightarrow> u8 \<Rightarrow> u8 \<Rightarrow> bool \<Rightarrow> bool \<Rightarrow> head_unit \<Rightarrow> head_unit" where
  "switch_on e old new on v8 u =
     (let u = (if old = ch_dvd then on_drive (dvd_send_command 0x30003) u else u);
          u = Audio_FadeOut e u;
          u = (if v8 then nap e 200 (Audio_SetMutePin 1 u) else u);
          u = nap e 20 (source_on e new u);
          u = (if on then report_mute (upd_audio (\<lambda>a. a\<lparr>muted := 0\<rparr>) u) else u);
          u = Audio_Channel e new (upd_audio (\<lambda>a. a\<lparr>audio_ch := new\<rparr>) u);
          u = nap e 20 (log_event (Capture_add_work 0x2E (uint new) 0 False) u);
          u = upd_audio (\<lambda>a. a\<lparr>input_mute := of_bool (settles new),
                               switch_mute := of_bool (settles new)\<rparr>) u
      in if muted (audio u) = 0 then set_volume 0 u else u)"

definition switch_off :: "audio_env \<Rightarrow> u8 \<Rightarrow> bool \<times> bool \<times> bool \<Rightarrow> head_unit \<Rightarrow> head_unit" where
  "switch_off e old v u =
     (case v of (v8, v9, v10) \<Rightarrow>
        let label_36 = (\<lambda>u. if \<not> v8 then u else Audio_SetMutePin 0 (if v9 then nap e 100 u else u))
        in if old = ch_fm then label_36 (on_tuner (Radio_Power 0) u)
           else if old = ch_dtv then label_36 (send_cmd 0x9401 u)
           else if old \<noteq> ch_dvd then label_36 u
           else drive_off e (nap e 500 (if v10 then Audio_SetMutePin 0 u else u)))"

definition switch_channel :: "audio_env \<Rightarrow> u8 \<Rightarrow> u8 \<Rightarrow> bool \<Rightarrow> head_unit \<Rightarrow> head_unit" where
  "switch_channel e old new on u =
     (let v = switch_flags (ucfg u) old new
      in switch_off e old v (switch_on e old new on (fst v) u))"

text \<open>From the test of \<open>ch_mode\<close> on.\<close>

definition enter_from :: "audio_env \<Rightarrow> u8 \<Rightarrow> u8 \<Rightarrow> bool \<Rightarrow> head_unit \<Rightarrow> head_unit" where
  "enter_from e old new on u =
     (if ch_mode (ucar u) \<noteq> 0 \<or> ajx_active (ucar u) \<noteq> 0 \<or> ch_status (ucar u) \<noteq> 0 then
        leave_channel e 500 old new u
      else if own_path (ucfg u) \<and>
          (if new = ch_sys then old = 0 else new = 0 \<and> old = ch_sys) then
        let u = upd_audio (\<lambda>a. a\<lparr>audio_ch := new, input_mute := 0, muted := 0, switch_mute := 0\<rparr>) u
        in set_volume 0 (report_mute u)
      else switch_channel e old new on u)"

text \<open>
  Entering a channel again is a way to unmute; \<open>c1\<close> and \<open>c2\<close> as in the code. Only the line input
  goes through the whole change.
\<close>

definition Audio_EnterChannel :: "audio_env \<Rightarrow> u8 \<Rightarrow> bool \<Rightarrow> head_unit \<Rightarrow> head_unit" where
  "Audio_EnterChannel e set_ch on u =
     (let old = audio_ch (audio u) in
      if ch_sel_mode (audio u) = 4 then enter_overlay e set_ch on u
      else if on then
        if old = set_ch then
          if old = ch_sys then
            if muted (audio u) \<noteq> 1 then u
            else
              let u = Audio_Mute e 0 u; tmp_ch = audio_ch (audio u);
                  c2 = (let k = uint tmp_ch - 1 in k + of_bool (k \<le> 0) - k) :: int
              in if 1 AND c2 \<noteq> 0 then u else enter_from e tmp_ch old on u
          else
            let c1 = (if old \<noteq> ch_line then 1 else uint old - 3) :: int
            in if c1 AND 1 \<noteq> 0 then u else enter_from e old old on u
        else enter_from e old set_ch on u
      else if old \<noteq> set_ch \<or> old = ch_sys then u
      else enter_from e old ch_sys on u)"

section \<open>Codec and mixer on and off\<close>

definition snd_soc_write :: "audio_env \<Rightarrow> nat \<Rightarrow> nat \<Rightarrow> sys \<Rightarrow> int \<times> sys" where
  "snd_soc_write e reg v s = (let s = emit (Codec_write reg v) s in (codec_result e (trace s), s))"

definition codec_writes :: "audio_env \<Rightarrow> (nat \<times> nat) list \<Rightarrow> sys \<Rightarrow> sys" where
  "codec_writes e ws s = fold (\<lambda>(reg, v) s. snd (snd_soc_write e reg v s)) ws s"

definition codec_deactive :: "audio_env \<Rightarrow> sys \<Rightarrow> int \<times> sys" where
  "codec_deactive e s = snd_soc_write e 6 255 s"

definition codec_active :: "audio_env \<Rightarrow> sys \<Rightarrow> int \<times> sys" where
  "codec_active e s =
     (let (r, s) = snd_soc_write e 15 0 (msleep (unit_env e) 100 s) in
      if r < 0 then (r, s)
      else
        let bt = cfg_bt (cfg s) in
        (0, codec_writes e [(0, 151), (1, 151), (2, 0), (3, 0),
              (4, if bt = 6 \<or> bt = 7 then 20 else 21),
              (5, 0), (6, 97), (7, 2), (8, 32), (9, 1)] s))"

definition codec_io_init :: "sys \<Rightarrow> sys" where
  "codec_io_init s = gpio_direction_output 172 False (emit (Gpio_request 172 ''codec_pwr'') s)"

text \<open>The decoding of \<open>active_cmd\<close>, by which Android tells which applications play.\<close>

definition decode_active :: "u8 \<Rightarrow> u8 \<times> u8 \<times> u8 \<times> u8" where
  "decode_active v =
     (if v AND 3 \<noteq> 0 then 3 else 0, drop_bit 1 v AND 1, drop_bit 2 v AND 1, drop_bit 3 v AND 1)"

definition active_update :: "head_unit \<Rightarrow> head_unit" where
  "active_update u =
     (let a = audio u; v = active_cmd a; (v9, v10, v11, v12) = decode_active v in
      if act_bit1 a \<noteq> v10 \<or> v9 \<noteq> audio_src a \<or> act_bit2 a \<noteq> v12 \<or> act_bit3 a \<noteq> v11 then
        let u = upd_audio (\<lambda>a. a\<lparr>act_bit3 := if v AND 0x80 \<noteq> 0 then v11 else act_bit3 a,
                                 act_bit2 := v12, act_bit1 := v10, audio_src := v9\<rparr>) u
        in if audio_on a \<noteq> 0 then set_volume 0 u else u
      else u)"

definition send_main_volume :: "head_unit \<Rightarrow> head_unit" where
  "send_main_volume u =
     log_event (Arm_send_multi 0x9023
       [mtcGetSetVolume (cfg_maxvolume (ucar u)) (vol_main (audio u))]) u"

definition load_ch_data :: "config \<Rightarrow> u8 list \<Rightarrow> u8 list" where
  "load_ch_data c t =
     t[5 := ch_attr c 5, 8 := ch_attr c 0, 7 := 0, 6 := ch_attr c 6, 2 := ch_attr c 2,
       0 := ch_attr c 0, 1 := ch_attr c 1, 3 := ch_attr c 3, 4 := ch_attr c 4]"

definition audio_active :: "audio_env \<Rightarrow> head_unit \<Rightarrow> head_unit" where
  "audio_active e u =
     (if audio_on (audio u) \<noteq> 0 then u
      else
        let u = (if mtc_customer (ucar u) = customer_JY
                 then on_sys (gpio_direction_output gpio_FCAM_PWR True) u else u);
            u = on_sys (\<lambda>s. snd (codec_active e s)) u;
            u = u\<lparr>ch_data := load_ch_data (ucfg u) (ch_data u)\<rparr>;
            u = upd_audio (\<lambda>a. a\<lparr>audio_src := 0, act_bit2 := 0, act_bit1 := 0, act_bit3 := 0,
                                 mute_all := 1, muted := 0, switch_mute := 0\<rparr>) u;
            u = upd_audio (\<lambda>a. a\<lparr>audio_ch := ch_sys\<rparr>) (log_event (Vs_send 2 0x96 [0]) u);
            u = send_main_volume (nap e 100 (send_cmd 0x9005 u));
            u = upd_audio (\<lambda>a. a\<lparr>audio_on := 1\<rparr>) u;
            u = (if mtc_customer (ucar u) = customer_KLD then on_sys (mtc_iomux_set 0x1A51) u else u);
            u = Audio_Channel e (audio_ch (audio u)) (Audio_Eq (Audio_Balance e u));
            u = (if mtc_customer (ucar u) = customer_KLD then nap e 2000 u else u)
        in active_update (Audio_SetMutePin 0 u))"

definition audio_deactive :: "audio_env \<Rightarrow> head_unit \<Rightarrow> head_unit" where
  "audio_deactive e u =
     (if audio_on (audio u) \<noteq> 0 then
        let u = upd_ucar (\<lambda>c. c\<lparr>ch_mode := 0\<rparr>) (upd_audio (\<lambda>a. a\<lparr>audio_on := 0\<rparr>) u);
            u = send_cmd 0x9006 (btMicControl u);
            u = on_sys (\<lambda>s. snd (codec_deactive e s)) (upd_audio (\<lambda>a. a\<lparr>mute_all := 1\<rparr>) u)
        in if mtc_customer (ucar u) = customer_JY
           then on_sys (gpio_direction_output gpio_FCAM_PWR False) u else u
      else u)"

text \<open>\<open>audio_init\<close> clears the structure and sets a flat equaliser and the balance to the middle.\<close>

definition audio_0 :: mtc_audio_struct where
  "audio_0 = \<lparr>audio_ch = 0, vol_main = 0, vol_aux = 0, audio_ch2 = 0, switch_mute = 0,
     input_mute = 0, muted = 0, mute_all = 0, audio_src = 0, act_bit1 = 0, act_bit3 = 0,
     act_bit2 = 0, eq1 = 0, eq2 = 10, eq3 = 10, eq4 = 10, balance1 = 14, balance2 = 14,
     audio_on = 0, mute_pin_latch = 0, active_cmd = 0, ch_sel_mode = 0\<rparr>"

definition audio_init :: "head_unit \<Rightarrow> head_unit" where
  "audio_init u = upd_ucar (\<lambda>c. c\<lparr>audio_ready := 1\<rparr>) (u\<lparr>audio := audio_0\<rparr>)"

section \<open>Works\<close>

record audio_item =
  cmd1 :: int
  cmd2 :: int
  cmd3 :: int
  val1 :: int

abbreviation (input) low_byte :: "int \<Rightarrow> u8" where "low_byte v \<equiv> word_of_int v"

text \<open>Case 3 and case 4: the volume, which also ends a mute.\<close>

definition work_volume :: "audio_env \<Rightarrow> u8 \<Rightarrow> head_unit \<Rightarrow> head_unit" where
  "work_volume e v u =
     (let u = send_main_volume (upd_audio (\<lambda>a. a\<lparr>vol_main := v\<rparr>) u) in
      if audio_on (audio u) \<noteq> 0 \<and> ch_mode (ucar u) = 0 then
        set_volume 0 (if muted (audio u) \<noteq> 1 then u else Audio_Mute e 0 u)
      else u)"

definition work_volume_aux :: "audio_env \<Rightarrow> u8 \<Rightarrow> head_unit \<Rightarrow> head_unit" where
  "work_volume_aux e v u =
     (let u = upd_audio (\<lambda>a. a\<lparr>vol_aux := v\<rparr>) u;
          u = log_event (Arm_send_multi 0x9022 [mtcGetSetVolume (cfg_maxvolume (ucar u)) v]) u
      in if ch_mode (ucar u) \<noteq> 0 then
           set_volume 0 (if muted (audio u) = 1 then Audio_Mute e 0 u else u)
         else u)"

text \<open>Case 10 and case 11: the comparisons are signed.\<close>

definition work_balance :: "audio_env \<Rightarrow> int \<Rightarrow> int \<Rightarrow> head_unit \<Rightarrow> head_unit" where
  "work_balance e b1 b2 u =
     (if b1 \<le> 28 \<and> b2 \<le> 28 then
        let u = upd_audio (\<lambda>a. a\<lparr>balance1 := word_of_int b1, balance2 := word_of_int b2\<rparr>) u
        in if audio_on (audio u) \<noteq> 0 then Audio_Balance e u else u
      else u)"

definition work_eq :: "int \<Rightarrow> int \<Rightarrow> int \<Rightarrow> head_unit \<Rightarrow> head_unit" where
  "work_eq e2 e3 e4 u =
     (if e2 \<le> 20 \<and> e3 \<le> 20 \<and> e4 \<le> 20 then
        let u = upd_audio (\<lambda>a. a\<lparr>eq2 := word_of_int e2, eq3 := word_of_int e3,
                                 eq4 := word_of_int e4\<rparr>) u
        in if audio_on (audio u) \<noteq> 0 then Audio_Eq u else u
      else u)"

text \<open>Case 13: the state of the phone.\<close>

definition work_phone :: "audio_env \<Rightarrow> int \<Rightarrow> head_unit \<Rightarrow> head_unit" where
  "work_phone e v4 u =
     (let v5 = ch_mode (ucar u) in
      if v4 = uint v5 then u
      else if v5 \<noteq> 0 then
        if v4 \<noteq> 0 then
          btMicControl (set_volume 0 (upd_ucar (\<lambda>c. c\<lparr>ch_mode := word_of_int v4\<rparr>) u))
        else on_sys (car_add_work 30 0 True) (Audio_PhoneChannel e 0 u)
      else Audio_PhoneChannel e (low_byte v4) (on_sys (car_add_work 29 0 True) u))"

text \<open>\<open>LABEL_27\<close>: the input is muted or heard again.\<close>

definition work_input_mute :: "audio_env \<Rightarrow> int \<Rightarrow> head_unit \<Rightarrow> head_unit" where
  "work_input_mute e v16 u =
     (if v16 = uint (input_mute (audio u)) then u
      else
        let u = upd_audio (\<lambda>a. a\<lparr>input_mute := of_bool (v16 \<noteq> 0)\<rparr>) u in
        if muted (audio u) \<noteq> 0 \<or> audio_on (audio u) = 0 then u
        else if v16 \<noteq> 0 then set_volume 0 u
        else Audio_FadeIn e u)"

text \<open>Case 26: the source has settled.\<close>

definition work_settled :: "head_unit \<Rightarrow> head_unit" where
  "work_settled u =
     (if switch_mute (audio u) \<noteq> 0 then
        let u = upd_audio (\<lambda>a. a\<lparr>switch_mute := 0, input_mute := 0\<rparr>) u
        in if muted (audio u) = 0 \<and> audio_on (audio u) \<noteq> 0 then set_volume 0 u else u
      else u)"

definition work_ta_check :: "head_unit \<Rightarrow> head_unit" where
  "work_ta_check u =
     (let u = on_tuner (if cam_state (ucar u) \<noteq> 0 then ta_check_back else ta_check_start) u
      in if muted (audio u) = 0 then set_volume 0 u else u)"

definition audio_work_body :: "audio_env \<Rightarrow> audio_item \<Rightarrow> head_unit \<Rightarrow> head_unit" where
  "audio_work_body e w u =
     (let c = cmd1 w; on = (audio_on (audio u) \<noteq> 0);
          gps = (av_gps_monitor (ucar u) \<noteq> 0) in
      if c = 0 then if on then Audio_EnterChannel e (low_byte (cmd2 w)) True u else u
      else if c = 1 then if on then Audio_EnterChannel e (low_byte (cmd2 w)) False u else u
      else if c = 2 then if on then Audio_Mute e (cmd2 w) u else u
      else if c = 3 then work_volume e (low_byte (cmd2 w)) u
      else if c = 4 then work_volume_aux e (low_byte (cmd2 w)) u
      else if c = 6 then
        let u = upd_audio (\<lambda>a. a\<lparr>act_bit3 := low_byte (cmd2 w)\<rparr>) u
        in if on \<and> \<not> gps then set_volume 0 u else u
      else if c = 7 then if on then set_volume 0 u else u
      else if c = 8 then if on \<and> gps then set_volume 0 u else u
      else if c = 0xA then work_balance e (cmd2 w) (cmd3 w) u
      else if c = 0xB then work_eq (cmd2 w) (cmd3 w) (val1 w) u
      else if c = 0xC then
        let u = upd_audio (\<lambda>a. a\<lparr>eq1 := low_byte (cmd2 w)\<rparr>) u in if on then Audio_Eq u else u
      else if c = 0xD then work_phone e (cmd2 w) u
      else if c = 0xE then active_update (upd_audio (\<lambda>a. a\<lparr>active_cmd := low_byte (cmd2 w)\<rparr>) u)
      else if c = 0xF then active_update u
      else if c = 0x11 then if on then work_ta_check u else u
      else if c = 0x12 then work_input_mute e (cmd2 w) u
      else if c = 0x13 then
        if audio_ch (audio u) \<noteq> ch_fm then u else work_input_mute e (cmd2 w) u
      else if c = 0x14 then audio_active e u
      else if c = 0x15 then audio_deactive e u
      else if c = 0x16 then
        if ajx_active (ucar u) = 0
        then Audio_AJXChannel e True (on_sys (car_add_work 29 0 True) u) else u
      else if c = 0x17 then
        if ajx_active (ucar u) \<noteq> 0
        then on_sys (car_add_work 30 0 True) (Audio_AJXChannel e False u) else u
      else if c = 0x18 then if ch_status (ucar u) = 0 then Audio_TAChannel e 1 u else u
      else if c = 0x19 then if ch_status (ucar u) \<noteq> 0 then Audio_TAChannel e 0 u else u
      else if c = 0x1A then work_settled u
      else if c = 0x1B then
        SetbtMicControl (low_byte (cmd2 w) = 4)
          (upd_audio (\<lambda>a. a\<lparr>ch_sel_mode := low_byte (cmd2 w), audio_ch2 := 255\<rparr>) u)
      else u)"

abbreviation (input) audio_lock :: string where "audio_lock \<equiv> ''audio_lock''"

definition audio_work :: "audio_env \<Rightarrow> audio_item \<Rightarrow> head_unit \<Rightarrow> head_unit" where
  "audio_work e w u =
     (let u = log_event (Lock audio_lock) u;
          u = (if audio_on (audio u) \<noteq> 0 \<and> mute_pin_latch (audio u) \<noteq> 0 then
                 nap e 20 (Audio_SetMutePin 0 (upd_audio (\<lambda>a. a\<lparr>mute_pin_latch := 0\<rparr>) u))
               else u)
      in log_event (Unlock audio_lock) (audio_work_body e w u))"

text \<open>What a call of \<open>audio_add_work\<close> puts on the queue, and a delayed call after how long.\<close>

definition audio_add_work :: "int \<Rightarrow> int \<Rightarrow> int \<Rightarrow> int \<Rightarrow> sys \<Rightarrow> audio_item list" where
  "audio_add_work a b c d s =
     (if audio_ready (car s) \<noteq> 0 then [\<lparr>cmd1 = a, cmd2 = b, cmd3 = c, val1 = d\<rparr>] else [])"

definition audio_add_work_delay :: "audio_env \<Rightarrow> int \<Rightarrow> nat \<Rightarrow> sys \<Rightarrow> (nat \<times> audio_item) list" where
  "audio_add_work_delay e a delay s =
     (if audio_ready (car s) \<noteq> 0 then
        let j = junk (unit_env e) (trace s)
        in [(delay, \<lparr>cmd1 = a, cmd2 = j, cmd3 = j, val1 = j\<rparr>)]
      else [])"

definition audio_channel_switch_unmute :: "audio_env \<Rightarrow> head_unit \<Rightarrow> (nat \<times> audio_item) list" where
  "audio_channel_switch_unmute e u =
     (if switch_mute (audio u) = 1 then
        let ch = audio_ch (audio u)
        in audio_add_work_delay e 26
             (if ch = ch_dvd then 3000 else if ch = ch_dtv then 1000 else 0) (shared u)
      else [])"

definition audio_flush_work :: "head_unit \<Rightarrow> head_unit" where
  "audio_flush_work = log_event (Flush_queue ''audio_wq'')"

end
