(* ===== verification/Audio_Facts.thy ===== *)
theory Audio_Facts
  imports Audio_Work
begin

text \<open>
  What holds of the audio mixer. The locale \<open>mixer_relation\<close> is the contract of a relation
  between states that every elementary operation keeps; what the operations of the mixer are
  made of then gives it for all works. It is interpreted for the locks and the configuration,
  and for the well-formedness of the mixer's record.
\<close>

section \<open>What every work keeps\<close>

text \<open>The values the flags of the mixer take.\<close>

definition flag :: "u8 \<Rightarrow> bool" where
  "flag v \<longleftrightarrow> v = 0 \<or> v = 1"

lemma flag_simps [simp]: "flag 0" "flag 1" "flag (of_bool b)"
  by (auto simp: flag_def)

definition mixer_wf :: "mtc_audio_struct \<Rightarrow> bool" where
  "mixer_wf a \<longleftrightarrow> audio_src a \<in> {0, 3} \<and> flag (act_bit1 a) \<and> flag (act_bit2 a) \<and>
     flag (muted a) \<and> flag (mute_all a) \<and> flag (switch_mute a) \<and>
     flag (input_mute a) \<and> flag (audio_on a) \<and> mute_pin_latch a = 0"

definition mixer_update :: "(mtc_audio_struct \<Rightarrow> mtc_audio_struct) \<Rightarrow> bool" where
  "mixer_update f \<longleftrightarrow> (\<forall>a. mixer_wf a \<longrightarrow> mixer_wf (f a))"

lemma mixer_updateI: "(\<And>a. mixer_wf a \<Longrightarrow> mixer_wf (f a)) \<Longrightarrow> mixer_update f"
  by (simp add: mixer_update_def)

text \<open>Steps of the shared state without locks.\<close>

inductive calm_run :: "sys \<Rightarrow> sys \<Rightarrow> bool" where
  stay: "calm_run s s"
| log: "calm_run s t \<Longrightarrow> \<not> lock_event x \<Longrightarrow> calm_run s (emit x t)"
| sleep: "calm_run s t \<Longrightarrow> calm_run s (msleep e d t)"

lemma calm_codec_writes: "calm_run s t \<Longrightarrow> calm_run s (codec_writes e ws t)"
proof (induction ws arbitrary: t)
  case (Cons w ws)
  have "calm_run s (snd (snd_soc_write e (fst w) (snd w) t))"
    using Cons.prems by (simp add: snd_soc_write_def Let_def calm_run.log)
  from Cons.IH [OF this] show ?case by (simp add: codec_writes_def split_def)
qed (simp add: codec_writes_def)

lemma calm_calls:
  "calm_run s (snd (codec_active e s))" "calm_run s (snd (codec_deactive e s))"
  "calm_run s (mtc_iomux_set m s)" "calm_run s (car_add_work a b c s)"
  by (auto simp: codec_active_def codec_deactive_def snd_soc_write_def mtc_iomux_set_def
      car_add_work_def Let_def intro!: calm_run.intros calm_codec_writes)

locale mixer_relation =
  fixes P :: "head_unit \<Rightarrow> head_unit \<Rightarrow> bool"
  assumes start: "P u u"
    and log: "P u v \<Longrightarrow> \<not> lock_event x \<Longrightarrow> P u (on_sys (emit x) v)"
    and nap: "P u v \<Longrightarrow> P u (on_sys (msleep e d) v)"
    and status: "P u v \<Longrightarrow> P u (upd_ucar g v)"
    and update: "P u v \<Longrightarrow> mixer_update f \<Longrightarrow> P u (upd_audio f v)"
    and table: "P u v \<Longrightarrow> P u (v\<lparr>ch_data := t\<rparr>)"
    and radio_power: "P u v \<Longrightarrow> P u (on_tuner (Radio_Power p) v)"
    and ta_start: "P u v \<Longrightarrow> P u (on_tuner ta_check_start v)"
    and ta_back: "P u v \<Longrightarrow> P u (on_tuner ta_check_back v)"
    and drive_power: "P u v \<Longrightarrow> P u (on_drive (\<lambda>ds. snd (dvd_power e q ds)) v)"
    and drive_command: "P u v \<Longrightarrow> P u (on_drive (dvd_send_command cmd) v)"
begin

lemma if_unit: "(c \<Longrightarrow> P u a) \<Longrightarrow> (\<not> c \<Longrightarrow> P u b) \<Longrightarrow> P u (if c then a else b)"
  by simp

lemma let_unit: "P u t \<Longrightarrow> (\<And>v. P u v \<Longrightarrow> P u (f v)) \<Longrightarrow> P u (Let t f)" for t :: head_unit
  by simp

lemma let_data:
  "(\<And>x :: u8. P u (f1 x)) \<Longrightarrow> P u (Let t1 f1)"
  "(\<And>x :: bool. P u (f2 x)) \<Longrightarrow> P u (Let t2 f2)"
  "(\<And>x :: bool \<times> bool \<times> bool. P u (f3 x)) \<Longrightarrow> P u (Let t3 f3)"
  "(\<And>x :: int. P u (f4 x)) \<Longrightarrow> P u (Let t4 f4)"
  "(\<And>x :: u8 list. P u (f5 x)) \<Longrightarrow> P u (Let t5 f5)"
  by simp_all

lemma gpio: "P u v \<Longrightarrow> P u (on_sys (gpio_direction_output p b) v)"
  unfolding gpio_direction_output_def by (rule log) simp_all

lemma log_if: "P u v \<Longrightarrow> \<not> lock_event x \<Longrightarrow> P u (log_event x v)"
  by (rule log)

lemmas walk = if_unit let_unit let_data start status nap gpio log table

lemma volume: "P u v \<Longrightarrow> P u (snd (Audio_SetVolume n v))"
  by (auto simp: Audio_SetVolume_def Func_set_volume_def Let_def split: prod.split intro: log)

lemma channel: "P u v \<Longrightarrow> P u (Audio_Channel e ch v)"
  by (auto simp: Audio_Channel_def Func_set_channel_def Let_def intro: log)

lemma report: "P u v \<Longrightarrow> P u (report_mute v)"
  by (auto simp: report_mute_def Let_def intro!: log)

lemma mic: "P u v \<Longrightarrow> P u (btMicControl v)" "P u v \<Longrightarrow> P u (SetbtMicControl b v)"
  by (auto simp: btMicControl_def SetbtMicControl_def intro: gpio)

lemma fade_in: "P u v \<Longrightarrow> P u (fade_in e ns v)"
  by (induction ns arbitrary: v) (simp_all add: volume nap)

lemma fade_out: "P u v \<Longrightarrow> P u (fade_out e ns v)"
proof (induction ns arbitrary: v)
  case (Cons n ns)
  from volume [OF Cons.prems, of n] Cons.IH show ?case
    by (cases "Audio_SetVolume n v") (auto intro: nap)
qed simp

lemma fades: "P u v \<Longrightarrow> P u (Audio_FadeIn e v)" "P u v \<Longrightarrow> P u (Audio_FadeOut e v)"
  by (auto simp: Audio_FadeIn_def Audio_FadeOut_def intro: volume fade_in fade_out)

lemma mute_pin: "P u v \<Longrightarrow> flag pin \<Longrightarrow> P u (Audio_SetMutePin pin v)"
  unfolding Audio_SetMutePin_def
  by (intro walk update mixer_updateI) (simp_all add: mixer_wf_def)

lemma mute: "P u v \<Longrightarrow> P u (Audio_Mute e m v)"
  unfolding Audio_Mute_def
  by (intro walk report fades update mixer_updateI) (simp_all add: mixer_wf_def)

lemma sound: "P u v \<Longrightarrow> P u (Audio_Balance e v)" "P u v \<Longrightarrow> P u (Audio_Eq v)"
  by (auto simp: Audio_Balance_def Audio_Eq_def Func_set_balance_def Func_set_balance_v151_def
      Func_set_equalizer_def Func_set_equalizer_v151_def Let_def intro!: log)

lemmas steps = volume channel report mic fades mute sound radio_power ta_start ta_back
  drive_power drive_command

lemma interruption: "P u v \<Longrightarrow> P u (begin_interruption e v)"
  unfolding begin_interruption_def
  by (intro walk steps update mixer_updateI) (simp_all add: mixer_wf_def)

lemma interruptions:
  "P u v \<Longrightarrow> P u (Audio_AJXChannel e b v)"
  "P u v \<Longrightarrow> P u (Audio_PhoneChannel e m v)"
  unfolding Audio_AJXChannel_def Audio_PhoneChannel_def
  by (intro walk steps interruption; simp)+

lemma traffic: "P u v \<Longrightarrow> P u (Audio_TAChannel e m v)"
  unfolding Audio_TAChannel_def Let_def
  by (intro walk steps interruption; simp)

lemma sources: "P u v \<Longrightarrow> P u (source_on e ch v)" "P u v \<Longrightarrow> P u (drive_off e v)"
  unfolding source_on_def drive_off_def by (intro walk steps; simp)+

lemma leave: "P u v \<Longrightarrow> P u (leave_channel e d old new v)"
  unfolding leave_channel_def Let_def
  by (intro walk steps sources update mixer_updateI) (simp_all add: mixer_wf_def)

lemma overlay: "P u v \<Longrightarrow> P u (enter_overlay e ch b v)"
  unfolding enter_overlay_def
  by (intro walk steps sources leave update mixer_updateI) (simp_all add: mixer_wf_def)

lemma switch_on: "P u v \<Longrightarrow> P u (switch_on e old new b v8 v)"
  unfolding switch_on_def
  by (intro walk steps sources mute_pin update mixer_updateI) (simp_all add: mixer_wf_def)

lemma switch_off: "P u v \<Longrightarrow> P u (switch_off e old t v)"
  unfolding switch_off_def Let_def
  by (cases t) (simp only: prod.case, intro walk steps sources mute_pin; simp)

lemma switch: "P u v \<Longrightarrow> P u (switch_channel e old new b v)"
  unfolding switch_channel_def Let_def by (intro switch_off switch_on)

lemma enter_from: "P u v \<Longrightarrow> P u (enter_from e old new b v)"
  unfolding enter_from_def
  by (intro walk steps leave switch update mixer_updateI) (simp_all add: mixer_wf_def)

lemma enter: "P u v \<Longrightarrow> P u (Audio_EnterChannel e ch b v)"
  unfolding Audio_EnterChannel_def
  by (intro walk steps enter_from overlay; simp)

lemma active_update: "P u v \<Longrightarrow> P u (active_update v)"
proof -
  assume v: "P u v"
  let ?w = "active_cmd (audio v)"
  obtain v9 v10 v11 v12 where d: "decode_active ?w = (v9, v10, v11, v12)"
    by (cases "decode_active ?w") auto
  then have "v9 \<in> {0, 3}" "flag v10" "flag v12"
    by (simp_all add: decode_active_def and_one_eq)
       (use d in \<open>auto simp: decode_active_def flag_def and_one_eq split: if_splits\<close>)
  then have "mixer_update (\<lambda>a. a\<lparr>act_bit3 := if c then v11 else act_bit3 a,
      act_bit2 := v12, act_bit1 := v10, audio_src := v9\<rparr>)" for c
    by (simp add: mixer_update_def mixer_wf_def)
  with v show ?thesis
    unfolding active_update_def Let_def d prod.case by (intro walk steps update)
qed

lemma run: "calm_run s t \<Longrightarrow> s = shared v \<Longrightarrow> P u v \<Longrightarrow> P u (v\<lparr>shared := t\<rparr>)"
proof (induction rule: calm_run.induct)
  case (log s t x)
  then show ?case using mixer_relation.log [OF mixer_relation_axioms, of u "v\<lparr>shared := t\<rparr>" x]
    by (simp add: on_sys_def)
next
  case (sleep s t e d)
  then show ?case using nap [of u "v\<lparr>shared := t\<rparr>" e d] by (simp add: on_sys_def)
qed simp

lemma calls: "P u v \<Longrightarrow> P u (on_sys (\<lambda>s. snd (codec_active e s)) v)"
  "P u v \<Longrightarrow> P u (on_sys (\<lambda>s. snd (codec_deactive e s)) v)"
  "P u v \<Longrightarrow> P u (on_sys (mtc_iomux_set m) v)"
  "P u v \<Longrightarrow> P u (on_sys (car_add_work a b c) v)"
  unfolding on_sys_def by (rule run [OF _ refl], rule calm_calls, assumption)+

lemma active: "P u v \<Longrightarrow> P u (audio_active e v)"
  unfolding audio_active_def send_main_volume_def
  by (intro walk steps active_update channel calls mute_pin update mixer_updateI) (simp_all add: mixer_wf_def)

lemma deactive: "P u v \<Longrightarrow> P u (audio_deactive e v)"
  unfolding audio_deactive_def
  by (intro walk steps calls update mixer_updateI) (simp_all add: mixer_wf_def)

lemma works:
  "P u v \<Longrightarrow> P u (work_volume e x v)" "P u v \<Longrightarrow> P u (work_volume_aux e x v)"
  "P u v \<Longrightarrow> P u (work_balance e i j v)" "P u v \<Longrightarrow> P u (work_eq i j k v)"
  "P u v \<Longrightarrow> P u (work_phone e i v)" "P u v \<Longrightarrow> P u (work_input_mute e i v)"
  "P u v \<Longrightarrow> P u (work_settled v)" "P u v \<Longrightarrow> P u (work_ta_check v)"
  unfolding work_volume_def work_volume_aux_def work_balance_def work_eq_def work_phone_def
    work_input_mute_def work_settled_def work_ta_check_def send_main_volume_def
  by (intro walk steps calls interruptions update mixer_updateI; simp add: mixer_wf_def ta_start ta_back)+

lemma body: "P u v \<Longrightarrow> P u (audio_work_body e w v)"
  unfolding audio_work_body_def
  by (intro walk steps calls works active deactive active_update enter traffic interruptions
      update mixer_updateI; simp add: mixer_wf_def)

lemma latch: "P u v \<Longrightarrow> P u (if c then nap e 20 (Audio_SetMutePin 0
    (upd_audio (\<lambda>a. a\<lparr>mute_pin_latch := 0\<rparr>) v)) else v)"
  by (intro walk mute_pin update mixer_updateI; simp add: mixer_wf_def)

end
text \<open>Locks given back and the configuration untouched.\<close>

definition keeps_locks :: "head_unit \<Rightarrow> head_unit \<Rightarrow> bool" where
  "keeps_locks u v \<longleftrightarrow> cfg (shared v) = cfg (shared u) \<and>
     (\<forall>l. held l (trace (shared v)) = held l (trace (shared u)))"

lemma held_emit: "\<not> lock_event x \<Longrightarrow> held l (x # h) = held l h"
  using held_quiet [of "[x]"] by simp

lemma held_lock:
  "held l (Lock k # h) = held l h + of_bool (k = l)"
  "held l (Unlock k # h) = held l h - of_bool (k = l)"
  by (simp_all add: held_def)

lemma held_sleep: "held l (trace (msleep e d s)) = held l (trace s)" "cfg (msleep e d s) = cfg s"
  by (simp_all add: msleep_def Let_def held_emit)

lemmas held_ops = held_emit held_sleep op_defs Let_def

lemma keeps_tuner:
  "held l (trace (snd (Radio_Power p (r, s)))) = held l (trace s) \<and>
     cfg (snd (Radio_Power p (r, s))) = cfg s"
  "held l (trace (snd (ta_check_start (r, s)))) = held l (trace s) \<and>
     cfg (snd (ta_check_start (r, s))) = cfg s"
  "held l (trace (snd (ta_check_back (r, s)))) = held l (trace s) \<and>
     cfg (snd (ta_check_back (r, s))) = cfg s"
  by (simp_all add: Radio_Power_def ta_check_start_def ta_check_back_def radio_emit_def
      upd_radio_def held_ops)

lemma keeps_drive_power:
  "held l (trace (snd (snd (dvd_power e q (d, s))))) = held l (trace s) \<and>
     cfg (snd (snd (dvd_power e q (d, s)))) = cfg s"
  by (simp add: dvd_power_def dvd_poweroff_def cancel_works_def release_pins_def held_ops)

lemma keeps_drive_command:
  "held l (trace (snd (dvd_send_command c (d, s)))) = held l (trace s) \<and>
     cfg (snd (dvd_send_command c (d, s))) = cfg s"
proof -
  have parts: "held l (trace (snd (dvd_clear_selection (d, s)))) = held l (trace s) \<and>
      cfg (snd (dvd_clear_selection (d, s))) = cfg s"
    "held l (trace (snd (dvd_media_soon (d, s)))) = held l (trace s) \<and>
      cfg (snd (dvd_media_soon (d, s))) = cfg s"
    "held l (trace (snd (dvd_select_track c (d, s)))) = held l (trace s) \<and>
      cfg (snd (dvd_select_track c (d, s))) = cfg s" for c d
    by (simp_all add: dvd_clear_selection_def dvd_media_soon_def dvd_select_track_def
        dvd_add_work_def held_ops)
  have "held l (trace (snd (dvd_send_command_direct c (d, s)))) = held l (trace s) \<and>
      cfg (snd (dvd_send_command_direct c (d, s))) = cfg s" for c
    unfolding dvd_send_command_direct_def prod.case
    by (auto simp: parts dvd_add_work_def held_emit)
  then show ?thesis unfolding dvd_send_command_def prod.case Let_def by auto
qed

interpretation locks: mixer_relation keeps_locks
  by unfold_locales
     (simp_all add: keeps_locks_def upd_ucar_def held_ops keeps_tuner keeps_drive_power
      keeps_drive_command)

definition keeps_wf :: "head_unit \<Rightarrow> head_unit \<Rightarrow> bool" where
  "keeps_wf u v \<longleftrightarrow> (mixer_wf (audio u) \<longrightarrow> mixer_wf (audio v))"

interpretation wf: mixer_relation keeps_wf
  by unfold_locales (simp_all add: keeps_wf_def upd_ucar_def mixer_update_def)

definition mixer_keeps :: "head_unit \<Rightarrow> head_unit \<Rightarrow> bool" where
  "mixer_keeps u v \<longleftrightarrow> keeps_locks u v \<and> keeps_wf u v"

lemma audio_work_keeps: "mixer_keeps u (audio_work e w u)"
proof -
  let ?u = "log_event (Lock audio_lock) u"
  let ?v = "if audio_on (audio ?u) \<noteq> 0 \<and> mute_pin_latch (audio ?u) \<noteq> 0 then
      nap e 20 (Audio_SetMutePin 0 (upd_audio (\<lambda>a. a\<lparr>mute_pin_latch := 0\<rparr>) ?u)) else ?u"
  define b where "b = audio_work_body e w ?v"
  have "keeps_locks ?u b" unfolding b_def
    by (rule locks.body [OF locks.latch [OF locks.start]])
  moreover have "keeps_wf ?u b" unfolding b_def
    by (rule wf.body [OF wf.latch [OF wf.start]])
  moreover have "audio_work e w u = log_event (Unlock audio_lock) b"
    by (simp only: audio_work_def Let_def b_def)
  ultimately show ?thesis
    by (auto simp: mixer_keeps_def keeps_locks_def keeps_wf_def held_lock)
qed

interpretation aq: work_queue "\<lambda>w u. Some (audio_work e w u)" mixer_keeps for e
  by unfold_locales
     (auto simp: audio_work_keeps, auto simp: mixer_keeps_def keeps_locks_def keeps_wf_def)

text \<open>C22. Any sequence of works of the audio queue, whatever their numbers and whatever other
  threads do to the status during the sleeps, gives every lock back, leaves the configuration
  alone and keeps the flags of the mixer well-formed; from \<open>audio_init\<close> on they always are.\<close>

theorem mixer_always_wf:
  assumes "run_queue (\<lambda>w u. Some (audio_work e w u)) ws (audio_init u) = Some v"
  shows "mixer_wf (audio v) \<and> cfg (shared v) = cfg (shared u) \<and>
    (\<forall>l. held l (trace (shared v)) = held l (trace (shared u)))"
proof -
  have "mixer_wf (audio (audio_init u))"
    by (simp add: audio_init_def upd_ucar_def audio_0_def mixer_wf_def)
  with aq.run_keeps [OF assms] show ?thesis
    by (simp add: mixer_keeps_def keeps_locks_def keeps_wf_def audio_init_def upd_ucar_def)
qed

lemma mixer_always_wf_witness:
  "mixer_wf (audio (audio_work (undefined :: audio_env) \<lparr>cmd1 = 2, cmd2 = 1, cmd3 = 0, val1 = 0\<rparr>
     (audio_init undefined)))"
  using mixer_always_wf [of undefined "[\<lparr>cmd1 = 2, cmd2 = 1, cmd3 = 0, val1 = 0\<rparr>]" undefined] by simp

section \<open>What is sent\<close>

text \<open>The data of the commands \<open>c\<close> in a log, newest first.\<close>

fun sent :: "u32 \<Rightarrow> event list \<Rightarrow> u8 list list" where
  "sent c [] = []"
| "sent c (Arm_send_multi c' d # h) = (if c' = c then d # sent c h else sent c h)"
| "sent c (_ # h) = sent c h"

definition quiet_event :: "u32 \<Rightarrow> event \<Rightarrow> bool" where
  "quiet_event c x \<longleftrightarrow> sent c [x] = []"

lemma sent_quiet: "quiet_event c x \<Longrightarrow> sent c (x # h) = sent c h"
  by (cases x) (auto simp: quiet_event_def split: if_splits)

abbreviation (input) usent :: "u32 \<Rightarrow> head_unit \<Rightarrow> u8 list list" where
  "usent c u \<equiv> sent c (trace (shared u))"

lemma sent_sleep [simp]: "sent c (trace (msleep e d s)) = sent c (trace s)"
  by (simp add: msleep_def Let_def)

lemma sent_gpio [simp]: "sent c (trace (gpio_direction_output p b s)) = sent c (trace s)"
  by (simp add: gpio_direction_output_def)

lemma SetVolume_audio [simp]: "audio (snd (Audio_SetVolume v u)) = audio u"
  by (auto simp: Audio_SetVolume_def Func_set_volume_def Let_def split: prod.split)

lemma SetVolume_status [simp]: "car (shared (snd (Audio_SetVolume v u))) = car (shared u)"
  "cfg (shared (snd (Audio_SetVolume v u))) = cfg (shared u)"
  "ch_data (snd (Audio_SetVolume v u)) = ch_data u"
  "drive (snd (Audio_SetVolume v u)) = drive u" "tuner (snd (Audio_SetVolume v u)) = tuner u"
  by (auto simp: Audio_SetVolume_def Func_set_volume_def Let_def split: prod.split)

lemma SetVolume_other [simp]:
  "c \<noteq> 0x9000 \<Longrightarrow> usent c (snd (Audio_SetVolume v u)) = usent c u"
  by (auto simp: Audio_SetVolume_def Func_set_volume_def Let_def split: prod.split)

text \<open>The bytes of one volume command.\<close>

definition volume_bytes :: "u32 \<Rightarrow> head_unit \<Rightarrow> u8 list" where
  "volume_bytes v u =
     (let (v3, v2) = volume_levels (audio u) (ucar u) (ucfg u);
          n = ucast (attenuation v3) + v
      in if v = 60 then [255, 255]
         else [if n > 0xCF then 255 else ucast n, if v = 0 then attenuation v2 else 255])"

lemma SetVolume_sent:
  assumes "v \<le> 60" and "muted (audio u) \<noteq> 1"
  shows "usent 0x9000 (snd (Audio_SetVolume v u)) = volume_bytes v u # usent 0x9000 u"
  using assms
  by (auto simp: Audio_SetVolume_def Func_set_volume_def volume_bytes_def Let_def not_less [symmetric]
      split: prod.split)

lemma SetVolume_result: "v \<le> 60 \<Longrightarrow> fst (Audio_SetVolume v u) = v"
  by (auto simp: Audio_SetVolume_def Let_def not_less [symmetric] split: prod.split)

lemma volume_60: "volume_bytes 60 u = [255, 255]"
  by (simp add: volume_bytes_def split_def)

section \<open>Volume\<close>

lemma gain_le: "gain v \<le> 153"
proof -
  have "unat v \<le> 255" using unat_u8 [of v] by simp
  then have "unat (60 * (ucast v + 1) :: u32) = 60 * (unat v + 1)"
    by (simp add: unat_word_ariths unsigned_ucast_eq take_bit_eq_mod)
  then have "unat ((60 * (ucast v + 1)) div 100 :: u32) = 60 * (unat v + 1) div 100"
    by (simp add: unat_div)
  with \<open>unat v \<le> 255\<close> have "unat ((60 * (ucast v + 1)) div 100 :: u32) \<le> 153" by simp
  then have "(60 * (ucast v + 1)) div 100 \<le> (153 :: u32)" by (simp add: word_le_nat_alt)
  moreover have "gain v \<le> (60 * (ucast v + 1)) div 100"
    unfolding gain_def by (rule word_and_le2)
  ultimately show ?thesis by (rule order_trans [rotated])
qed

lemma android_level_le: "android_level src v \<le> 161"
proof -
  have "gain v + 8 \<le> 161" using gain_le [of v] by unat_arith
  then show ?thesis by (simp add: android_level_def)
qed

lemma less_level: "(g :: u32) \<le> 153 \<Longrightarrow> k \<le> 12 \<Longrightarrow> k \<le> g \<Longrightarrow> g - k \<le> 161"
  by unat_arith

lemma source_level_le: "source_level a c \<le> 161"
proof -
  have "gain (vol_main a) \<le> 161" using gain_le [of "vol_main a"] by unat_arith
  moreover have "gain (vol_main a) - 12 \<le> 161" if "\<not> gain (vol_main a) \<le> 0xB"
    using gain_le [of "vol_main a"] that by unat_arith
  ultimately show ?thesis by (simp add: source_level_def Let_def)
qed

lemma lowered_le:
  assumes "(v :: u32) \<le> 161" and "\<not> b > 0xA"
  shows "((11 - ucast (b :: u8)) * v) div 0xB \<le> 161"
proof -
  have b: "unat b \<le> 10" using assms(2) by (simp add: not_less word_le_nat_alt)
  then have k: "unat (11 - ucast b :: u32) = 11 - unat b"
    by (simp add: unat_sub word_le_nat_alt unsigned_ucast_eq take_bit_eq_mod)
  have v: "unat v \<le> 161" using assms(1) by (simp add: word_le_nat_alt)
  have d: "(11 - unat b) * unat v \<le> 11 * unat v" by (rule mult_right_mono) simp_all
  then have d': "(11 - unat b) * unat v div 11 \<le> unat v" by linarith
  from d v have "(11 - unat b) * unat v < 4294967296" by linarith
  then have "unat (11 - ucast b :: u32) * unat v < 2 ^ LENGTH(32)" unfolding k by simp
  then have "unat ((11 - ucast b) * v :: u32) = unat (11 - ucast b :: u32) * unat v"
    by (rule iffD1 [OF unat_mult_lem])
  then have "unat ((11 - ucast b) * v :: u32) = (11 - unat b) * unat v" unfolding k .
  with d' v have "unat (((11 - ucast b) * v) div 0xB :: u32) \<le> 161"
    by (simp add: unat_div)
  then show ?thesis by (simp add: word_le_nat_alt)
qed

lemma volume_levels_le:
  "fst (volume_levels a c cf) \<le> 161" "snd (volume_levels a c cf) \<le> 161"
proof -
  have low: "fst (camera_lowered c (x, y)) \<le> 161 \<and> snd (camera_lowered c (x, y)) \<le> 161"
    if "x \<le> 161" "y \<le> 161" for x y
    using that by (simp add: camera_lowered_def Let_def lowered_le)
  have g: "gain v \<le> 161" for v using gain_le [of v] by unat_arith
  have g4: "gain v - 4 \<le> 161" if "gain v > 3" for v using gain_le [of v] that by unat_arith
  have "fst (volume_levels a c cf) \<le> 161 \<and> snd (volume_levels a c cf) \<le> 161"
    unfolding volume_levels_def Let_def
    by (simp add: low g g4 android_level_le source_level_le)
  then show "fst (volume_levels a c cf) \<le> 161" "snd (volume_levels a c cf) \<le> 161" by auto
qed

text \<open>The attenuation of a level does not wrap: it is silence or lies between 28 and 188.\<close>

lemma attenuation_range:
  assumes "v \<le> 161"
  shows "attenuation v = 255 \<or> 28 \<le> attenuation v \<and> attenuation v \<le> 188"
proof (cases "v = 0")
  case False
  then have "unat v \<noteq> 0" by (simp add: unat_eq_0)
  from assms have v: "unat v \<le> 161" by (simp add: word_le_nat_alt)
  then have r: "unat (- 67 - v :: u32) = 4294967229 - unat v"
    by (simp add: unat_sub word_le_nat_alt)
  have "unat (ucast (- 67 - v) :: u8) = unat (- 67 - v) mod 256"
    by (simp add: unsigned_ucast_eq take_bit_eq_mod)
  also have "\<dots> = (189 - unat v + 256 * 16777215) mod 256"
    unfolding r using v by (intro arg_cong [of _ _ "\<lambda>n. n mod 256"]) linarith
  also have "\<dots> = (189 - unat v) mod 256" by (rule mod_mult_self2)
  also have "\<dots> = 189 - unat v" by simp
  finally have "unat (ucast (- 67 - v) :: u8) = 189 - unat v" .
  moreover have "28 \<le> 189 - unat v \<and> 189 - unat v \<le> 188"
    using v \<open>unat v \<noteq> 0\<close> by linarith
  ultimately show ?thesis using False
    by (simp add: attenuation_def word_le_nat_alt)
qed (simp add: attenuation_def)

lemma volume_bytes_range:
  assumes "v \<le> 60"
  shows "\<exists>b1 b2. volume_bytes v u = [b1, b2] \<and> (b1 = 255 \<or> 28 \<le> b1 \<and> b1 \<le> 207) \<and>
    (b2 = 255 \<or> 28 \<le> b2 \<and> b2 \<le> 188)"
proof -
  obtain v3 v2 where l: "volume_levels (audio u) (ucar u) (ucfg u) = (v3, v2)" by fastforce
  then have "v3 \<le> 161" "v2 \<le> 161"
    using volume_levels_le [of "audio u" "ucar u" "ucfg u"] by simp_all
  note a = attenuation_range [OF this(1)] attenuation_range [OF this(2)]
  have n: "28 \<le> (ucast (ucast b + v :: u32) :: u8) \<and> (ucast (ucast b + v :: u32) :: u8) \<le> 207"
    if "\<not> ucast b + v > 0xCF" "28 \<le> b" for b :: u8
  proof -
    have "unat (ucast b + v) = unat b + unat v"
      using assms unat_u8 [of b]
      by (simp add: unat_word_ariths(1) unsigned_ucast_eq take_bit_eq_mod word_le_nat_alt)
    with that show ?thesis
      by (simp add: unsigned_ucast_eq take_bit_eq_mod word_le_nat_alt not_less)
  qed
  show ?thesis
  proof (cases "ucast (attenuation v3) + v > 0xCF")
    case True
    with a show ?thesis by (simp add: volume_bytes_def l Let_def)
  next
    case False
    moreover have "28 \<le> attenuation v3" using a(1) by auto
    ultimately show ?thesis using a(2) n [of "attenuation v3"]
      by (simp add: volume_bytes_def l Let_def)
  qed
qed

text \<open>C31. A volume command carries two attenuations that never wrap: for every state and every
  step of a fade each is 255, silence, or lies between 28 and 207; a muted mixer and a step above
  60 send nothing.\<close>

theorem volume_command_bounds:
  "shared (snd (Audio_SetVolume v u)) =
     (if v > 60 \<or> muted (audio u) = 1 then shared u
      else emit (Arm_send_multi 0x9000 (volume_bytes v u)) (shared u)) \<and>
   (v > 60 \<or> (\<exists>b1 b2. volume_bytes v u = [b1, b2] \<and> (b1 = 255 \<or> 28 \<le> b1 \<and> b1 \<le> 207) \<and>
      (b2 = 255 \<or> 28 \<le> b2 \<and> b2 \<le> 188)))"
proof -
  have "v > 60 \<or> v \<le> 60" by auto
  then show ?thesis using volume_bytes_range [of v u]
    by (auto simp: Audio_SetVolume_def Func_set_volume_def volume_bytes_def Let_def
        split: prod.split)
qed

lemma volumes_fade_in:
  assumes "muted (audio u) \<noteq> 1" and "\<forall>v \<in> set vs. v \<le> 60"
  shows "length (usent 0x9000 (fade_in e vs u)) = length vs + length (usent 0x9000 u)"
  using assms by (induction vs arbitrary: u) (simp_all add: SetVolume_sent)

lemma muted_enable: "isAudioEnable u \<Longrightarrow> muted (audio u) \<noteq> 1"
  by (auto simp: isAudioEnable_def Let_def)

lemma FadeOut_steps:
  "Audio_FadeOut e u =
     (if mute_all (audio u) = 1 then u
      else if mtc_customer (ucar u) = customer_AM then set_volume 60 u
      else set_volume 5 (nap e 15 (set_volume 0 u)))"
proof -
  have "fade_out e fade_steps u = set_volume 5 (nap e 15 (set_volume 0 u))"
    by (simp add: fade_steps_def split_def SetVolume_result)
  then show ?thesis by (simp add: Audio_FadeOut_def)
qed

text \<open>The fade in sends thirteen volume commands, the fade out, which is written as the same
  thirteen steps, only two: it ends as soon as \<open>Audio_SetVolume\<close> returns the step it was given,
  and is still audible then. (Customer AM has no fades.)\<close>

theorem fade_out_breaks_off:
  assumes "mtc_customer (ucar u) \<noteq> customer_AM" and "isAudioEnable u" and "mute_all (audio u) \<noteq> 1"
  shows "length (usent 0x9000 (Audio_FadeIn e u)) = 13 + length (usent 0x9000 u) \<and>
    usent 0x9000 (Audio_FadeOut e u) =
      volume_bytes 5 (nap e 15 (set_volume 0 u)) # volume_bytes 0 u # usent 0x9000 u"
  using assms muted_enable [OF assms(2)]
  by (simp add: FadeOut_steps SetVolume_sent Audio_FadeIn_def volumes_fade_in fade_steps_def)

text \<open>A unit to try things on: a running mixer at volume 10 on the given channel.\<close>

definition unit_on :: "u8 \<Rightarrow> head_unit" where
  "unit_on ch = \<lparr>audio = audio_0\<lparr>audio_ch := ch, vol_main := 10, audio_on := 1\<rparr>,
     ch_data = [14, 0, 12, 10, 20, 10, 6, 0, 14, 0, 0, 0], tuner = undefined, drive = undefined,
     shared = upd_car (\<lambda>c. c\<lparr>audio_ready := 1\<rparr>) sys_0\<rparr>"

definition plain_env :: audio_env where
  "plain_env = \<lparr>unit_env = taking_mcu, past_sel = (\<lambda>_. 0), past_data = (\<lambda>_. 0),
     codec_result = (\<lambda>_. 0)\<rparr>"

lemmas unit_on_defs = unit_on_def audio_0_def sys_0_def car_0_def upd_car_def

lemma fade_out_breaks_off_witness:
  "usent 0x9000 (Audio_FadeOut plain_env (unit_on 3)) =
     volume_bytes 5 (nap plain_env 15 (set_volume 0 (unit_on 3))) # [[183, 255]]"
  using fade_out_breaks_off [of "unit_on 3" plain_env]
  by (simp add: unit_on_defs isAudioEnable_def volume_bytes_def volume_levels_def source_level_def
      volume_channel_def android_level_def attenuation_def gain_def camera_lowered_def)

text \<open>The volume shown by the MCU has four values and does not follow the setting.\<close>

lemma shown_volume_coarse:
  "mtcGetSetVolume m v \<le> 3" "mtcGetSetVolume 30 3 = 3" "mtcGetSetVolume 30 4 = 0"
proof -
  have "(w :: u8) div 64 \<le> 3" for w
    using unat_u8 [of w] by (simp add: word_le_nat_alt unat_div)
  then show "mtcGetSetVolume m v \<le> 3" by (simp add: mtcGetSetVolume_def Let_def)
qed (simp_all add: mtcGetSetVolume_def)

text \<open>The middle of the balance is sent as 13, not as half of its 15.\<close>

lemma balance_place_middle: "balance_place 14 = 13"
  by (simp add: balance_place_def HIDWORD_def Let_def)

section \<open>Channels\<close>

text \<open>Calls that send neither a volume nor a channel.\<close>

definition vol_or_ch :: "u32 \<Rightarrow> bool" where
  "vol_or_ch c \<longleftrightarrow> c = 0x9000 \<or> c = 0x9004"

lemma vol_or_ch [simp]: "vol_or_ch 0x9000" "vol_or_ch 0x9004"
  by (simp_all add: vol_or_ch_def)

lemma sent_mic [simp]: "usent c (btMicControl u) = usent c u" "audio (btMicControl u) = audio u"
  by (simp_all add: btMicControl_def)

lemma sent_ucar [simp]: "usent c (upd_ucar f u) = usent c u" "audio (upd_ucar f u) = audio u"
  "cfg (shared (upd_ucar f u)) = cfg (shared u)" "ch_data (upd_ucar f u) = ch_data u"
  by (simp_all add: upd_ucar_def)

lemma sleep_cfg [simp]: "cfg (msleep e d s) = cfg s"
  by (simp add: held_sleep)

lemma gpio_cfg [simp]: "cfg (gpio_direction_output p b s) = cfg s"
  by (simp add: gpio_direction_output_def)

lemma report_mute_parts [simp]: "audio (report_mute u) = audio u" "ch_data (report_mute u) = ch_data u"
  "cfg (shared (report_mute u)) = cfg (shared u)" "vol_or_ch c \<Longrightarrow> usent c (report_mute u) = usent c u"
  "car (shared (report_mute u)) = car (shared u)"
  by (auto simp: report_mute_def Let_def vol_or_ch_def)

lemma Channel_parts [simp]: "audio (Audio_Channel e ch u) = audio u"
  "ch_data (Audio_Channel e ch u) = ch_data u" "cfg (shared (Audio_Channel e ch u)) = cfg (shared u)"
  "usent 0x9000 (Audio_Channel e ch u) = usent 0x9000 u" "car (shared (Audio_Channel e ch u)) = car (shared u)"
  by (simp_all add: Audio_Channel_def Func_set_channel_def Let_def)

lemma FadeOut_parts [simp]: "audio (Audio_FadeOut e u) = audio u"
  "ch_data (Audio_FadeOut e u) = ch_data u" "cfg (shared (Audio_FadeOut e u)) = cfg (shared u)"
  "c \<noteq> 0x9000 \<Longrightarrow> usent c (Audio_FadeOut e u) = usent c u"
  by (simp_all add: FadeOut_steps)

lemma MutePin_parts [simp]: "ch_data (Audio_SetMutePin p u) = ch_data u"
  "cfg (shared (Audio_SetMutePin p u)) = cfg (shared u)"
  "vol_or_ch c \<Longrightarrow> usent c (Audio_SetMutePin p u) = usent c u"
  "audio_ch (audio (Audio_SetMutePin p u)) = audio_ch (audio u)"
  "muted (audio (Audio_SetMutePin p u)) = muted (audio u)"
  "switch_mute (audio (Audio_SetMutePin p u)) = switch_mute (audio u)"
  "input_mute (audio (Audio_SetMutePin p u)) = input_mute (audio u)"
  by (auto simp: Audio_SetMutePin_def vol_or_ch_def)

lemma Radio_Power_parts [simp]:
  "vol_or_ch c \<Longrightarrow> sent c (trace (snd (Radio_Power p (r, s)))) = sent c (trace s)"
  "cfg (snd (Radio_Power p (r, s))) = cfg s"
  by (auto simp: Radio_Power_def radio_emit_def upd_radio_def Let_def vol_or_ch_def)

lemma dvd_power_parts [simp]:
  "vol_or_ch c \<Longrightarrow> sent c (trace (snd (snd (dvd_power e q (d, s))))) = sent c (trace s)"
  "cfg (snd (snd (dvd_power e q (d, s)))) = cfg s"
  by (auto simp: dvd_power_def dvd_poweroff_def cancel_works_def release_pins_def op_defs Let_def
      vol_or_ch_def)

lemma dvd_send_command_parts [simp]:
  "sent c (trace (snd (dvd_send_command x (d, s)))) = sent c (trace s)"
  "cfg (snd (dvd_send_command x (d, s))) = cfg s"
proof -
  have parts: "sent c (trace (snd (dvd_clear_selection (d, s)))) = sent c (trace s)"
    "sent c (trace (snd (dvd_media_soon (d, s)))) = sent c (trace s)"
    "sent c (trace (snd (dvd_select_track x (d, s)))) = sent c (trace s)" for x d
    by (simp_all add: dvd_clear_selection_def dvd_media_soon_def dvd_select_track_def
        dvd_add_work_def Let_def)
  have "sent c (trace (snd (dvd_send_command_direct x (d, s)))) = sent c (trace s)" for x
    unfolding dvd_send_command_direct_def prod.case by (auto simp: parts dvd_add_work_def)
  then show "sent c (trace (snd (dvd_send_command x (d, s)))) = sent c (trace s)"
    unfolding dvd_send_command_def prod.case Let_def by auto
  show "cfg (snd (dvd_send_command x (d, s))) = cfg s" by (simp add: keeps_drive_command)
qed

lemma source_parts [simp]:
  "audio (source_on e ch u) = audio u" "ch_data (source_on e ch u) = ch_data u"
  "vol_or_ch c \<Longrightarrow> usent c (source_on e ch u) = usent c u"
  "cfg (shared (source_on e ch u)) = cfg (shared u)"
  "audio (drive_off e u) = audio u" "vol_or_ch c \<Longrightarrow> usent c (drive_off e u) = usent c u"
  by (auto simp: source_on_def drive_off_def vol_or_ch_def)

lemma switch_off_parts:
  "audio_ch (audio (switch_off e old v u)) = audio_ch (audio u)"
  "muted (audio (switch_off e old v u)) = muted (audio u)"
  "switch_mute (audio (switch_off e old v u)) = switch_mute (audio u)"
  "input_mute (audio (switch_off e old v u)) = input_mute (audio u)"
  "vol_or_ch c \<Longrightarrow> usent c (switch_off e old v u) = usent c u"
  by (auto simp: switch_off_def Let_def vol_or_ch_def split: prod.split)

lemma settles_iff: "settles ch \<longleftrightarrow> ch \<in> {ch_dvd, ch_fm, ch_dtv}"
proof -
  have "ucast ch - 4 \<ge> (1 :: u32) \<and> ucast ch - 4 \<noteq> (1 :: u32) \<longleftrightarrow> ch \<noteq> 4 \<and> ch \<noteq> 5"
  proof -
    have "ucast ch - 4 = (k :: u32) \<longleftrightarrow> ucast ch = k + 4" for k by (auto simp: eq_diff_eq)
    moreover have "ucast ch = (of_nat n :: u32) \<longleftrightarrow> ch = of_nat n" if "n < 256" for n
      using that unat_u8 [of ch]
      by (auto simp: word_unat_eq_iff unsigned_ucast_eq take_bit_eq_mod unat_of_nat)
    from this [of 4] this [of 5] have "ucast ch = (4 :: u32) \<longleftrightarrow> ch = 4" "ucast ch = (5 :: u32) \<longleftrightarrow> ch = 5"
      by simp_all
    ultimately show ?thesis by (simp add: word_le_nat_alt unat_gt_0 Suc_le_eq)
  qed
  then show ?thesis by (auto simp: settles_def Let_def)
qed

text \<open>The entry of a channel in the tables of the mixer.\<close>

definition channel_entry :: "audio_env \<Rightarrow> head_unit \<Rightarrow> u8 \<Rightarrow> u8 list" where
  "channel_entry e u ch =
     (let i = (if ch = 0 \<and> own_path (ucfg u) then 1 else uint ch) in [sel_at e i, data_at e u i])"

lemma Channel_sent: "usent 0x9004 (Audio_Channel e ch u) = channel_entry e u ch # usent 0x9004 u"
  by (simp add: Audio_Channel_def Func_set_channel_def channel_entry_def Let_def)

lemma channel_entry_cong:
  "ch_data u = ch_data v \<Longrightarrow> cfg (shared u) = cfg (shared v) \<Longrightarrow>
     channel_entry e u ch = channel_entry e v ch"
  by (simp add: channel_entry_def data_at_def Let_def)

lemma switch_on_parts:
  "audio_ch (audio (switch_on e old new b v8 u)) = new"
  "muted (audio (switch_on e old new True v8 u)) = 0"
  "switch_mute (audio (switch_on e old new b v8 u)) = of_bool (settles new)"
  "input_mute (audio (switch_on e old new b v8 u)) = of_bool (settles new)"
  "usent 0x9004 (switch_on e old new b v8 u) = channel_entry e u new # usent 0x9004 u"
  by (simp_all add: switch_on_def Let_def Channel_sent cong: if_cong)
     (auto intro: channel_entry_cong)

text \<open>Entering another channel while nothing interrupts: the channel becomes the current one,
  the mixer is not muted, the input is held silent exactly for the sources that need to settle
  (DVD, FM and DTV), and the MCU was told that channel, once.\<close>

theorem enter_channel_switches:
  assumes "ch_sel_mode (audio u) \<noteq> 4" and "audio_ch (audio u) \<noteq> ch"
    and "ch_mode (ucar u) = 0" and "ajx_active (ucar u) = 0" and "ch_status (ucar u) = 0"
    and "\<not> (own_path (ucfg u) \<and> {audio_ch (audio u), ch} = {0, ch_sys})"
    and "v = Audio_EnterChannel e ch True u"
  shows "audio_ch (audio v) = ch \<and> muted (audio v) = 0 \<and>
    switch_mute (audio v) = of_bool (ch \<in> {ch_dvd, ch_fm, ch_dtv}) \<and>
    input_mute (audio v) = of_bool (ch \<in> {ch_dvd, ch_fm, ch_dtv}) \<and>
    usent 0x9004 v = channel_entry e u ch # usent 0x9004 u"
proof -
  have "v = switch_channel e (audio_ch (audio u)) ch True u"
    using assms by (auto simp: Audio_EnterChannel_def enter_from_def Let_def)
  then show ?thesis
    by (simp add: switch_channel_def Let_def switch_off_parts switch_on_parts settles_iff)
qed

lemma enter_channel_switches_witness:
  "audio_ch (audio (Audio_EnterChannel plain_env 4 True (unit_on 3))) = 4 \<and>
   usent 0x9004 (Audio_EnterChannel plain_env 4 True (unit_on 3)) = [[0x8A, 20]]"
  using enter_channel_switches [of "unit_on 3" 4 _ plain_env]
  by (simp add: unit_on_defs own_path_def channel_entry_def sel_at_def data_at_def ChannelSel_def)

text \<open>While the phone, the auxiliary input or a traffic announcement is heard, choosing another
  source switches the drive off but leaves it the current channel. Choosing the drive again does
  nothing then: it stays off.\<close>

theorem drive_off_but_current:
  assumes "ch_sel_mode (audio u) \<noteq> 4" and "audio_ch (audio u) = ch_dvd" and "ch \<noteq> ch_dvd"
    and "ch_mode (ucar u) \<noteq> 0 \<or> ajx_active (ucar u) \<noteq> 0 \<or> ch_status (ucar u) \<noteq> 0"
    and "v = Audio_EnterChannel e ch True u"
  shows "audio_ch (audio v) = ch_dvd \<and> \<not> dvd_power_on (drive v) \<and>
    Audio_EnterChannel e ch_dvd True v = v"
proof -
  have v: "v = drive_off e (nap e 500 u)"
    using assms by (auto simp: Audio_EnterChannel_def enter_from_def leave_channel_def Let_def)
  then have "\<not> dvd_power_on (drive v)"
    by (simp add: drive_off_def dvd_power_def dvd_poweroff_def Let_def)
  moreover have "audio v = audio u" using v by simp
  ultimately show ?thesis using assms(1,2) by (simp add: Audio_EnterChannel_def)
qed

lemma drive_off_but_current_witness:
  "\<not> dvd_power_on (drive (Audio_EnterChannel plain_env 4 True
     (upd_ucar (\<lambda>c. c\<lparr>ch_mode := 3\<rparr>) (unit_on 2))))"
  using drive_off_but_current [of "upd_ucar (\<lambda>c. c\<lparr>ch_mode := 3\<rparr>) (unit_on 2)" 4 _ plain_env]
  by (simp add: unit_on_defs upd_ucar_def on_sys_def)

section \<open>Phone\<close>

text \<open>When a call ends the mixer is left silent: the last volume the MCU was told is silence
  for both sources, because the volume is only restored while the mixer is muted, and then
  nothing is sent.\<close>

theorem hangup_leaves_silence:
  assumes "ajx_active (ucar u) = 0" and "muted (audio u) = 0"
  shows "usent 0x9000 (Audio_PhoneChannel e 0 u) = [255, 255] # usent 0x9000 u \<and>
    audio (Audio_PhoneChannel e 0 u) = audio u"
proof -
  have "usent 0x9000 (set_volume 60 u) = [255, 255] # usent 0x9000 u"
    using assms(2) by (simp add: SetVolume_sent volume_60)
  then show ?thesis using assms by (simp add: Audio_PhoneChannel_def Let_def)
qed

lemma hangup_leaves_silence_witness:
  "usent 0x9000 (Audio_PhoneChannel plain_env 0 (upd_ucar (\<lambda>c. c\<lparr>ch_mode := 3\<rparr>) (unit_on 4))) =
     [[255, 255]]"
  using hangup_leaves_silence [of "upd_ucar (\<lambda>c. c\<lparr>ch_mode := 3\<rparr>) (unit_on 4)" plain_env]
  by (simp add: unit_on_defs upd_ucar_def on_sys_def)

section \<open>Settling\<close>

lemma radio_level:
  assumes "ajx_active c = 0" and "ch_mode c = 0" and "ch_status c = 0"
    and "cam_state c = 0" and "av_gps_monitor c = 0" and "act_bit2 a = 0" and "act_bit3 a = 0"
    and "ch_sel_mode a \<noteq> 4" and "settles (audio_ch a)"
  shows "fst (volume_levels a c cf) =
    (if input_mute a = 1 \<or> switch_mute a = 1 then 0 else gain (vol_main a))"
  using assms
  by (auto simp: volume_levels_def volume_channel_def source_level_def camera_lowered_def
      settles_iff Let_def)

lemma volume_bytes_0:
  "volume_bytes 0 u = [attenuation (fst (volume_levels (audio u) (ucar u) (ucfg u))),
     attenuation (snd (volume_levels (audio u) (ucar u) (ucfg u)))]"
proof -
  obtain v3 v2 where l: "volume_levels (audio u) (ucar u) (ucfg u) = (v3, v2)" by fastforce
  have "v3 \<le> 161" using volume_levels_le(1) [of "audio u" "ucar u" "ucfg u"] l by simp
  then have "attenuation v3 = 255 \<or> attenuation v3 \<le> 188"
    using attenuation_range by blast
  moreover have "\<not> ucast b > (0xCF :: u32)" if "b \<le> 188" for b :: u8
    using that by (simp add: word_le_nat_alt word_less_nat_alt unsigned_ucast_eq take_bit_eq_mod)
  moreover have "ucast (ucast b :: u32) = b" for b :: u8
    by (rule bit_word_eqI) (simp add: bit_simps)
  ultimately show ?thesis by (auto simp: volume_bytes_def l)
qed

text \<open>C23. A source that is still settling is silent, and the work that \<open>audio_channel_switch_unmute\<close>
  queues for it makes it heard: when it has run, the next volume command carries the level of
  the volume setting. The source is the DVD, FM or DTV, with no overlay over it (\<open>ch_sel_mode\<close> is
  not 4); the mixer is on, not muted and its mute pin not latched; no phone call (\<open>ch_mode\<close>),
  auxiliary input (\<open>ajx_active\<close>) or traffic announcement (\<open>ch_status\<close>) is heard, the reverse
  camera is off (\<open>cam_state\<close>), \<open>av_gps_monitor\<close> is zero, and so are \<open>act_bit2\<close> and \<open>act_bit3\<close>, by
  which Android tells that other applications play.\<close>

theorem settled_source_heard:
  assumes "audio_channel_switch_unmute e u = [(delay, w)]"
    and "audio_on (audio u) \<noteq> 0" and "muted (audio u) = 0" and "mute_pin_latch (audio u) = 0"
    and "ajx_active (ucar u) = 0" and "ch_mode (ucar u) = 0" and "ch_status (ucar u) = 0"
    and "cam_state (ucar u) = 0" and "av_gps_monitor (ucar u) = 0"
    and "act_bit2 (audio u) = 0" and "act_bit3 (audio u) = 0"
    and "ch_sel_mode (audio u) \<noteq> 4" and "settles (audio_ch (audio u))"
  shows "hd (volume_bytes 0 u) = 255 \<and>
    (\<exists>b. usent 0x9000 (audio_work e w u) =
       [attenuation (gain (vol_main (audio u))), b] # usent 0x9000 u)"
proof -
  from assms(1) have sm: "switch_mute (audio u) = 1" and w: "cmd1 w = 26"
    by (auto simp: audio_channel_switch_unmute_def audio_add_work_delay_def Let_def split: if_splits)
  note level = radio_level [OF assms(5-13)]
  define v where "v = upd_audio (\<lambda>a. a\<lparr>switch_mute := 0, input_mute := 0\<rparr>)
    (log_event (Lock audio_lock) u)"
  have "audio_work e w u = log_event (Unlock audio_lock) (set_volume 0 v)"
    using assms(2-4) sm w
    by (simp add: audio_work_def audio_work_body_def work_settled_def v_def Let_def)
  moreover have "muted (audio v) \<noteq> 1" using assms(3) by (simp add: v_def)
  ultimately have "usent 0x9000 (audio_work e w u) = volume_bytes 0 v # usent 0x9000 u"
    by (simp add: SetVolume_sent) (simp add: v_def)
  moreover have "fst (volume_levels (audio v) (ucar v) (ucfg v)) = gain (vol_main (audio u))"
    using assms(5-13) by (subst radio_level) (simp_all add: v_def)
  ultimately show ?thesis
    by (simp add: volume_bytes_0 level sm) (simp add: attenuation_def)
qed

lemma settled_source_heard_witness:
  "let u = upd_audio (\<lambda>a. a\<lparr>switch_mute := 1, input_mute := 1\<rparr>) (unit_on 4) in
   hd (volume_bytes 0 u) = 255 \<and>
   (\<exists>b. usent 0x9000 (audio_work plain_env \<lparr>cmd1 = 26, cmd2 = 0, cmd3 = 0, val1 = 0\<rparr> u) =
      [attenuation (gain (vol_main (audio u))), b] # usent 0x9000 u)"
  unfolding Let_def
  by (rule settled_source_heard [where delay = 0])
     (simp_all add: unit_on_defs settles_iff plain_env_def audio_channel_switch_unmute_def
      audio_add_work_delay_def taking_mcu_def with_pins_def)

end
