(* ===== verification/Camera_Tables.thy ===== *)
theory Camera_Tables
  imports Mtc_Prelude
begin

text \<open>
  The register tables of backview.c: pages of the T132B decoder with their masks, and the
  sequences of the ADV7181D, triples of device, register and value that end with a device 0xFF.
  The first table runs on into the data behind it, which \<open>video_Channel\<close> reads as the channel
  commands of each video mode.
\<close>

definition P2_S_MASK_0 :: "u8 list" where
  "P2_S_MASK_0 = [
    1, 0, 0, 0, 0, 0, 0, 0, 0, 0, 0, 0, 0, 0, 0, 0, 0, 0, 0, 0, 0, 0, 0, 0, 1, 1, 1, 1, 0,
    0, 0, 0, 0, 0, 0, 0, 0, 0, 0, 0, 0, 0, 0, 0, 0, 0, 0, 0, 0, 0, 0, 0, 0, 0, 0, 0, 0, 0,
    0, 0, 0, 0, 0, 0, 0, 0, 0, 0, 0, 0, 0, 0, 0, 0, 0, 0, 0, 0, 0, 0, 0, 0, 0, 0, 0, 0, 0,
    0, 0, 0, 0, 0, 0, 0, 0, 0, 0, 0, 0, 0, 0, 0, 0, 0, 0, 0, 0, 0, 0, 0, 0, 0, 0, 0, 0, 0,
    0, 0, 0, 0, 0, 0, 0, 0, 0, 0, 0, 0, 0, 0, 0, 0, 0, 0, 0, 0, 0, 0, 0, 0, 0, 0, 0, 0, 0,
    0, 0, 0, 0, 0, 0, 0, 0, 0, 0, 0, 0, 0, 0, 0, 0x32, 0x0B, 0x4B, 2, 0xDD, 0x32, 0x0A,
    0x20, 0x60, 0x26, 0x60, 0, 0x80, 3, 0x37, 0x2C, 0x2A, 0x89, 6, 0x82, 0x40, 0x64, 0x74,
    0x87, 0x2A, 0x0A, 0x7C, 0x1F, 0x20, 0, 0, 0, 0, 0x0B, 0x4B, 0, 0xDD, 0x32, 0x0A, 0x20,
    0x60, 0x25, 0x70, 0, 0x80, 3, 0x37, 0x2C, 0x2A, 0x89, 6, 0x82, 0x40, 0x64, 0x74, 0x87,
    0x21, 0xF0, 0x7C, 0x1F, 0x20, 0, 0, 0, 4, 0, 0, 0, 0, 0, 0, 0, 0, 0, 0, 0, 0, 0, 0, 0,
    0, 0, 0, 0, 0, 0, 0, 0, 0x21, 0xE6, 0xEF, 0xA3, 0, 0, 0, 0, 0x36, 0, 0, 0, 0, 0, 0, 0,
    0, 0, 0, 0, 0, 0, 0, 0, 0, 0, 0, 0, 0, 0, 0, 0, 0x21, 0xF6, 0x94, 0x46, 0, 0, 0, 0,
    0x38, 0, 0, 0, 0, 0, 0, 0, 0, 0, 0, 0, 0, 0, 0, 0, 0, 0, 0, 0, 0, 0, 0, 0, 0x28, 0xA3,
    0x3B, 0xB2, 0, 0, 0, 0, 0, 0x0E, 0, 0, 0x2F, 0, 0, 0x28, 0x28, 0x28, 0x60, 0x60, 0x60,
    0x28, 0x48, 0x20, 0x28, 0x98, 6, 8, 0xD1, 0x5A, 0xF3, 0x48, 0x15, 0x24, 2, 0, 0xF0, 0,
    0xFF, 3, 0, 0, 0, 0, 0, 0, 4, 0x40, 0, 0, 0, 0, 0, 0, 0, 0, 0x82, 0x90, 0, 0, 0, 0xBC,
    0x34, 0x40, 0, 0x10, 0, 0, 0, 0, 0x10, 0x1C]"

definition P2_S_MASK_1 :: "u8 list" where
  "P2_S_MASK_1 = [
    0xC0, 2, 0, 1, 0, 0x10, 1, 0, 0xD0, 2, 0xE0, 1, 0x10, 0, 5, 0, 0, 0, 0, 0, 0xD4, 2,
    0xF0, 0, 0x7E, 0xD6, 5, 1, 2, 0, 0, 0, 0, 0x88, 4, 4, 3, 8, 8, 0, 0x80, 0x80, 0, 0x7F,
    0x80, 0, 0xEB, 0, 0x20, 0x1C, 0xC9, 0x1F, 0, 0x10, 0, 0, 0, 8, 0, 0, 0, 0x10, 0x80,
    0x80, 0, 0x14, 0x82, 0, 0xC7, 5, 0, 0, 0, 0, 0, 0, 0, 0, 0, 0, 5, 4, 0x3B, 0, 0, 0x10,
    0, 0x95, 0xCC, 0x64, 0xD0, 0x81, 1, 0x10, 0x80, 0x80, 0, 0, 0, 0, 0, 0, 0, 0, 0, 0, 0,
    0, 0, 0, 0, 0, 0x20, 0, 0x25, 0, 0xD0, 2, 0xE0, 1, 0x58, 3, 7, 1, 0x10, 0, 3, 0, 1, 8,
    0, 0, 0, 0x22, 0, 0, 0x2E, 1, 0x22, 2, 0, 0, 0, 3, 0, 2, 0, 0, 0, 0, 0, 0, 0, 0, 0, 0,
    0xD0, 2, 0xE0, 1, 0xB0, 0, 0x10, 0x80, 0, 0x80, 0, 0, 7, 0x80, 7, 0x80, 0, 0, 0x3C, 0,
    0x40, 4, 0, 0x11, 0x32, 0xAA, 0xD2, 0, 0, 0, 0, 0, 0x0F, 7, 0, 0, 0, 1, 0, 0, 0, 0, 0,
    0, 0, 0, 1, 1, 1, 0, 0, 1, 0, 0, 0, 0, 0, 0, 0, 0, 1, 1, 1, 0, 0, 0, 0, 0, 0, 0, 0, 0,
    0, 0, 0, 0, 0, 0, 0, 0, 0, 0, 0, 0, 0, 0, 0, 0, 0, 0, 0, 0, 0, 0, 0, 0, 0, 0, 0, 0, 0,
    0, 0, 0, 0, 0, 0, 0, 0, 0, 0, 0, 0, 0, 0, 0, 0, 0, 0, 0, 0, 0, 0, 0, 0, 0, 0, 0, 0, 0,
    0, 0, 0, 0, 0, 0, 0, 0, 0, 0, 0, 0, 0, 0, 0, 0, 0, 0, 1, 0, 1, 1, 1, 1, 0, 0, 0, 0, 0,
    0, 0, 0, 0, 0, 0, 0, 0, 0, 1, 1, 0, 0, 0, 0, 0, 0, 0, 0, 0, 0, 1, 0, 0, 0, 0, 0, 0, 0,
    0, 0, 0, 0, 1, 0, 0, 0, 0, 0, 0, 0, 0, 0, 0, 0, 1, 1, 0, 0, 0, 0, 0, 0, 0, 0, 1, 0, 0,
    0, 0, 0, 0, 0, 0, 0, 0, 0, 0, 0]"

definition P2_S_MASK_2 :: "u8 list" where
  "P2_S_MASK_2 = [
    0, 0, 0, 0, 0, 0, 0, 0, 1, 0, 0, 0, 0, 0, 0, 0, 0, 0, 0, 0, 0, 0, 0, 0, 0, 0, 0, 0, 0,
    0, 0, 0, 0, 0, 0, 0, 0, 0, 0, 0, 0, 0, 0, 0, 0, 0, 0, 0, 0, 0x0B, 0x4B, 2, 0xDD, 0x32,
    0x0A, 0x20, 0x60, 0x25, 0x80, 0, 0x55, 3, 0x37, 0x2C, 0x2A, 0x89, 6, 0x82, 0x40, 0x64,
    0x74, 0x87, 0x21, 0xF0, 0x7C, 0x1F, 0x20, 0, 0, 0, 0x3E, 0x3E, 0, 0x3E, 0xE9, 0x0F,
    0x2D, 0x50, 0x22, 0x4E, 0xD6, 0x4E, 0x23, 0x64, 0x81, 0x54, 0x26, 0x61, 0x70, 0x0E,
    0x6C, 0x90, 0x70, 0x0E, 0, 9, 0x0E, 0, 2, 0x76, 0, 0, 0x1C, 0x18, 0x10, 0x28, 0x28,
    0x40, 0x20, 0x40, 0x40, 0x80, 0x33, 0x37, 0xA1, 0x2F, 0x68, 0x4B, 0x87, 0xC1, 0xF0,
    0x7C, 0xA8, 0x26, 0x2B, 0x2C, 0x48, 0x5B, 8, 0, 9, 0, 0, 0, 0, 0, 0, 0, 0, 0, 0, 0x0B,
    0, 0x10, 0x88, 0x82, 2, 0x10, 0xFC, 0x3E, 1, 1, 1, 1, 0, 0, 0, 1, 1, 1, 1, 0, 1, 0, 0,
    1, 1, 1, 0, 0, 0, 0, 0, 1, 1, 1, 0, 0, 0, 0, 0, 0, 1, 0, 0, 1, 0, 0, 0, 0, 0, 0, 0, 0,
    0, 0, 1, 1, 1, 1, 0, 0, 0, 0, 0, 0, 0, 0, 0, 0, 0, 0, 0, 0, 1, 0, 0, 0, 0, 0, 0, 0, 0,
    0, 0, 0, 0, 0, 0, 0, 0, 0, 0, 0, 0, 0, 0, 0, 0, 0, 0, 0, 0, 0, 0, 0, 0, 0, 0, 0, 0, 0,
    0, 1, 1, 1, 1, 1, 1, 1, 0, 0, 0, 0x0E, 0, 0, 0x2F, 0, 0, 0x28, 0x28, 0x28, 0x80, 0x80,
    0x80, 0x28, 0x48, 0x20, 0x28, 0x98, 6, 8, 0xD1, 0x5A, 0xF3, 0x48, 0x15, 0x24, 2, 0,
    0xF0, 0, 0xFF, 3, 0, 0, 0, 0, 0, 0, 4, 0x40, 0, 0, 0, 0, 0, 0, 0, 0, 0x82, 0x90, 0, 0,
    0, 0xBC, 0x34, 0x40, 0, 0x10, 0, 0, 0, 0, 0x10, 0x1C, 0xC0, 2, 0, 1, 0, 0x10, 1, 0,
    0xD0, 2, 0xE0, 1, 0x10, 0, 5, 0, 0, 0, 0, 0, 0xD4, 2, 0xF0, 0, 0x7E, 0xD6, 5, 1, 2, 0,
    0, 0, 0, 0x88, 4, 4, 3, 8, 8, 0, 0x80, 0x80, 0, 0x7F, 0x80, 0, 0xEB, 0]"

definition P2_S_MASK_3 :: "u8 list" where
  "P2_S_MASK_3 = [
    0x20, 0x1C, 0xC9, 0x1F, 0, 0x10, 0, 0, 0, 8, 0, 0, 0, 0x10, 0x80, 0x80, 0, 0x14, 0x82,
    0, 0xC7, 5, 0, 0, 0, 0, 0, 0, 0, 0, 0, 0, 4, 4, 0x3B, 0, 0, 0x10, 0, 0x95, 0xCC, 0x64,
    0xD0, 0x81, 0, 0x10, 0x80, 0x80, 0, 0, 0, 0, 0, 0, 0, 0, 0, 0, 0, 0, 0, 0, 0, 0, 0x20,
    0, 0x25, 0, 0xD0, 2, 0xE0, 1, 0x58, 3, 7, 1, 0x10, 0, 3, 0, 1, 8, 0, 0, 0, 0x22, 0, 0,
    0x2E, 1, 0x22, 2, 0, 0, 0, 3, 0, 2, 0, 0, 0, 0, 0, 0, 0, 0, 0, 0, 0xD0, 2, 0xE0, 1,
    0xB0, 0, 0x10, 0x80, 0, 0x80, 0, 0, 7, 0x80, 7, 0x80, 0, 0, 0x3C, 0, 0x40, 4, 0, 0x11,
    0x32, 0xAA, 0xD2, 0, 0, 0, 0, 0, 0x0F, 7, 0, 0, 0, 0x0B, 0x4B, 0, 0xDD, 0x32, 0x0A,
    0x20, 0x60, 0x25, 0x80, 0, 0x80, 3, 0x37, 0x2C, 0x2A, 0x89, 6, 0x82, 0x40, 0x64, 0x74,
    0x87, 0x21, 0xF0, 0x7C, 0x1F, 0x20, 0, 0, 0, 0x3E, 0x3E, 0, 0x3E, 0xE9, 0x0F, 0x2D,
    0x50, 0x22, 0x4E, 0xD6, 0x4E, 0x23, 0x64, 0x81, 0x54, 0x26, 0x61, 0x70, 0x0E, 0x6C,
    0x90, 0x70, 0x0E, 0, 9, 0x0E, 0, 2, 0x76, 0, 0, 0x1C, 0x18, 0x10, 0x28, 0x28, 0x40,
    0x20, 0x40, 0x40, 0x80, 0x33, 0x37, 0xA1, 0x2F, 0x68, 0x4B, 0x87, 0xC1, 0xF0, 0x7C,
    0xA8, 0x26, 0x2B, 0x2C, 0x48, 0x5B, 8, 0, 9, 0, 0, 0, 0, 0, 0, 0, 0, 0, 0, 0x0B, 0,
    0x10, 0x88, 0x82, 2, 0x10, 0xFC, 0x3E, 0, 0x0E, 0, 0, 0x2F, 0, 0, 0x28, 0x28, 0x28,
    0x80, 0x80, 0x80, 0x28, 0x3C, 0x20, 0x28, 0x98, 6, 8, 0xD1, 0x5A, 0xF3, 0x48, 0x15,
    0x24, 2, 0, 0xF0, 0, 0xFF, 3, 0, 0, 0, 0, 0, 0, 4, 0x40, 0, 0, 0, 0, 0, 0, 0, 0, 0x82,
    0x90, 0, 0, 0, 0xBC, 0x34, 0x40, 0, 0x10, 0, 0, 0, 0, 0x10, 0x1C, 0xC0, 2, 0, 1, 0,
    0x10, 1, 0, 0xD0, 2, 0xE0, 1, 0x10, 0, 5, 0, 0, 0, 0, 0, 0xD6, 2, 0x22, 1, 0xFE, 0xD7,
    0x38, 1, 2, 0, 0, 0, 1, 0x88, 4, 4, 3, 8, 0x88, 0, 0x80, 0x80, 0, 0x7F, 0x80, 0, 0xEB,
    0, 0x20, 0x0F, 0xC9, 0x1F, 0x21, 0x13, 0, 0, 0, 8, 0, 0, 0, 0x10, 0x80, 0x80]"

definition P2_S_MASK_4 :: "u8 list" where
  "P2_S_MASK_4 = [
    0, 0, 0, 0, 0xC7, 0x18, 0, 0, 0, 0, 0, 0, 0, 0, 0, 0, 4, 4, 0x3B, 0, 0, 0x10, 0, 0x95,
    0xCC, 0x64, 0xD0, 0x81, 0, 0x10, 0x80, 0x80, 0, 0, 0, 0, 0, 0, 0, 0, 0, 0, 0, 0, 0, 0,
    0, 0, 0x20, 0, 0x23, 0, 0xD0, 2, 0xE0, 1, 0x58, 3, 7, 1, 0x10, 0, 3, 0, 1, 8, 0, 0, 0,
    0x22, 0, 0, 0x26, 1, 0x22, 2, 0, 0, 0, 3, 0, 2, 0, 0, 0, 0, 0, 0, 0, 0, 0, 0, 0xD0, 2,
    0xE0, 1, 0xB0, 0, 0x10, 0x80, 0, 0x80, 0, 0, 7, 0x80, 7, 0x80, 0, 0, 0x3C, 0, 0x40, 4,
    0, 0x11, 0x32, 0xAA, 0xD2, 0, 0, 0, 0, 0, 0x0F, 7, 0, 0, 0x32, 0x0B, 0x4B, 0x0A, 0xDD,
    0x32, 0x0A, 0x20, 0x60, 0x26, 0x70, 0, 0x80, 3, 0x37, 0x2C, 0x2A, 0x89, 6, 0x82, 0x40,
    0x64, 0x74, 0x87, 0x2A, 0x0A, 0x7C, 0x1F, 0x20, 0, 0, 0, 0x41, 0x3E, 0, 0x41, 0xE9,
    0x0F, 0x2D, 0x50, 0x22, 0x4E, 0xD6, 0x4E, 0x23, 0x64, 0x88, 0x56, 0x2D, 0xC5, 0x70,
    0x0E, 0x6C, 0x90, 0x70, 0x0E, 0, 9, 0x0E, 0, 0x17, 0x75, 0, 0, 0x1C, 0x29, 0x10, 0x28,
    0x28, 0x40, 0x20, 0x40, 0x40, 0x80, 0x33, 0x37, 0xA1, 0x2F, 0x68, 0x4B, 0x87, 0xC1,
    0xF0, 0x7C, 0xA8, 0x26, 0x2B, 0x2C, 0x48, 0x5B, 8, 0, 9, 0, 0, 0, 0, 0, 0, 0, 0, 0, 0,
    0x0B, 0, 0x10, 0x88, 0x82, 2, 0x10, 0xFC, 0x3E, 0x42, 5, 1, 0x42, 6, 6, 0x42, 0xC3,
    0x31, 0x42, 0xC4, 0xF2, 0x42, 0x1D, 0x47, 0x42, 0x0F, 2, 0x42, 0x3A, 0x11, 0x42, 0x3B,
    0x81, 0x42, 0x3C, 0x3B, 0x42, 0x6B, 0x83, 0x42, 0xC9, 0, 0x42, 0x73, 0xCF, 0x42, 0x74,
    0xA3, 0x42, 0x75, 0xE8, 0x42, 0x76, 0xFA, 0x42, 0x7B, 0x1C, 0x42, 0x7C, 0x90, 0x42,
    0x85, 0x19, 0x42, 0x86, 0x0B, 0x42, 0xBF, 6, 0x42, 0xC0, 0x40, 0x42, 0xC1, 0xF0, 0x42,
    0xC2, 0x80, 0x42, 0xC5, 1, 0x42, 0xC9, 8, 0x42, 0x0E, 0x80, 0x42, 0x52, 0x46, 0x42,
    0x54, 0x80, 0x42, 0x57, 1, 0x42, 0xF6, 0x3B, 0x42, 0x0E, 0, 0x42, 0x67, 0x2F, 0xFF, 0,
    0, 0, 0x42, 5, 1, 0x42, 6, 6, 0x42, 0xC3, 0x46, 0x42, 0xC4, 0xB5, 0x42, 0x1D, 0x47,
    0x42, 0x0F, 2, 0x42, 0x3A, 0x11, 0x42, 0x3B, 0x81, 0x42, 0x3C, 0x3B, 0x42, 0x6B, 0x83,
    0x42, 0xC9, 0, 0x42, 0x73, 0xD0, 0x42, 0x74, 4, 0x42, 0x75, 1, 0x42, 0x76]"

definition P2_S_MASK_5 :: "u8 list" where
  "P2_S_MASK_5 = [
    0, 0x42, 0x77, 4, 0x42, 0x78, 8, 0x42, 0x79, 2, 0x42, 0x7A, 0, 0x42, 0x7B, 0x1C, 0x42,
    0x7C, 0x90, 0x42, 0x52, 0, 0x42, 0x53, 0, 0x42, 0x54, 7, 0x42, 0x55, 0x0C, 0x42, 0x56,
    0x94, 0x42, 0x57, 0x89, 0x42, 0x58, 0x48, 0x42, 0x59, 8, 0x42, 0x5A, 0, 0x42, 0x5B,
    0x20, 0x42, 0x5C, 3, 0x42, 0x5D, 0xA9, 0x42, 0x5E, 0x1A, 0x42, 0x6F, 0xB8, 0x42, 0x60,
    8, 0x42, 0x61, 0, 0x42, 0x62, 0x7A, 0x42, 0x63, 0xE1, 0x42, 0x64, 0, 0x42, 0x65, 0x19,
    0x42, 0x66, 0x48, 0x42, 0xEE, 0x80, 0x42, 0x85, 0xE9, 0x42, 0x86, 0x0B, 0x42, 0xBF, 6,
    0x42, 0xC0, 0x40, 0x42, 0xC1, 0xF0, 0x42, 0xC2, 0x80, 0x42, 0xC5, 1, 0x42, 0xC9, 8,
    0x42, 0x0E, 0x80, 0x42, 0x52, 0x46, 0x42, 0x54, 0x80, 0x42, 0x57, 1, 0x42, 0xF6, 0x3B,
    0x42, 0x0E, 0, 0x42, 0x67, 0x2F, 0xFF, 0, 0x42, 5, 1, 0x42, 6, 6, 0x42, 0xC3, 0x46,
    0x42, 0xC4, 0xB5, 0x42, 0x1D, 0x47, 0x42, 0x0F, 2, 0x42, 0x3A, 0x11, 0x42, 0x3B, 0x81,
    0x42, 0x3C, 0x3B, 0x42, 0x6B, 0x83, 0x42, 0xC9, 0, 0x42, 0x73, 0xD0, 0x42, 0x74, 4,
    0x42, 0x75, 1, 0x42, 0x76, 0, 0x42, 0x77, 4, 0x42, 0x78, 8, 0x42, 0x79, 2, 0x42, 0x7A,
    0, 0x42, 0x7B, 0x1C, 0x42, 0x7C, 0x90, 0x42, 0x52, 0, 0x42, 0x53, 0, 0x42, 0x54, 7,
    0x42, 0x55, 0x0C, 0x42, 0x56, 0x94, 0x42, 0x57, 0x89, 0x42, 0x58, 0x48, 0x42, 0x59, 8,
    0x42, 0x5A, 0, 0x42, 0x5B, 0x20, 0x42, 0x5C, 3, 0x42, 0x5D, 0xA9, 0x42, 0x5E, 0x1A,
    0x42, 0x6F, 0xB8, 0x42, 0x60, 8, 0x42, 0x61, 0, 0x42, 0x62, 0x7A, 0x42, 0x63, 0xE1,
    0x42, 0x64, 0, 0x42, 0x65, 0x19, 0x42, 0x66, 0x48, 0x42, 0xEE, 0x80, 0x42, 0x85, 9,
    0x42, 0x86, 0x0B, 0x42, 0xBF, 6, 0x42, 0xC0, 0x40, 0x42, 0xC1, 0xF0, 0x42, 0xC2, 0x80,
    0x42, 0xC5, 1, 0x42, 0xC9, 8, 0x42, 0x0E, 0x80, 0x42, 0x52, 0x46, 0x42, 0x54, 0x80,
    0x42, 0x57, 1, 0x42, 0xF6, 0x3B, 0x42, 0x0E, 0, 0x42, 0x67, 0x2F, 0xFF, 0, 0x42, 5, 1,
    0x42, 6, 6, 0x42, 0xC3, 0x56, 0x42, 0xC4, 0xB4, 0x42, 0x1D, 0x47, 0x42, 0x0F, 2, 0x42,
    0x3A, 0x11, 0x42, 0x3B, 0x81, 0x42, 0x3C, 0x3B, 0x42, 0x6B, 0x83, 0x42, 0xC9, 0, 0x42,
    0x73, 0xCF, 0x42, 0x74, 0xA3, 0x42, 0x75, 0xE8, 0x42, 0x76, 0xFA, 0x42, 0x7B, 0x1C,
    0x42, 0x7C, 0x90, 0x42, 0x85, 0x19, 0x42, 0x86, 0x0B, 0x42, 0xBF, 6, 0x42, 0xC0, 0x40,
    0x42, 0xC1, 0xF0, 0x42, 0xC2, 0x80, 0x42, 0xC5, 1, 0x42, 0xC9, 8, 0x42]"

definition P2_S_MASK_6 :: "u8 list" where
  "P2_S_MASK_6 = [
    0x0E, 0x80, 0x42, 0x52, 0x46, 0x42, 0x54, 0x80, 0x42, 0x57, 1, 0x42, 0xF6, 0x3B, 0x42,
    0x0E, 0, 0x42, 0x67, 0x2F, 0xFF, 0, 0, 0, 0x42, 0, 0x0B, 0x42, 3, 0x0C, 0x42, 4, 0x75,
    0x42, 0x0C, 2, 0x42, 0x0D, 0x88, 0x42, 0x17, 0x41, 0x42, 0x1D, 0x47, 0x42, 0x31, 0x12,
    0x42, 0x32, 0xC1, 0x42, 0x33, 4, 0x42, 0x34, 1, 0x42, 0x35, 0xF0, 0x42, 0x36, 8, 0x42,
    0x37, 0x81, 0x42, 0x0F, 0x0A, 0x42, 0x3A, 0x17, 0x42, 0x3B, 0x81, 0x42, 0x3D, 0xA2,
    0x42, 0x3E, 0x6A, 0x42, 0x3F, 0xA0, 0x42, 0x86, 0x0B, 0x42, 0xF3, 1, 0x42, 0xF9, 3,
    0x42, 0x6B, 0x80, 0x42, 0x0E, 0x80, 0x42, 0x52, 0x46, 0x42, 0x54, 0x80, 0x42, 0x7F,
    0xFF, 0x42, 0x81, 0x30, 0x42, 0x90, 0xC9, 0x42, 0x91, 0x40, 0x42, 0x92, 0x3C, 0x42,
    0x93, 0xCA, 0x42, 0x94, 0xD5, 0x42, 0xB1, 0xFF, 0x42, 0xB6, 8, 0x42, 0xC0, 0x9A, 0x42,
    0xCF, 0x50, 0x42, 0xD0, 0x4E, 0x42, 0xD1, 0xB9, 0x42, 0xD6, 0xDD, 0x42, 0xD7, 0xE2,
    0x42, 0xE5, 0x51, 0x42, 0xF6, 0x3B, 0x42, 0x0E, 0, 0xFF, 0x40, 0x0F, 0x70, 0x40, 0x16,
    0xF3, 0x40, 0x18, 0x15, 0x40, 0x19, 0x24, 0x40, 0x1A, 0, 0x40, 0x31, 0x90, 0x40, 0x61,
    0x88, 0x40, 0x64, 4, 0x40, 0x90, 4, 0x40, 0xB0, 0x20, 0x40, 0xB1, 0, 0x40, 0xB2, 0x10,
    0x40, 0xB3, 0, 0x40, 0xB4, 0xD0, 0x40, 0xB5, 2, 0x40, 0xB6, 0xE0, 0x40, 0xB7, 1, 0x40,
    0xB8, 0x58, 0x40, 0xB9, 3, 0x40, 0xBE, 3, 0x40, 0xC9, 1, 0x40, 0xCA, 0x22, 0x40, 0xCF,
    3, 0x40, 0xDC, 0xD0, 0x40, 0xDD, 2, 0x40, 0xDE, 0xE0, 0x40, 0xDF, 1, 0x40, 0xE0, 0xB0,
    0x40, 0xE3, 0x80, 0x40, 0xFC, 0x0F, 0x40, 0xFD, 7, 0x42, 0xE5, 0, 0x46, 0x1B, 0x49,
    0x46, 0x1C, 0x80, 0xFF, 0, 0x0E, 0x0E, 0x0E, 0, 0x2F, 0, 0, 0x36, 0x36, 0x36, 0x90,
    0x88, 0x90, 0x28, 0xA0, 0xF4, 9, 0x98, 6, 8, 0xF0, 0x20, 0x83, 0x38, 0, 0x24, 0, 0x9F,
    0xF0, 0, 0xFF, 3, 0xD8, 0, 0, 0, 0, 0, 4, 0x40, 0, 0, 0, 0, 0, 0, 0, 0, 0x82, 0x30, 0,
    0, 0, 0xBC, 0x34, 0x40, 0, 0x10, 0, 0, 0, 0, 0x10, 0x1C, 0xC2, 0x50, 0, 0, 0, 0, 6, 0,
    0xD0, 2, 0xE0, 1, 0x20, 0, 0x1E, 0, 0, 0, 0, 0, 0xD0, 2, 0xE0, 1, 0x63, 0x6B, 0x0D, 2,
    2, 0, 3, 0, 0, 0xC0, 0x10, 0x10, 2, 8, 8, 0, 0x80, 0x80, 0, 0x7F, 0xA5, 0, 0xEB, 0,
    0xB0, 0x13, 0x46, 0x1E, 0x90, 0x20, 0, 0]"

definition P2_S_MASK_7 :: "u8 list" where
  "P2_S_MASK_7 = [
    0, 8, 0, 0, 0, 0x10, 0x80, 0x80, 0, 0xF8, 0x75, 0, 0x15, 0x20, 0, 0, 0, 0, 0, 0, 0, 0,
    0, 0, 4, 4, 0x3B, 0, 0, 0x10, 0, 0x95, 0xCC, 0x64, 0xD0, 0x81, 0, 0x10, 0x80, 0x80, 0,
    0, 0, 0, 0, 0, 0, 0, 0, 0, 0, 0, 0, 0, 0, 0, 0x20, 0, 0x16, 0, 0xD0, 2, 0xE0, 1, 0x1F,
    3, 6, 1, 8, 0, 6, 0, 1, 8, 0, 0, 0, 0x22, 0, 0, 0x2A, 1, 0x22, 2, 0, 0, 0, 3, 0, 2, 0,
    0, 0, 0, 0, 0, 0, 0, 0, 0, 0xD0, 2, 0xE0, 1, 0xB0, 0, 0x10, 0x80, 0, 0x80, 0, 0, 7,
    0x80, 7, 0x80, 0, 0, 0x3C, 0, 0x40, 4, 0, 0x11, 0x32, 0xAA, 0xD2, 0, 0, 0, 0, 0, 0x0F,
    7, 0, 0, 1, 1, 1, 1, 1, 1, 1, 1, 1, 1, 1, 1, 1, 1, 1, 1, 1, 1, 1, 1, 1, 1, 1, 1, 1, 1,
    1, 1, 1, 1, 1, 1, 1, 1, 1, 1, 1, 1, 1, 1, 1, 1, 1, 1, 1, 1, 1, 1, 1, 1, 1, 1, 1, 1, 1,
    1, 1, 1, 1, 1, 1, 1, 1, 1, 1, 1, 1, 1, 1, 1, 1, 1, 1, 1, 1, 1, 1, 1, 1, 1, 1, 1, 1, 1,
    1, 1, 1, 1, 1, 1, 1, 1, 1, 1, 1, 1, 1, 1, 1, 1, 1, 1, 1, 1, 1, 1, 1, 1, 1, 1, 1, 1, 1,
    1, 1, 1, 1, 1, 1, 1, 1, 1, 1, 1, 1, 1, 1, 1, 1, 1, 1, 1, 1, 1, 1, 1, 1, 1, 1, 1, 1, 1,
    1, 1, 0, 0, 0, 0, 0, 0, 0, 0, 0, 0, 0, 0, 0, 0, 0, 0, 0, 0, 0, 0, 0, 0, 0, 0, 0, 0, 0,
    0, 0, 0, 0, 0, 1, 1, 1, 1, 1, 1, 1, 1, 1, 1, 1, 1, 1, 1, 1, 1, 1, 1, 1, 1, 1, 1, 1, 1,
    1, 1, 1, 1, 1, 1, 1, 1, 0, 0, 0, 0, 0, 0, 0, 0, 0, 0, 0, 0, 0, 0, 0, 0, 0, 0, 0, 0, 0,
    0, 0, 0, 0, 0, 0, 0, 0, 0, 0, 0, 0, 0, 0, 0, 0, 0, 0, 0]"

definition P2_S_MASK_8 :: "u8 list" where
  "P2_S_MASK_8 = [
    0, 0, 0, 0, 0, 0, 0, 0, 0x0E, 0x0E, 0x0E, 1, 0x2F, 0, 0, 0x3C, 0x34, 0x3C, 0x84, 0x90,
    0x70, 0x38, 0x10, 0xF5, 9, 5, 6, 0xAA, 0xDC, 0x5C, 0x83, 0x38, 0, 0x24, 0, 0x1F, 0xF0,
    0, 0xFF, 3, 0x80, 0, 0, 0, 0, 0, 4, 0x40, 0, 0, 0, 0, 0, 0, 0, 0, 0x82, 0x30, 0, 0, 0,
    0xBC, 0x34, 0x40, 0, 0x10, 0, 0, 0, 0, 0x10, 0x0C, 0xC2, 2, 0, 4, 0, 0, 1, 0, 0xD0, 2,
    0xE0, 1, 0x74, 0, 0x20, 0, 0, 0, 0, 0, 0xD0, 2, 0xE0, 1, 0x3E, 0x6B, 0x0D, 2, 2, 0, 6,
    0, 0x81, 0xC2, 0x14, 0x10, 4, 8, 8, 0, 0x80, 0x7F, 0, 0x7F, 0x6E, 0, 0xEB, 0, 0xB0,
    0xCD, 0xFF, 0x1F, 0, 0x20, 0, 0, 0, 8, 0, 0, 0, 0x10, 0x80, 0x80, 0, 0x0A, 0x6F, 0,
    0x15, 0x20, 0, 0, 0, 0, 0, 0, 0, 0, 0, 0, 4, 4, 0x3B, 0, 0, 0x10, 0, 0x95, 0xCC, 0x64,
    0xD0, 0x81, 0, 0x10, 0x80, 0x80, 0, 0, 0, 0, 0, 0, 0, 0, 0, 0, 0, 0, 0, 0, 0, 0, 0x20,
    0, 0x17, 0, 0xD0, 2, 0xE0, 1, 0x11, 3, 6, 1, 8, 0, 2, 0, 1, 0, 0, 0, 0, 0x22, 0, 0,
    0x2A, 1, 0x22, 2, 0, 0, 0, 3, 0, 2, 0, 0, 0, 0, 0, 0, 0, 0, 0, 0, 0xD0, 2, 0xE0, 1,
    0xB0, 0, 0x10, 0x80, 0, 0x80, 0, 0, 7, 0x80, 7, 0x80, 0, 0, 0x3C, 0, 0x40, 4, 0, 0x11,
    0x32, 0xAA, 0xD2, 0, 0, 0, 0, 0, 0x0F, 7, 0, 0, 0x42, 0x0F, 0x24, 0xFF, 0, 0, 0, 0xFF,
    0x0E, 0, 0, 0, 0xFF, 0x0E, 1, 0, 0x11, 0xFF, 0x0E, 6, 0, 0x66, 0xFF, 0x0E, 0, 0, 0,
    0xFF, 0x0E, 3, 0, 0x33, 0xFF, 0x0E, 4, 0, 0x44, 0xFF, 0x0E, 2, 0, 0x22, 0xFF, 0x0E, 0,
    0, 0, 0xFF, 0x0E, 0, 0, 0, 0xFF, 0x0E, 1, 0, 0x11, 0xFF, 0x0E, 6, 0, 0x66, 0xFF, 0x0E,
    0, 0, 0, 0xFF, 0x0E, 3, 0, 0x33, 0xFF, 0x0E, 4, 0, 0x44, 0xFF, 0x0E, 8, 0, 0x88, 0xFF,
    0x0E, 0x6D, 0x74, 0x63, 0x2D, 0x62, 0x61, 0x63, 0x6B, 0x76, 0x69, 0x65, 0x77, 0, 0, 0,
    0, 0, 0, 0, 0, 0, 0, 0, 0, 0, 0, 0, 0, 0, 0, 0, 0, 0, 0, 0, 0]"

definition P2_S_MASK_9 :: "u8 list" where
  "P2_S_MASK_9 = [
    0, 0, 0, 0, 0, 0, 0, 0, 0, 0, 0, 0, 0, 2, 0, 0, 0x9E, 0, 0, 0, 2, 2, 0, 0, 3, 2, 0, 0,
    4, 2, 0, 0, 5, 2, 0, 0, 6, 2, 0, 0, 7, 2, 0, 0, 8, 2, 0, 0, 9, 2, 0, 0, 0x0A, 2, 0, 0,
    0x0B, 2, 0, 0, 0x0E, 2, 0, 0, 0x0F, 2, 0, 0, 0x10, 2, 0, 0, 0x13, 2, 0, 0, 0x66, 0, 0,
    0, 0x8B, 0, 0, 0, 0x72, 0, 0, 0, 0x73, 0, 0, 0, 0x14, 2, 0, 0, 0x15, 2, 0, 0, 0x16, 2,
    0, 0, 0x17, 2, 0, 0, 0x18, 2, 0, 0, 0, 0, 0, 0, 0, 0, 0, 0, 0x74, 0xB3, 0x83, 0xC0,
    0x7C, 0xB3, 0x83, 0xC0, 0, 0, 0, 0, 0, 0, 0, 0, 0, 0, 0, 0, 0, 0, 0, 0, 0, 0, 0, 0, 0,
    0, 0, 0, 0, 0, 0, 0, 0, 0, 0, 0, 0, 0, 0, 0, 0, 0, 0, 0, 0, 0, 0, 0, 0, 0, 0, 0, 0, 0,
    0, 0, 0x69, 0xFF, 0, 0, 0x30, 0x0F, 5, 6, 0x28, 2, 0x14, 0x14, 0x10, 0x28, 0xB2, 1,
    0xE0, 3, 0x20, 0xED, 0xCB, 0xA9, 0x87, 0x65, 0x43, 0x21, 0, 0, 0, 0, 0, 0x4D, 0xC1,
    0x20, 1, 1, 0x41, 0x64, 0x3C, 0x1E, 0x28, 0x0E, 0, 0, 0, 0, 0x50, 0x3C, 0x32, 0x71, 0,
    0, 0, 0, 0, 0, 0, 1, 0, 0, 1, 2, 0, 0, 0x47, 0x6F, 0x6F, 0x64, 0x69, 0x78, 0x2D, 0x54,
    0x53, 0, 0, 0, 0, 0, 0, 0, 0, 0, 0, 0, 0, 0, 0, 0, 0, 0, 0, 0, 0, 0, 0, 0, 0, 0, 0, 0,
    0, 0, 0, 0, 0, 0, 0, 0, 0, 0, 0, 0, 0x42, 0x42, 4, 0x58, 2, 0x0A, 0x0D, 0, 1, 8, 0x28,
    5, 0x50, 0x32, 3, 5, 0, 0, 0, 0, 0x11, 0x11, 0, 0, 0, 0, 0, 0x89, 0x28, 0x0A, 0x21,
    0x23, 0x31, 0x0D, 0, 0, 1, 0xBA, 3, 0x25, 0, 0, 0, 0, 0, 3, 0x64, 0x32, 0, 0, 0, 0x1D,
    0x3E, 0x94, 0xC5, 2, 7, 0, 0, 4, 0x87, 0x1F, 0, 0x76, 0x24, 0, 0x68, 0x2A, 0, 0x5B,
    0x31, 0, 0x51, 0x39, 0, 0x51, 0, 0, 0, 0, 0, 0, 0, 0, 0, 0, 0, 0, 0, 0, 0, 0]"

definition P2_S_MASK_10 :: "u8 list" where
  "P2_S_MASK_10 = [
    0, 0, 0, 0, 0, 0, 0, 0, 0, 0, 0, 0, 0, 0, 0, 0, 0, 0, 0, 0, 0x14, 0x12, 0x10, 0x0E,
    0x0C, 0x0A, 8, 6, 4, 2, 0xFF, 0xFF, 0xFF, 0xFF, 0, 0, 0, 0, 0, 0, 0, 0, 0, 0, 0, 0, 0,
    0, 0, 0, 0x12, 0, 2, 4, 6, 8, 0x0A, 0x0F, 0x10, 0x16, 0x18, 0x1C, 0x1D, 0x1E, 0x1F,
    0x20, 0x21, 0xFF, 0xFF, 0xFF, 0xFF, 0xFF, 0xFF, 0xFF, 0xFF, 0xFF, 0, 0, 0, 0, 0, 0, 0,
    0, 0, 0, 0, 0, 0, 0, 0, 0, 0xDD, 1, 0, 0, 0x80, 0x40, 5, 0, 1, 2, 8, 4, 0x81, 0x4E, 0,
    0, 0x47, 0x54, 0x39, 0x58, 0x58, 0x2D, 0x54, 0x53, 0, 0, 0, 0, 0, 0, 0, 0, 0, 0, 0, 0,
    0, 0, 0, 0, 0, 0, 0, 0, 0, 0, 0, 0, 0, 0, 0, 0, 0, 0, 0, 0, 0, 0, 0, 0, 0, 0, 0, 0,
    0x0F, 0xFF, 0, 0, 1, 0, 0, 0, 2, 0, 0, 0, 4, 0, 0, 0, 8, 0, 0, 0, 0x10, 0, 0, 0, 0x20,
    0, 0, 0, 0x40, 0, 0, 0, 0x80, 0, 0, 0, 0, 1, 0, 0, 0, 2, 0, 0, 0, 4, 0, 0, 0, 8, 0, 0,
    0, 0x10, 0, 0, 0, 0x20, 0, 0, 0, 0x40, 0, 0, 0, 0x80, 0, 0, 0, 0, 1, 0, 0, 0, 2, 0, 0,
    0, 4, 0, 0, 0, 8, 0, 0, 0, 0x10, 0, 0, 0, 0x20, 0, 0, 0, 0x40, 0, 0, 0, 0x80, 0, 0, 0,
    0, 1, 0, 0, 0, 2, 0, 0, 0, 4, 0, 0, 0, 8, 0, 0, 0, 0x10, 0, 0, 0, 0x20, 0, 0, 0, 0x40,
    0, 0, 0, 0x80, 0x14, 0x8B, 0xAD, 0xC0, 0xAC, 0x5C, 0xB0, 0xC0, 0x2C, 0x77, 0xAC, 0xC0,
    0x2C, 0x77, 0xAC, 0xC0, 0xB8, 0x5C, 0xB0, 0xC0, 0x2C, 0x77, 0xAC, 0xC0, 0x2C, 0x77,
    0xAC, 0xC0, 0x2C, 0x77, 0xAC, 0xC0, 0xCC, 0x5C, 0xB0, 0xC0, 0x2C, 0x77, 0xAC, 0xC0,
    0x2C, 0x77, 0xAC, 0xC0, 0x2C, 0x77, 0xAC, 0xC0, 0x2C, 0x77, 0xAC, 0xC0, 0x2C, 0x77,
    0xAC, 0xC0, 0x2C, 0x77, 0xAC, 0xC0, 0x2C, 0x77, 0xAC, 0xC0, 0xD8, 0x5C, 0xB0, 0xC0,
    0x2C, 0x77, 0xAC, 0xC0, 0x2C, 0x77, 0xAC, 0xC0, 0x2C, 0x77, 0xAC, 0xC0, 0x2C, 0x77,
    0xAC, 0xC0, 0x2C, 0x77, 0xAC, 0xC0, 0x2C, 0x77, 0xAC, 0xC0, 0x2C, 0x77, 0xAC, 0xC0]"

definition P2_S_MASK_11 :: "u8 list" where
  "P2_S_MASK_11 = [
    0xF0, 0x5C, 0xB0, 0xC0, 0x2C, 0x77, 0xAC, 0xC0, 0x2C, 0x77, 0xAC, 0xC0, 0x2C, 0x77,
    0xAC, 0xC0, 0x2C, 0x77, 0xAC, 0xC0, 0x2C, 0x77, 0xAC, 0xC0, 0x2C, 0x77, 0xAC, 0xC0,
    0x2C, 0x77, 0xAC, 0xC0, 0x2C, 0x77, 0xAC, 0xC0, 0xA4, 0x5C, 0xB0, 0xC0, 0, 0, 0, 0,
    0x84, 0x9C, 0x56, 0xC0, 0, 0, 0, 0, 0, 0, 0, 0, 0, 0, 0, 0, 0, 0, 0, 0, 0, 0, 0, 0, 0,
    0, 0, 0, 0, 0, 0, 0, 0, 0, 0, 0, 0, 0, 0, 0, 0x90, 0x30, 0x84, 0xC0, 0, 0, 0, 0, 0, 0,
    0, 0, 0, 0, 0, 0, 0, 0, 0, 0, 0, 0, 0, 0, 0, 0, 0, 0, 0, 0, 0, 0, 0, 0, 0, 0, 0, 0, 0,
    0, 0, 0, 0, 0, 0, 0, 0, 0, 0, 0, 0, 0, 0, 0, 0, 0, 0, 0, 0, 0, 0x73, 0x6E, 0x64, 0x2E,
    0x63, 0x61, 0x72, 0x64, 0x73, 0x5F, 0x6C, 0x69, 0x6D, 0x69, 0x74, 0, 0x73, 0x6E, 0x64,
    0x2E, 0x6D, 0x61, 0x6A, 0x6F, 0x72, 0, 0, 0, 0x73, 0x6E, 0x64, 0x5F, 0x64, 0x69, 0x73,
    0x63, 0x6F, 0x6E, 0x6E, 0x65, 0x63, 0x74, 0x5F, 0x72, 0x65, 0x6C, 0x65, 0x61, 0x73,
    0x65, 0, 0, 0, 0, 0, 0, 0x5C, 0x34, 0x84, 0xC0, 0x68, 0x34, 0x84, 0xC0, 0x70, 0x34,
    0x84, 0xC0, 0, 0, 0, 0, 0, 0, 0, 0, 0, 0, 0, 0, 0x78, 0x34, 0x84, 0xC0, 0x80, 0x34,
    0x84, 0xC0, 0, 0, 0, 0, 0x88, 0x34, 0x84, 0xC0, 0, 0, 0, 0, 0, 0, 0, 0, 0x3C, 0x3A,
    0x84, 0xC0, 0, 0, 0, 0, 0, 0, 0, 0, 0x90, 0x34, 0x84, 0xC0, 0, 0, 0, 0, 0, 0, 0, 0, 0,
    0, 0, 0, 0, 0, 0, 0, 0, 0, 0, 0, 0, 0, 0, 0, 0, 0, 0, 0, 0, 0, 0, 0, 0, 0, 0, 0, 0x73,
    0x6E, 0x64, 0x2E, 0x73, 0x6C, 0x6F, 0x74, 0x73, 0, 0, 0, 8, 0, 0, 0, 4, 0, 0, 0, 0, 0,
    0, 0, 0xA4, 8, 0xB9, 0xC0, 0x8C, 0xEA, 0x68, 0xC1, 0, 0, 0, 0, 0x8C, 0x4B, 0x84, 0xC0,
    0x70, 0x53, 0x84, 0xC0, 0x88, 0x51, 0x84, 0xC0, 0, 0, 0, 0, 0, 0, 0, 0, 0, 0, 0, 0,
    0x38, 0x48, 0x84, 0xC0, 0xA4, 0x48, 0x84, 0xC0, 0, 0, 0, 0, 4, 0x49, 0x84, 0xC0, 0x98,
    0x4D, 0x84, 0xC0, 0, 0, 0, 0]"

definition P2_S_MASK_12 :: "u8 list" where
  "P2_S_MASK_12 = [
    0xB0, 0x4C, 0x84, 0xC0, 0, 0, 0, 0, 0, 0, 0, 0, 0, 0, 0, 0, 0, 0, 0, 0, 0, 0, 0, 0, 0,
    0, 0, 0, 0, 0, 0, 0, 0, 0, 0, 0, 0, 0, 0, 0, 0, 0, 0, 0, 0, 0, 0, 0, 0]"

definition T132B_P2_S_MASK :: "u8 list" where
  "T132B_P2_S_MASK = concat [P2_S_MASK_0, P2_S_MASK_1, P2_S_MASK_2, P2_S_MASK_3, P2_S_MASK_4, P2_S_MASK_5, P2_S_MASK_6, P2_S_MASK_7, P2_S_MASK_8, P2_S_MASK_9, P2_S_MASK_10, P2_S_MASK_11, P2_S_MASK_12]"

definition T132B_P2_S_PAL :: "u8 list" where
  "T132B_P2_S_PAL = [
    0x32, 0x0B, 0x4B, 2, 0xDD, 0x32, 0x0A, 0x20, 0x60, 0x26, 0x60, 0, 0x80, 3, 0x37, 0x2C,
    0x2A, 0x89, 6, 0x82, 0x40, 0x64, 0x74, 0x87, 0x2A, 0x0A, 0x7C, 0x1F, 0x20, 0, 0, 0]"

definition T132B_P2_S_NTSC :: "u8 list" where
  "T132B_P2_S_NTSC = [
    0, 0x0B, 0x4B, 0, 0xDD, 0x32, 0x0A, 0x20, 0x60, 0x25, 0x70, 0, 0x80, 3, 0x37, 0x2C,
    0x2A, 0x89, 6, 0x82, 0x40, 0x64, 0x74, 0x87, 0x21, 0xF0, 0x7C, 0x1F, 0x20, 0, 0, 0]"

definition T132B_P2_S_PALM :: "u8 list" where
  "T132B_P2_S_PALM = [
    4, 0, 0, 0, 0, 0, 0, 0, 0, 0, 0, 0, 0, 0, 0, 0, 0, 0, 0, 0, 0, 0, 0, 0, 0x21, 0xE6,
    0xEF, 0xA3, 0, 0, 0, 0]"

definition T132B_P2_S_PALN :: "u8 list" where
  "T132B_P2_S_PALN = [
    0x36, 0, 0, 0, 0, 0, 0, 0, 0, 0, 0, 0, 0, 0, 0, 0, 0, 0, 0, 0, 0, 0, 0, 0, 0x21, 0xF6,
    0x94, 0x46, 0, 0, 0, 0]"

definition T132B_P2_S_SECAM :: "u8 list" where
  "T132B_P2_S_SECAM = [
    0x38, 0, 0, 0, 0, 0, 0, 0, 0, 0, 0, 0, 0, 0, 0, 0, 0, 0, 0, 0, 0, 0, 0, 0, 0x28, 0xA3,
    0x3B, 0xB2, 0, 0, 0, 0]"

definition T132B_P0_NTSC_YZ :: "u8 list" where
  "T132B_P0_NTSC_YZ = [
    0, 0x0E, 0, 0, 0x2F, 0, 0, 0x28, 0x28, 0x28, 0x60, 0x60, 0x60, 0x28, 0x48, 0x20, 0x28,
    0x98, 6, 8, 0xD1, 0x5A, 0xF3, 0x48, 0x15, 0x24, 2, 0, 0xF0, 0, 0xFF, 3, 0, 0, 0, 0, 0,
    0, 4, 0x40, 0, 0, 0, 0, 0, 0, 0, 0, 0x82, 0x90, 0, 0, 0, 0xBC, 0x34, 0x40, 0, 0x10, 0,
    0, 0, 0, 0x10, 0x1C, 0xC0, 2, 0, 1, 0, 0x10, 1, 0, 0xD0, 2, 0xE0, 1, 0x10, 0, 5, 0, 0,
    0, 0, 0, 0xD4, 2, 0xF0, 0, 0x7E, 0xD6, 5, 1, 2, 0, 0, 0, 0, 0x88, 4, 4, 3, 8, 8, 0,
    0x80, 0x80, 0, 0x7F, 0x80, 0, 0xEB, 0, 0x20, 0x1C, 0xC9, 0x1F, 0, 0x10, 0, 0, 0, 8, 0,
    0, 0, 0x10, 0x80, 0x80, 0, 0x14, 0x82, 0, 0xC7, 5, 0, 0, 0, 0, 0, 0, 0, 0, 0, 0, 5, 4,
    0x3B, 0, 0, 0x10, 0, 0x95, 0xCC, 0x64, 0xD0, 0x81, 1, 0x10, 0x80, 0x80, 0, 0, 0, 0, 0,
    0, 0, 0, 0, 0, 0, 0, 0, 0, 0, 0, 0x20, 0, 0x25, 0, 0xD0, 2, 0xE0, 1, 0x58, 3, 7, 1,
    0x10, 0, 3, 0, 1, 8, 0, 0, 0, 0x22, 0, 0, 0x2E, 1, 0x22, 2, 0, 0, 0, 3, 0, 2, 0, 0, 0,
    0, 0, 0, 0, 0, 0, 0, 0xD0, 2, 0xE0, 1, 0xB0, 0, 0x10, 0x80, 0, 0x80, 0, 0, 7, 0x80, 7,
    0x80, 0, 0, 0x3C, 0, 0x40, 4, 0, 0x11, 0x32, 0xAA, 0xD2, 0, 0, 0, 0, 0, 0x0F, 7, 0, 0]"

definition T132B_P0_MASK :: "u8 list" where
  "T132B_P0_MASK = [
    0, 1, 0, 0, 0, 0, 0, 0, 0, 0, 1, 1, 1, 0, 0, 1, 0, 0, 0, 0, 0, 0, 0, 0, 1, 1, 1, 0, 0,
    0, 0, 0, 0, 0, 0, 0, 0, 0, 0, 0, 0, 0, 0, 0, 0, 0, 0, 0, 0, 0, 0, 0, 0, 0, 0, 0, 0, 0,
    0, 0, 0, 0, 0, 0, 0, 0, 0, 0, 0, 0, 0, 0, 0, 0, 0, 0, 0, 0, 0, 0, 0, 0, 0, 0, 0, 0, 0,
    0, 0, 0, 0, 0, 0, 0, 0, 0, 0, 0, 0, 0, 0, 0, 0, 0, 0, 0, 0, 0, 0, 0, 0, 0, 1, 0, 1, 1,
    1, 1, 0, 0, 0, 0, 0, 0, 0, 0, 0, 0, 0, 0, 0, 0, 1, 1, 0, 0, 0, 0, 0, 0, 0, 0, 0, 0, 1,
    0, 0, 0, 0, 0, 0, 0, 0, 0, 0, 0, 1, 0, 0, 0, 0, 0, 0, 0, 0, 0, 0, 0, 1, 1, 0, 0, 0, 0,
    0, 0, 0, 0, 1, 0, 0, 0, 0, 0, 0, 0, 0, 0, 0, 0, 0, 0, 0, 0, 0, 0, 0, 0, 0, 0, 1, 0, 0,
    0, 0, 0, 0, 0, 0, 0, 0, 0, 0, 0, 0, 0, 0, 0, 0, 0, 0, 0, 0, 0, 0, 0, 0, 0, 0, 0, 0, 0,
    0, 0, 0, 0, 0, 0, 0, 0]"

definition T132B_P2_NTSC_YZ :: "u8 list" where
  "T132B_P2_NTSC_YZ = [
    0, 0x0B, 0x4B, 2, 0xDD, 0x32, 0x0A, 0x20, 0x60, 0x25, 0x80, 0, 0x55, 3, 0x37, 0x2C,
    0x2A, 0x89, 6, 0x82, 0x40, 0x64, 0x74, 0x87, 0x21, 0xF0, 0x7C, 0x1F, 0x20, 0, 0, 0,
    0x3E, 0x3E, 0, 0x3E, 0xE9, 0x0F, 0x2D, 0x50, 0x22, 0x4E, 0xD6, 0x4E, 0x23, 0x64, 0x81,
    0x54, 0x26, 0x61, 0x70, 0x0E, 0x6C, 0x90, 0x70, 0x0E, 0, 9, 0x0E, 0, 2, 0x76, 0, 0,
    0x1C, 0x18, 0x10, 0x28, 0x28, 0x40, 0x20, 0x40, 0x40, 0x80, 0x33, 0x37, 0xA1, 0x2F,
    0x68, 0x4B, 0x87, 0xC1, 0xF0, 0x7C, 0xA8, 0x26, 0x2B, 0x2C, 0x48, 0x5B, 8, 0, 9, 0, 0,
    0, 0, 0, 0, 0, 0, 0, 0, 0x0B, 0, 0x10, 0x88, 0x82, 2, 0x10, 0xFC, 0x3E]"

definition T132B_P2_MASK :: "u8 list" where
  "T132B_P2_MASK = [
    1, 1, 1, 1, 0, 0, 0, 1, 1, 1, 1, 0, 1, 0, 0, 1, 1, 1, 0, 0, 0, 0, 0, 1, 1, 1, 0, 0, 0,
    0, 0, 0, 1, 0, 0, 1, 0, 0, 0, 0, 0, 0, 0, 0, 0, 0, 1, 1, 1, 1, 0, 0, 0, 0, 0, 0, 0, 0,
    0, 0, 0, 0, 0, 0, 1, 0, 0, 0, 0, 0, 0, 0, 0, 0, 0, 0, 0, 0, 0, 0, 0, 0, 0, 0, 0, 0, 0,
    0, 0, 0, 0, 0, 0, 0, 0, 0, 0, 0, 0, 0, 0, 0, 0, 1, 1, 1, 1, 1, 1, 1, 0, 0]"

definition T132B_P0_NTSC :: "u8 list" where
  "T132B_P0_NTSC = [
    0, 0x0E, 0, 0, 0x2F, 0, 0, 0x28, 0x28, 0x28, 0x80, 0x80, 0x80, 0x28, 0x48, 0x20, 0x28,
    0x98, 6, 8, 0xD1, 0x5A, 0xF3, 0x48, 0x15, 0x24, 2, 0, 0xF0, 0, 0xFF, 3, 0, 0, 0, 0, 0,
    0, 4, 0x40, 0, 0, 0, 0, 0, 0, 0, 0, 0x82, 0x90, 0, 0, 0, 0xBC, 0x34, 0x40, 0, 0x10, 0,
    0, 0, 0, 0x10, 0x1C, 0xC0, 2, 0, 1, 0, 0x10, 1, 0, 0xD0, 2, 0xE0, 1, 0x10, 0, 5, 0, 0,
    0, 0, 0, 0xD4, 2, 0xF0, 0, 0x7E, 0xD6, 5, 1, 2, 0, 0, 0, 0, 0x88, 4, 4, 3, 8, 8, 0,
    0x80, 0x80, 0, 0x7F, 0x80, 0, 0xEB, 0, 0x20, 0x1C, 0xC9, 0x1F, 0, 0x10, 0, 0, 0, 8, 0,
    0, 0, 0x10, 0x80, 0x80, 0, 0x14, 0x82, 0, 0xC7, 5, 0, 0, 0, 0, 0, 0, 0, 0, 0, 0, 4, 4,
    0x3B, 0, 0, 0x10, 0, 0x95, 0xCC, 0x64, 0xD0, 0x81, 0, 0x10, 0x80, 0x80, 0, 0, 0, 0, 0,
    0, 0, 0, 0, 0, 0, 0, 0, 0, 0, 0, 0x20, 0, 0x25, 0, 0xD0, 2, 0xE0, 1, 0x58, 3, 7, 1,
    0x10, 0, 3, 0, 1, 8, 0, 0, 0, 0x22, 0, 0, 0x2E, 1, 0x22, 2, 0, 0, 0, 3, 0, 2, 0, 0, 0,
    0, 0, 0, 0, 0, 0, 0, 0xD0, 2, 0xE0, 1, 0xB0, 0, 0x10, 0x80, 0, 0x80, 0, 0, 7, 0x80, 7,
    0x80, 0, 0, 0x3C, 0, 0x40, 4, 0, 0x11, 0x32, 0xAA, 0xD2, 0, 0, 0, 0, 0, 0x0F, 7, 0, 0]"

definition T132B_P2_NTSC :: "u8 list" where
  "T132B_P2_NTSC = [
    0, 0x0B, 0x4B, 0, 0xDD, 0x32, 0x0A, 0x20, 0x60, 0x25, 0x80, 0, 0x80, 3, 0x37, 0x2C,
    0x2A, 0x89, 6, 0x82, 0x40, 0x64, 0x74, 0x87, 0x21, 0xF0, 0x7C, 0x1F, 0x20, 0, 0, 0,
    0x3E, 0x3E, 0, 0x3E, 0xE9, 0x0F, 0x2D, 0x50, 0x22, 0x4E, 0xD6, 0x4E, 0x23, 0x64, 0x81,
    0x54, 0x26, 0x61, 0x70, 0x0E, 0x6C, 0x90, 0x70, 0x0E, 0, 9, 0x0E, 0, 2, 0x76, 0, 0,
    0x1C, 0x18, 0x10, 0x28, 0x28, 0x40, 0x20, 0x40, 0x40, 0x80, 0x33, 0x37, 0xA1, 0x2F,
    0x68, 0x4B, 0x87, 0xC1, 0xF0, 0x7C, 0xA8, 0x26, 0x2B, 0x2C, 0x48, 0x5B, 8, 0, 9, 0, 0,
    0, 0, 0, 0, 0, 0, 0, 0, 0x0B, 0, 0x10, 0x88, 0x82, 2, 0x10, 0xFC, 0x3E]"

definition T132B_P0_PAL :: "u8 list" where
  "T132B_P0_PAL = [
    0, 0x0E, 0, 0, 0x2F, 0, 0, 0x28, 0x28, 0x28, 0x80, 0x80, 0x80, 0x28, 0x3C, 0x20, 0x28,
    0x98, 6, 8, 0xD1, 0x5A, 0xF3, 0x48, 0x15, 0x24, 2, 0, 0xF0, 0, 0xFF, 3, 0, 0, 0, 0, 0,
    0, 4, 0x40, 0, 0, 0, 0, 0, 0, 0, 0, 0x82, 0x90, 0, 0, 0, 0xBC, 0x34, 0x40, 0, 0x10, 0,
    0, 0, 0, 0x10, 0x1C, 0xC0, 2, 0, 1, 0, 0x10, 1, 0, 0xD0, 2, 0xE0, 1, 0x10, 0, 5, 0, 0,
    0, 0, 0, 0xD6, 2, 0x22, 1, 0xFE, 0xD7, 0x38, 1, 2, 0, 0, 0, 1, 0x88, 4, 4, 3, 8, 0x88,
    0, 0x80, 0x80, 0, 0x7F, 0x80, 0, 0xEB, 0, 0x20, 0x0F, 0xC9, 0x1F, 0x21, 0x13, 0, 0, 0,
    8, 0, 0, 0, 0x10, 0x80, 0x80, 0, 0, 0, 0, 0xC7, 0x18, 0, 0, 0, 0, 0, 0, 0, 0, 0, 0, 4,
    4, 0x3B, 0, 0, 0x10, 0, 0x95, 0xCC, 0x64, 0xD0, 0x81, 0, 0x10, 0x80, 0x80, 0, 0, 0, 0,
    0, 0, 0, 0, 0, 0, 0, 0, 0, 0, 0, 0, 0x20, 0, 0x23, 0, 0xD0, 2, 0xE0, 1, 0x58, 3, 7, 1,
    0x10, 0, 3, 0, 1, 8, 0, 0, 0, 0x22, 0, 0, 0x26, 1, 0x22, 2, 0, 0, 0, 3, 0, 2, 0, 0, 0,
    0, 0, 0, 0, 0, 0, 0, 0xD0, 2, 0xE0, 1, 0xB0, 0, 0x10, 0x80, 0, 0x80, 0, 0, 7, 0x80, 7,
    0x80, 0, 0, 0x3C, 0, 0x40, 4, 0, 0x11, 0x32, 0xAA, 0xD2, 0, 0, 0, 0, 0, 0x0F, 7, 0, 0]"

definition T132B_P2_PAL :: "u8 list" where
  "T132B_P2_PAL = [
    0x32, 0x0B, 0x4B, 0x0A, 0xDD, 0x32, 0x0A, 0x20, 0x60, 0x26, 0x70, 0, 0x80, 3, 0x37,
    0x2C, 0x2A, 0x89, 6, 0x82, 0x40, 0x64, 0x74, 0x87, 0x2A, 0x0A, 0x7C, 0x1F, 0x20, 0, 0,
    0, 0x41, 0x3E, 0, 0x41, 0xE9, 0x0F, 0x2D, 0x50, 0x22, 0x4E, 0xD6, 0x4E, 0x23, 0x64,
    0x88, 0x56, 0x2D, 0xC5, 0x70, 0x0E, 0x6C, 0x90, 0x70, 0x0E, 0, 9, 0x0E, 0, 0x17, 0x75,
    0, 0, 0x1C, 0x29, 0x10, 0x28, 0x28, 0x40, 0x20, 0x40, 0x40, 0x80, 0x33, 0x37, 0xA1,
    0x2F, 0x68, 0x4B, 0x87, 0xC1, 0xF0, 0x7C, 0xA8, 0x26, 0x2B, 0x2C, 0x48, 0x5B, 8, 0, 9,
    0, 0, 0, 0, 0, 0, 0, 0, 0, 0, 0x0B, 0, 0x10, 0x88, 0x82, 2, 0x10, 0xFC, 0x3E]"

definition ADV7181D_YUV_BACK :: "u8 list" where
  "ADV7181D_YUV_BACK = [
    0x42, 5, 1, 0x42, 6, 6, 0x42, 0xC3, 0x31, 0x42, 0xC4, 0xF2, 0x42, 0x1D, 0x47, 0x42,
    0x0F, 2, 0x42, 0x3A, 0x11, 0x42, 0x3B, 0x81, 0x42, 0x3C, 0x3B, 0x42, 0x6B, 0x83, 0x42,
    0xC9, 0, 0x42, 0x73, 0xCF, 0x42, 0x74, 0xA3, 0x42, 0x75, 0xE8, 0x42, 0x76, 0xFA, 0x42,
    0x7B, 0x1C, 0x42, 0x7C, 0x90, 0x42, 0x85, 0x19, 0x42, 0x86, 0x0B, 0x42, 0xBF, 6, 0x42,
    0xC0, 0x40, 0x42, 0xC1, 0xF0, 0x42, 0xC2, 0x80, 0x42, 0xC5, 1, 0x42, 0xC9, 8, 0x42,
    0x0E, 0x80, 0x42, 0x52, 0x46, 0x42, 0x54, 0x80, 0x42, 0x57, 1, 0x42, 0xF6, 0x3B, 0x42,
    0x0E, 0, 0x42, 0x67, 0x2F, 0xFF, 0, 0, 0]"

definition ADV7181D_RGB_HACT :: "u8 list" where
  "ADV7181D_RGB_HACT = [
    0x42, 5, 1, 0x42, 6, 6, 0x42, 0xC3, 0x46, 0x42, 0xC4, 0xB5, 0x42, 0x1D, 0x47, 0x42,
    0x0F, 2, 0x42, 0x3A, 0x11, 0x42, 0x3B, 0x81, 0x42, 0x3C, 0x3B, 0x42, 0x6B, 0x83, 0x42,
    0xC9, 0, 0x42, 0x73, 0xD0, 0x42, 0x74, 4, 0x42, 0x75, 1, 0x42, 0x76, 0, 0x42, 0x77, 4,
    0x42, 0x78, 8, 0x42, 0x79, 2, 0x42, 0x7A, 0, 0x42, 0x7B, 0x1C, 0x42, 0x7C, 0x90, 0x42,
    0x52, 0, 0x42, 0x53, 0, 0x42, 0x54, 7, 0x42, 0x55, 0x0C, 0x42, 0x56, 0x94, 0x42, 0x57,
    0x89, 0x42, 0x58, 0x48, 0x42, 0x59, 8, 0x42, 0x5A, 0, 0x42, 0x5B, 0x20, 0x42, 0x5C, 3,
    0x42, 0x5D, 0xA9, 0x42, 0x5E, 0x1A, 0x42, 0x6F, 0xB8, 0x42, 0x60, 8, 0x42, 0x61, 0,
    0x42, 0x62, 0x7A, 0x42, 0x63, 0xE1, 0x42, 0x64, 0, 0x42, 0x65, 0x19, 0x42, 0x66, 0x48,
    0x42, 0xEE, 0x80, 0x42, 0x85, 0xE9, 0x42, 0x86, 0x0B, 0x42, 0xBF, 6, 0x42, 0xC0, 0x40,
    0x42, 0xC1, 0xF0, 0x42, 0xC2, 0x80, 0x42, 0xC5, 1, 0x42, 0xC9, 8, 0x42, 0x0E, 0x80,
    0x42, 0x52, 0x46, 0x42, 0x54, 0x80, 0x42, 0x57, 1, 0x42, 0xF6, 0x3B, 0x42, 0x0E, 0,
    0x42, 0x67, 0x2F, 0xFF, 0]"

definition ADV7181D_RGB :: "u8 list" where
  "ADV7181D_RGB = [
    0x42, 5, 1, 0x42, 6, 6, 0x42, 0xC3, 0x46, 0x42, 0xC4, 0xB5, 0x42, 0x1D, 0x47, 0x42,
    0x0F, 2, 0x42, 0x3A, 0x11, 0x42, 0x3B, 0x81, 0x42, 0x3C, 0x3B, 0x42, 0x6B, 0x83, 0x42,
    0xC9, 0, 0x42, 0x73, 0xD0, 0x42, 0x74, 4, 0x42, 0x75, 1, 0x42, 0x76, 0, 0x42, 0x77, 4,
    0x42, 0x78, 8, 0x42, 0x79, 2, 0x42, 0x7A, 0, 0x42, 0x7B, 0x1C, 0x42, 0x7C, 0x90, 0x42,
    0x52, 0, 0x42, 0x53, 0, 0x42, 0x54, 7, 0x42, 0x55, 0x0C, 0x42, 0x56, 0x94, 0x42, 0x57,
    0x89, 0x42, 0x58, 0x48, 0x42, 0x59, 8, 0x42, 0x5A, 0, 0x42, 0x5B, 0x20, 0x42, 0x5C, 3,
    0x42, 0x5D, 0xA9, 0x42, 0x5E, 0x1A, 0x42, 0x6F, 0xB8, 0x42, 0x60, 8, 0x42, 0x61, 0,
    0x42, 0x62, 0x7A, 0x42, 0x63, 0xE1, 0x42, 0x64, 0, 0x42, 0x65, 0x19, 0x42, 0x66, 0x48,
    0x42, 0xEE, 0x80, 0x42, 0x85, 9, 0x42, 0x86, 0x0B, 0x42, 0xBF, 6, 0x42, 0xC0, 0x40,
    0x42, 0xC1, 0xF0, 0x42, 0xC2, 0x80, 0x42, 0xC5, 1, 0x42, 0xC9, 8, 0x42, 0x0E, 0x80,
    0x42, 0x52, 0x46, 0x42, 0x54, 0x80, 0x42, 0x57, 1, 0x42, 0xF6, 0x3B, 0x42, 0x0E, 0,
    0x42, 0x67, 0x2F, 0xFF, 0]"

definition ADV7181D_YUV :: "u8 list" where
  "ADV7181D_YUV = [
    0x42, 5, 1, 0x42, 6, 6, 0x42, 0xC3, 0x56, 0x42, 0xC4, 0xB4, 0x42, 0x1D, 0x47, 0x42,
    0x0F, 2, 0x42, 0x3A, 0x11, 0x42, 0x3B, 0x81, 0x42, 0x3C, 0x3B, 0x42, 0x6B, 0x83, 0x42,
    0xC9, 0, 0x42, 0x73, 0xCF, 0x42, 0x74, 0xA3, 0x42, 0x75, 0xE8, 0x42, 0x76, 0xFA, 0x42,
    0x7B, 0x1C, 0x42, 0x7C, 0x90, 0x42, 0x85, 0x19, 0x42, 0x86, 0x0B, 0x42, 0xBF, 6, 0x42,
    0xC0, 0x40, 0x42, 0xC1, 0xF0, 0x42, 0xC2, 0x80, 0x42, 0xC5, 1, 0x42, 0xC9, 8, 0x42,
    0x0E, 0x80, 0x42, 0x52, 0x46, 0x42, 0x54, 0x80, 0x42, 0x57, 1, 0x42, 0xF6, 0x3B, 0x42,
    0x0E, 0, 0x42, 0x67, 0x2F, 0xFF, 0, 0, 0]"

definition ADV7181D_CVBS :: "u8 list" where
  "ADV7181D_CVBS = [
    0x42, 0, 0x0B, 0x42, 3, 0x0C, 0x42, 4, 0x75, 0x42, 0x0C, 2, 0x42, 0x0D, 0x88, 0x42,
    0x17, 0x41, 0x42, 0x1D, 0x47, 0x42, 0x31, 0x12, 0x42, 0x32, 0xC1, 0x42, 0x33, 4, 0x42,
    0x34, 1, 0x42, 0x35, 0xF0, 0x42, 0x36, 8, 0x42, 0x37, 0x81, 0x42, 0x0F, 0x0A, 0x42,
    0x3A, 0x17, 0x42, 0x3B, 0x81, 0x42, 0x3D, 0xA2, 0x42, 0x3E, 0x6A, 0x42, 0x3F, 0xA0,
    0x42, 0x86, 0x0B, 0x42, 0xF3, 1, 0x42, 0xF9, 3, 0x42, 0x6B, 0x80, 0x42, 0x0E, 0x80,
    0x42, 0x52, 0x46, 0x42, 0x54, 0x80, 0x42, 0x7F, 0xFF, 0x42, 0x81, 0x30, 0x42, 0x90,
    0xC9, 0x42, 0x91, 0x40, 0x42, 0x92, 0x3C, 0x42, 0x93, 0xCA, 0x42, 0x94, 0xD5, 0x42,
    0xB1, 0xFF, 0x42, 0xB6, 8, 0x42, 0xC0, 0x9A, 0x42, 0xCF, 0x50, 0x42, 0xD0, 0x4E, 0x42,
    0xD1, 0xB9, 0x42, 0xD6, 0xDD, 0x42, 0xD7, 0xE2, 0x42, 0xE5, 0x51, 0x42, 0xF6, 0x3B,
    0x42, 0x0E, 0, 0xFF]"

definition T132B_INIT :: "u8 list" where
  "T132B_INIT = [
    0x40, 0x0F, 0x70, 0x40, 0x16, 0xF3, 0x40, 0x18, 0x15, 0x40, 0x19, 0x24, 0x40, 0x1A, 0,
    0x40, 0x31, 0x90, 0x40, 0x61, 0x88, 0x40, 0x64, 4, 0x40, 0x90, 4, 0x40, 0xB0, 0x20,
    0x40, 0xB1, 0, 0x40, 0xB2, 0x10, 0x40, 0xB3, 0, 0x40, 0xB4, 0xD0, 0x40, 0xB5, 2, 0x40,
    0xB6, 0xE0, 0x40, 0xB7, 1, 0x40, 0xB8, 0x58, 0x40, 0xB9, 3, 0x40, 0xBE, 3, 0x40, 0xC9,
    1, 0x40, 0xCA, 0x22, 0x40, 0xCF, 3, 0x40, 0xDC, 0xD0, 0x40, 0xDD, 2, 0x40, 0xDE, 0xE0,
    0x40, 0xDF, 1, 0x40, 0xE0, 0xB0, 0x40, 0xE3, 0x80, 0x40, 0xFC, 0x0F, 0x40, 0xFD, 7,
    0x42, 0xE5, 0, 0x46, 0x1B, 0x49, 0x46, 0x1C, 0x80, 0xFF]"

definition T132B_P0_RGB :: "u8 list" where
  "T132B_P0_RGB = [
    0x0E, 0x0E, 0x0E, 0, 0x2F, 0, 0, 0x36, 0x36, 0x36, 0x90, 0x88, 0x90, 0x28, 0xA0, 0xF4,
    9, 0x98, 6, 8, 0xF0, 0x20, 0x83, 0x38, 0, 0x24, 0, 0x9F, 0xF0, 0, 0xFF, 3, 0xD8, 0, 0,
    0, 0, 0, 4, 0x40, 0, 0, 0, 0, 0, 0, 0, 0, 0x82, 0x30, 0, 0, 0, 0xBC, 0x34, 0x40, 0,
    0x10, 0, 0, 0, 0, 0x10, 0x1C, 0xC2, 0x50, 0, 0, 0, 0, 6, 0, 0xD0, 2, 0xE0, 1, 0x20, 0,
    0x1E, 0, 0, 0, 0, 0, 0xD0, 2, 0xE0, 1, 0x63, 0x6B, 0x0D, 2, 2, 0, 3, 0, 0, 0xC0, 0x10,
    0x10, 2, 8, 8, 0, 0x80, 0x80, 0, 0x7F, 0xA5, 0, 0xEB, 0, 0xB0, 0x13, 0x46, 0x1E, 0x90,
    0x20, 0, 0, 0, 8, 0, 0, 0, 0x10, 0x80, 0x80, 0, 0xF8, 0x75, 0, 0x15, 0x20, 0, 0, 0, 0,
    0, 0, 0, 0, 0, 0, 4, 4, 0x3B, 0, 0, 0x10, 0, 0x95, 0xCC, 0x64, 0xD0, 0x81, 0, 0x10,
    0x80, 0x80, 0, 0, 0, 0, 0, 0, 0, 0, 0, 0, 0, 0, 0, 0, 0, 0, 0x20, 0, 0x16, 0, 0xD0, 2,
    0xE0, 1, 0x1F, 3, 6, 1, 8, 0, 6, 0, 1, 8, 0, 0, 0, 0x22, 0, 0, 0x2A, 1, 0x22, 2, 0, 0,
    0, 3, 0, 2, 0, 0, 0, 0, 0, 0, 0, 0, 0, 0, 0xD0, 2, 0xE0, 1, 0xB0, 0, 0x10, 0x80, 0,
    0x80, 0, 0, 7, 0x80, 7, 0x80, 0, 0, 0x3C, 0, 0x40, 4, 0, 0x11, 0x32, 0xAA, 0xD2, 0, 0,
    0, 0, 0, 0x0F, 7, 0, 0]"

definition T132B_P0_MASK_RGB :: "u8 list" where
  "T132B_P0_MASK_RGB = [
    1, 1, 1, 1, 1, 1, 1, 1, 1, 1, 1, 1, 1, 1, 1, 1, 1, 1, 1, 1, 1, 1, 1, 1, 1, 1, 1, 1, 1,
    1, 1, 1, 1, 1, 1, 1, 1, 1, 1, 1, 1, 1, 1, 1, 1, 1, 1, 1, 1, 1, 1, 1, 1, 1, 1, 1, 1, 1,
    1, 1, 1, 1, 1, 1, 1, 1, 1, 1, 1, 1, 1, 1, 1, 1, 1, 1, 1, 1, 1, 1, 1, 1, 1, 1, 1, 1, 1,
    1, 1, 1, 1, 1, 1, 1, 1, 1, 1, 1, 1, 1, 1, 1, 1, 1, 1, 1, 1, 1, 1, 1, 1, 1, 1, 1, 1, 1,
    1, 1, 1, 1, 1, 1, 1, 1, 1, 1, 1, 1, 1, 1, 1, 1, 1, 1, 1, 1, 1, 1, 1, 1, 1, 1, 1, 1, 0,
    0, 0, 0, 0, 0, 0, 0, 0, 0, 0, 0, 0, 0, 0, 0, 0, 0, 0, 0, 0, 0, 0, 0, 0, 0, 0, 0, 0, 0,
    0, 0, 1, 1, 1, 1, 1, 1, 1, 1, 1, 1, 1, 1, 1, 1, 1, 1, 1, 1, 1, 1, 1, 1, 1, 1, 1, 1, 1,
    1, 1, 1, 1, 1, 0, 0, 0, 0, 0, 0, 0, 0, 0, 0, 0, 0, 0, 0, 0, 0, 0, 0, 0, 0, 0, 0, 0, 0,
    0, 0, 0, 0, 0, 0, 0, 0, 0, 0, 0, 0, 0, 0, 0, 0, 0, 0, 0, 0, 0, 0, 0, 0]"

definition T132B_P0_YUV :: "u8 list" where
  "T132B_P0_YUV = [
    0x0E, 0x0E, 0x0E, 1, 0x2F, 0, 0, 0x3C, 0x34, 0x3C, 0x84, 0x90, 0x70, 0x38, 0x10, 0xF5,
    9, 5, 6, 0xAA, 0xDC, 0x5C, 0x83, 0x38, 0, 0x24, 0, 0x1F, 0xF0, 0, 0xFF, 3, 0x80, 0, 0,
    0, 0, 0, 4, 0x40, 0, 0, 0, 0, 0, 0, 0, 0, 0x82, 0x30, 0, 0, 0, 0xBC, 0x34, 0x40, 0,
    0x10, 0, 0, 0, 0, 0x10, 0x0C, 0xC2, 2, 0, 4, 0, 0, 1, 0, 0xD0, 2, 0xE0, 1, 0x74, 0,
    0x20, 0, 0, 0, 0, 0, 0xD0, 2, 0xE0, 1, 0x3E, 0x6B, 0x0D, 2, 2, 0, 6, 0, 0x81, 0xC2,
    0x14, 0x10, 4, 8, 8, 0, 0x80, 0x7F, 0, 0x7F, 0x6E, 0, 0xEB, 0, 0xB0, 0xCD, 0xFF, 0x1F,
    0, 0x20, 0, 0, 0, 8, 0, 0, 0, 0x10, 0x80, 0x80, 0, 0x0A, 0x6F, 0, 0x15, 0x20, 0, 0, 0,
    0, 0, 0, 0, 0, 0, 0, 4, 4, 0x3B, 0, 0, 0x10, 0, 0x95, 0xCC, 0x64, 0xD0, 0x81, 0, 0x10,
    0x80, 0x80, 0, 0, 0, 0, 0, 0, 0, 0, 0, 0, 0, 0, 0, 0, 0, 0, 0x20, 0, 0x17, 0, 0xD0, 2,
    0xE0, 1, 0x11, 3, 6, 1, 8, 0, 2, 0, 1, 0, 0, 0, 0, 0x22, 0, 0, 0x2A, 1, 0x22, 2, 0, 0,
    0, 3, 0, 2, 0, 0, 0, 0, 0, 0, 0, 0, 0, 0, 0xD0, 2, 0xE0, 1, 0xB0, 0, 0x10, 0x80, 0,
    0x80, 0, 0, 7, 0x80, 7, 0x80, 0, 0, 0x3C, 0, 0x40, 4, 0, 0x11, 0x32, 0xAA, 0xD2, 0, 0,
    0, 0, 0, 0x0F, 7, 0, 0]"

definition ADV7181D_PDN :: "u8 list" where
  "ADV7181D_PDN = [
    0x42, 0x0F, 0x24, 0xFF]"

end
