(* ===== verification/Tv.thy ===== *)
theory Tv
  imports Mtc_State
begin

text \<open>
  The analogue TV tuner (tv.c), behind the MCU: frequency, colour and sound standard, status. The
  results \<open>None\<close> are the early returns that send nothing.
\<close>

section \<open>The tuner\<close>

definition is_Atv :: "config \<Rightarrow> bool" where
  "is_Atv c \<longleftrightarrow> \<not> (cfg_dtv c > 5 \<and> cfg_dtv c \<noteq> 14)"

definition tv_freq_bytes :: "int \<Rightarrow> u8 list" where
  "tv_freq_bytes freq =
     [word_of_int ((freq + 778) div 256), word_of_int (freq + 10), 0x80,
      if freq > 2825 then if freq > 8545 then 8 else 2 else 1]"

definition Tv_Set_Frequency :: "int \<Rightarrow> sys \<Rightarrow> sys" where
  "Tv_Set_Frequency freq s =
     (if is_Atv (cfg s) then emit (Arm_send_multi 0x9403 (tv_freq_bytes freq)) s else s)"

section \<open>The standard\<close>

text \<open>\<open>n + (n <= 0) - n\<close> and the unsigned comparison with 1, as the code writes them.\<close>

definition not_positive :: "int \<Rightarrow> int" where
  "not_positive n = n + of_bool (n \<le> 0) - n"

definition zero_or_one :: "int \<Rightarrow> bool" where
  "zero_or_one n \<longleftrightarrow> (word_of_int n :: u32) \<le> 1"

text \<open>The first two bytes and the new \<open>v5\<close> for a tuner that is not of type 5.\<close>

definition demod_head :: "u8 \<Rightarrow> int \<Rightarrow> (u8 \<times> u8 \<times> int) option" where
  "demod_head b a1 =
     (let v4 = not_positive (a1 - 1); v5 = (if a1 = 5 then v4 OR 1 else v4) in
      if v5 \<noteq> 0 then Some (214, 48, not_positive (a1 - 3))
      else if zero_or_one (a1 - 7) then Some (214, 112, v5)
      else if a1 = 6 \<or> a1 = 2 \<or> a1 = 3 \<or> a1 = 4 then Some (22, b, not_positive (a1 - 3))
      else None)"

text \<open>\<open>LABEL_21\<close>.\<close>

definition demod_last :: "int \<Rightarrow> u8 option" where
  "demod_last a1 =
     (let v4 = not_positive (a1 - 1); v4 = (if zero_or_one (a1 - 5) then v4 OR 1 else v4)
      in if v4 = 0 then None else Some 8)"

definition demod_above_14 :: "int \<Rightarrow> u8 list option" where
  "demod_above_14 a1 =
     Option.bind (demod_head 120 a1) (\<lambda>(x, y, v5).
       let v5 = (if a1 = 7 then v5 OR 1 else v5) in
       if v5 \<noteq> 0 then Some [x, y, 9]
       else if a1 = 4 \<or> a1 = 8 then Some [x, y, 11]
       else if a1 = 2 then Some [x, y, 10]
       else map_option (\<lambda>z. [x, y, z]) (demod_last a1))"

definition demod_to_14 :: "int \<Rightarrow> u8 list option" where
  "demod_to_14 a1 =
     Option.bind (demod_head 112 a1) (\<lambda>(x, y, v5).
       let v5 = (if a1 = 7 then v5 OR 1 else v5) in
       if v5 \<noteq> 0 then Some [x, y, 73]
       else if a1 = 4 \<or> a1 = 8 then Some [x, y, 75]
       else if a1 = 2 then Some [x, y, 74]
       else map_option (\<lambda>z. [x, y, z]) (demod_last a1))"

definition demod_5 :: "int \<Rightarrow> u8 list option" where
  "demod_5 a1 =
     (let v9 = not_positive (a1 - 1); v10 = (if a1 = 5 then v9 OR 1 else v9) in
      Option.bind
        (if v10 \<noteq> 0 then Some (22, 48, not_positive (a1 - 3))
         else if \<not> zero_or_one (a1 - 7) then
           if a1 = 6 \<or> a1 = 2 \<or> a1 = 3 \<or> a1 = 4 then Some (0xD6, 112, not_positive (a1 - 3)) else None
         else Some (0xD6, 112, v10))
        (\<lambda>(x, y, v10).
          let v10 = (if a1 = 7 then v10 OR 1 else v10) in
          if v10 \<noteq> 0 then Some [x, y, 73]
          else if a1 = 4 \<or> a1 = 8 then Some [x, y, 75]
          else if a1 = 2 then Some [x, y, 74]
          else if (if zero_or_one (a1 - 5) then v9 OR 1 else v9) \<noteq> 0 then Some [x, y, 72]
          else None))"

definition demod_bytes :: "config \<Rightarrow> int \<Rightarrow> u8 list option" where
  "demod_bytes c a1 =
     (if cfg_dtv c \<noteq> 5 then
        if uint (cfg_dtv c) - 14 > 0 then demod_above_14 a1 else demod_to_14 a1
      else demod_5 a1)"

definition Tv_Set_Demod :: "int \<Rightarrow> sys \<Rightarrow> sys" where
  "Tv_Set_Demod a1 s =
     (if is_Atv (cfg s) then
        case demod_bytes (cfg s) a1 of None \<Rightarrow> s | Some bs \<Rightarrow> emit (Arm_send_multi 0x9404 bs) s
      else s)"

text \<open>The two bytes the MCU answers with come from the environment.\<close>

definition Tv_Get_Status :: "env \<Rightarrow> sys \<Rightarrow> int \<times> sys" where
  "Tv_Get_Status e s =
     (if is_Atv (cfg s) then
        let s = emit (Arm_read_multi 0x1405 2) s; buf = mcu_data e (trace s)
        in (uint (buf ! 1) + 256 * uint (buf ! 0), s)
      else (0, s))"

section \<open>What reaches the MCU\<close>

text \<open>
  The dirty arithmetic of \<open>Tv_Set_Demod\<close> is a table: the bytes for the eight standards that
  \<open>ctl_tv_demod\<close> lets through, for a tuner of type 5 and for the others.
\<close>

definition demod_table :: "bool \<Rightarrow> (nat \<times> u8 list) list" where
  "demod_table five =
     (if five then
        [(1, [22, 48, 73]), (2, [214, 112, 73]), (3, [214, 112, 73]), (4, [214, 112, 75]),
         (5, [22, 48, 72]), (6, [214, 112, 72]), (7, [214, 112, 73]), (8, [214, 112, 75])]
      else
        [(1, [214, 48, 73]), (2, [22, 112, 73]), (3, [22, 112, 73]), (4, [22, 112, 75]),
         (5, [214, 48, 8]), (6, [22, 112, 8]), (7, [214, 112, 73]), (8, [214, 112, 75])])"

lemma demod_eval:
  "map demod_5 (map int [1..<9]) = map Some (map snd (demod_table True))"
  "map demod_to_14 (map int [1..<9]) = map Some (map snd (demod_table False))"
  by code_simp+

text \<open>The branch for types above 14 is dead: such a tuner is not analogue.\<close>

lemma above_14_digital: "is_Atv c \<Longrightarrow> \<not> uint (cfg_dtv c) - 14 > 0"
  by (auto simp: is_Atv_def word_less_def word_le_def not_less)

text \<open>C15. On an analogue tuner each of the eight standards sends exactly the bytes of the table.\<close>

theorem tv_demod_table:
  assumes "is_Atv (cfg s)" "1 \<le> n" "n \<le> 8"
  shows "Tv_Set_Demod (int n) s =
    emit (Arm_send_multi 0x9404 (the (map_of (demod_table (cfg_dtv (cfg s) = 5)) n))) s"
proof -
  from assms(2,3) have n: "n \<in> {1, 2, 3, 4, 5, 6, 7, 8}" by auto
  have "demod_5 (int n) = Some (the (map_of (demod_table True) n))"
    "demod_to_14 (int n) = Some (the (map_of (demod_table False) n))"
    using n demod_eval by (auto simp: demod_table_def upt_rec)
  then show ?thesis
    using above_14_digital [OF assms(1)] assms(1)
    by (auto simp: Tv_Set_Demod_def demod_bytes_def)
qed

lemma tv_demod_table_witness:
  "Tv_Set_Demod 5 sys_0 = emit (Arm_send_multi 0x9404 [214, 48, 8]) sys_0"
proof -
  have "is_Atv (cfg sys_0)" "cfg_dtv (cfg sys_0) \<noteq> 5" by (simp_all add: is_Atv_def sys_0_def)
  with tv_demod_table [of sys_0 5] show ?thesis by (simp add: demod_table_def)
qed

text \<open>The MCU reads the frequency back from the first two bytes: it is shifted by 778, and any
  frequency that fits is told apart from the others.\<close>

theorem tv_frequency_decodes:
  assumes "is_Atv (cfg s)" "0 \<le> freq" "freq + 778 < 65536"
  shows "\<exists>b0 b1 rest. trace (Tv_Set_Frequency freq s) = Arm_send_multi 0x9403 (b0 # b1 # rest) # trace s \<and>
    256 * uint b0 + uint b1 - 778 = freq"
proof -
  have "uint (word_of_int ((freq + 778) div 256) :: u8) = (freq + 778) div 256"
    using assms(2,3) by (simp add: uint_word_of_int)
  moreover have "uint (word_of_int (freq + 10) :: u8) = (freq + 778) mod 256"
    using mod_mult_self1 [of "freq + 10" 3 256]
    by (simp add: uint_word_of_int add.commute del: of_int_add)
  moreover have "256 * ((freq + 778) div 256) + (freq + 778) mod 256 = freq + 778" by simp
  ultimately show ?thesis
    using assms(1) by (simp add: Tv_Set_Frequency_def tv_freq_bytes_def)
qed

lemma tv_frequency_decodes_witness:
  "\<exists>b0 b1 rest. trace (Tv_Set_Frequency 9800 sys_0) = [Arm_send_multi 0x9403 (b0 # b1 # rest)] \<and>
    256 * uint b0 + uint b1 - 778 = 9800"
proof -
  have "is_Atv (cfg sys_0)" by (simp add: is_Atv_def sys_0_def)
  from tv_frequency_decodes [OF this, of 9800] show ?thesis by simp
qed

end
