(* ===== verification/Camera.thy ===== *)
theory Camera
  imports Camera_Tables Tv Peers
begin

text \<open>
  The cameras and video inputs (backview.c), first part: the two decoders on the I2C bus, the
  capture interface with its clocks, and the choice of the video channel.

  The state is the driver's structure next to the shared state. What a transfer on the bus
  returns, the words read from memory-mapped registers and uninitialised locals come from the
  environment. The static pointer through which \<open>vip_reset\<close> reads the buffer address is never set;
  what it reads is a parameter too.
\<close>

section \<open>State\<close>

record mtc_backview_drv =
  dtv_type :: u8
  decoder_type :: u8
  mirror_image :: u8
  gap1_0 :: u8
  cvbs_auto :: u8
  cap_gate :: u8                   \<comment> \<open>\<open>_gap1b[0]\<close>, the gate of \<open>capture_check_work\<close>\<close>
  camera_working :: u8
  gap2_0 :: u8
  gap2_1 :: u8
  gap2_2 :: u8
  gap2_3 :: u8

type_synonym camera_sys = "mtc_backview_drv \<times> sys"

record camera_env =
  cam_env :: env
  i2c_result :: "event list \<Rightarrow> int"
  i2c_byte :: "event list \<Rightarrow> u8"
  cif_base :: "event list \<Rightarrow> u32"   \<comment> \<open>\<open>cif0[0]\<close>\<close>
  pmu_word :: "event list \<Rightarrow> u32"

definition cam_io :: "(sys \<Rightarrow> sys) \<Rightarrow> camera_sys \<Rightarrow> camera_sys" where
  "cam_io f cs = (fst cs, f (snd cs))"

definition upd_cam :: "(mtc_backview_drv \<Rightarrow> mtc_backview_drv) \<Rightarrow> camera_sys \<Rightarrow> camera_sys" where
  "upd_cam f cs = (f (fst cs), snd cs)"

lemma cam_io_simps [simp]: "fst (cam_io f cs) = fst cs" "snd (cam_io f cs) = f (snd cs)"
  "fst (upd_cam g cs) = g (fst cs)" "snd (upd_cam g cs) = snd cs"
  by (simp_all add: cam_io_def upd_cam_def)

abbreviation (input) cam_emit :: "event \<Rightarrow> camera_sys \<Rightarrow> camera_sys" where
  "cam_emit x \<equiv> cam_io (emit x)"

abbreviation (input) cam_sleep :: "camera_env \<Rightarrow> nat \<Rightarrow> camera_sys \<Rightarrow> camera_sys" where
  "cam_sleep e n \<equiv> cam_io (msleep (cam_env e) n)"

abbreviation (input) upd_status ::
    "(mtc_car_status \<Rightarrow> mtc_car_status) \<Rightarrow> camera_sys \<Rightarrow> camera_sys" where
  "upd_status f \<equiv> cam_io (upd_car f)"

abbreviation (input) ccar :: "camera_sys \<Rightarrow> mtc_car_status" where "ccar cs \<equiv> car (snd cs)"
abbreviation (input) ccfg :: "camera_sys \<Rightarrow> config" where "ccfg cs \<equiv> cfg (snd cs)"

abbreviation (input) uninit :: "camera_env \<Rightarrow> camera_sys \<Rightarrow> u8" where
  "uninit e cs \<equiv> word_of_int (junk (cam_env e) (trace (snd cs)))"

text \<open>\<open>!(backview_status_u32() & 0xFF00FF00)\<close>: of the four bytes at \<open>reserved_9\<close>, two.\<close>

definition backview_status_u32 :: "mtc_car_status \<Rightarrow> u32" where
  "backview_status_u32 c =
     (ucast (reserved_9 c) OR push_bit 8 (ucast (cam_signal c)) OR
      push_bit 16 (ucast (reserved_10 c)) OR push_bit 24 (ucast (reserved_11 c)))"

definition views_idle :: "mtc_car_status \<Rightarrow> bool" where
  "views_idle c \<longleftrightarrow> backview_status_u32 c AND 0xFF00FF00 = 0"

section \<open>The bus\<close>

text \<open>A read leaves the destination \<open>old\<close> alone when it fails.\<close>

definition T132B_i2c_read ::
    "camera_env \<Rightarrow> u8 \<Rightarrow> u8 \<Rightarrow> u8 \<Rightarrow> camera_sys \<Rightarrow> (int \<times> u8) \<times> camera_sys" where
  "T132B_i2c_read e dev reg old cs =
     (let r = i2c_result e (trace (snd cs)); b = i2c_byte e (trace (snd cs));
          ret = (if r < 0 then r else 0); dat = (if r < 0 then old else b)
      in ((ret, dat), cam_emit (I2c_read dev reg ret dat) cs))"

definition T132B_i2c_write ::
    "camera_env \<Rightarrow> u8 \<Rightarrow> u8 \<Rightarrow> u8 \<Rightarrow> camera_sys \<Rightarrow> int \<times> camera_sys" where
  "T132B_i2c_write e dev reg dat cs =
     (let r = i2c_result e (trace (snd cs))
      in (if r < 0 then r else 0, cam_emit (I2c_write dev reg dat) cs))"

abbreviation (input) i2c_put :: "camera_env \<Rightarrow> u8 \<Rightarrow> u8 \<Rightarrow> u8 \<Rightarrow> camera_sys \<Rightarrow> camera_sys" where
  "i2c_put e dev reg dat cs \<equiv> snd (T132B_i2c_write e dev reg dat cs)"

definition T132B_UV_Set :: "camera_env \<Rightarrow> camera_sys \<Rightarrow> camera_sys" where
  "T132B_UV_Set e cs =
     (let cs = upd_status (\<lambda>c. c\<lparr>u_value := uv_off_u (ccfg cs) + 112,
                                 v_value := uv_off_v (ccfg cs) - 124\<rparr>) cs
      in i2c_put e 0x40 10 (v_value (ccar cs)) (i2c_put e 0x40 12 (u_value (ccar cs)) cs))"

text \<open>A sequence: triples up to a device 255.\<close>

fun triples :: "u8 list \<Rightarrow> (u8 \<times> u8 \<times> u8) list" where
  "triples (addr # reg # dat # rest) = (if addr = 255 then [] else (addr, reg, dat) # triples rest)"
| "triples _ = []"

definition T132B_Write :: "camera_env \<Rightarrow> u8 list \<Rightarrow> camera_sys \<Rightarrow> camera_sys" where
  "T132B_Write e data cs = fold (\<lambda>(addr, reg, dat). i2c_put e addr reg dat) (triples data) cs"

definition IC_WritByte :: "camera_env \<Rightarrow> u8 \<Rightarrow> u8 \<Rightarrow> u8 \<Rightarrow> camera_sys \<Rightarrow> camera_sys" where
  "IC_WritByte e dev reg dat cs = i2c_put e dev reg dat cs"

definition IC_ReadByte :: "camera_env \<Rightarrow> u8 \<Rightarrow> u8 \<Rightarrow> camera_sys \<Rightarrow> u8 \<times> camera_sys" where
  "IC_ReadByte e dev reg cs =
     (let ((_, dat), cs) = T132B_i2c_read e dev reg (uninit e cs) cs in (dat, cs))"

definition twdDelay :: "camera_env \<Rightarrow> nat \<Rightarrow> camera_sys \<Rightarrow> camera_sys" where
  "twdDelay e delay cs = cam_sleep e (delay div 2) cs"

text \<open>What \<open>T132B_Page_Write\<close> writes to register \<open>i\<close>, if anything.\<close>

definition standard_value :: "mtc_backview_drv \<Rightarrow> u8 \<Rightarrow> nat \<Rightarrow> u8" where
  "standard_value d av i =
     (let pal = (cvbs_auto d \<noteq> 0) in
      if av = 5 then (if pal then T132B_P2_S_PAL ! i else T132B_P2_S_PALM ! i)
      else if av = 6 then (if pal then T132B_P2_S_PALN ! i else T132B_P2_S_NTSC ! i)
      else if av = 7 \<or> av = 8 then (if pal then T132B_P2_S_SECAM ! i else T132B_P2_S_NTSC ! i)
      else (if pal then T132B_P2_S_PAL ! i else T132B_P2_S_NTSC ! i))"

definition page_value ::
    "mtc_backview_drv \<Rightarrow> mtc_car_status \<Rightarrow> u8 \<Rightarrow> u8 list \<Rightarrow> u8 list \<Rightarrow> nat \<Rightarrow> u8 option" where
  "page_value d c dev data msk i =
     (if cam_state c \<noteq> 0 then if msk ! i \<noteq> 0 then Some (data ! i) else None
      else if (if views_idle c then dev = 68 else False) \<and> av_channel_flag1 c \<noteq> 0 \<and>
          T132B_P2_S_MASK ! i \<noteq> 0 then
        Some (standard_value d (av_channel_flag1 c) i)
      else if msk ! i \<noteq> 0 then Some (data ! i) else None)"

definition T132B_Page_Write ::
    "camera_env \<Rightarrow> u8 \<Rightarrow> nat \<Rightarrow> u8 list \<Rightarrow> u8 list \<Rightarrow> camera_sys \<Rightarrow> camera_sys" where
  "T132B_Page_Write e dev count data msk cs =
     fold (\<lambda>i cs. case page_value (fst cs) (ccar cs) dev data msk i of
         None \<Rightarrow> cs
       | Some v \<Rightarrow> i2c_put e dev (of_nat i) v cs) [0..<count] cs"

section \<open>The decoders\<close>

definition write_ntsc :: "camera_env \<Rightarrow> camera_sys \<Rightarrow> camera_sys" where
  "write_ntsc e cs =
     (if mtc_customer (ccar cs) = 1 then
        T132B_Page_Write e 0x44 112 T132B_P2_NTSC_YZ T132B_P2_MASK
          (T132B_Page_Write e 0x40 240 T132B_P0_NTSC_YZ T132B_P0_MASK cs)
      else
        T132B_Page_Write e 0x44 112 T132B_P2_NTSC T132B_P2_MASK
          (T132B_Page_Write e 0x40 240 T132B_P0_NTSC T132B_P0_MASK cs))"

definition write_pal :: "camera_env \<Rightarrow> camera_sys \<Rightarrow> camera_sys" where
  "write_pal e cs =
     T132B_Page_Write e 0x44 112 T132B_P2_PAL T132B_P2_MASK
       (T132B_Page_Write e 0x40 240 T132B_P0_PAL T132B_P0_MASK cs)"

definition soft_reset :: "camera_env \<Rightarrow> camera_sys \<Rightarrow> camera_sys" where
  "soft_reset e cs = i2c_put e 0x44 63 0 (i2c_put e 0x44 63 1 cs)"

text \<open>
  The search of the colour standard. \<open>v7\<close> and \<open>v8\<close> keep their last value when a read fails; the
  loop ends 200 ms after its start, by the microseconds of the clock.
\<close>

partial_function (option) cvbs_loop ::
    "camera_env \<Rightarrow> int \<Rightarrow> u8 \<Rightarrow> u8 \<Rightarrow> u8 \<Rightarrow> u8 \<Rightarrow> camera_sys \<Rightarrow> (int \<times> camera_sys) option" where
  "cvbs_loop e start_usec sig_cnt pal_cnt v7 v8 cs =
     (let (tv, s) = do_gettimeofday (cam_env e) (snd cs); cs = (fst cs, s);
          cur = (if start_usec > snd tv then snd tv + 1000000 else snd tv)
      in if cur - start_usec > 199999 then Some (1, cs)
         else
           let ((_, v7), cs) = T132B_i2c_read e 0x44 58 v7 cs;
               ((_, v8), cs) = T132B_i2c_read e 0x44 60 v8 cs;
               sig_cnt = (if v7 AND 7 = 1 then sig_cnt + 1 else 0);
               pal_cnt = (if v8 AND 4 \<noteq> 0 then pal_cnt + 1 else 0)
           in if v7 AND 7 = 1 \<and> sig_cnt = 5 then Some (1, cs)
              else if v8 AND 4 \<noteq> 0 \<and> pal_cnt = 4 then
                Some (2, cam_sleep e 200 (soft_reset e (write_pal e
                  (upd_cam (\<lambda>d. d\<lparr>cvbs_auto := 1\<rparr>) cs))))
              else cvbs_loop e start_usec sig_cnt pal_cnt v7 v8 (cam_sleep e 10 cs))"

definition T132B_CVBS_Auto :: "camera_env \<Rightarrow> camera_sys \<Rightarrow> (int \<times> camera_sys) option" where
  "T132B_CVBS_Auto e cs =
     (let v7 = uninit e cs; v8 = uninit e cs;
          cs = write_ntsc e (upd_cam (\<lambda>d. d\<lparr>cvbs_auto := 0\<rparr>) cs);
          cs = cam_sleep e 100 (soft_reset e (i2c_put e 0x44 129 11 cs));
          (tv, s) = do_gettimeofday (cam_env e) (snd cs)
      in cvbs_loop e (snd tv) 0 0 v7 v8 (fst cs, s))"

definition T132B_Init :: "camera_env \<Rightarrow> u8 \<Rightarrow> camera_sys \<Rightarrow> (int \<times> camera_sys) option" where
  "T132B_Init e typ cs =
     (let cs = cam_sleep e 20 (T132B_Write e T132B_INIT cs) in
      if typ = 1 then
        let cs = (if decoder_state (ccar cs) \<noteq> 0 then
                    T132B_UV_Set e (T132B_Page_Write e 0x40 240 T132B_P0_YUV T132B_P0_MASK_RGB cs)
                  else T132B_Page_Write e 0x40 240 T132B_P0_RGB T132B_P0_MASK_RGB cs)
        in Some (4, cam_sleep e 100 cs)
      else T132B_CVBS_Auto e cs)"

definition check_np_adv7181d ::
    "camera_env \<Rightarrow> bool \<Rightarrow> bool \<Rightarrow> camera_sys \<Rightarrow> (int \<times> bool) \<times> camera_sys" where
  "check_np_adv7181d e a2 changed cs =
     (let ((r, v7), cs) = T132B_i2c_read e 0x42 19 (uninit e cs) cs in
      if r \<noteq> 0 then ((0, changed), cs)
      else
        let res = v7 AND 0x15; typ = (if res = 5 then 3 else 2);
            ch = (changed \<or> a2 \<and> decoder_type (fst cs) \<noteq> typ)
        in ((if res = 5 then 2 else if res = 1 then 1 else uint res, ch),
            upd_cam (\<lambda>d. d\<lparr>decoder_type := typ\<rparr>) cs))"

definition ADV7181D_Init :: "camera_env \<Rightarrow> u8 \<Rightarrow> camera_sys \<Rightarrow> int \<times> camera_sys" where
  "ADV7181D_Init e typ cs =
     (let load = (\<lambda>t d. (4, cam_sleep e 100 (upd_cam (\<lambda>x. x\<lparr>decoder_type := d\<rparr>) (T132B_Write e t cs))))
      in if typ = 2 then load ADV7181D_YUV_BACK 1
         else if typ = 3 then load ADV7181D_RGB_HACT 4
         else if typ \<noteq> 0 then
           if decoder_state (ccar cs) \<noteq> 0 then load ADV7181D_YUV 1 else load ADV7181D_RGB 0
         else
           let cs = T132B_Write e ADV7181D_CVBS cs;
               v4 = (if cam_state (ccar cs) \<noteq> 0 then ccfg cs 204 else cam_state (ccar cs));
               cs = cam_sleep e 450 (i2c_put e 0x42 10 v4 cs);
               ((r, _), cs) = check_np_adv7181d e False False cs
           in (r, cs))"

definition check_np :: "camera_env \<Rightarrow> int \<Rightarrow> camera_sys \<Rightarrow> int \<times> camera_sys" where
  "check_np e sig cs =
     (let ((r, v6), cs) = T132B_i2c_read e 0x44 58 (uninit e cs) cs in
      if r \<noteq> 0 then (0, cs)
      else
        let ((r, v7), cs) = T132B_i2c_read e 0x44 60 (uninit e cs) cs in
        if r \<noteq> 0 then (0, cs)
        else if v6 AND 1 = 0 then
          if v7 AND 4 \<noteq> 0 then
            (2, if sig \<le> 1 then
                  cam_sleep e 100 (soft_reset e (write_pal e (upd_cam (\<lambda>d. d\<lparr>cvbs_auto := 1\<rparr>) cs)))
                else cs)
          else
            (1, if sig = 2 \<or> sig = 0 then
                  cam_sleep e 100 (soft_reset e (write_ntsc e (upd_cam (\<lambda>d. d\<lparr>cvbs_auto := 0\<rparr>) cs)))
                else cs)
        else (0, cs))"

text \<open>\<open>i\<close> more tries of the ADV7181D.\<close>

fun tv_signal_tries :: "camera_env \<Rightarrow> nat \<Rightarrow> camera_sys \<Rightarrow> int \<times> camera_sys" where
  "tv_signal_tries e 0 cs = (0, cs)"
| "tv_signal_tries e (Suc i) cs =
     (let ((r, dat), cs) = T132B_i2c_read e 0x42 0x13 (uninit e cs) cs; v3 = dat AND 0x15 in
      if r \<noteq> 0 then (0, cs)
      else if v3 = 5 \<or> v3 = 1 then
        if i = 0 then (if v3 = 5 then 2 else 1, cs) else tv_signal_tries e i (cam_sleep e 10 cs)
      else (r, cs))"

definition check_tv_signal :: "camera_env \<Rightarrow> camera_sys \<Rightarrow> int \<times> camera_sys" where
  "check_tv_signal e cs =
     (if reserved_19 (ccar cs) \<noteq> 0 then tv_signal_tries e 3 cs
      else
        let ((r, dat), cs) = T132B_i2c_read e 0x44 0x3A (uninit e cs) cs in
        if r \<noteq> 0 then (0, cs)
        else
          let ((r, dat2), cs) = T132B_i2c_read e 0x44 0x3C (uninit e cs) cs in
          (if r \<noteq> 0 then 0 else if dat AND 1 \<noteq> 0 then r else if dat2 AND 1 \<noteq> 0 then 3 else 2, cs))"

section \<open>Power, clocks and the capture interface\<close>

definition decorder_power :: "camera_env \<Rightarrow> bool \<Rightarrow> camera_sys \<Rightarrow> camera_sys" where
  "decorder_power e pwr cs =
     (if pwr then
        let cs = cam_io (gpio_set_value gpio_T132_PWR True \<circ> gpio_set_value gpio_T132_RST False) cs
        in cam_sleep e 10 (cam_io (gpio_set_value gpio_T132_RST True) (cam_sleep e 20 cs))
      else if mtc_customer (ccar cs) = 2 then T132B_Write e ADV7181D_PDN cs
      else cam_io (gpio_set_value gpio_T132_PWR False \<circ> gpio_set_value gpio_T132_RST False) cs)"

definition cif_power :: "camera_env \<Rightarrow> bool \<Rightarrow> camera_sys \<Rightarrow> camera_sys" where
  "cif_power e pwr cs = decorder_power e pwr cs"

definition cif_clocks :: "string list" where
  "cif_clocks = [''pd_cif0'', ''aclk_cif0'', ''hclk_cif0'', ''clk_cif0_in'', ''clk_cif0_out'']"

definition clk_enable :: "string \<Rightarrow> camera_sys \<Rightarrow> camera_sys" where
  "clk_enable c = cam_emit (Clk c True)"

definition clk_disable :: "string \<Rightarrow> camera_sys \<Rightarrow> camera_sys" where
  "clk_disable c = cam_emit (Clk c False)"

definition camera_stop :: "camera_env \<Rightarrow> camera_sys \<Rightarrow> camera_sys" where
  "camera_stop e cs =
     (if cap_gate (fst cs) \<noteq> 0 then
        let cs = upd_cam (\<lambda>d. d\<lparr>cap_gate := 0, gap2_0 := 0\<rparr>) cs;
            cs = upd_status (\<lambda>c. c\<lparr>sta_video_signal := 0\<rparr>) (cam_emit (Cancel_delayed ''capture_dwork'') cs);
            cs = cam_emit (Cif_write 2 0xFFFFFFFF) (cam_emit (Cif_write 0 61440) cs);
            cs = fold clk_disable [''aclk_cif0'', ''hclk_cif0'', ''clk_cif0_in'', ''clk_cif0_out'',
                   ''pd_cif0''] (cam_sleep e 20 cs);
            cs = cif_power e False (cam_emit (Const_udelay 107374) cs)
        in cam_sleep e 50 cs
      else cs)"

text \<open>The words \<open>vip_reset\<close> writes for a decoder, and the new \<open>mirror_image\<close>.\<close>

definition vip_format :: "bool \<Rightarrow> u8 \<Rightarrow> (nat \<times> u32) list \<times> u8 option" where
  "vip_format adv dt =
     (if \<not> adv then ([(3, 0), (2, 0xFFFFFFFF), (17, 786448), (10, 29885104), (9, 688)], Some 0)
      else if dt = 3 then ([(2, 0xFFFFFFFF), (3, 12), (17, 0), (10, 37749456), (9, 720)], Some 1)
      else if dt = 2 then ([(2, 0xFFFFFFFF), (3, 12), (17, 1572864), (10, 31458000), (9, 720)], Some 1)
      else if dt = 0 \<or> dt = 1 \<or> dt = 4 then
        ([(2, 0xFFFFFFFF), (3, 32), (17, 0), (10, 31458000), (9, 720)], Some 0)
      else ([(2, 0xFFFFFFFF)], None))"

definition cif_writes :: "(nat \<times> u32) list \<Rightarrow> camera_sys \<Rightarrow> camera_sys" where
  "cif_writes ws cs = fold (\<lambda>(i, v). cam_emit (Cif_write i v)) ws cs"

definition cif_buffer :: "camera_env \<Rightarrow> nat \<Rightarrow> u32 \<Rightarrow> camera_sys \<Rightarrow> camera_sys" where
  "cif_buffer e i off cs = cam_emit (Cif_write i (cif_base e (trace (snd cs)) + off)) cs"

definition vip_reset :: "camera_env \<Rightarrow> nat \<Rightarrow> camera_sys \<Rightarrow> camera_sys" where
  "vip_reset e pwr cs =
     (let cs = upd_cam (\<lambda>d. d\<lparr>gap2_1 := decoder_type d\<rparr>) cs;
          cs = (if pwr = 1 then
                  cam_emit (Const_udelay 536870) (cam_emit (Mem_write 0xFED00128 0x40000000)
                    (cam_emit (Const_udelay 536870) (cam_emit (Mem_write 0xFED00128 1073758208) cs)))
                else cs);
          cs = cif_writes [(0, 61442), (1, 5)] cs;
          (ws, mir) = vip_format (reserved_19 (ccar cs) \<noteq> 0) (decoder_type (fst cs));
          cs = upd_cam (\<lambda>d. case mir of None \<Rightarrow> d | Some m \<Rightarrow> d\<lparr>mirror_image := m\<rparr>) (cif_writes ws cs);
          cs = cif_writes [(18, 16)] cs;
          cs = (if pwr = 1 then
                  cam_emit (Mem_write 0xFED000BC
                    ((pmu_word e (trace (snd cs)) AND 0xEFFFEFF) OR 0x1000000)) cs
                else cs);
          cs = cif_buffer e 8 2626560 (cif_buffer e 7 2211840
                 (cif_buffer e 6 1797120 (cif_buffer e 5 1382400 cs)));
          cs = cif_writes [(24, 0), (0, 61443)] cs;
          cs = (if pwr \<noteq> 2 then upd_cam (\<lambda>d. d\<lparr>gap2_2 := 0\<rparr>) cs else cs)
      in upd_cam (\<lambda>d. d\<lparr>camera_working := 0\<rparr>) cs)"

text \<open>
  The kind of input for the decoder, \<open>v4\<close>, and the new \<open>dtv_type\<close>. The byte stored in \<open>_gap1[0]\<close> is
  a static variable that stays zero.
\<close>

definition input_kind :: "mtc_car_status \<Rightarrow> config \<Rightarrow> u8 \<times> u8" where
  "input_kind c cf =
     (if cam_state c \<noteq> 0 then (if mtc_customer c = 20 then 3 else 0, 0)
      else if reserved_11 c \<noteq> 0 then (0, 0)
      else if video_mode c = 2 then (1, 0)
      else if video_mode c = 5 then
        (0, if cfg_dtv cf = 1 \<or> cfg_dtv cf = 3 then cfg_dtv cf else if is_Atv cf then 4 else 0)
      else if video_mode c = 7 then (0, 5)
      else (0, 0))"

text \<open>The report of the signal: whether there is one and which view it is, if either is assigned.\<close>

definition signal_report :: "mtc_car_status \<Rightarrow> (u8 \<times> u8) option" where
  "signal_report c =
     (let sig = of_bool (sta_video_signal c \<noteq> 0) in
      if cam_state c \<noteq> 0 \<or> ucast (reserved_9 c) AND (0xFF00FF00 :: u32) \<noteq> 0 then Some (sig, 1)
      else if video_mode c = 3 then Some (sig, 2)
      else if video_mode c = 5 then Some (sig, 3)
      else if video_mode c = 7 then Some (sig, 4)
      else None)"

text \<open>The loop at the end: forty naps unless frames arrive.\<close>

fun await_frames :: "camera_env \<Rightarrow> nat \<Rightarrow> camera_sys \<Rightarrow> camera_sys" where
  "await_frames e 0 cs = cs"
| "await_frames e (Suc v7) cs =
     (let cs = cam_sleep e 20 cs
      in if gap2_2 (fst cs) \<le> 3 then await_frames e v7 cs else cs)"

definition start_decoder :: "camera_env \<Rightarrow> u8 \<Rightarrow> camera_sys \<Rightarrow> camera_sys option" where
  "start_decoder e v4 cs =
     (let ((_, v13), cs) = T132B_i2c_read e 0x42 17 (uninit e cs) cs in
      if v13 = 32 then
        let (r, cs) = ADV7181D_Init e v4 (upd_status (\<lambda>c. c\<lparr>reserved_19 := 1\<rparr>) cs)
        in Some (upd_status (\<lambda>c. c\<lparr>sta_video_signal := word_of_int r\<rparr>) cs)
      else
        Option.bind (T132B_Init e v4 (upd_status (\<lambda>c. c\<lparr>reserved_19 := 0\<rparr>) cs)) (\<lambda>(r, cs).
          Some (upd_status (\<lambda>c. c\<lparr>sta_video_signal := word_of_int r\<rparr>) cs)))"

definition start_clocks :: "camera_env \<Rightarrow> camera_sys \<Rightarrow> camera_sys" where
  "start_clocks e cs =
     cam_emit (Clk_rate ''clk_cif0_out'' 48000000) (fold clk_enable cif_clocks (cif_power e True cs))"

definition start_capture :: "camera_env \<Rightarrow> camera_sys \<Rightarrow> camera_sys" where
  "start_capture e cs =
     (let (v14, v15) = (case signal_report (ccar cs) of
                          None \<Rightarrow> (uninit e cs, uninit e cs) | Some r \<Rightarrow> r);
          cs = upd_cam (\<lambda>d. d\<lparr>cap_gate := 1\<rparr>) (cam_emit (Vs_send 2 158 [v14, v15]) cs);
          cs = cam_emit (Queue_delayed ''capture_dwork'' 200) (vip_reset e 1 cs)
      in await_frames e 40 cs)"

definition camera_start :: "camera_env \<Rightarrow> camera_sys \<Rightarrow> camera_sys option" where
  "camera_start e cs =
     (let cs = start_clocks e (if cap_gate (fst cs) \<noteq> 0 then camera_stop e cs else cs);
          (v4, dtv) = input_kind (ccar cs) (ccfg cs);
          cs = upd_cam (\<lambda>d. d\<lparr>gap1_0 := 0, dtv_type := dtv\<rparr>) cs
      in Option.bind (start_decoder e v4 cs) (\<lambda>cs. Some (start_capture e cs)))"

section \<open>The video channel\<close>

text \<open>\<open>LABEL_26\<close> and \<open>LABEL_27\<close>: the source \<open>v7\<close> while no reverse camera is shown.\<close>

definition view_source :: "mtc_car_status \<Rightarrow> config \<Rightarrow> u8 \<Rightarrow> u8" where
  "view_source c cf v7 =
     (if cam_signal c = 0 then
        if reserved_11 c = 0 then v7
        else if cfg_frontview cf \<noteq> 0 \<and> sta_view c \<noteq> 0 then 2 else 5
      else 5)"

definition reverse_source :: "mtc_car_status \<Rightarrow> config \<Rightarrow> u8" where
  "reverse_source c cf =
     (if cfg_frontview cf \<noteq> 0 \<and> reserved_9 c \<noteq> 0 then 2 else mcu_cmd_state c)"

text \<open>The bytes \<open>v7\<close>, \<open>v8\<close> and \<open>v9\<close> of the command.\<close>

definition channel_bytes :: "mtc_car_status \<Rightarrow> config \<Rightarrow> u8 \<times> u8 \<times> u8" where
  "channel_bytes c cf =
     (let rev = (cam_state c \<noteq> 0); m = unat (video_mode c);
          o0 = 5 * m + (if mtc_customer c = 7 then 3340 else 3380)
      in if video_mode c = 255 then
           (if rev then reverse_source c cf else view_source c cf 0, 0, 0)
         else if video_mode c \<noteq> 0 then
           (if rev then reverse_source c cf else view_source c cf (T132B_P2_S_MASK ! o0),
            T132B_P2_S_MASK ! (o0 + 1), T132B_P2_S_MASK ! (o0 + 2))
         else if rev then (reverse_source c cf, 0, 0)
         else (view_source c cf 0, 0, if power_on c = 1 then 119 else 0))"

definition video_Channel :: "camera_env \<Rightarrow> camera_sys \<Rightarrow> camera_sys" where
  "video_Channel e cs =
     (let (v7, v8, v9) = channel_bytes (ccar cs) (ccfg cs);
          cs = (if mtc_customer (ccar cs) \<noteq> 6 then
                  if v7 = 2 then cam_sleep e 200 (cam_io (gpio_direction_output 161 True) cs)
                  else cam_io (gpio_direction_output 161 False) cs
                else cs)
      in cam_emit (Arm_send_multi 36874 [7, v7, v8, v9]) cs)"

text \<open>\<open>mtc_direct_fb_buf\<close>: the words 59 and 67 of the frame buffer's structure.\<close>

definition mtc_direct_fb_buf :: "u32 \<Rightarrow> bool \<Rightarrow> u32 \<times> u32" where
  "mtc_direct_fb_buf base a1 =
     (if a1 then (base + 688128 + 3072, base + 1036800) else (base, base + 344064 + 1536))"

end
