(* ===== verification/Camera_Work.thy ===== *)
theory Camera_Work
  imports Camera
begin

text \<open>
  The cameras, second part: the works of the capture queue (\<open>capture_work\<close> with every command),
  the periodic check of the signal and the calibration of the colours. A work is the two numbers
  that \<open>capture_add_work\<close> stores.
\<close>

abbreviation (input) fb_open :: "nat \<Rightarrow> nat \<Rightarrow> camera_sys \<Rightarrow> camera_sys" where
  "fb_open n v \<equiv> cam_emit (Fb_open n v)"

section \<open>The signal\<close>

text \<open>Which view the report names: the fallback 1, or the kind of video input.\<close>

definition view_code :: "mtc_car_status \<Rightarrow> u8" where
  "view_code c =
     (if cam_state c = 0 \<and> views_idle c then
        if video_mode c = 3 then 2 else if video_mode c = 5 then 3
        else if video_mode c = 7 then 4 else cam_state c
      else 1)"

definition watched :: "mtc_car_status \<Rightarrow> bool" where
  "watched c \<longleftrightarrow> \<not> (cam_state c = 0 \<and> views_idle c \<and>
     video_mode c \<noteq> 3 \<and> video_mode c \<noteq> 5 \<and> video_mode c \<noteq> 7)"

definition capture_check_work :: "camera_env \<Rightarrow> camera_sys \<Rightarrow> camera_sys" where
  "capture_check_work e cs =
     (let again = cam_emit (Queue_delayed ''capture_dwork'' 200);
          report = (\<lambda>sig1 cs. cam_emit (Vs_send 2 158 [sig1, view_code (ccar cs)]) cs)
      in if cap_gate (fst cs) = 0 then cs
         else if decoder_type (fst cs) = 4 then again (cam_emit (Vs_send 2 158 [1, 1]) cs)
         else if \<not> watched (ccar cs) then again cs
         else if reserved_19 (ccar cs) \<noteq> 0 then
           let ((r, changed), cs) =
             (if sta_video_signal (ccar cs) \<noteq> 4 then
                let ((r, ch), cs) = check_np_adv7181d e True False cs
                in ((word_of_int r, ch), upd_status (\<lambda>c. c\<lparr>sta_video_signal := word_of_int r\<rparr>) cs)
              else ((4 :: u8, False), cs));
             cs = report (of_bool (r \<noteq> 0)) cs
           in again (if changed then upd_cam (\<lambda>d. d\<lparr>camera_working := 1\<rparr>) cs else cs)
         else
           let (r, cs) = check_np e (uint (sta_video_signal (ccar cs))) cs;
               cs = upd_status (\<lambda>c. c\<lparr>sta_video_signal := word_of_int r\<rparr>) cs
           in again (report (of_bool (r \<noteq> 0)) cs))"

section \<open>Calibration of the colours\<close>

text \<open>\<open>while (IC_ReadByte(66, 192) != 227)\<close> with \<open>sync_to\<close> tries left.\<close>

fun uv_sync :: "camera_env \<Rightarrow> nat \<Rightarrow> camera_sys \<Rightarrow> bool \<times> camera_sys" where
  "uv_sync e 0 cs = (False, cs)"
| "uv_sync e (Suc n) cs =
     (let (b, cs) = IC_ReadByte e 66 192 cs in
      if b = 227 then (True, cs)
      else let cs = twdDelay e 50 cs in if n = 0 then (False, cs) else uv_sync e n cs)"

definition deviation :: "int \<Rightarrow> int" where
  "deviation v = (if v - 2048 < 0 then 2048 - v else v - 2048)"

text \<open>One comparison: the position and value that are best so far.\<close>

definition uv_better :: "int \<Rightarrow> int \<Rightarrow> int \<times> int \<Rightarrow> int \<times> int" where
  "uv_better pos val fb = (if deviation val < deviation (snd fb) then (pos, val) else fb)"

text \<open>
  The search of one colour: registers \<open>lo\<close> and \<open>lo + 1\<close> hold the measured value, \<open>out\<close> takes the
  next position. \<open>n\<close> positions are left; nothing is found when the decoder does not answer.
\<close>

fun uv_scan ::
    "camera_env \<Rightarrow> u8 \<Rightarrow> u8 \<Rightarrow> nat \<Rightarrow> int \<Rightarrow> int \<times> int \<Rightarrow> camera_sys \<Rightarrow>
       (int \<times> int) option \<times> camera_sys" where
  "uv_scan e lo out 0 pos fb cs = (Some fb, cs)"
| "uv_scan e lo out (Suc n) pos fb cs =
     (let (ok, cs) = uv_sync e 24 cs in
      if \<not> ok then (None, cs)
      else
        let (byte_lo, cs) = IC_ReadByte e 66 lo cs;
            (byte_hi, cs) = IC_ReadByte e 66 (lo + 1) cs;
            val = uint byte_lo + 256 * uint byte_hi;
            cs = IC_WritByte e 64 out (word_of_int (pos + 4)) cs;
            cs = (if n = 0 then cs else IC_WritByte e 66 192 225 (IC_WritByte e 66 192 224 cs))
        in uv_scan e lo out n (pos + 4) (uv_better pos val fb) cs)"

definition uv_setup :: "camera_env \<Rightarrow> camera_sys \<Rightarrow> camera_sys" where
  "uv_setup e cs =
     fold (\<lambda>(dev, reg, dat). IC_WritByte e dev reg dat)
       [(64, 38, 132), (66, 202, 3), (66, 203, 0), (66, 204, 240), (66, 206, 16), (64, 10, 96),
        (64, 12, 96), (64, 6, 0), (66, 192, 224), (66, 192, 225)] (twdDelay e 100 cs)"

definition uv_failed :: "camera_env \<Rightarrow> camera_sys \<Rightarrow> camera_sys" where
  "uv_failed e cs = T132B_UV_Set e (upd_status (\<lambda>c. c\<lparr>uv_cal := 2\<rparr>) cs)"

definition uv_store :: "camera_env \<Rightarrow> int \<Rightarrow> int \<Rightarrow> camera_sys \<Rightarrow> camera_sys" where
  "uv_store e u v cs =
     (let cs = upd_status (\<lambda>c. c\<lparr>u_value := word_of_int u, v_value := word_of_int v\<rparr>) cs;
          cs = IC_WritByte e 64 10 (word_of_int v) (IC_WritByte e 64 12 (word_of_int u) cs)
      in upd_status (\<lambda>c. c\<lparr>uv_cal := 3\<rparr>) (IC_WritByte e 64 38 4 cs))"

definition uv_calibrate :: "camera_env \<Rightarrow> camera_sys \<Rightarrow> camera_sys" where
  "uv_calibrate e cs =
     (let (u, cs) = uv_scan e 198 12 12 96 (0, 0x7FFF) (uv_setup e cs) in
      case u of
        None \<Rightarrow> uv_failed e cs
      | Some (u_final, _) \<Rightarrow>
          let cs = IC_WritByte e 66 192 225 (IC_WritByte e 66 192 224 cs);
              (v, cs) = uv_scan e 200 10 12 96 (0, 0x7FFF) cs
          in (case v of
                None \<Rightarrow> uv_failed e cs
              | Some (v_final, _) \<Rightarrow> uv_store e u_final v_final cs))"

definition work_uv :: "camera_env \<Rightarrow> int \<Rightarrow> camera_sys \<Rightarrow> camera_sys" where
  "work_uv e cmd cs =
     (let c = ccar cs in
      if video_mode c \<noteq> 2 \<or> reserved_19 c \<noteq> 0 \<or> decoder_state c \<noteq> 1 then cs
      else if cmd = 1 then
        let du = u_value c - 112; dv = v_value c + 124;
            cs = cam_io (\<lambda>s. s\<lparr>cfg := (cfg s)(493 := du, 494 := dv)\<rparr>) cs
        in cam_emit (Arm_send_multi 38153 [du, dv]) cs
      else if cmd = 2 then T132B_UV_Set e cs
      else if cmd = 0 then uv_calibrate e cs
      else cs)"

section \<open>The works\<close>

text \<open>The layer is closed and capturing stops; \<open>LABEL_51\<close> and \<open>LABEL_52\<close>.\<close>

definition layer_off :: "camera_env \<Rightarrow> camera_sys \<Rightarrow> camera_sys" where
  "layer_off e cs = camera_stop e (fb_open 1 0 cs)"

definition layer_on :: "camera_env \<Rightarrow> camera_sys \<Rightarrow> camera_sys option" where
  "layer_on e cs =
     Option.bind (camera_start e (cam_sleep e 20 cs)) (\<lambda>cs. Some (fb_open 1 1 cs))"

definition channel_on :: "camera_env \<Rightarrow> camera_sys \<Rightarrow> camera_sys option" where
  "channel_on e cs = layer_on e (video_Channel e cs)"

text \<open>\<open>LABEL_57\<close>: the video input comes back.\<close>

definition input_back :: "camera_env \<Rightarrow> camera_sys \<Rightarrow> camera_sys option" where
  "input_back e cs =
     (if video_mode (ccar cs) \<noteq> 0 \<and> reserved_13 (ccar cs) \<noteq> 0 then layer_on e cs else Some cs)"

definition input_free :: "mtc_car_status \<Rightarrow> bool" where
  "input_free c \<longleftrightarrow> cam_state c = 0 \<and> views_idle c"

definition work_source :: "camera_env \<Rightarrow> int \<Rightarrow> camera_sys \<Rightarrow> camera_sys" where
  "work_source e cmd cs =
     (let cs = upd_cam (\<lambda>d. d\<lparr>gap2_3 := 1\<rparr>) cs;
          cs = (if video_mode (ccar cs) \<noteq> 0 \<and> reserved_13 (ccar cs) \<noteq> 0 then
                  let cs = upd_status (\<lambda>c. c\<lparr>reserved_13 := 0\<rparr>) cs
                  in if input_free (ccar cs) then layer_off e cs else cs
                else cs);
          m = (if cmd \<noteq> 2 \<and> cmd \<noteq> 5 \<and> cmd \<noteq> 3 \<and> cmd \<noteq> 7 \<and> cmd \<noteq> 0xFF then 0 else word_of_int cmd)
      in video_Channel e (upd_status (\<lambda>c. c\<lparr>video_mode := m\<rparr>) cs))"

definition work_show :: "camera_env \<Rightarrow> int \<Rightarrow> camera_sys \<Rightarrow> camera_sys option" where
  "work_show e cmd cs =
     (if uint (video_mode (ccar cs)) = cmd \<and> reserved_13 (ccar cs) = 0 then
        let cs = upd_status (\<lambda>c. c\<lparr>reserved_13 := 1\<rparr>) cs
        in if input_free (ccar cs)
           then Option.bind (camera_start e cs) (\<lambda>cs. Some (fb_open 1 1 cs)) else Some cs
      else Some cs)"

definition work_hide :: "camera_env \<Rightarrow> int \<Rightarrow> camera_sys \<Rightarrow> camera_sys" where
  "work_hide e cmd cs =
     (if uint (video_mode (ccar cs)) = cmd \<and> reserved_13 (ccar cs) \<noteq> 0 then
        let cs = upd_status (\<lambda>c. c\<lparr>reserved_13 := 0\<rparr>) cs
        in if input_free (ccar cs) then layer_off e cs else cs
      else cs)"

definition work_view_on :: "camera_env \<Rightarrow> int \<Rightarrow> camera_sys \<Rightarrow> camera_sys option" where
  "work_view_on e cmd cs =
     (let c = ccar cs; store = upd_status (\<lambda>c. c\<lparr>sta_view := word_of_int cmd\<rparr>) in
      if reserved_11 c \<noteq> 0 then
        if cam_state c = 0 \<and> cam_signal c = 0 \<and> uint (sta_view c) \<noteq> cmd
        then channel_on e (layer_off e (cam_sleep e 10 (store cs))) else Some cs
      else
        let cs = store (upd_status (\<lambda>c. c\<lparr>reserved_11 := 1\<rparr>) cs)
        in if cam_state c = 0 \<and> cam_signal c = 0
           then channel_on e (if reserved_13 c \<noteq> 0 then layer_off e cs else cs) else Some cs)"

definition work_view_off :: "camera_env \<Rightarrow> camera_sys \<Rightarrow> camera_sys option" where
  "work_view_off e cs =
     (if reserved_11 (ccar cs) = 0 then Some cs
      else
        let cs = upd_status (\<lambda>c. c\<lparr>reserved_11 := 0\<rparr>) cs
        in if cam_state (ccar cs) \<noteq> 0 \<or> cam_signal (ccar cs) \<noteq> 0 then Some cs
           else input_back e (video_Channel e (layer_off e cs)))"

definition work_cam_on :: "camera_env \<Rightarrow> camera_sys \<Rightarrow> camera_sys option" where
  "work_cam_on e cs =
     (if cam_state (ccar cs) = 0 \<and> cam_signal (ccar cs) = 0 then
        let cs = upd_status (\<lambda>c. c\<lparr>cam_signal := 1\<rparr>) cs;
            cs = (if reserved_11 (ccar cs) \<noteq> 0 \<or> reserved_13 (ccar cs) \<noteq> 0 then layer_off e cs else cs)
        in Option.bind (channel_on e cs) (\<lambda>cs. Some (fb_open 0 0 cs))
      else Some cs)"

definition work_cam_off :: "camera_env \<Rightarrow> camera_sys \<Rightarrow> camera_sys option" where
  "work_cam_off e cs =
     (if cam_state (ccar cs) \<noteq> 0 \<or> cam_signal (ccar cs) = 0 then Some cs
      else
        let cs = upd_status (\<lambda>c. c\<lparr>cam_signal := 0\<rparr>) cs;
            cs = video_Channel e (layer_off e (fb_open 0 1 cs))
        in if reserved_11 (ccar cs) \<noteq> 0 then layer_on e cs else input_back e cs)"

text \<open>\<open>MSG_BACKVIEW_START\<close>.\<close>

definition start_message :: "camera_sys \<Rightarrow> camera_sys" where
  "start_message cs =
     upd_status (\<lambda>c. c\<lparr>reserved_10 := 1\<rparr>)
       (cam_emit (Vs_send 2 (if mcu_cmd_state (ccar cs) = 5 then 0x8C else 0xA6) []) cs)"

definition work_reverse_on :: "camera_env \<Rightarrow> int \<Rightarrow> camera_sys \<Rightarrow> camera_sys option" where
  "work_reverse_on e cmd cs =
     (let c = ccar cs in
      if cam_state c \<noteq> 0 \<and> (reserved_8 c = 0 \<or> reserved_9 c \<noteq> 1) then Some cs
      else
        let was_off = (cam_state c = 0);
            cs = upd_status (\<lambda>c. c\<lparr>reserved_9 := 0, cam_state := 1, cam_signal := 0,
                                   radar_val := word_of_int cmd\<rparr>) cs;
            cs = (if call_active c \<noteq> 0 \<and> was_off then start_message cs else cs);
            cs = (if reserved_11 (ccar cs) \<noteq> 0 \<or> reserved_13 (ccar cs) \<noteq> 0 \<or> \<not> was_off
                  then layer_off e cs else cs);
            cs = upd_status (\<lambda>c. c\<lparr>reserved_8 := 0\<rparr>) cs
        in Option.bind (channel_on e cs) (\<lambda>cs.
             if \<not> was_off then Some cs
             else
               let cs = (if call_active (ccar cs) = 0 \<or> radar_val (ccar cs) \<noteq> 0
                         then fb_open 0 0 cs else cs)
               in Some (cam_emit (Audio_add_work 17 0 0 0) (cam_emit Backlight_on cs))))"

definition work_reverse_again :: "camera_env \<Rightarrow> camera_sys \<Rightarrow> camera_sys option" where
  "work_reverse_again e cs =
     (if cam_state (ccar cs) = 0 then Some cs
      else channel_on e (layer_off e
        (if call_active (ccar cs) \<noteq> 0 then start_message cs else cs)))"

definition work_radar :: "int \<Rightarrow> camera_sys \<Rightarrow> camera_sys" where
  "work_radar cmd cs =
     (if cam_state (ccar cs) \<noteq> 0 then
        upd_status (\<lambda>c. c\<lparr>reserved_10 := 1\<rparr>) (cam_emit (Vs_send 2 0x8C [])
          (upd_status (\<lambda>c. c\<lparr>radar_val := word_of_int cmd\<rparr>) cs))
      else cs)"

definition work_reverse_off :: "camera_env \<Rightarrow> camera_sys \<Rightarrow> camera_sys option" where
  "work_reverse_off e cs =
     (if cam_state (ccar cs) = 0 then Some cs
      else
        let cs = upd_status (\<lambda>c. c\<lparr>reserved_8 := 0\<rparr>) cs;
            cs = (if power_refcnt (ccar cs) = 0 then cam_emit Backlight_off cs else cs);
            cs = upd_status (\<lambda>c. c\<lparr>cam_state := 0\<rparr>) cs;
            cs = (if call_active (ccar cs) \<noteq> 0
                  then upd_status (\<lambda>c. c\<lparr>reserved_10 := 0\<rparr>) (cam_emit (Vs_send 2 0x8D []) cs) else cs);
            cs = video_Channel e (layer_off e (fb_open 0 1 cs))
        in Option.bind (if reserved_11 (ccar cs) \<noteq> 0 then layer_on e cs else input_back e cs)
             (\<lambda>cs. Some (cam_emit (Audio_add_work 17 0 0 0) cs)))"

definition work_front :: "camera_env \<Rightarrow> camera_sys \<Rightarrow> camera_sys option" where
  "work_front e cs =
     (if cam_state (ccar cs) \<noteq> 0 \<and> reserved_8 (ccar cs) = 0
      then channel_on e (upd_status (\<lambda>c. c\<lparr>reserved_9 := 1, reserved_8 := 1\<rparr>) (layer_off e cs))
      else Some cs)"

definition work_recheck :: "camera_env \<Rightarrow> camera_sys \<Rightarrow> camera_sys" where
  "work_recheck e cs =
     (let c = ccar cs in
      if reserved_13 c \<noteq> 0 \<and> input_free c \<and>
        (video_mode c = 5 \<or> video_mode c = 3 \<or> video_mode c = 7) \<and> reserved_19 c = 0
      then cam_emit (Queue_delayed ''capture_dwork'' 200)
             (snd (check_np e 0 (cam_emit (Cancel_delayed ''capture_dwork'') cs)))
      else cs)"

definition work_toggle :: "camera_env \<Rightarrow> camera_sys \<Rightarrow> camera_sys option" where
  "work_toggle e cs =
     (if cam_state (ccar cs) \<noteq> 0 then
        let cs = cam_sleep e 10 (cam_emit Backlight_off cs);
            was = (reserved_9 (ccar cs) \<noteq> 0);
            cs = upd_status (\<lambda>c. c\<lparr>reserved_9 := of_bool (\<not> was)\<rparr>) cs;
            cs = upd_status (\<lambda>c. c\<lparr>reserved_10 := 1\<rparr>)
              (cam_emit (Vs_send 2 (if was then 0x8C else 0x9D) []) cs);
            cs = cam_sleep e 20 (video_Channel e (camera_stop e cs))
        in Option.bind (camera_start e cs) (\<lambda>cs. Some (cam_emit Backlight_on cs))
      else Some cs)"

text \<open>The cases of \<open>capture_work\<close>, named there by characters.\<close>

definition capture_body :: "camera_env \<Rightarrow> int \<Rightarrow> int \<Rightarrow> camera_sys \<Rightarrow> camera_sys option" where
  "capture_body e c cmd cs =
     (if c = 46 then Some (work_source e cmd cs)
      else if c = 47 then Some (if gap2_3 (fst cs) \<noteq> 0 then video_Channel e cs else cs)
      else if c = 48 then work_show e cmd cs
      else if c = 49 then Some (work_hide e cmd cs)
      else if c = 50 then Some (work_uv e cmd cs)
      else if c = 51 then
        Some (if reserved_19 (ccar cs) = 1 then i2c_put e 0x42 10 (word_of_int cmd) cs else cs)
      else if c = 52 then work_view_on e cmd cs
      else if c = 53 then work_view_off e cs
      else if c = 54 then work_cam_on e cs
      else if c = 55 then work_cam_off e cs
      else if c = 56 then work_reverse_on e cmd cs
      else if c = 57 then work_reverse_again e cs
      else if c = 58 then Some (work_radar cmd cs)
      else if c = 59 then work_reverse_off e cs
      else if c = 60 then work_front e cs
      else if c = 61 then Some (work_recheck e cs)
      else if c = 64 then
        Some (if cam_state (ccar cs) \<noteq> 0 then
                cam_emit (Fb_show 0) (fb_open 0 1 (upd_status (\<lambda>c. c\<lparr>radar_val := 0\<rparr>) cs))
              else cs)
      else if c = 66 then work_toggle e cs
      else Some cs)"

abbreviation (input) back_lock :: string where "back_lock \<equiv> ''back_cmd_lock''"

definition capture_work :: "camera_env \<Rightarrow> int \<Rightarrow> int \<Rightarrow> camera_sys \<Rightarrow> camera_sys option" where
  "capture_work e c cmd cs =
     Option.bind (capture_body e c cmd (cam_emit (Lock back_lock) cs))
       (\<lambda>cs. Some (cam_emit (Unlock back_lock) cs))"

text \<open>What \<open>capture_add_work\<close> queues, after how long, and the flush it may wait for.\<close>

definition capture_add_work ::
    "int \<Rightarrow> int \<Rightarrow> nat \<Rightarrow> bool \<Rightarrow> camera_sys \<Rightarrow> (nat \<times> int \<times> int) \<times> camera_sys" where
  "capture_add_work c1 c2 delay flush cs =
     ((delay, c1, c2), if flush then cam_emit (Flush_queue ''cap_wq'') cs else cs)"

end
