(* ===== verification/Camera_Facts.thy ===== *)
theory Camera_Facts
  imports Camera_Work
begin

text \<open>
  What the cameras guarantee: the capture interface runs exactly while somebody watches, its
  clocks are enabled as often as disabled, every work ends, page writes load the registers they
  name, and the calibration finds the best position.
\<close>

section \<open>Observations the small operations keep\<close>

fun quiet_event :: "event \<Rightarrow> bool" where
  "quiet_event (Lock _) = False"
| "quiet_event (Unlock _) = False"
| "quiet_event (Clk _ _) = False"
| "quiet_event (Fb_open _ _) = False"
| "quiet_event _ = True"

text \<open>Who watches: the reverse camera, the two further cameras, the video input.\<close>

record views =
  reversing :: bool
  aux_on :: bool
  view_on :: bool
  input_on :: bool
  source :: u8

definition views_of :: "mtc_car_status \<Rightarrow> views" where
  "views_of c = \<lparr>reversing = (cam_state c \<noteq> 0), aux_on = (cam_signal c \<noteq> 0),
     view_on = (reserved_11 c \<noteq> 0), input_on = (reserved_13 c \<noteq> 0), source = video_mode c\<rparr>"

text \<open>
  Nobody else writes these bytes while a work sleeps. Besides the works, the sources write them
  in two places: \<open>car_probe\<close> sets \<open>video_mode\<close> at boot, and \<open>gtp_touch_down\<close> sets \<open>cam_signal\<close>
  when a touch wakes the panel (Touch_Camera shows what comes of that).
\<close>

definition keeps_views :: "camera_env \<Rightarrow> bool" where
  "keeps_views e \<longleftrightarrow> (\<forall>h c. views_of (others (cam_env e) h c) = views_of c)"

locale camera_observation =
  fixes obs :: "camera_sys \<Rightarrow> 'a" and fits :: "camera_env \<Rightarrow> bool"
  assumes log: "quiet_event x \<Longrightarrow> obs (cam_io (emit x) cs) = obs cs"
    and nap: "fits e \<Longrightarrow> obs (cam_io (msleep (cam_env e) n) cs) = obs cs"
    and driver: "(\<And>d. cap_gate (f d) = cap_gate d) \<Longrightarrow> obs (upd_cam f cs) = obs cs"
    and status: "(\<And>c. views_of (g c) = views_of c) \<Longrightarrow> obs (cam_io (upd_car g) cs) = obs cs"
begin

lemmas steps = log nap driver status

lemma i2c_read: "obs (snd (T132B_i2c_read e dev reg old cs)) = obs cs"
  by (simp add: T132B_i2c_read_def Let_def log)

lemma i2c_read_pair: "T132B_i2c_read e dev reg old cs = (x, cs') \<Longrightarrow> obs cs' = obs cs"
  using i2c_read [of e dev reg old cs] by simp

lemma i2c_write: "obs (snd (T132B_i2c_write e dev reg dat cs)) = obs cs"
  by (simp add: T132B_i2c_write_def Let_def log)

lemma uv_set: "obs (T132B_UV_Set e cs) = obs cs"
  by (simp add: T132B_UV_Set_def Let_def i2c_write status views_of_def)

lemma kept_fold: "(\<And>x cs. obs (f x cs) = obs cs) \<Longrightarrow> obs (fold f xs cs) = obs cs"
  by (induction xs arbitrary: cs) simp_all

lemma sequence: "obs (T132B_Write e data cs) = obs cs"
  by (auto simp: T132B_Write_def i2c_write intro!: kept_fold split: prod.split)

lemma page: "obs (T132B_Page_Write e dev count data msk cs) = obs cs"
  by (auto simp: T132B_Page_Write_def i2c_write intro!: kept_fold split: option.split)

lemma standards: "obs (write_ntsc e cs) = obs cs" "obs (write_pal e cs) = obs cs"
  "obs (soft_reset e cs) = obs cs"
  by (simp_all add: write_ntsc_def write_pal_def soft_reset_def page i2c_write)

lemmas small = i2c_read i2c_write uv_set sequence page standards

lemma clock: "obs (fst cs, snd (do_gettimeofday e (snd cs))) = obs cs"
  using log [of "Clock (sec e (trace (snd cs))) (usec e (trace (snd cs)))" cs]
  by (simp add: do_gettimeofday_def cam_io_def Let_def)

lemma clock_pair: "do_gettimeofday (cam_env e) s = (tv, s') \<Longrightarrow> obs (d, s') = obs (d, s)"
  using clock [of "(d, s)" "cam_env e"] by simp

lemma nap_pair: "fits e \<Longrightarrow> obs (fst cs, msleep (cam_env e) n (snd cs)) = obs cs"
  using nap [of e n cs] by (simp add: cam_io_def)

lemma read_byte: "obs (snd (IC_ReadByte e dev reg cs)) = obs cs"
  by (auto simp: IC_ReadByte_def Let_def split: prod.split dest!: i2c_read_pair)

lemma read_byte_pair: "IC_ReadByte e dev reg cs = (b, cs') \<Longrightarrow> obs cs' = obs cs"
  using read_byte [of e dev reg cs] by simp

lemma write_byte: "obs (IC_WritByte e dev reg dat cs) = obs cs"
  by (simp add: IC_WritByte_def i2c_write)

lemma delay: "fits e \<Longrightarrow> obs (twdDelay e n cs) = obs cs"
  by (simp add: twdDelay_def nap)

text \<open>The operations built of these: they walk through pairs, options and conditionals.\<close>

lemma cvbs_loop:
  assumes "cvbs_loop e t a b v7 v8 cs = Some y" and "fits e"
  shows "obs (snd y) = obs cs"
proof -
  have "fits e \<longrightarrow> obs (snd y) = obs cs"
  proof (rule cvbs_loop.raw_induct
      [where P = "\<lambda>e t a b v7 v8 cs y. fits e \<longrightarrow> obs (snd y) = obs cs", OF _ assms(1)], goal_cases)
    case (1 f e t a b v7 v8 cs y)
    from 1(2) show ?case
      by (auto simp: clock nap driver standards Let_def split: prod.splits if_splits
          dest!: 1(1) i2c_read_pair clock_pair [where d = "fst cs"])
  qed
  with assms(2) show ?thesis by simp
qed

lemma CVBS_Auto: "T132B_CVBS_Auto e cs = Some y \<Longrightarrow> fits e \<Longrightarrow> obs (snd y) = obs cs"
  by (auto simp: T132B_CVBS_Auto_def Let_def standards i2c_write nap nap_pair driver clock_pair split: prod.splits
      dest!: cvbs_loop)

lemma Init: "T132B_Init e t cs = Some y \<Longrightarrow> fits e \<Longrightarrow> obs (snd y) = obs cs"
  by (auto simp: T132B_Init_def Let_def small nap dest!: CVBS_Auto split: if_splits)

lemma check_np_adv: "obs (snd (check_np_adv7181d e a ch cs)) = obs cs"
  by (auto simp: check_np_adv7181d_def Let_def driver split: prod.split dest!: i2c_read_pair)

lemma check_np_adv_pair: "check_np_adv7181d e a ch cs = (x, cs') \<Longrightarrow> obs cs' = obs cs"
  using check_np_adv [of e a ch cs] by simp

lemma ADV_Init: "fits e \<Longrightarrow> obs (snd (ADV7181D_Init e t cs)) = obs cs"
  by (auto simp: ADV7181D_Init_def Let_def small nap driver split: prod.split dest!: check_np_adv_pair)

lemma ADV_Init_pair: "ADV7181D_Init e t cs = (r, cs') \<Longrightarrow> fits e \<Longrightarrow> obs cs' = obs cs"
  using ADV_Init [of e t cs] by simp

lemma np: "fits e \<Longrightarrow> obs (snd (check_np e sig cs)) = obs cs"
  by (auto simp: check_np_def Let_def standards nap driver split: prod.split dest!: i2c_read_pair)

lemma np_pair: "check_np e sig cs = (r, cs') \<Longrightarrow> fits e \<Longrightarrow> obs cs' = obs cs"
  using np [of e sig cs] by simp

lemma tv_tries: "fits e \<Longrightarrow> obs (snd (tv_signal_tries e n cs)) = obs cs"
  by (induction n arbitrary: cs)
     (auto simp: Let_def nap split: prod.split dest!: i2c_read_pair)

lemma tv_signal: "fits e \<Longrightarrow> obs (snd (check_tv_signal e cs)) = obs cs"
  by (auto simp: check_tv_signal_def Let_def tv_tries split: prod.split dest!: i2c_read_pair)

lemma gpio: "obs (cam_io (gpio_set_value p b) cs) = obs cs"
  "obs (cam_io (gpio_direction_output p b) cs) = obs cs"
  unfolding gpio_set_value_def gpio_direction_output_def by (simp_all add: log)

lemma cam_io_comp: "cam_io (f \<circ> g) cs = cam_io f (cam_io g cs)"
  by (simp add: cam_io_def)

lemma power: "fits e \<Longrightarrow> obs (decorder_power e b cs) = obs cs" "fits e \<Longrightarrow> obs (cif_power e b cs) = obs cs"
  by (simp_all add: cif_power_def decorder_power_def Let_def cam_io_comp gpio nap sequence)

lemma cif: "obs (cif_writes ws cs) = obs cs" "obs (cif_buffer e i off cs) = obs cs"
  by (auto simp: cif_writes_def cif_buffer_def log intro!: kept_fold split: prod.split)

lemma reset: "obs (vip_reset e pwr cs) = obs cs"
  by (simp add: vip_reset_def Let_def cif log driver split: prod.split option.split)

lemma frames: "fits e \<Longrightarrow> obs (await_frames e n cs) = obs cs"
  by (induction n arbitrary: cs) (simp_all add: Let_def nap)

lemma decoder: "fits e \<Longrightarrow> start_decoder e v cs = Some cs' \<Longrightarrow> obs cs' = obs cs"
  by (auto simp: start_decoder_def Let_def views_of_def status bind_eq_Some split: prod.splits if_splits
      dest!: i2c_read_pair ADV_Init_pair Init)

lemma channel: "fits e \<Longrightarrow> obs (video_Channel e cs) = obs cs"
  by (simp add: video_Channel_def Let_def log nap gpio split: prod.split)

lemma message: "obs (start_message cs) = obs cs"
  by (simp add: start_message_def log status views_of_def)

lemma recheck: "fits e \<Longrightarrow> obs (work_recheck e cs) = obs cs"
  by (simp add: work_recheck_def Let_def log np)

lemma radar: "obs (work_radar cmd cs) = obs cs"
  by (simp add: work_radar_def log status views_of_def)

lemma signal_pair: "cam_io (upd_car (sta_video_signal_update f)) cs = cs' \<Longrightarrow> obs cs' = obs cs"
  using status [of "sta_video_signal_update f" cs] by (auto simp: views_of_def)

lemma check_work: "fits e \<Longrightarrow> obs (capture_check_work e cs) = obs cs"
  by (auto simp: capture_check_work_def Let_def log driver status views_of_def split: prod.splits
      dest!: check_np_adv_pair np_pair signal_pair)

lemma sync: "fits e \<Longrightarrow> obs (snd (uv_sync e n cs)) = obs cs"
  by (induction n arbitrary: cs) (auto simp: Let_def delay split: prod.split dest!: read_byte_pair)

lemma sync_pair: "uv_sync e n cs = (b, cs') \<Longrightarrow> fits e \<Longrightarrow> obs cs' = obs cs"
  using sync [of e n cs] by simp

lemma scan: "fits e \<Longrightarrow> obs (snd (uv_scan e lo out n pos fb cs)) = obs cs"
  by (induction n arbitrary: pos fb cs)
     (auto simp: Let_def write_byte split: prod.split dest!: sync_pair read_byte_pair)

lemma scan_pair: "uv_scan e lo out n pos fb cs = (r, cs') \<Longrightarrow> fits e \<Longrightarrow> obs cs' = obs cs"
  using scan [of e lo out n pos fb cs] by simp

lemma calibrate: "fits e \<Longrightarrow> obs (uv_calibrate e cs) = obs cs"
  by (auto simp: uv_calibrate_def uv_setup_def uv_failed_def uv_store_def Let_def write_byte delay uv_set
      status views_of_def split: prod.split option.split dest!: scan_pair)

end

section \<open>What is counted\<close>

definition clk_depth :: "string \<Rightarrow> event list \<Rightarrow> int" where
  "clk_depth c h = int (count_list h (Clk c True)) - int (count_list h (Clk c False))"

fun layer_shown :: "event list \<Rightarrow> bool" where
  "layer_shown (Fb_open n v # h) = (if n = 1 then v \<noteq> 0 else layer_shown h)"
| "layer_shown (_ # h) = layer_shown h"
| "layer_shown [] = False"

text \<open>Whether frames are captured, the depth of each clock and lock, whether the layer is shown.\<close>

record gauge =
  running :: bool
  clocks :: "string \<Rightarrow> int"
  locks :: "string \<Rightarrow> int"
  layer :: bool

definition gauge_of :: "camera_sys \<Rightarrow> gauge" where
  "gauge_of cs = \<lparr>running = (cap_gate (fst cs) \<noteq> 0), clocks = (\<lambda>c. clk_depth c (trace (snd cs))),
     locks = (\<lambda>l. held l (trace (snd cs))), layer = layer_shown (trace (snd cs))\<rparr>"

lemma quiet_counts:
  assumes "quiet_event x"
  shows "clk_depth c (x # h) = clk_depth c h" "held l (x # h) = held l h"
    "layer_shown (x # h) = layer_shown h"
  using assms by (cases x; simp add: clk_depth_def held_def)+

interpretation gauging: camera_observation gauge_of "\<lambda>_. True"
proof
  fix x cs
  assume "quiet_event x"
  then show "gauge_of (cam_io (emit x) cs) = gauge_of cs"
    by (simp add: gauge_of_def quiet_counts)
next
  fix e n cs
  show "gauge_of (cam_io (msleep (cam_env e) n) cs) = gauge_of cs"
    by (simp add: gauge_of_def msleep_def quiet_counts Let_def)
qed (simp_all add: gauge_of_def)

lemma gauge_clk: "gauge_of (cam_io (emit (Clk c b)) cs) =
    (gauge_of cs)\<lparr>clocks := (clocks (gauge_of cs))(c := clocks (gauge_of cs) c + (if b then 1 else -1))\<rparr>"
  by (auto simp: gauge_of_def clk_depth_def held_def fun_eq_iff)

lemma gauge_fb: "gauge_of (cam_io (emit (Fb_open n v)) cs) =
    (if n = 1 then (gauge_of cs)\<lparr>layer := v \<noteq> 0\<rparr> else gauge_of cs)"
  by (simp add: gauge_of_def clk_depth_def held_def)

lemma gauge_gate: "gauge_of (upd_cam (\<lambda>d. d\<lparr>cap_gate := n\<rparr>) cs) = (gauge_of cs)\<lparr>running := n \<noteq> 0\<rparr>"
  "gauge_of (upd_cam (\<lambda>d. d\<lparr>cap_gate := n, gap2_0 := m\<rparr>) cs) = (gauge_of cs)\<lparr>running := n \<noteq> 0\<rparr>"
  by (simp_all add: gauge_of_def)

lemma gauge_status: "gauge_of (cam_io (upd_car f) cs) = gauge_of cs"
  by (simp add: gauge_of_def)

definition switched :: "int \<Rightarrow> (string \<Rightarrow> int) \<Rightarrow> string \<Rightarrow> int" where
  "switched k f = (\<lambda>c. if c \<in> set cif_clocks then f c + k else f c)"

lemma gauge_stop: "gauge_of (camera_stop e cs) =
    (if running (gauge_of cs)
     then (gauge_of cs)\<lparr>running := False, clocks := switched (-1) (clocks (gauge_of cs))\<rparr> else gauge_of cs)"
proof -
  have "running (gauge_of cs) \<longleftrightarrow> cap_gate (fst cs) \<noteq> 0" by (simp add: gauge_of_def)
  then show ?thesis
    by (simp add: camera_stop_def clk_disable_def gauging.nap gauging.power gauging.log gauge_clk
        gauge_gate gauge_status)
       (auto simp: switched_def cif_clocks_def fun_eq_iff)
qed

lemma camera_start_parts:
  assumes "camera_start e cs = Some cs'"
  obtains v d cs2 where "start_decoder e v (upd_cam (\<lambda>x. x\<lparr>gap1_0 := 0, dtv_type := d\<rparr>)
      (start_clocks e (if cap_gate (fst cs) \<noteq> 0 then camera_stop e cs else cs))) = Some cs2"
    "cs' = start_capture e cs2"
  using assms by (auto simp: camera_start_def Let_def bind_eq_Some split: prod.splits)

lemma gauge_start:
  assumes "camera_start e cs = Some cs'"
  shows "gauge_of cs' = (gauge_of cs)\<lparr>running := True,
      clocks := if running (gauge_of cs) then clocks (gauge_of cs) else switched 1 (clocks (gauge_of cs))\<rparr>"
proof -
  let ?cs1 = "if cap_gate (fst cs) \<noteq> 0 then camera_stop e cs else cs"
  have gate: "running (gauge_of cs) \<longleftrightarrow> cap_gate (fst cs) \<noteq> 0" by (simp add: gauge_of_def)
  have clk: "gauge_of (start_clocks e cs) = (gauge_of cs)\<lparr>clocks := switched 1 (clocks (gauge_of cs))\<rparr>" for cs
    by (simp add: start_clocks_def cif_clocks_def clk_enable_def gauging.log gauge_clk gauging.power)
       (auto simp: switched_def cif_clocks_def fun_eq_iff)
  have capture: "gauge_of (start_capture e cs) = (gauge_of cs)\<lparr>running := True\<rparr>" for cs
    by (simp add: start_capture_def gauging.frames gauging.log gauging.reset gauge_gate Let_def
        split: prod.split)
  have undo: "switched 1 (switched (-1) f) = f" for f
    by (auto simp: switched_def fun_eq_iff)
  obtain v d cs2 where s: "start_decoder e v (upd_cam (\<lambda>x. x\<lparr>gap1_0 := 0, dtv_type := d\<rparr>)
      (start_clocks e ?cs1)) = Some cs2" "cs' = start_capture e cs2"
    by (rule camera_start_parts [OF assms])
  have "gauge_of cs' = (gauge_of cs2)\<lparr>running := True\<rparr>" by (simp add: s capture)
  also have "gauge_of cs2 = gauge_of (start_clocks e ?cs1)"
    using gauging.decoder [OF _ s(1)] by (simp add: gauging.driver)
  finally show ?thesis by (simp add: clk gauge_stop gate undo)
qed

section \<open>Who watches\<close>

abbreviation (input) watchers :: "camera_sys \<Rightarrow> views" where "watchers cs \<equiv> views_of (ccar cs)"

interpretation viewing: camera_observation "\<lambda>cs. views_of (ccar cs)" keeps_views
  by unfold_locales (simp_all add: keeps_views_def msleep_def Let_def)

text \<open>The masked word holds the two bytes \<open>cam_signal\<close> and \<open>reserved_11\<close>.\<close>

lemma mask_views: "(0xFF00FF00 :: u32) = push_bit 8 (mask 8) OR push_bit 24 (mask 8)"
  by (simp add: mask_eq_exp_minus_1)

lemma bytes_masked:
  "(ucast (a :: u8) OR push_bit 8 (ucast (b :: u8)) OR push_bit 16 (ucast (x :: u8)) OR
     push_bit 24 (ucast (y :: u8)) :: u32) AND 0xFF00FF00 = push_bit 8 (ucast b) OR push_bit 24 (ucast y)"
  unfolding mask_views
  by (rule bit_word_eqI) (auto simp: bit_simps simp del: push_bit_Suc push_bit_of_1 dest: bit_imp_le_length)

lemma bytes_zero:
  "(push_bit 8 (ucast (b :: u8)) OR push_bit 24 (ucast (y :: u8)) :: u32) = 0 \<longleftrightarrow> b = 0 \<and> y = 0"
proof
  assume z: "(push_bit 8 (ucast b) OR push_bit 24 (ucast y) :: u32) = 0"
  have "\<not> bit b n \<and> \<not> bit y n" if "n < 8" for n
    using arg_cong [OF z, of "\<lambda>w. bit w (n + 8)"] arg_cong [OF z, of "\<lambda>w. bit w (n + 24)"] that
    by (auto simp: bit_simps simp del: push_bit_Suc)
  then show "b = 0 \<and> y = 0" by (auto intro!: bit_word_eqI)
qed simp

lemma views_idle_iff: "views_idle c \<longleftrightarrow> \<not> aux_on (views_of c) \<and> \<not> view_on (views_of c)"
  by (simp add: views_idle_def backview_status_u32_def bytes_masked bytes_zero views_of_def)

text \<open>The tests of the works as questions about the views, and what they change in them.\<close>

lemma view_tests:
  "cam_state c = 0 \<longleftrightarrow> \<not> reversing (views_of c)" "cam_signal c = 0 \<longleftrightarrow> \<not> aux_on (views_of c)"
  "reserved_11 c = 0 \<longleftrightarrow> \<not> view_on (views_of c)" "reserved_13 c = 0 \<longleftrightarrow> \<not> input_on (views_of c)"
  "video_mode c = source (views_of c)"
  "input_free c \<longleftrightarrow> \<not> reversing (views_of c) \<and> \<not> aux_on (views_of c) \<and> \<not> view_on (views_of c)"
  by (auto simp: input_free_def views_idle_iff) (simp_all add: views_of_def)

lemma view_updates:
  "views_of (c\<lparr>cam_state := x\<rparr>) = (views_of c)\<lparr>reversing := x \<noteq> 0\<rparr>"
  "views_of (c\<lparr>cam_signal := x\<rparr>) = (views_of c)\<lparr>aux_on := x \<noteq> 0\<rparr>"
  "views_of (c\<lparr>reserved_11 := x\<rparr>) = (views_of c)\<lparr>view_on := x \<noteq> 0\<rparr>"
  "views_of (c\<lparr>reserved_13 := x\<rparr>) = (views_of c)\<lparr>input_on := x \<noteq> 0\<rparr>"
  "views_of (c\<lparr>video_mode := y\<rparr>) = (views_of c)\<lparr>source := y\<rparr>"
  "views_of (c\<lparr>sta_view := x\<rparr>) = views_of c" "views_of (c\<lparr>radar_val := x\<rparr>) = views_of c"
  "views_of (c\<lparr>reserved_8 := x\<rparr>) = views_of c" "views_of (c\<lparr>reserved_9 := x\<rparr>) = views_of c"
  "views_of (c\<lparr>reserved_10 := x\<rparr>) = views_of c" "views_of (c\<lparr>sta_video_signal := x\<rparr>) = views_of c"
  by (simp_all add: views_of_def)

lemma view_nap: "keeps_views e \<Longrightarrow> views_of (car (msleep (cam_env e) n s)) = views_of (car s)"
  by (simp add: keeps_views_def msleep_def Let_def)

lemma view_stop: "keeps_views e \<Longrightarrow> watchers (camera_stop e cs) = watchers cs"
  by (simp add: camera_stop_def clk_disable_def Let_def view_nap viewing.power view_updates)

lemma view_start:
  assumes "camera_start e cs = Some cs'" "keeps_views e"
  shows "watchers cs' = watchers cs"
proof -
  obtain v d cs2 where s: "start_decoder e v (upd_cam (\<lambda>x. x\<lparr>gap1_0 := 0, dtv_type := d\<rparr>)
      (start_clocks e (if cap_gate (fst cs) \<noteq> 0 then camera_stop e cs else cs))) = Some cs2"
    "cs' = start_capture e cs2"
    by (rule camera_start_parts [OF assms(1)])
  have clk: "watchers (start_clocks e cs) = watchers cs" for cs
    by (simp add: start_clocks_def clk_enable_def cif_clocks_def viewing.power [OF assms(2)])
  have capture: "watchers (start_capture e cs) = watchers cs" for cs
    by (simp add: start_capture_def viewing.frames [OF assms(2)] viewing.log viewing.reset viewing.driver
        Let_def del: cam_io_simps split: prod.split) (simp add: viewing.reset)
  show ?thesis
    using viewing.decoder [OF assms(2) s(1)] by (simp add: s(2) capture clk view_stop [OF assms(2)])
qed

section \<open>The state machine of the views\<close>

definition anyone :: "views \<Rightarrow> bool" where
  "anyone v \<longleftrightarrow> reversing v \<or> aux_on v \<or> view_on v \<or> input_on v"

text \<open>What each command means for the views.\<close>

definition view_step :: "int \<Rightarrow> int \<Rightarrow> views \<Rightarrow> views" where
  "view_step c cmd v =
     (if c = 46 then
        v\<lparr>input_on := input_on v \<and> source v = 0,
          source := if cmd \<in> {2, 3, 5, 7, 255} then word_of_int cmd else 0\<rparr>
      else if c = 48 then v\<lparr>input_on := input_on v \<or> uint (source v) = cmd\<rparr>
      else if c = 49 then v\<lparr>input_on := input_on v \<and> uint (source v) \<noteq> cmd\<rparr>
      else if c = 52 then v\<lparr>view_on := True\<rparr>
      else if c = 53 then v\<lparr>view_on := False\<rparr>
      else if c = 54 then v\<lparr>aux_on := aux_on v \<or> \<not> reversing v\<rparr>
      else if c = 55 then v\<lparr>aux_on := aux_on v \<and> reversing v\<rparr>
      else if c = 56 then v\<lparr>reversing := True, aux_on := False\<rparr>
      else if c = 59 then v\<lparr>reversing := False\<rparr>
      else v)"

text \<open>Capturing runs and the layer is shown exactly while somebody watches.\<close>

definition consistent :: "camera_sys \<Rightarrow> bool" where
  "consistent cs \<longleftrightarrow> running (gauge_of cs) = anyone (watchers cs) \<and>
     layer (gauge_of cs) = anyone (watchers cs) \<and> \<not> (reversing (watchers cs) \<and> aux_on (watchers cs)) \<and>
     (input_on (watchers cs) \<longrightarrow> source (watchers cs) \<noteq> 0)"

text \<open>A work that turns the views of \<open>cs\<close> into \<open>v\<close> and shows what they ask for.\<close>

definition turns :: "camera_sys \<Rightarrow> views \<Rightarrow> camera_sys \<Rightarrow> bool" where
  "turns cs v cs' \<longleftrightarrow> watchers cs' = v \<and> running (gauge_of cs') = anyone v \<and> layer (gauge_of cs') = anyone v"

lemma layer_off_facts:
  assumes "keeps_views e"
  shows "watchers (layer_off e cs) = watchers cs" "\<not> running (gauge_of (layer_off e cs))"
    "\<not> layer (gauge_of (layer_off e cs))"
  using assms by (simp_all add: layer_off_def view_stop gauge_stop gauge_fb)

lemma layer_on_facts:
  assumes "layer_on e cs = Some cs'" "keeps_views e"
  shows "watchers cs' = watchers cs \<and> running (gauge_of cs') \<and> layer (gauge_of cs')"
proof -
  obtain cs1 where s: "camera_start e (cam_io (msleep (cam_env e) 20) cs) = Some cs1"
    "cs' = cam_io (emit (Fb_open 1 1)) cs1"
    using assms(1) by (auto simp: layer_on_def bind_eq_Some)
  show ?thesis
    using view_start [OF s(1) assms(2)] gauge_start [OF s(1)]
    by (simp add: s(2) gauge_fb view_nap assms(2))
qed

lemma channel_on_facts:
  "channel_on e cs = Some cs' \<Longrightarrow> keeps_views e \<Longrightarrow>
     watchers cs' = watchers cs \<and> running (gauge_of cs') \<and> layer (gauge_of cs')"
  by (auto simp: channel_on_def viewing.channel dest!: layer_on_facts)

lemma input_back_facts:
  "input_back e cs = Some cs' \<Longrightarrow> keeps_views e \<Longrightarrow>
     watchers cs' = watchers cs \<and>
     (if source (watchers cs) \<noteq> 0 \<and> input_on (watchers cs)
      then running (gauge_of cs') \<and> layer (gauge_of cs') else gauge_of cs' = gauge_of cs)"
  by (auto simp: input_back_def view_tests dest!: layer_on_facts split: if_splits)

lemma camera_start_facts:
  "camera_start e cs = Some cs' \<Longrightarrow> keeps_views e \<Longrightarrow>
     watchers cs' = watchers cs \<and> running (gauge_of cs') \<and> layer (gauge_of cs') = layer (gauge_of cs)"
  by (simp add: view_start gauge_start)

lemmas view_work = consistent_def turns_def view_step_def anyone_def view_tests view_updates layer_off_facts
  gauge_fb gauge_status view_stop view_nap viewing.channel gauging.channel viewing.log gauging.log viewing.nap
  gauging.nap bind_eq_Some gauging.driver viewing.driver gauging.message viewing.message Let_def

lemma turns_source: "keeps_views e \<Longrightarrow> consistent cs \<Longrightarrow>
    turns cs (view_step 46 cmd (watchers cs)) (work_source e cmd cs)"
  by (auto simp: work_source_def view_work)

lemma turns_show: "work_show e cmd cs = Some cs' \<Longrightarrow> keeps_views e \<Longrightarrow> consistent cs \<Longrightarrow> cmd \<noteq> 0 \<Longrightarrow>
    turns cs (view_step 48 cmd (watchers cs)) cs'"
  by (auto simp: work_show_def view_work split: if_splits dest: view_start gauge_start)

lemma turns_hide: "keeps_views e \<Longrightarrow> consistent cs \<Longrightarrow> turns cs (view_step 49 cmd (watchers cs)) (work_hide e cmd cs)"
  by (auto simp: work_hide_def view_work)

lemma turns_view_on: "work_view_on e cmd cs = Some cs' \<Longrightarrow> keeps_views e \<Longrightarrow> consistent cs \<Longrightarrow>
    turns cs (view_step 52 cmd (watchers cs)) cs'"
  by (auto simp: work_view_on_def view_work split: if_splits dest!: channel_on_facts)

lemma turns_view_off: "work_view_off e cs = Some cs' \<Longrightarrow> keeps_views e \<Longrightarrow> consistent cs \<Longrightarrow>
    turns cs (view_step 53 cmd (watchers cs)) cs'"
  by (auto simp: work_view_off_def view_work split: if_splits dest!: input_back_facts)

lemma turns_cam_on: "work_cam_on e cs = Some cs' \<Longrightarrow> keeps_views e \<Longrightarrow> consistent cs \<Longrightarrow>
    turns cs (view_step 54 cmd (watchers cs)) cs'"
  by (auto simp: work_cam_on_def view_work split: if_splits dest!: channel_on_facts)

lemma turns_cam_off: "work_cam_off e cs = Some cs' \<Longrightarrow> keeps_views e \<Longrightarrow> consistent cs \<Longrightarrow>
    turns cs (view_step 55 cmd (watchers cs)) cs'"
  by (auto simp: work_cam_off_def view_work split: if_splits dest!: input_back_facts layer_on_facts)

lemma turns_reverse_on: "work_reverse_on e cmd cs = Some cs' \<Longrightarrow> keeps_views e \<Longrightarrow> consistent cs \<Longrightarrow>
    turns cs (view_step 56 cmd (watchers cs)) cs'"
  by (auto simp: work_reverse_on_def view_work split: if_splits dest!: channel_on_facts)

lemma turns_reverse_off: "work_reverse_off e cs = Some cs' \<Longrightarrow> keeps_views e \<Longrightarrow> consistent cs \<Longrightarrow>
    turns cs (view_step 59 cmd (watchers cs)) cs'"
  by (auto simp: work_reverse_off_def view_work split: if_splits dest!: input_back_facts layer_on_facts)

lemma turns_again:
  "work_reverse_again e cs = Some cs' \<Longrightarrow> keeps_views e \<Longrightarrow> consistent cs \<Longrightarrow> turns cs (watchers cs) cs'"
  "work_front e cs = Some cs' \<Longrightarrow> keeps_views e \<Longrightarrow> consistent cs \<Longrightarrow> turns cs (watchers cs) cs'"
  by (auto simp: work_reverse_again_def work_front_def view_work split: if_splits dest!: channel_on_facts)

lemma turns_toggle:
  "work_toggle e cs = Some cs' \<Longrightarrow> keeps_views e \<Longrightarrow> consistent cs \<Longrightarrow> turns cs (watchers cs) cs'"
  by (auto simp: work_toggle_def view_work gauge_stop split: if_splits dest!: camera_start_facts)

lemma turns_same: "consistent cs \<Longrightarrow> watchers cs' = watchers cs \<Longrightarrow> gauge_of cs' = gauge_of cs \<Longrightarrow>
    turns cs (watchers cs) cs'"
  by (simp add: turns_def consistent_def)

lemma view_work_uv: "keeps_views e \<Longrightarrow> watchers (work_uv e cmd cs) = watchers cs"
  "gauge_of (work_uv e cmd cs) = gauge_of cs"
proof -
  have g: "gauge_of (cam_io (\<lambda>s. s\<lparr>cfg := f s\<rparr>) cs) = gauge_of cs" for f cs
    by (simp add: gauge_of_def)
  show "gauge_of (work_uv e cmd cs) = gauge_of cs"
    by (simp add: work_uv_def Let_def gauging.log g gauging.uv_set gauging.calibrate)
  show "watchers (work_uv e cmd cs) = watchers cs" if "keeps_views e"
    using that by (simp add: work_uv_def Let_def viewing.uv_set viewing.calibrate)
qed

lemma step_others:
  "c \<notin> {46, 48, 49, 52, 53, 54, 55, 56, 59} \<Longrightarrow> view_step c cmd v = v"
  by (simp add: view_step_def)

lemma body_turns:
  assumes "capture_body e c cmd cs = Some cs'" "keeps_views e" "consistent cs" "c = 48 \<longrightarrow> cmd \<noteq> 0"
  shows "turns cs (view_step c cmd (watchers cs)) cs'"
proof (cases "c \<in> {46, 48, 49, 52, 53, 54, 55, 56, 59}")
  case True
  with assms show ?thesis
    by (auto simp: capture_body_def turns_source turns_show turns_hide turns_view_on turns_view_off
        turns_cam_on turns_cam_off turns_reverse_on turns_reverse_off)
next
  case False
  have "turns cs (watchers cs) cs'"
    using False assms(1-3)
    by (auto simp: capture_body_def turns_again turns_toggle split: if_splits
        intro!: turns_same view_work_uv
        simp: viewing.channel gauging.channel viewing.i2c_write gauging.i2c_write viewing.radar
          gauging.radar viewing.recheck gauging.recheck gauging.log gauge_fb gauge_status view_updates)
  then show ?thesis by (simp add: step_others [OF False])
qed

section \<open>Clocks and locks\<close>

text \<open>How often a clock of the interface is enabled beyond what a running capture needs.\<close>

definition owed :: "gauge \<Rightarrow> string \<Rightarrow> int" where
  "owed g c = clocks g c - of_bool (running g \<and> c \<in> set cif_clocks)"

definition balance :: "camera_sys \<Rightarrow> (string \<Rightarrow> int) \<times> (string \<Rightarrow> int)" where
  "balance cs = (owed (gauge_of cs), locks (gauge_of cs))"

lemma balance_gauge: "gauge_of cs' = gauge_of cs \<Longrightarrow> balance cs' = balance cs"
  by (simp add: balance_def)

interpretation balancing: camera_observation balance "\<lambda>_. True"
  by unfold_locales (auto intro!: balance_gauge simp: gauging.log gauging.nap gauging.driver gauging.status)

lemma balance_stop: "balance (camera_stop e cs) = balance cs"
  by (auto simp: balance_def gauge_stop owed_def switched_def fun_eq_iff)

lemma balance_start: "camera_start e cs = Some cs' \<Longrightarrow> balance cs' = balance cs"
  by (auto simp: balance_def owed_def switched_def fun_eq_iff dest!: gauge_start)

lemma balance_other: "balance (cam_io (emit (Fb_open n v)) cs) = balance cs"
  "balance (cam_io (upd_car f) cs) = balance cs"
  by (simp_all add: balance_def gauge_fb gauge_status owed_def fun_eq_iff)

lemma balance_off: "balance (layer_off e cs) = balance cs"
  by (simp add: layer_off_def balance_stop balance_other)

lemma balance_on: "layer_on e cs = Some cs' \<Longrightarrow> balance cs' = balance cs"
  by (auto simp: layer_on_def bind_eq_Some balance_other balancing.nap dest!: balance_start)

lemma balance_channel_on: "channel_on e cs = Some cs' \<Longrightarrow> balance cs' = balance cs"
  by (auto simp: channel_on_def balancing.channel dest!: balance_on)

lemma balance_back: "input_back e cs = Some cs' \<Longrightarrow> balance cs' = balance cs"
  by (auto simp: input_back_def dest!: balance_on split: if_splits)

lemmas balance_simps = balance_stop balance_other balance_off balancing.channel balancing.log balancing.nap
  balancing.driver balancing.message balancing.radar balancing.recheck balancing.i2c_write Let_def bind_eq_Some

lemma body_balance: "capture_body e c cmd cs = Some cs' \<Longrightarrow> balance cs' = balance cs"
proof -
  have 1: "balance (work_source e k cs) = balance cs" "balance (work_hide e k cs) = balance cs"
    "balance (work_uv e k cs) = balance cs" for k
    by (simp_all add: work_source_def work_hide_def balance_simps balance_gauge [OF view_work_uv(2)])
  have 2: "work_show e k cs = Some cs' \<Longrightarrow> balance cs' = balance cs"
    "work_view_on e k cs = Some cs' \<Longrightarrow> balance cs' = balance cs"
    "work_view_off e cs = Some cs' \<Longrightarrow> balance cs' = balance cs" for k
    by (auto simp: work_show_def work_view_on_def work_view_off_def balance_simps split: if_splits
        dest!: balance_start balance_channel_on balance_back)
  have 3: "work_cam_on e cs = Some cs' \<Longrightarrow> balance cs' = balance cs"
    "work_cam_off e cs = Some cs' \<Longrightarrow> balance cs' = balance cs"
    "work_toggle e cs = Some cs' \<Longrightarrow> balance cs' = balance cs"
    by (auto simp: work_cam_on_def work_cam_off_def work_toggle_def balance_simps split: if_splits
        dest!: balance_start balance_channel_on balance_on balance_back)
  have 4: "work_reverse_on e k cs = Some cs' \<Longrightarrow> balance cs' = balance cs"
    "work_reverse_again e cs = Some cs' \<Longrightarrow> balance cs' = balance cs"
    "work_reverse_off e cs = Some cs' \<Longrightarrow> balance cs' = balance cs"
    "work_front e cs = Some cs' \<Longrightarrow> balance cs' = balance cs" for k
    by (auto simp: work_reverse_on_def work_reverse_again_def work_reverse_off_def work_front_def
        balance_simps split: if_splits dest!: balance_channel_on balance_on balance_back)
  show "capture_body e c cmd cs = Some cs' \<Longrightarrow> balance cs' = balance cs"
    by (auto simp: capture_body_def 1 balance_simps split: if_splits dest!: 2 3 4)
qed

text \<open>The works of the capture queue: a command, or the periodic check.\<close>

datatype camera_item = Command int int | Signal_check

fun run_item :: "camera_env \<Rightarrow> camera_item \<Rightarrow> camera_sys \<Rightarrow> camera_sys option" where
  "run_item e (Command c cmd) cs = capture_work e c cmd cs"
| "run_item e Signal_check cs = Some (capture_check_work e cs)"

lemma gauge_lock:
  "gauge_of (cam_io (emit (Lock l)) cs) =
     (gauge_of cs)\<lparr>locks := (locks (gauge_of cs))(l := locks (gauge_of cs) l + 1)\<rparr>"
  "gauge_of (cam_io (emit (Unlock l)) cs) =
     (gauge_of cs)\<lparr>locks := (locks (gauge_of cs))(l := locks (gauge_of cs) l - 1)\<rparr>"
  by (auto simp: gauge_of_def clk_depth_def held_def fun_eq_iff)

lemma item_balance: "run_item e w cs = Some cs' \<Longrightarrow> balance cs' = balance cs"
proof (cases w)
  case (Command c cmd)
  assume "run_item e w cs = Some cs'"
  then obtain cs1 where 1: "capture_body e c cmd (cam_io (emit (Lock back_lock)) cs) = Some cs1"
    "cs' = cam_io (emit (Unlock back_lock)) cs1"
    by (auto simp: Command capture_work_def bind_eq_Some)
  from body_balance [OF 1(1)] show ?thesis
    by (auto simp: 1(2) balance_def gauge_lock owed_def fun_eq_iff split: if_splits)
qed (auto simp: balancing.check_work)

interpretation camera_queue: work_queue "run_item e" "\<lambda>cs cs'. balance cs' = balance cs" for e
  by unfold_locales (auto dest: item_balance)

section \<open>Every work ends\<close>

lemma trace_i2c_read: "T132B_i2c_read e dev reg old cs = (x, cs') \<Longrightarrow>
    \<exists>r v. trace (snd cs') = I2c_read dev reg r v # trace (snd cs)"
  by (auto simp: T132B_i2c_read_def Let_def)

text \<open>
  One round of the search is a look at the clock, two transfers and a sleep of 10 ms: four
  steps, so the clock cannot run once around before the 200 ms are seen to be over.
\<close>

lemma round_time:
  assumes "clocked e now" "unstalled now"
    and "trace s = Msleep 10 # I2c_read d r x y # I2c_read d' r' x' y' # Clock t u # h"
  shows "now h + 10000 \<le> now (trace s)" "now (trace s) \<le> now h + 610000"
proof -
  let ?h1 = "Clock t u # h" let ?h2 = "I2c_read d' r' x' y' # ?h1" let ?h3 = "I2c_read d r x y # ?h2"
  note low = clocked_step [OF assms(1)] and high = unstalled_step [OF assms(2)]
  show "now h + 10000 \<le> now (trace s)" "now (trace s) \<le> now h + 610000"
    using low [of h "Clock t u"] low [of ?h1 "I2c_read d' r' x' y'"] low [of ?h2 "I2c_read d r x y"]
      low [of ?h3 "Msleep 10"] high [of "Clock t u" h] high [of "I2c_read d' r' x' y'" ?h1]
      high [of "I2c_read d r x y" ?h2] high [of "Msleep 10" ?h3]
    by (simp_all add: assms(3))
qed

lemma cvbs_loop_returns:
  assumes "clocked (cam_env e) now" "unstalled now" "start_usec = usec (cam_env e) start"
    and "now start \<le> now (trace (snd cs))" "now (trace (snd cs)) - now start \<le> 900000"
  shows "returns (cvbs_loop e start_usec a b v7 v8 cs)"
  using assms(4,5)
proof (induction "nat (900001 - (now (trace (snd cs)) - now start))" arbitrary: cs a b v7 v8 rule: less_induct)
  case less
  let ?now = "usec (cam_env e) (trace (snd cs))"
  let ?el = "now (trace (snd cs)) - now start"
  let ?cur = "if start_usec > ?now then ?now + 1000000 else ?now"
  have m: "(?now - start_usec) mod 1000000 = ?el"
    unfolding assms(3) using less.prems by (intro clocked_elapsed [OF assms(1)]) auto
  have r: "0 \<le> ?now" "?now < 1000000" "0 \<le> start_usec" "start_usec < 1000000"
    using clocked_usec_ok [OF assms(1)] by (auto simp: assms(3) usec_ok_def)
  have cur: "?cur - start_usec = ?el"
  proof (cases "start_usec > ?now")
    case True
    have "(?now - start_usec) mod 1000000 = (?now + 1000000 - start_usec) mod 1000000"
      by (metis add_diff_eq mod_add_self2 diff_add_eq)
    also have "\<dots> = ?now + 1000000 - start_usec"
      using r True by (intro mod_pos_pos_trivial) auto
    finally show ?thesis using m True by simp
  next
    case False
    with r m show ?thesis by (simp add: mod_pos_pos_trivial)
  qed
  show ?case
  proof (cases "?el > 199999")
    case True
    then show ?thesis
      by (subst cvbs_loop.simps) (simp add: do_gettimeofday_def Let_def cur cong del: if_weak_cong split del: if_split)
  next
    case False
    have next_round: "returns (cvbs_loop e start_usec a' b' w7 w8 cs')"
      if "trace (snd cs') = Msleep 10 # I2c_read d r x y # I2c_read d' r' x' y' # Clock t u # trace (snd cs)"
      for a' b' w7 w8 cs' d r x y d' r' x' y' t u
      using False less.prems round_time [OF assms(1,2) that] by (intro less.hyps) auto
    show ?thesis
      by (subst cvbs_loop.simps)
         (auto simp: do_gettimeofday_def Let_def cur msleep_def split: prod.split
           dest!: trace_i2c_read intro!: next_round cong del: if_weak_cong split del: if_split)
  qed
qed

lemma cvbs_search_returns:
  assumes "clocked (cam_env e) now" "unstalled now"
  shows "returns (cvbs_loop e (usec (cam_env e) (trace s)) a b v7 v8 (c, emit (Clock x y) s))"
  using clocked_step [OF assms(1), of "trace s" "Clock x y"] unstalled_step [OF assms(2), of "Clock x y" "trace s"]
  by (intro cvbs_loop_returns [OF assms, where start = "trace s"]) simp_all

lemma start_returns:
  assumes "clocked (cam_env e) now" "unstalled now"
  shows "returns (camera_start e cs)"
proof -
  have auto: "returns (T132B_CVBS_Auto e cs)" for cs
    unfolding T132B_CVBS_Auto_def Let_def
    by (auto simp: do_gettimeofday_def Let_def split: prod.split intro!: cvbs_search_returns [OF assms])
  have dec: "returns (start_decoder e v cs)" for v cs
    unfolding start_decoder_def T132B_Init_def Let_def
    by (auto split: prod.split intro!: auto)
  show ?thesis
    unfolding camera_start_def Let_def by (auto split: prod.split intro!: dec)
qed

lemma layer_on_returns: "clocked (cam_env e) now \<Longrightarrow> unstalled now \<Longrightarrow> returns (layer_on e cs)"
  unfolding layer_on_def by (auto intro!: start_returns)

lemma channel_on_returns: "clocked (cam_env e) now \<Longrightarrow> unstalled now \<Longrightarrow> returns (channel_on e cs)"
  unfolding channel_on_def by (rule layer_on_returns)

lemma input_back_returns: "clocked (cam_env e) now \<Longrightarrow> unstalled now \<Longrightarrow> returns (input_back e cs)"
  unfolding input_back_def by (auto intro!: layer_on_returns)

lemmas camera_returns = start_returns layer_on_returns channel_on_returns input_back_returns

lemma body_returns:
  assumes "clocked (cam_env e) now" "unstalled now"
  shows "returns (capture_body e c cmd cs)"
proof -
  note [intro!] = camera_returns [OF assms]
  have "returns (work_show e cmd cs)" "returns (work_view_on e cmd cs)" "returns (work_view_off e cs)"
    "returns (work_cam_on e cs)" "returns (work_cam_off e cs)"
    unfolding work_show_def work_view_on_def work_view_off_def work_cam_on_def work_cam_off_def Let_def
    by auto
  moreover have "returns (work_reverse_on e cmd cs)" "returns (work_reverse_again e cs)"
    "returns (work_reverse_off e cs)" "returns (work_front e cs)" "returns (work_toggle e cs)"
    unfolding work_reverse_on_def work_reverse_again_def work_reverse_off_def work_front_def
      work_toggle_def Let_def
    by auto
  ultimately show ?thesis
    by (simp add: capture_body_def)
qed

lemma item_returns:
  assumes "clocked (cam_env e) now" "unstalled now"
  shows "returns (run_item e w cs)"
  by (cases w) (auto simp: capture_work_def intro!: body_returns [OF assms])

lemma items_return:
  assumes "clocked (cam_env e) now" "unstalled now"
  shows "returns (run_queue (run_item e) ws cs)"
proof (induction ws arbitrary: cs)
  case (Cons w ws)
  obtain cs' where "run_item e w cs = Some cs'"
    using item_returns [OF assms, of w cs] unfolding returns_def by blast
  with Cons.IH show ?case by simp
qed simp

section \<open>The guarantees\<close>

fun item_step :: "camera_item \<Rightarrow> views \<Rightarrow> views" where
  "item_step (Command c cmd) v = view_step c cmd v"
| "item_step Signal_check v = v"

lemma item_refines:
  assumes "run_item e w cs = Some cs'" "keeps_views e" "consistent cs" "w \<noteq> Command 48 0"
  shows "consistent cs' \<and> watchers cs' = item_step w (watchers cs)"
proof (cases w)
  case (Command c cmd)
  let ?cs0 = "cam_io (emit (Lock back_lock)) cs"
  obtain cs1 where 1: "capture_body e c cmd ?cs0 = Some cs1" "cs' = cam_io (emit (Unlock back_lock)) cs1"
    using assms(1) by (auto simp: Command capture_work_def bind_eq_Some)
  have "consistent ?cs0" using assms(3) by (simp add: consistent_def gauge_lock)
  then have t: "turns ?cs0 (view_step c cmd (watchers cs)) cs1"
    using body_turns [OF 1(1) assms(2)] assms(4) by (simp add: Command)
  have "\<not> (reversing (view_step c cmd (watchers cs)) \<and> aux_on (view_step c cmd (watchers cs))) \<and>
      (input_on (view_step c cmd (watchers cs)) \<longrightarrow> source (view_step c cmd (watchers cs)) \<noteq> 0)"
    using assms(3,4) by (simp add: view_step_def consistent_def Command) auto
  with t show ?thesis
    by (simp add: turns_def consistent_def 1(2) gauge_lock Command)
next
  case Signal_check
  with assms show ?thesis
    by (auto simp: consistent_def viewing.check_work gauging.check_work)
qed

text \<open>C16. The works of the capture queue implement the state machine of the views: whatever commands
  and checks run one after the other, from a consistent state, the views develop as
  \<open>item_step\<close> says, frames are captured exactly while somebody watches, and the layer is shown
  exactly then. This is while the works alone write the five bytes of the views, that is at any
  time after booting at which no touch wakes the panel, and the input is never shown for source
  0, which no caller does. A state is consistent if frames are captured, and the layer shown,
  exactly while somebody watches, the reverse camera excludes the further one, and an input is
  shown only for a source other than 0.\<close>

theorem camera_runs_while_watched:
  assumes "run_queue (run_item e) ws cs = Some cs'" "keeps_views e" "consistent cs"
    and "Command 48 0 \<notin> set ws"
  shows "watchers cs' = fold item_step ws (watchers cs) \<and>
    running (gauge_of cs') = anyone (watchers cs') \<and> layer (gauge_of cs') = anyone (watchers cs')"
proof -
  have "consistent cs' \<and> watchers cs' = fold item_step ws (watchers cs)"
    using assms(1,3,4)
  proof (induction ws arbitrary: cs)
    case (Cons w ws)
    then obtain cs1 where "run_item e w cs = Some cs1" "run_queue (run_item e) ws cs1 = Some cs'"
      by (auto simp: bind_eq_Some)
    moreover from this(1) Cons.prems assms(2) have "consistent cs1 \<and> watchers cs1 = item_step w (watchers cs)"
      by (intro item_refines) auto
    ultimately show ?case using Cons by auto
  qed simp
  then show ?thesis by (simp add: consistent_def)
qed

text \<open>C17. Any sequence of works gives every lock back and enables each clock of the capture interface
  as often as it disables it, up to the once a running capture needs.\<close>

theorem camera_clocks_balanced:
  assumes "run_queue (run_item e) ws cs = Some cs'"
  shows "locks (gauge_of cs') l = locks (gauge_of cs) l \<and>
    clocks (gauge_of cs') c - of_bool (running (gauge_of cs') \<and> c \<in> set cif_clocks) =
    clocks (gauge_of cs) c - of_bool (running (gauge_of cs) \<and> c \<in> set cif_clocks)"
proof -
  have "balance cs' = balance cs" by (rule camera_queue.run_keeps [OF assms])
  then show ?thesis by (auto simp: balance_def owed_def fun_eq_iff)
qed

text \<open>C28. Every sequence of works of the capture queue returns: the only loop without a count of its
  own, the search for the colour standard, is cut short by its 200 ms. This is on hardware whose
  clock never runs back, on which a delay lasts at least as long as asked, and on which no single
  step of the search is held up for more than 150 ms.\<close>

theorem camera_works_end:
  assumes "clocked (cam_env e) now" "unstalled now"
  shows "\<exists>cs'. run_queue (run_item e) ws cs = Some cs'"
  using items_return [OF assms] by (simp add: returns_def)

section \<open>Concrete runs\<close>

text \<open>Decoders that answer every transfer with the same byte, on a unit that is on.\<close>

definition plain_camera :: "u8 \<Rightarrow> camera_env" where
  "plain_camera b = \<lparr>cam_env = with_pins (\<lambda>_ _. False), i2c_result = (\<lambda>_. 1), i2c_byte = (\<lambda>_. b),
     cif_base = (\<lambda>_. 0), pmu_word = (\<lambda>_. 0)\<rparr>"

definition idle_camera :: camera_sys where
  "idle_camera = (\<lparr>dtv_type = 0, decoder_type = 0, mirror_image = 0, gap1_0 = 0, cvbs_auto = 0, cap_gate = 0,
     camera_working = 0, gap2_0 = 0, gap2_1 = 0, gap2_2 = 0, gap2_3 = 0\<rparr>, sys_0)"

lemma plain_camera_facts: "keeps_views (plain_camera b)" "clocked (cam_env (plain_camera b)) elapsed" "unstalled elapsed"
  by (simp_all add: keeps_views_def plain_camera_def with_pins_clocked) (simp add: with_pins_def)

lemma idle_camera_facts: "consistent idle_camera" "watchers idle_camera =
    \<lparr>reversing = False, aux_on = False, view_on = False, input_on = False, source = 0\<rparr>"
  "gauge_of idle_camera = \<lparr>running = False, clocks = (\<lambda>_. 0), locks = (\<lambda>_. 0), layer = False\<rparr>"
  by (simp_all add: consistent_def idle_camera_def views_of_def sys_0_def car_0_def anyone_def
      gauge_of_def clk_depth_def held_def)

theorem camera_runs_while_watched_witness:
  "\<exists>cs'. run_queue (run_item (plain_camera 0)) [Command 46 5, Command 48 5, Command 56 1, Signal_check,
       Command 49 5, Command 59 0] idle_camera = Some cs' \<and>
     \<not> running (gauge_of cs') \<and> source (watchers cs') = 5"
proof -
  obtain cs' where r: "run_queue (run_item (plain_camera 0)) [Command 46 5, Command 48 5, Command 56 1,
      Signal_check, Command 49 5, Command 59 0] idle_camera = Some cs'"
    using items_return [OF plain_camera_facts(2,3)] unfolding returns_def by blast
  from camera_runs_while_watched [OF r plain_camera_facts(1) idle_camera_facts(1)] r show ?thesis
    by (intro exI [of _ cs']) (simp add: idle_camera_facts view_step_def anyone_def del: run_queue.simps)
qed

theorem camera_clocks_balanced_witness:
  "\<exists>cs'. run_queue (run_item (plain_camera 0)) [Command 54 0, Command 56 1, Command 59 0] idle_camera = Some cs' \<and>
     clocks (gauge_of cs') ''aclk_cif0'' = of_bool (running (gauge_of cs'))"
proof -
  obtain cs' where r: "run_queue (run_item (plain_camera 0)) [Command 54 0, Command 56 1, Command 59 0]
      idle_camera = Some cs'"
    using items_return [OF plain_camera_facts(2,3)] unfolding returns_def by blast
  from camera_clocks_balanced [OF r, of undefined "''aclk_cif0''"] r show ?thesis
    by (intro exI [of _ cs']) (simp add: idle_camera_facts cif_clocks_def del: run_queue.simps)
qed

theorem camera_works_end_witness:
  "\<exists>cs'. run_queue (run_item (plain_camera 4)) [Command 54 0, Command 50 0] idle_camera = Some cs'"
  by (rule camera_works_end [OF plain_camera_facts(2,3)])

section \<open>The registers of the decoders\<close>

text \<open>The last value sent to a register.\<close>

fun sent_reg :: "u8 \<Rightarrow> u8 \<Rightarrow> event list \<Rightarrow> u8 option" where
  "sent_reg dev reg (I2c_write d r v # h) = (if d = dev \<and> r = reg then Some v else sent_reg dev reg h)"
| "sent_reg dev reg (_ # h) = sent_reg dev reg h"
| "sent_reg dev reg [] = None"

lemma i2c_put_state: "fst (snd (T132B_i2c_write e dev reg dat cs)) = fst cs"
  "car (snd (snd (T132B_i2c_write e dev reg dat cs))) = car (snd cs)"
  "cfg (snd (snd (T132B_i2c_write e dev reg dat cs))) = cfg (snd cs)"
  "trace (snd (snd (T132B_i2c_write e dev reg dat cs))) = I2c_write dev reg dat # trace (snd cs)"
  by (simp_all add: T132B_i2c_write_def Let_def)

section \<open>Calibration\<close>

text \<open>
  The values measured so far: a byte from register \<open>lo\<close>, then one from the next. Each comes with
  the position it was measured at, the last value sent to register \<open>out\<close>.
\<close>

definition read_from :: "u8 \<Rightarrow> event \<Rightarrow> u8 option" where
  "read_from reg x = (case x of I2c_read d r _ b \<Rightarrow> if d = 66 \<and> r = reg then Some b else None | _ \<Rightarrow> None)"

primrec uv_readings :: "u8 \<Rightarrow> u8 \<Rightarrow> event list \<Rightarrow> (u8 option \<times> int) list" where
  "uv_readings lo out [] = []"
| "uv_readings lo out (x # h) = uv_readings lo out h @
     (case (read_from (lo + 1) x, Option.bind (if h = [] then None else Some (hd h)) (read_from lo)) of
        (Some hi, Some b) \<Rightarrow> [(sent_reg 64 out h, uint b + 256 * uint hi)] | _ \<Rightarrow> [])"

lemma read_from_simps [simp]:
  "read_from reg (I2c_read d r x b) = (if d = 66 \<and> r = reg then Some b else None)"
  "read_from reg (I2c_write d r b) = None" "read_from reg (Msleep n) = None"
  by (simp_all add: read_from_def)

lemma readings_other: "r \<noteq> lo + 1 \<Longrightarrow> uv_readings lo out (I2c_read d r x y # h) = uv_readings lo out h"
  by simp

text \<open>Values measured at positions four apart, from \<open>pos\<close> on.\<close>

fun at_positions :: "int \<Rightarrow> int list \<Rightarrow> (u8 option \<times> int) list" where
  "at_positions pos [] = []"
| "at_positions pos (v # vs) = (Some (word_of_int pos), v) # at_positions (pos + 4) vs"

text \<open>The search as a function of the values alone.\<close>

fun uv_best :: "int \<Rightarrow> int \<times> int \<Rightarrow> int list \<Rightarrow> int \<times> int" where
  "uv_best pos fb [] = fb"
| "uv_best pos fb (v # vs) = uv_best (pos + 4) (uv_better pos v fb) vs"

lemma read_byte_event: "IC_ReadByte e dev reg cs = (b, cs') \<Longrightarrow>
    \<exists>x. trace (snd cs') = I2c_read dev reg x b # trace (snd cs)"
  by (auto simp: IC_ReadByte_def T132B_i2c_read_def Let_def split: prod.splits)

lemma write_byte_trace [simp]:
  "trace (snd (IC_WritByte e dev reg dat cs)) = I2c_write dev reg dat # trace (snd cs)"
  by (simp add: IC_WritByte_def i2c_put_state)

lemma delay_trace [simp]: "\<exists>n'. trace (snd (twdDelay e n cs)) = Msleep n' # trace (snd cs)"
  by (auto simp: twdDelay_def msleep_def Let_def)

lemma sync_readings:
  assumes "lo + 1 \<noteq> 192"
  shows "uv_readings lo out (trace (snd (snd (uv_sync e n cs)))) = uv_readings lo out (trace (snd cs))"
proof (induction n arbitrary: cs)
  case (Suc n)
  obtain b cs1 where r: "IC_ReadByte e 66 192 cs = (b, cs1)" by (rule prod.exhaust)
  obtain x where "trace (snd cs1) = I2c_read 66 192 x b # trace (snd cs)"
    using read_byte_event [OF r] by blast
  then have 1: "uv_readings lo out (trace (snd cs1)) = uv_readings lo out (trace (snd cs))"
    using assms by (auto simp: readings_other)
  obtain k where 2: "trace (snd (twdDelay e 50 cs1)) = Msleep k # trace (snd cs1)"
    using delay_trace by blast
  show ?case by (simp add: r Let_def 1 2 Suc.IH)
qed simp

lemma sync_sent: "sent_reg d r (trace (snd (snd (uv_sync e n cs)))) = sent_reg d r (trace (snd cs))"
proof (induction n arbitrary: cs)
  case (Suc n)
  obtain b cs1 where rd: "IC_ReadByte e 66 192 cs = (b, cs1)" by (rule prod.exhaust)
  obtain x where 1: "trace (snd cs1) = I2c_read 66 192 x b # trace (snd cs)"
    using read_byte_event [OF rd] by blast
  obtain k where 2: "trace (snd (twdDelay e 50 cs1)) = Msleep k # trace (snd cs1)"
    using delay_trace by blast
  show ?case by (simp add: rd Let_def 1 2 Suc.IH)
qed simp

text \<open>The search for one colour changes neither the readings nor the position of the other.\<close>

lemma scan_keeps_others:
  assumes "uv_scan e lo' out' n pos fb cs = (r, cs')" "lo + 1 \<notin> {192, lo', lo' + 1}" "out \<noteq> out'"
  shows "uv_readings lo out (trace (snd cs')) = uv_readings lo out (trace (snd cs)) \<and>
    sent_reg 64 out (trace (snd cs')) = sent_reg 64 out (trace (snd cs))"
proof -
  have "uv_readings lo out (trace (snd (snd (uv_scan e lo' out' n pos fb cs)))) = uv_readings lo out (trace (snd cs)) \<and>
    sent_reg 64 out (trace (snd (snd (uv_scan e lo' out' n pos fb cs)))) = sent_reg 64 out (trace (snd cs))"
  proof (induction n arbitrary: pos fb cs)
    case (Suc n)
    have s: "uv_sync e 24 cs = (ok, cs1) \<Longrightarrow>
        uv_readings lo out (trace (snd cs1)) = uv_readings lo out (trace (snd cs)) \<and>
        sent_reg 64 out (trace (snd cs1)) = sent_reg 64 out (trace (snd cs))" for ok cs1
      using sync_readings [of lo out e 24 cs] sync_sent [of 64 out e 24 cs] assms(2) by simp
    have r: "IC_ReadByte e 66 reg cs = (b, cs1) \<Longrightarrow> lo + 1 \<noteq> reg \<Longrightarrow>
        uv_readings lo out (trace (snd cs1)) = uv_readings lo out (trace (snd cs)) \<and>
        sent_reg 64 out (trace (snd cs1)) = sent_reg 64 out (trace (snd cs))" for reg cs b cs1
      by (auto dest!: read_byte_event simp: readings_other)
    show ?case
      using assms(2,3) by (auto simp: Let_def Suc.IH split: prod.split dest!: s r)
  qed simp
  with assms(1) show ?thesis by simp
qed

lemma scan_best:
  assumes "uv_scan e lo out n pos fb cs = (Some r, cs')" "lo + 1 \<noteq> 192" "lo + 1 \<noteq> lo"
    and "sent_reg 64 out (trace (snd cs)) = Some (word_of_int pos)"
  shows "\<exists>vals. length vals = n \<and> r = uv_best pos fb vals \<and>
      uv_readings lo out (trace (snd cs')) = uv_readings lo out (trace (snd cs)) @ at_positions pos vals"
  using assms(1,4)
proof (induction n arbitrary: pos fb cs)
  case (Suc n)
  obtain ok cs1 where s: "uv_sync e 24 cs = (ok, cs1)" by (rule prod.exhaust)
  with Suc.prems(1) have ok by (auto simp: Let_def split: if_splits)
  obtain lo_b cs2 where l: "IC_ReadByte e 66 lo cs1 = (lo_b, cs2)" by (rule prod.exhaust)
  obtain hi_b cs3 where h: "IC_ReadByte e 66 (lo + 1) cs2 = (hi_b, cs3)" by (rule prod.exhaust)
  let ?val = "uint lo_b + 256 * uint hi_b"
  let ?cs4 = "IC_WritByte e 64 out (word_of_int (pos + 4)) cs3"
  let ?cs5 = "if n = 0 then ?cs4 else IC_WritByte e 66 192 225 (IC_WritByte e 66 192 224 ?cs4)"
  have "uv_scan e lo out n (pos + 4) (uv_better pos ?val fb) ?cs5 = (Some r, cs')"
    using Suc.prems(1) \<open>ok\<close> by (simp add: s l h Let_def del: of_int_add split del: if_split)
  moreover have "sent_reg 64 out (trace (snd ?cs5)) = Some (word_of_int (pos + 4))" by simp
  ultimately obtain vals where vals: "length vals = n"
    "r = uv_best (pos + 4) (uv_better pos ?val fb) vals"
    "uv_readings lo out (trace (snd cs')) = uv_readings lo out (trace (snd ?cs5)) @ at_positions (pos + 4) vals"
    using Suc.IH by blast
  have "sent_reg 64 out (trace (snd cs1)) = Some (word_of_int pos)"
    using sync_sent [of 64 out e 24 cs] Suc.prems(2) by (simp add: s)
  moreover have "uv_readings lo out (trace (snd cs1)) = uv_readings lo out (trace (snd cs))"
    using sync_readings [OF assms(2), of out e 24 cs] by (simp add: s)
  ultimately have "uv_readings lo out (trace (snd ?cs5)) =
      uv_readings lo out (trace (snd cs)) @ [(Some (word_of_int pos), ?val)]"
    using read_byte_event [OF l] read_byte_event [OF h] by auto
  then show ?case using vals by (intro exI [of _ "?val # vals"]) simp
qed simp

text \<open>\<open>p\<close> is the first position with the smallest deviation, or 0 if every value is far off.\<close>

definition closest :: "int list \<Rightarrow> int \<Rightarrow> bool" where
  "closest vals p \<longleftrightarrow>
     (\<exists>i < length vals. p = 96 + 4 * int i \<and> (\<forall>v \<in> set vals. deviation (vals ! i) \<le> deviation v) \<and>
        (\<forall>j < i. deviation (vals ! i) < deviation (vals ! j))) \<or>
     p = 0 \<and> (\<forall>v \<in> set vals. deviation 0x7FFF \<le> deviation v)"

lemma uv_best_spec:
  "(uv_best pos fb vals = fb \<and> (\<forall>v \<in> set vals. deviation (snd fb) \<le> deviation v)) \<or>
   (\<exists>i < length vals. uv_best pos fb vals = (pos + 4 * int i, vals ! i) \<and>
      deviation (vals ! i) < deviation (snd fb) \<and> (\<forall>v \<in> set vals. deviation (vals ! i) \<le> deviation v) \<and>
      (\<forall>j < i. deviation (vals ! i) < deviation (vals ! j)))"
proof (induction vals arbitrary: pos fb)
  case (Cons v vals)
  let ?fb = "uv_better pos v fb"
  from Cons.IH [of "pos + 4" ?fb] show ?case
  proof (elim disjE exE conjE)
    assume "uv_best (pos + 4) ?fb vals = ?fb" "\<forall>v \<in> set vals. deviation (snd ?fb) \<le> deviation v"
    then show ?thesis
      by (cases "deviation v < deviation (snd fb)")
         (auto simp: uv_better_def intro!: disjI2 exI [of _ 0])
  next
    fix i
    assume "i < length vals" "uv_best (pos + 4) ?fb vals = (pos + 4 + 4 * int i, vals ! i)"
      "deviation (vals ! i) < deviation (snd ?fb)" "\<forall>v \<in> set vals. deviation (vals ! i) \<le> deviation v"
      "\<forall>j < i. deviation (vals ! i) < deviation (vals ! j)"
    then show ?thesis
      by (intro disjI2 exI [of _ "Suc i"])
         (auto simp: uv_better_def less_Suc_eq_0_disj split: if_splits)
  qed
qed simp

lemma uv_best_closest: "closest vals (fst (uv_best 96 (0, 0x7FFF) vals))"
  using uv_best_spec [of 96 "(0, 0x7FFF)" vals] by (auto simp: closest_def)

lemma closest_byte:
  assumes "closest vals p" "length vals = 12"
  shows "uint (word_of_int p :: u8) = p"
proof -
  from assms have "0 \<le> p" "p < 256" by (auto simp: closest_def)
  then show ?thesis by (simp add: uint_word_of_int)
qed

lemma uv_set_state:
  "trace (snd (T132B_UV_Set e cs)) = I2c_write 64 10 (v_value (ccar (T132B_UV_Set e cs))) #
     I2c_write 64 12 (u_value (ccar (T132B_UV_Set e cs))) # trace (snd cs)"
  "uv_cal (ccar (T132B_UV_Set e cs)) = uv_cal (ccar cs)"
  "u_value (ccar (T132B_UV_Set e cs)) = uv_off_u (ccfg cs) + 112"
  "v_value (ccar (T132B_UV_Set e cs)) = uv_off_v (ccfg cs) - 124"
  by (simp_all add: T132B_UV_Set_def Let_def i2c_put_state)

lemma write_byte_state [simp]: "car (snd (IC_WritByte e dev reg dat cs)) = car (snd cs)"
  "cfg (snd (IC_WritByte e dev reg dat cs)) = cfg (snd cs)"
  by (simp_all add: IC_WritByte_def i2c_put_state)

lemma setup_readings:
  "uv_readings lo out (trace (snd (uv_setup e cs))) = uv_readings lo out (trace (snd cs))"
  "sent_reg 64 12 (trace (snd (uv_setup e cs))) = Some 96" "sent_reg 64 10 (trace (snd (uv_setup e cs))) = Some 96"
proof -
  obtain k where "trace (snd (twdDelay e 100 cs)) = Msleep k # trace (snd cs)"
    using delay_trace by blast
  then show "uv_readings lo out (trace (snd (uv_setup e cs))) = uv_readings lo out (trace (snd cs))"
    "sent_reg 64 12 (trace (snd (uv_setup e cs))) = Some 96" "sent_reg 64 10 (trace (snd (uv_setup e cs))) = Some 96"
    by (simp_all add: uv_setup_def)
qed

lemma sync_cfg: "cfg (snd (snd (uv_sync e n cs))) = cfg (snd cs)"
  by (induction n arbitrary: cs)
     (auto simp: Let_def IC_ReadByte_def T132B_i2c_read_def twdDelay_def msleep_def split: prod.splits)

lemma scan_cfg: "cfg (snd (snd (uv_scan e lo out n pos fb cs))) = cfg (snd cs)"
proof (induction n arbitrary: pos fb cs)
  case (Suc n)
  have s: "uv_sync e 24 cs = (ok, cs1) \<Longrightarrow> cfg (snd cs1) = cfg (snd cs)" for ok cs1
    using sync_cfg [of e 24 cs] by simp
  have r: "IC_ReadByte e d r cs = (b, cs1) \<Longrightarrow> cfg (snd cs1) = cfg (snd cs)" for d r cs b cs1
    by (auto simp: IC_ReadByte_def T132B_i2c_read_def Let_def split: prod.splits)
  show ?case by (auto simp: Let_def Suc.IH split: prod.split dest!: s r)
qed simp

lemma scan_keeps_cfg: "uv_scan e lo out n pos fb cs = (r, cs') \<Longrightarrow> cfg (snd cs') = cfg (snd cs)"
  using scan_cfg [of e lo out n pos fb cs] by simp

lemma setup_cfg: "cfg (snd (uv_setup e cs)) = cfg (snd cs)"
  by (simp add: uv_setup_def twdDelay_def msleep_def Let_def)

text \<open>C26. The calibration either fails and falls back to the configured offsets, or measures each
  colour at the twelve positions 96, 100 to 140, which it has sent to the decoder before each
  reading (register 12 for one colour, 10 for the other), and settles on the first position
  whose value is closest to 2048; on position 0 if every value is 30719 or more away from 2048.
  In both cases the decoder has been sent the two values that the status holds.\<close>

theorem uv_calibration_closest:
  fixes e cs defines "cs' \<equiv> uv_calibrate e cs"
  shows "sent_reg 64 12 (trace (snd cs')) = Some (u_value (ccar cs')) \<and>
    sent_reg 64 10 (trace (snd cs')) = Some (v_value (ccar cs')) \<and>
    (uv_cal (ccar cs') = 2 \<and> u_value (ccar cs') = uv_off_u (ccfg cs) + 112 \<and>
       v_value (ccar cs') = uv_off_v (ccfg cs) - 124 \<or>
     uv_cal (ccar cs') = 3 \<and>
       (\<exists>us. length us = 12 \<and> closest us (uint (u_value (ccar cs'))) \<and>
          uv_readings 198 12 (trace (snd cs')) = uv_readings 198 12 (trace (snd cs)) @ at_positions 96 us) \<and>
       (\<exists>vs. length vs = 12 \<and> closest vs (uint (v_value (ccar cs'))) \<and>
          uv_readings 200 10 (trace (snd cs')) = uv_readings 200 10 (trace (snd cs)) @ at_positions 96 vs))"
proof -
  let ?cs0 = "uv_setup e cs"
  obtain u cs1 where u: "uv_scan e 198 12 12 96 (0, 0x7FFF) ?cs0 = (u, cs1)" by (rule prod.exhaust)
  have cfg1: "cfg (snd cs1) = cfg (snd cs)"
    using scan_keeps_cfg [OF u] by (simp add: setup_cfg)
  show ?thesis
  proof (cases u)
    case None
    then show ?thesis
      by (simp add: cs'_def uv_calibrate_def u Let_def uv_failed_def uv_set_state cfg1)
  next
    case (Some f)
    obtain pu du where f: "f = (pu, du)" by (rule prod.exhaust)
    let ?cs2 = "IC_WritByte e 66 192 225 (IC_WritByte e 66 192 224 cs1)"
    obtain v cs3 where v: "uv_scan e 200 10 12 96 (0, 0x7FFF) ?cs2 = (v, cs3)" by (rule prod.exhaust)
    have cfg3: "cfg (snd cs3) = cfg (snd cs)"
      using scan_keeps_cfg [OF v] by (simp add: cfg1)
    obtain us where us: "length us = 12" "f = uv_best 96 (0, 0x7FFF) us"
      "uv_readings 198 12 (trace (snd cs1)) = uv_readings 198 12 (trace (snd cs)) @ at_positions 96 us"
      using scan_best [OF u [unfolded Some]] by (auto simp: setup_readings)
    have pos10: "sent_reg 64 10 (trace (snd ?cs2)) = Some 96"
      using scan_keeps_others [OF u, of 200 10] by (simp add: setup_readings)
    have cu: "closest us pu" using uv_best_closest [of us] us(2) [symmetric] by (simp add: f)
    show ?thesis
    proof (cases v)
      case None
      then show ?thesis
        by (simp add: cs'_def uv_calibrate_def u v Some f Let_def uv_failed_def uv_set_state cfg3)
    next
      case (Some g)
      obtain pv dv where g: "g = (pv, dv)" by (rule prod.exhaust)
      obtain vs where vs: "length vs = 12" "g = uv_best 96 (0, 0x7FFF) vs"
        "uv_readings 200 10 (trace (snd cs3)) = uv_readings 200 10 (trace (snd ?cs2)) @ at_positions 96 vs"
        using scan_best [OF v [unfolded Some]] pos10 by auto
      have cv: "closest vs pv" using uv_best_closest [of vs] vs(2) [symmetric] by (simp add: g)
      have r200: "uv_readings 200 10 (trace (snd cs3)) = uv_readings 200 10 (trace (snd cs)) @ at_positions 96 vs"
        using scan_keeps_others [OF u, of 200 10] by (simp add: vs(3) setup_readings)
      have r198: "uv_readings 198 12 (trace (snd cs3)) = uv_readings 198 12 (trace (snd cs)) @ at_positions 96 us"
        using scan_keeps_others [OF v, of 198 12] by (simp add: us(3))
      have cs': "cs' = uv_store e pu pv cs3"
        by (simp add: cs'_def uv_calibrate_def u v \<open>u = Some f\<close> Some f g Let_def)
      show ?thesis
        using cu cv us(1) vs(1) closest_byte [OF cu us(1)] closest_byte [OF cv vs(1)]
        by (auto simp: cs' uv_store_def Let_def r198 r200)
    qed
  qed
qed

section \<open>Tables and reports\<close>

text \<open>A sequence ends with a device 255 within its table.\<close>

definition terminated :: "u8 list \<Rightarrow> bool" where
  "terminated t \<longleftrightarrow> (let n = 3 * length (triples t) in n < length t \<and> t ! n = 255)"

lemma mask_start: "i < 112 \<Longrightarrow> T132B_P2_S_MASK ! i = P2_S_MASK_0 ! i"
proof -
  have "length P2_S_MASK_0 = 384" by code_simp
  then show "i < 112 \<Longrightarrow> T132B_P2_S_MASK ! i = P2_S_MASK_0 ! i"
    by (simp add: T132B_P2_S_MASK_def nth_append)
qed

text \<open>No register table is read past its end: pages are as long as the counts used with them, the
  tables of 32 bytes are consulted for the first 28 registers only, sequences are terminated.\<close>

theorem register_tables_fit:
  "filter (\<lambda>i. T132B_P2_S_MASK ! i \<noteq> 0) [0..<112] = [0, 24, 25, 26, 27] \<and>
   map length [T132B_P2_S_PAL, T132B_P2_S_NTSC, T132B_P2_S_PALM, T132B_P2_S_PALN, T132B_P2_S_SECAM] =
     replicate 5 32 \<and>
   list_all (\<lambda>t. 240 \<le> length t)
     [T132B_P0_NTSC_YZ, T132B_P0_NTSC, T132B_P0_PAL, T132B_P0_YUV, T132B_P0_RGB, T132B_P0_MASK, T132B_P0_MASK_RGB] \<and>
   list_all (\<lambda>t. length t = 112) [T132B_P2_NTSC_YZ, T132B_P2_NTSC, T132B_P2_PAL, T132B_P2_MASK] \<and>
   list_all terminated [T132B_INIT, ADV7181D_YUV_BACK, ADV7181D_RGB_HACT, ADV7181D_RGB, ADV7181D_YUV,
     ADV7181D_CVBS, ADV7181D_PDN]"
proof (intro conjI)
  have "filter (\<lambda>i. T132B_P2_S_MASK ! i \<noteq> 0) [0..<112] = filter (\<lambda>i. P2_S_MASK_0 ! i \<noteq> 0) [0..<112]"
    by (rule filter_cong) (simp_all add: mask_start)
  also have "\<dots> = [0, 24, 25, 26, 27]" by code_simp
  finally show "filter (\<lambda>i. T132B_P2_S_MASK ! i \<noteq> 0) [0..<112] = [0, 24, 25, 26, 27]" .
qed code_simp+

text \<open>
  A camera that starts for a further camera or a view, with no video input of its own, reports two
  uninitialised bytes: the mask \<open>0xFF00FF00\<close> is applied to a byte.
\<close>

lemma no_report_assigned:
  assumes "cam_state c = 0" "video_mode c \<notin> {3, 5, 7}"
  shows "signal_report c = None"
proof -
  have "(ucast (x :: u8) AND 0xFF00FF00 :: u32) = 0" for x
    unfolding mask_views by (rule bit_word_eqI) (auto simp: bit_simps dest: bit_imp_le_length)
  then show ?thesis using assms by (simp add: signal_report_def Let_def)
qed

text \<open>The wait for frames never ends early: nothing counts them.\<close>

lemma frames_never_counted:
  assumes "gap2_2 (fst cs) = 0"
  shows "fst (await_frames e n cs) = fst cs"
  using assms by (induction n arbitrary: cs) (simp_all add: Let_def)

end
