(* ===== verification/Ioctl.thy ===== *)
theory Ioctl
  imports Audio_Work Lcd Tv
begin

text \<open>
  The commands of Android (\<open>car_ioctl\<close> of car.c), first part: the state, the texts
  \<open>name=argument\<close>, the reports of Android and the commands to the mixer.

  The commands call the operations of the other components: messages to the MCU and works are
  events of the log; tuner, drive, mixer, display and TV tuner run as they are modelled.
  Many pointers of this function are null placeholders in the sources. Where one is read or
  written through, passed on as data or as the format of a \<open>printk\<close>, the outcome is undefined:
  \<open>None\<close>. The scratch buffers \<open>ioctl_buf1\<close> and \<open>buffer2\<close> are not part of the state.
\<close>

section \<open>State\<close>

record io_unit =
  deck :: head_unit
  panel :: lcd_state
  wifi_capable :: bool
  user_mem :: "nat \<Rightarrow> u8"           \<comment> \<open>the memory of the caller, from \<open>arg\<close> on\<close>

type_synonym io_result = "(int \<times> io_unit) option"

text \<open>
  \<open>pending\<close>: works of the mixer that others queued before; \<open>alloc\<close>: whether memory is found;
  \<open>heard\<close>: whether the MCU takes the command word of a message (\<open>arm_send_cmd\<close>).
\<close>

record io_env =
  io_audio :: audio_env
  pending :: "event list \<Rightarrow> audio_item list"
  alloc :: "nat \<Rightarrow> bool"
  heard :: "event list \<Rightarrow> bool"

abbreviation (input) io_hw :: "io_env \<Rightarrow> env" where "io_hw e \<equiv> unit_env (io_audio e)"

definition on_deck :: "(head_unit \<Rightarrow> head_unit) \<Rightarrow> io_unit \<Rightarrow> io_unit" where
  "on_deck f u = u\<lparr>deck := f (deck u)\<rparr>"

definition io_sys :: "(sys \<Rightarrow> sys) \<Rightarrow> io_unit \<Rightarrow> io_unit" where
  "io_sys f = on_deck (on_sys f)"

abbreviation (input) io_car :: "io_unit \<Rightarrow> mtc_car_status" where "io_car u \<equiv> car (shared (deck u))"
abbreviation (input) io_cfg :: "io_unit \<Rightarrow> config" where "io_cfg u \<equiv> cfg (shared (deck u))"

abbreviation (input) io_status :: "(mtc_car_status \<Rightarrow> mtc_car_status) \<Rightarrow> io_unit \<Rightarrow> io_unit" where
  "io_status f \<equiv> io_sys (upd_car f)"

definition set_cfg :: "nat \<Rightarrow> u8 \<Rightarrow> io_unit \<Rightarrow> io_unit" where
  "set_cfg i b = io_sys (\<lambda>s. s\<lparr>cfg := (cfg s)(i := b)\<rparr>)"

abbreviation (input) io_log :: "event \<Rightarrow> io_unit \<Rightarrow> io_unit" where "io_log x \<equiv> io_sys (emit x)"
abbreviation (input) io_send :: "u32 \<Rightarrow> u8 list \<Rightarrow> io_unit \<Rightarrow> io_unit" where
  "io_send c d \<equiv> io_sys (emit (Arm_send_multi c d))"
abbreviation (input) io_audio_work :: "int \<Rightarrow> int \<Rightarrow> int \<Rightarrow> int \<Rightarrow> io_unit \<Rightarrow> io_unit" where
  "io_audio_work a b c d \<equiv> io_sys (call_audio a b c d)"
abbreviation (input) io_capture :: "int \<Rightarrow> int \<Rightarrow> nat \<Rightarrow> bool \<Rightarrow> io_unit \<Rightarrow> io_unit" where
  "io_capture a b d f \<equiv> io_sys (call_capture a b d f)"

text \<open>\<open>LABEL_62\<close> and \<open>LABEL_140\<close>.\<close>

definition accept :: "io_unit \<Rightarrow> io_result" where
  "accept u = Some (0, u)"

definition refuse :: "io_unit \<Rightarrow> io_result" where
  "refuse u = Some (-1, u)"

section \<open>Texts\<close>

text \<open>\<open>get_token_int\<close> on characters.\<close>

definition byte_char :: "u8 \<Rightarrow> char" where
  "byte_char b = char_of (unat b)"

definition token_int :: "string \<Rightarrow> int \<times> string" where
  "token_int t = (let (v, rest) = get_token_int (map of_char t) in (v, map byte_char rest))"

text \<open>The text up to the last equals sign and the text after it.\<close>

definition split_last :: "string \<Rightarrow> (string \<times> string) option" where
  "split_last t =
     (if CHR ''='' \<in> set t then
        Some (rev (tl (dropWhile (\<lambda>c. c \<noteq> CHR ''='') (rev t))), rev (takeWhile (\<lambda>c. c \<noteq> CHR ''='') (rev t)))
      else None)"

text \<open>The number that starts the token, if it is not negative.\<close>

definition with_int :: "string \<Rightarrow> (int \<Rightarrow> io_unit \<Rightarrow> io_result) \<Rightarrow> io_unit \<Rightarrow> io_result" where
  "with_int tok f u = (let (v, _) = token_int tok in if v \<ge> 0 then f v u else refuse u)"

definition switch_text :: "string \<Rightarrow> string \<Rightarrow> string \<Rightarrow> (bool \<Rightarrow> io_unit \<Rightarrow> io_result) \<Rightarrow> io_unit \<Rightarrow> io_result" where
  "switch_text on_text off_text tok f u =
     (if tok = on_text then f True u else if tok = off_text then f False u else refuse u)"

section \<open>Reports of Android (\<open>rpt_\<close>)\<close>

text \<open>Four of the reports are printed with a null format first.\<close>

definition report_key_mode :: "string \<Rightarrow> io_unit \<Rightarrow> io_result" where
  "report_key_mode tok u =
     (if tok = ''recovery'' then accept (io_sys (key_enter_mode 3) u)
      else if tok = ''assign'' then accept (io_sys (key_enter_mode 1) u)
      else if tok = ''normal'' then accept (io_sys (key_enter_mode 0) u)
      else if tok = ''steering'' then accept (io_sys (key_enter_mode 2) u)
      else refuse u)"

definition ioctl_rpt :: "string \<Rightarrow> string \<Rightarrow> io_unit \<Rightarrow> io_result" where
  "ioctl_rpt name tok u =
     (if name = ''rpt_boot_complete'' \<or> name = ''rpt_logo_complete'' \<or> name = ''rpt_boot_android'' then None
      else if name = ''rpt_boot_appinit'' then
        accept (io_status (\<lambda>c. c\<lparr>rpt_boot_appinit := of_bool (tok = ''start'')\<rparr>) u)
      else if name = ''rpt_boot_recovery'' then
        if tok = ''true'' then accept (io_sys (key_enter_mode 3) (io_log (Arm_send 0x208) u)) else refuse u
      else if name = ''rpt_reboot'' then if tok = ''0'' then accept u else refuse u
      else if name = ''rpt_power'' then None
      else if name = ''rpt_key_mode'' then report_key_mode tok u
      else refuse u)"

section \<open>Sound (\<open>av_\<close>)\<close>

definition av_channels :: "(string \<times> u8) list" where
  "av_channels = [(''gsm_bt'', 0), (''sys'', 1), (''dvd'', 2), (''line'', 3), (''fm'', 4), (''dtv'', 5),
     (''dvr'', 7), (''ipod'', 6)]"

text \<open>A work of the mixer, the flush that waits for it, and \<open>audio_channel_switch_unmute\<close>.\<close>

definition flush_audio :: "io_env \<Rightarrow> audio_item list \<Rightarrow> io_unit \<Rightarrow> io_unit" where
  "flush_audio e new u =
     on_deck (\<lambda>h. let h = audio_flush_work h in fold (audio_work (io_audio e)) (pending e (trace (shared h)) @ new) h) u"

definition switch_audio :: "io_env \<Rightarrow> int \<Rightarrow> int \<Rightarrow> int \<Rightarrow> int \<Rightarrow> io_unit \<Rightarrow> io_unit" where
  "switch_audio e a b c d u =
     (let new = audio_add_work a b c d (shared (deck u));
          u = flush_audio e new (io_audio_work a b c d u)
      in fold (\<lambda>(delay, w). io_log (Audio_add_work_delay (cmd1 w) delay))
           (audio_channel_switch_unmute (io_audio e) (deck u)) u)"

definition av_phone :: "string \<Rightarrow> io_unit \<Rightarrow> io_result" where
  "av_phone tok u =
     (if tok = ''in'' then accept (io_audio_work 10 1 0 0 u)
      else if tok = ''out'' then accept (io_audio_work 10 2 0 0 u)
      else if tok = ''hangup'' then
        accept (io_audio_work 10 0 0 0
          (if ch_mode (io_car u) \<noteq> 0 \<and> power_refcnt (io_car u) = 1 then io_log Backlight_off u else u))
      else if tok = ''answer'' then accept (io_audio_work 10 3 0 0 u)
      else refuse u)"

definition av_three :: "string \<Rightarrow> io_unit \<Rightarrow> io_result" where
  "av_three tok u =
     (let (eq1, tok) = token_int tok in
      if eq1 < 0 then refuse u
      else let (eq2, tok) = token_int tok in
        if eq2 < 0 then refuse u
        else with_int tok (\<lambda>eq3 u. accept (io_audio_work 11 eq1 eq2 eq3 u)) u)"

definition av_two :: "string \<Rightarrow> io_unit \<Rightarrow> io_result" where
  "av_two tok u =
     (let (balance, tok) = token_int tok in
      if balance < 0 then refuse u
      else with_int tok (\<lambda>balance2 u. accept (io_audio_work 10 balance2 balance 0 u)) u)"

definition av_gps :: "string \<Rightarrow> string \<Rightarrow> io_unit \<Rightarrow> io_result" where
  "av_gps name tok u =
     (if name = ''av_gps_monitor'' then
        switch_text ''on'' ''off'' tok (\<lambda>b u. accept
          (if b then
             if av_gps_monitor (io_car u) \<noteq> 1
             then io_audio_work 7 1 0 0 (io_status (\<lambda>c. c\<lparr>av_gps_monitor := 1\<rparr>) u) else u
           else if av_gps_monitor (io_car u) \<noteq> 0
             then io_audio_work 7 0 0 0 (io_status (\<lambda>c. c\<lparr>av_gps_monitor := 0\<rparr>) u) else u)) u
      else if name = ''av_gps_switch'' then
        switch_text ''on'' ''off'' tok (\<lambda>b u. accept
          (if b then
             if av_gps_switch (io_car u) \<noteq> 1
             then io_audio_work 8 1 0 0 (io_status (\<lambda>c. c\<lparr>av_gps_switch := 1\<rparr>) u) else u
           else if av_gps_switch (io_car u) \<noteq> 0
             then io_audio_work 8 0 0 0 (io_status (\<lambda>c. c\<lparr>av_gps_switch := 0\<rparr>) u) else u)) u
      else if name = ''av_gps_gain'' then
        with_int tok (\<lambda>g u. accept (io_status (\<lambda>c. c\<lparr>av_gps_gain := word_of_int g\<rparr>) u)) u
      else if name = ''av_active'' then with_int tok (\<lambda>v u. accept (io_audio_work 14 v 0 0 u)) u
      else refuse u)"

definition ioctl_av :: "io_env \<Rightarrow> string \<Rightarrow> string \<Rightarrow> io_unit \<Rightarrow> io_result" where
  "ioctl_av e name tok u =
     (if name = ''av_channel_enter'' then
        (case map_of av_channels tok of
           None \<Rightarrow> refuse u
         | Some ch \<Rightarrow>
             accept (switch_audio e 0 (uint ch) 800 0
               (if ch = 3 \<or> ch = 5 \<or> ch = 7
                then io_status (\<lambda>c. c\<lparr>av_channel_flag1 := 0\<rparr>) u else u)))
      else if name = ''av_channel_exit'' then
        (case map_of av_channels tok of
           None \<Rightarrow> refuse u
         | Some ch \<Rightarrow> accept (switch_audio e 1 (uint ch) 0 0 u))
      else if name = ''av_volume'' then
        let (v, _) = token_int tok in if 0 \<le> v \<and> v \<le> 100 then accept (io_audio_work 3 v 0 0 u) else refuse u
      else if name = ''av_phone_volume'' then
        let (v, _) = token_int tok in if 0 \<le> v \<and> v \<le> 100 then accept (io_audio_work 4 v 0 0 u) else refuse u
      else if name = ''av_mute'' then
        switch_text ''true'' ''false'' tok (\<lambda>b u. accept (io_audio_work 2 (of_bool b) 0 0 u)) u
      else if name = ''av_phone'' then av_phone tok u
      else if name = ''av_speech'' then
        switch_text ''in'' ''out'' tok (\<lambda>b u. accept (io_audio_work 27 (if b then 4 else 5) 0 0 u)) u
      else if name = ''av_gps_ontop'' then
        switch_text ''true'' ''false'' tok (\<lambda>b u. accept (io_audio_work 6 (of_bool b) 0 0 u)) u
      else if name = ''av_lud'' then
        switch_text ''on'' ''off'' tok (\<lambda>b u. accept (io_audio_work 12 (of_bool b) 0 0 u)) u
      else if name = ''av_balance'' then av_two tok u
      else if name = ''av_eq'' then av_three tok u
      else av_gps name tok u)"

end
