(* ===== verification/Ioctl_Commands.thy ===== *)
theory Ioctl_Commands
  imports Ioctl
begin

text \<open>
  The commands of Android (\<open>car_ioctl\<close> of car.c), second part: the controls, the settings, the
  answers to the CAN bus, and the whole call.
\<close>

section \<open>Controls (\<open>ctl_\<close>)\<close>

text \<open>The video inputs that may be shown.\<close>

definition capture_inputs :: "(string \<times> int) list" where
  "capture_inputs = [(''dvd'', 2), (''line'', 3), (''dvr'', 7), (''dtv'', 5)]"

definition ctl_uv_cal :: "string \<Rightarrow> io_unit \<Rightarrow> io_result" where
  "ctl_uv_cal tok u =
     (if reserved_22 (io_car u) ! 8 \<noteq> 0 \<or> decoder_state (io_car u) \<noteq> 1
      then accept (io_status (\<lambda>c. c\<lparr>uv_cal := 0\<rparr>) u)
      else accept (io_capture 50 (if tok = ''start'' then 0 else if tok = ''ok'' then 1
                                  else if tok = ''cancel'' then 2 else 0) 0 False
             (io_status (\<lambda>c. c\<lparr>uv_cal := 1\<rparr>) u)))"

definition ctl_camera :: "string \<Rightarrow> io_unit \<Rightarrow> io_result" where
  "ctl_camera tok u =
     accept (if tok = ''start_front'' then
               io_capture 52 (of_bool (cfg_frontview (io_cfg u) \<noteq> 0)) 0 False u
             else if tok = ''start_back'' then io_capture 52 0 0 False u
             else io_capture 53 0 0 False u)"

definition ctl_view :: "string \<Rightarrow> string \<Rightarrow> io_unit \<Rightarrow> io_result" where
  "ctl_view name tok u =
     (if name = ''ctl_cvbs_brightness'' then
        let (b, _) = token_int tok in accept (if b \<ge> 0 then io_capture 51 b 0 False u else u)
      else if name = ''ctl_camera'' then ctl_camera tok u
      else if name = ''ctl_capture_on'' then
        (case map_of capture_inputs tok of
           None \<Rightarrow> refuse u | Some ch \<Rightarrow> accept (io_capture 48 ch 0 True u))
      else if name = ''ctl_capture_off'' then
        (case map_of capture_inputs tok of
           None \<Rightarrow> refuse u | Some ch \<Rightarrow> accept (io_capture 49 ch 0 True u))
      else if tok = ''true'' then accept (io_capture 64 0 (unat (radar_val (io_car u))) False u)
      else if tok = ''false'' then accept u
      else refuse u)"

text \<open>The fields \<open>dtv_ir[0]\<close> to \<open>dtv_ir[3]\<close>: a missing number is stored as 255.\<close>

definition ctl_dtv_ir :: "string \<Rightarrow> io_unit \<Rightarrow> io_result" where
  "ctl_dtv_ir tok u =
     (let (a, tok) = token_int tok; (b, tok) = token_int tok; (c, tok) = token_int tok; (d, _) = token_int tok
      in accept (io_send 0x9523 [word_of_int a, word_of_int b, word_of_int c, word_of_int d] u))"

definition io_tuner :: "(radio_sys \<Rightarrow> radio_sys) \<Rightarrow> io_unit \<Rightarrow> io_unit" where
  "io_tuner f = on_deck (on_tuner f)"

definition io_show :: "u8 list \<Rightarrow> io_unit \<Rightarrow> io_unit" where
  "io_show t u =
     (let (l, s) = lcd_show t (panel u, shared (deck u)) in io_sys (\<lambda>_. s) (u\<lparr>panel := l\<rparr>))"

definition ctl_dvd :: "string \<Rightarrow> string \<Rightarrow> io_unit \<Rightarrow> io_result" where
  "ctl_dvd name tok u =
     (if name = ''ctl_dvd_cmd'' then
        with_int tok (\<lambda>v u. accept (on_deck (on_drive (dvd_send_command (word_of_int v))) u)) u
      else if tok = ''open'' then accept (io_log (Arm_send 0x0101) u)
      else if tok = ''close'' then accept (io_log (Arm_send 0x0102) u)
      else if tok = ''eject'' then accept (io_log (Arm_send 0x0105) u)
      else refuse u)"

definition ctl_radio :: "io_env \<Rightarrow> string \<Rightarrow> string \<Rightarrow> io_unit \<Rightarrow> io_result" where
  "ctl_radio e name tok u =
     (if name = ''ctl_radio_ta'' then
        switch_text ''true'' ''false'' tok (\<lambda>b u. accept (io_tuner (Radio_TA (of_bool b)) u)) u
      else if name = ''ctl_radio_af'' then
        switch_text ''true'' ''false'' tok (\<lambda>b u. accept (io_tuner (Radio_AF (of_bool b)) u)) u
      else if name = ''ctl_radio_search'' then
        accept (io_tuner (Radio_Set_Search (of_bool (tok = ''true''))) u)
      else if name = ''ctl_radio_frequency'' then
        with_int tok (\<lambda>f u. accept (io_tuner (Radio_Set_Frequency (io_hw e) (word_of_int f) False) u)) u
      else if name = ''ctl_radio_sfrequency'' then
        with_int tok (\<lambda>f u. accept (io_tuner (Radio_Set_Frequency (io_hw e) (word_of_int f) True) u)) u
      else if name = ''ctl_radio_mute'' then
        switch_text ''true'' ''false'' tok (\<lambda>b u. accept
          (if b then io_tuner (Radio_Set_Mute True) (io_audio_work 19 1 0 0 u)
           else io_audio_work 19 0 0 0 (io_tuner (Radio_Set_Mute False) u))) u
      else switch_text ''true'' ''false'' tok (\<lambda>b u. accept (io_tuner (Radio_Set_Stereo b) u)) u)"

definition ctl_tv :: "string \<Rightarrow> string \<Rightarrow> io_unit \<Rightarrow> io_result" where
  "ctl_tv name tok u =
     (if name = ''ctl_tv_frequency'' then with_int tok (\<lambda>f u. accept (io_sys (Tv_Set_Frequency f) u)) u
      else
        with_int tok (\<lambda>v u. accept
          (if v - 1 \<le> 7 then
             io_sys (Tv_Set_Demod v)
               (io_capture 61 0 0 True (io_status (\<lambda>c. c\<lparr>av_channel_flag1 := word_of_int v\<rparr>) u))
           else u)) u)"

definition ctl_key :: "string \<Rightarrow> io_unit \<Rightarrow> io_result" where
  "ctl_key tok u =
     (if tok = ''power'' then accept (io_send 0x9527 [] u)
      else if tok = ''power2'' then accept (io_status (\<lambda>c. c\<lparr>power2_flag := 1\<rparr>) (io_send 0x9529 [] u))
      else if tok = ''eject'' then accept (io_send 0x9528 [] u)
      else if tok = ''screenbrightness'' then
        accept (io_sys (car_add_work (if backlight_status (io_car u) \<noteq> 0 then 36 else 35) 0 False) u)
      else if tok = ''parrot_updata'' then accept (io_sys (car_add_work 74 1 False) u)
      else if tok = ''parrot_normal'' then accept (io_sys (car_add_work 74 0 False) u)
      else refuse u)"

definition ctl_reset :: "io_env \<Rightarrow> string \<Rightarrow> io_unit \<Rightarrow> io_result" where
  "ctl_reset e tok u =
     (if tok = ''0'' then accept (io_sys (msleep (io_hw e) 100) (io_send 0xA123 [] u))
      else if tok = ''1'' then
        accept (if wipe_flag (io_car u) AND 0x40 \<noteq> 0 then io_log Kernel_restart (io_send 0xA124 [] u)
                else io_sys (msleep (io_hw e) 100) (io_send 0xA123 [] u))
      else refuse u)"

definition ctl_backview :: "string \<Rightarrow> string \<Rightarrow> io_unit \<Rightarrow> io_result" where
  "ctl_backview name tok u =
     (if name = ''ctl_backview_vol'' then
        with_int tok (\<lambda>v u. accept (io_status (\<lambda>c. c\<lparr>backview_vol := word_of_int v\<rparr>) u)) u
      else switch_text ''true'' ''false'' tok (\<lambda>b u.
        accept (io_status (\<lambda>c. c\<lparr>backview_vol := if b then 0 else 11\<rparr>) u)) u)"

definition ioctl_ctl :: "io_env \<Rightarrow> string \<Rightarrow> string \<Rightarrow> io_unit \<Rightarrow> io_result" where
  "ioctl_ctl e name tok u =
     (if name = ''ctl_uv_cal'' then ctl_uv_cal tok u
      else if name = ''ctl_lcd'' then
        accept (io_show (map of_char tok) u)
      else if name \<in> {''ctl_cvbs_brightness'', ''ctl_camera'', ''ctl_capture_on'', ''ctl_capture_off'', ''ctl_radar''}
        then ctl_view name tok u
      else if name = ''ctl_beep'' then
        if ctl_beep (io_cfg u) \<noteq> 0 then with_int tok (\<lambda>_ u. accept (io_send 0x9520 [5] u)) u else refuse u
      else if name = ''ctl_dtv_ir'' then ctl_dtv_ir tok u
      else if name \<in> {''ctl_dvd_cmd'', ''ctl_dvd_door''} then ctl_dvd name tok u
      else if name \<in> {''ctl_radio_ta'', ''ctl_radio_af'', ''ctl_radio_search'', ''ctl_radio_frequency'',
          ''ctl_radio_sfrequency'', ''ctl_radio_mute'', ''ctl_radio_stereo''} then ctl_radio e name tok u
      else if name = ''ctl_soft_mute'' then
        switch_text ''true'' ''false'' tok (\<lambda>b u. accept (io_audio_work 18 (of_bool b) 0 0 u)) u
      else if name \<in> {''ctl_backview_vol'', ''ctl_backview_mute''} then ctl_backview name tok u
      else if name \<in> {''ctl_tv_frequency'', ''ctl_tv_demod''} then ctl_tv name tok u
      else if name = ''ctl_key'' then ctl_key tok u
      else if name = ''ctl_power'' then if tok = ''on'' \<or> tok = ''off'' then accept u else refuse u
      else if name = ''ctl_reset'' then ctl_reset e tok u
      else refuse u)"

section \<open>Settings (\<open>cfg_\<close>)\<close>

text \<open>
  The settings with one byte: offset in the configuration, command to the MCU.
\<close>

definition cfg_byte :: "nat \<Rightarrow> u32 \<Rightarrow> string \<Rightarrow> io_unit \<Rightarrow> io_result" where
  "cfg_byte i command tok u =
     with_int tok (\<lambda>v u. accept (io_send command [word_of_int v] (set_cfg i (word_of_int v) u))) u"

text \<open>
  A message whose data pointer is a null placeholder: \<open>arm_send_multi\<close> reads the data only when
  the MCU has taken the command word. It is undefined then; otherwise the call goes on as if
  nothing had happened.
\<close>

definition send_null :: "io_env \<Rightarrow> u32 \<Rightarrow> io_unit \<Rightarrow> io_result" where
  "send_null e command u =
     (if heard e (trace (shared (deck u))) then None else accept (io_send command [] u))"

text \<open>\<open>cfg_blmode\<close>, \<open>cfg_powerdelay\<close>, \<open>cfg_backlight\<close>. (\<open>backlight_update\<close> has an empty body.)\<close>

definition cfg_byte_lost :: "io_env \<Rightarrow> nat \<Rightarrow> u32 \<Rightarrow> string \<Rightarrow> io_unit \<Rightarrow> io_result" where
  "cfg_byte_lost e i command tok u =
     with_int tok (\<lambda>v u. send_null e command (set_cfg i (word_of_int v) u)) u"

definition cfg_color :: "string \<Rightarrow> io_unit \<Rightarrow> io_result" where
  "cfg_color tok u =
     with_int tok (\<lambda>v u.
       let hi = word_of_int (v div 256); lo = word_of_int v
       in accept (io_send 0x9507 [hi, lo] (set_cfg 480 hi (set_cfg 481 lo u)))) u"

text \<open>The byte that is given to the wifi chip is read through a null placeholder.\<close>

definition cfg_wifi :: "string \<Rightarrow> io_unit \<Rightarrow> io_result" where
  "cfg_wifi tok u =
     with_int tok (\<lambda>v u.
       if wifi_capable u then None
       else accept (io_send 0x9503 [word_of_int v] (set_cfg 489 (word_of_int v) u))) u"

definition cfg_mirror :: "string \<Rightarrow> io_unit \<Rightarrow> io_result" where
  "cfg_mirror tok u =
     switch_text ''true'' ''false'' tok (\<lambda>b u.
       accept (io_log (Arm_send (if b then 0x421 else 0x422)) (set_cfg 491 (of_bool b) u))) u"

definition cfg_led :: "io_env \<Rightarrow> string \<Rightarrow> io_unit \<Rightarrow> io_result" where
  "cfg_led e tok u =
     (let (l1, tok) = token_int tok in
      if l1 < 0 then refuse u
      else let (l2, tok) = token_int tok in
        if l2 < 0 then refuse u
        else with_int tok (\<lambda>l3 u.
          send_null e 0x9500 (set_cfg 487 (word_of_int l3) (set_cfg 486 (word_of_int l2)
            (set_cfg 485 (word_of_int l1) u)))) u)"

text \<open>
  \<open>cfg_ir_assign\<close>, \<open>cfg_steer_assign\<close> and \<open>cfg_config\<close> read the size of their buffer through a
  null placeholder before anything else.
\<close>

definition ioctl_cfg :: "io_env \<Rightarrow> string \<Rightarrow> string \<Rightarrow> io_unit \<Rightarrow> io_result" where
  "ioctl_cfg e name tok u =
     (if name = ''cfg_color'' then cfg_color tok u
      else if name = ''cfg_led_multi'' then cfg_byte 492 0x9508 tok u
      else if name = ''cfg_wifi_pwr'' then cfg_wifi tok u
      else if name = ''cfg_blmode'' then cfg_byte_lost e 495 0x950A tok u
      else if name = ''cfg_powerdelay'' then cfg_byte_lost e 482 0x950B tok u
      else if name = ''cfg_backlight'' then cfg_byte_lost e 483 0x9502 tok u
      else if name = ''cfg_mirror'' then cfg_mirror tok u
      else if name = ''cfg_beep'' then cfg_byte 484 0x9501 tok u
      else if name = ''cfg_led'' then cfg_led e tok u
      else if name = ''cfg_ir_assign'' \<or> name = ''cfg_steer_assign'' \<or> name = ''cfg_config'' then None
      else refuse u)"

section \<open>Commands\<close>

text \<open>\<open>i\<close> numbers so far; the loop ends at the first number that is missing or at the 99th.\<close>

fun can_numbers :: "nat \<Rightarrow> string \<Rightarrow> u8 list" where
  "can_numbers 0 tok = []"
| "can_numbers (Suc n) tok =
     (let (v, tok) = token_int tok in if v < 0 then [] else word_of_int v # can_numbers n tok)"

definition canbus_rsp :: "string \<Rightarrow> io_unit \<Rightarrow> io_result" where
  "canbus_rsp tok u =
     (let bs = can_numbers 99 tok in
      if bs = [] then refuse u else accept (io_send 0xC000 (of_nat (length bs) # bs) u))"

definition prefixed :: "string \<Rightarrow> string \<Rightarrow> bool" where
  "prefixed p name \<longleftrightarrow> take (length p) name = p"

definition ioctl_set :: "io_env \<Rightarrow> string \<Rightarrow> string \<Rightarrow> io_unit \<Rightarrow> io_result" where
  "ioctl_set e name tok u =
     (if name = ''canbus_rsp'' then canbus_rsp tok u
      else if length name \<le> 4 then accept u
      else if prefixed ''rpt_'' name then ioctl_rpt name tok u
      else if prefixed ''av_'' name then ioctl_av e name tok u
      else if prefixed ''cfg_'' name then ioctl_cfg e name tok u
      else if prefixed ''ctl_'' name then ioctl_ctl e name tok u
      else accept u)"

section \<open>The whole call\<close>

definition user_text :: "nat \<Rightarrow> io_unit \<Rightarrow> string" where
  "user_text n u = map byte_char (takeWhile (\<lambda>b. b \<noteq> 0) (map (user_mem u) [0..<n]))"

text \<open>
  The image for the MCU: its length stands in the first two bytes, and these are sent too. The
  configuration images go through a null pointer.
\<close>

definition mcu_image :: "io_env \<Rightarrow> io_unit \<Rightarrow> io_result" where
  "mcu_image e u =
     (let n = 256 * unat (user_mem u 0) + unat (user_mem u 1) + 2
      in if alloc e n then accept (io_send 0xA000 (map (user_mem u) [0..<n]) u) else refuse u)"

text \<open>\<open>answer\<close>: the part of the function that answers questions.\<close>

definition ioctl_body ::
    "(string \<Rightarrow> string \<Rightarrow> io_unit \<Rightarrow> io_result) \<Rightarrow> io_env \<Rightarrow> u32 \<Rightarrow> io_unit \<Rightarrow> io_result" where
  "ioctl_body answer e cmd u =
     (if cmd = 0xFE010000 then mcu_image e u
      else if cmd = 0xFD020000 \<or> cmd = 0xFC030000 then None
      else if cmd \<ge> 3072 then refuse u
      else case split_last (user_text (unat cmd) u) of
          None \<Rightarrow> refuse u
        | Some (name, tok) \<Rightarrow>
            if cmd AND 0x10000 = 0 then ioctl_set e name tok u else answer name tok u)"

abbreviation (input) io_lock :: string where "io_lock \<equiv> ''car_io_lock''"

definition clear_user_word :: "io_unit \<Rightarrow> io_unit" where
  "clear_user_word u = u\<lparr>user_mem := (\<lambda>i. if i < 4 then 0 else user_mem u i)\<rparr>"

definition car_ioctl ::
    "(string \<Rightarrow> string \<Rightarrow> io_unit \<Rightarrow> io_result) \<Rightarrow> io_env \<Rightarrow> u32 \<Rightarrow> io_unit \<Rightarrow> io_result" where
  "car_ioctl answer e cmd u =
     (if cmd = 119 then Some (0, clear_user_word u)
      else Option.bind (ioctl_body answer e cmd (io_log (Lock io_lock) u))
             (\<lambda>(r, u). Some (r, io_log (Unlock io_lock) u)))"

end
