(* ===== verification/Ioctl_Facts.thy ===== *)
theory Ioctl_Facts
  imports Ioctl_Commands Audio_Facts
begin

text \<open>
  What holds of the commands of Android. The locale \<open>io_contract\<close> is the contract of a relation
  between states that every elementary operation of a command keeps; every command keeps it then,
  and every sequence of calls (\<open>work_queue\<close>). It is interpreted for locks and settings and for
  the flags of the mixer.
\<close>

section \<open>What every command keeps\<close>

text \<open>The bytes of the configuration that the commands write.\<close>

definition ioctl_settings :: "nat set" where
  "ioctl_settings = {480, 481, 482, 483, 484, 485, 486, 487, 489, 491, 492, 495}"

text \<open>An operation of the tuner that leaves locks and configuration alone.\<close>

definition calm_tuner :: "radio_sys \<Rightarrow> radio_sys \<Rightarrow> bool" where
  "calm_tuner rs rs' \<longleftrightarrow> cfg (snd rs') = cfg (snd rs) \<and>
     (\<forall>l. held l (trace (snd rs')) = held l (trace (snd rs)))"

lemma calm_tuner_steps:
  "calm_tuner rs rs"
  "calm_tuner rs rs' \<Longrightarrow> \<not> lock_event x \<Longrightarrow> calm_tuner rs (radio_emit x rs')"
  "calm_tuner rs rs' \<Longrightarrow> calm_tuner rs (upd_radio f rs')"
  "calm_tuner rs rs' \<Longrightarrow> calm_tuner rs (radio_sleep e d rs')"
  by (simp_all add: calm_tuner_def radio_emit_def upd_radio_def radio_sleep_def held_ops)

lemma calm_tuner_if:
  "(c \<Longrightarrow> calm_tuner rs a) \<Longrightarrow> (\<not> c \<Longrightarrow> calm_tuner rs b) \<Longrightarrow> calm_tuner rs (if c then a else b)"
  by simp

lemma calm_tuner_invalid: "calm_tuner rs rs' \<Longrightarrow> calm_tuner rs (sta_invalid rs')"
  by (simp add: sta_invalid_def calm_tuner_steps)

lemma calm_tuner_mute: "calm_tuner rs rs' \<Longrightarrow> calm_tuner rs (Radio_Set_Mute m rs')"
  by (simp add: Radio_Set_Mute_def calm_tuner_steps)

lemma calm_tuner_com: "calm_tuner rs rs' \<Longrightarrow> calm_tuner rs (Radio_Set_Frequency_com f b rs')"
proof -
  assume rs: "calm_tuner rs rs'"
  have status: "calm_tuner rs (fst x, upd_car g (snd x))" if "calm_tuner rs x" for x g
    using that by (simp add: calm_tuner_def)
  show ?thesis
    by (auto simp: Radio_Set_Frequency_com_def rds_send_sta_empty_def Let_def split_def
        intro!: status calm_tuner_steps calm_tuner_invalid rs split: option.split)
qed

lemma calm_tuner_drop: "calm_tuner rs rs' \<Longrightarrow> calm_tuner rs (drop_rds_works rs')"
  by (simp add: drop_rds_works_def Let_def calm_tuner_steps)

lemma calm_tuner_back: "calm_tuner rs rs' \<Longrightarrow> calm_tuner rs (ta_back rs')"
  unfolding ta_back_def Let_def
  by (intro calm_tuner_steps calm_tuner_if calm_tuner_mute calm_tuner_com calm_tuner_invalid) simp_all

lemma calm_tuner_frequency: "calm_tuner rs (Radio_Set_Frequency e f b rs)"
  unfolding Radio_Set_Frequency_def Let_def clear_s2_def
  by (intro calm_tuner_steps calm_tuner_if calm_tuner_mute calm_tuner_com calm_tuner_drop) simp_all

lemma calm_tuner_calls:
  "calm_tuner rs (Radio_TA b rs)" "calm_tuner rs (Radio_AF b rs)"
  "calm_tuner rs (Radio_Set_Search b rs)" "calm_tuner rs (Radio_Set_Mute m rs)"
  "calm_tuner rs (Radio_Set_Stereo m rs)"
  unfolding Radio_TA_def Radio_AF_def Radio_Set_Search_def Radio_Set_Stereo_def Let_def
  by (intro calm_tuner_steps calm_tuner_if calm_tuner_mute calm_tuner_back; simp)+

section \<open>The contract\<close>

text \<open>A result of a command: 0 or -1, and a state related to the one before.\<close>

definition related_result :: "(io_unit \<Rightarrow> io_unit \<Rightarrow> bool) \<Rightarrow> io_unit \<Rightarrow> io_result \<Rightarrow> bool" where
  "related_result P u res \<longleftrightarrow> (case res of None \<Rightarrow> True | Some (r, v) \<Rightarrow> (r = 0 \<or> r = -1) \<and> P u v)"

locale io_contract =
  fixes P :: "io_unit \<Rightarrow> io_unit \<Rightarrow> bool"
  assumes start: "P u u"
    and step: "P u v \<Longrightarrow> P v t \<Longrightarrow> P u t"
    and log: "\<not> lock_event x \<Longrightarrow> P u (io_log x u)"
    and nap: "P u (io_sys (msleep e d) u)"
    and status: "P u (io_status g u)"
    and setting: "i \<in> ioctl_settings \<Longrightarrow> P u (set_cfg i b u)"
    and mixer: "P u (on_deck (audio_work a w) u)"
    and tune: "(\<And>rs. calm_tuner rs (f rs)) \<Longrightarrow> P u (io_tuner f u)"
    and drive: "P u (on_deck (on_drive (dvd_send_command c)) u)"
    and display: "P u (io_show str u)"
    and caller: "P u (clear_user_word u)"
begin

abbreviation (input) fine :: "io_unit \<Rightarrow> io_result \<Rightarrow> bool" where
  "fine \<equiv> related_result P"

lemma steps:
  "P u v \<Longrightarrow> \<not> lock_event x \<Longrightarrow> P u (io_log x v)"
  "P u v \<Longrightarrow> P u (io_sys (msleep e d) v)"
  "P u v \<Longrightarrow> P u (io_status g v)"
  "P u v \<Longrightarrow> i \<in> ioctl_settings \<Longrightarrow> P u (set_cfg i b v)"
  "P u v \<Longrightarrow> (\<And>rs. calm_tuner rs (f rs)) \<Longrightarrow> P u (io_tuner f v)"
  "P u v \<Longrightarrow> P u (on_deck (on_drive (dvd_send_command c)) v)"
  "P u v \<Longrightarrow> P u (io_show t v)"
  by (blast intro: step log nap status setting tune drive display)+

lemma branch: "(c \<Longrightarrow> P u v) \<Longrightarrow> (\<not> c \<Longrightarrow> P u w) \<Longrightarrow> P u (if c then v else w)"
  by simp

lemma results:
  "P u v \<Longrightarrow> fine u (accept v)" "P u v \<Longrightarrow> fine u (refuse v)" "fine u None"
  "(c \<Longrightarrow> fine u a) \<Longrightarrow> (\<not> c \<Longrightarrow> fine u b) \<Longrightarrow> fine u (if c then a else b)"
  "(\<And>x. fine u (f x)) \<Longrightarrow> fine u (Let t f)"
  "(\<And>x y. fine u (g x y)) \<Longrightarrow> fine u (case q of (x, y) \<Rightarrow> g x y)"
  by (simp_all add: related_result_def accept_def refuse_def split: prod.split)

lemma forms:
  "P u v \<Longrightarrow> (\<And>n. fine u (h n v)) \<Longrightarrow> fine u (with_int tok h v)"
  "P u v \<Longrightarrow> (\<And>b. fine u (k b v)) \<Longrightarrow> fine u (switch_text on_text off_text tok k v)"
  by (auto simp: with_int_def switch_text_def split_def Let_def related_result_def accept_def refuse_def)

lemma works: "P u v \<Longrightarrow> P u (fold (\<lambda>w. on_deck (audio_work a w)) ws v)"
proof (induction ws arbitrary: v)
  case (Cons w ws)
  show ?case using Cons.IH [OF step [OF Cons.prems mixer]] by simp
qed simp

lemma rpt: "fine u (ioctl_rpt name tok u)"
  unfolding ioctl_rpt_def report_key_mode_def key_enter_mode_def
  by (intro results start steps branch; simp)

lemma flush: "P u v \<Longrightarrow> P u (flush_audio e ws v)"
proof -
  assume v: "P u v"
  have fold: "on_deck (fold f qs) v = fold (\<lambda>w. on_deck (f w)) qs v"
    for f :: "audio_item \<Rightarrow> head_unit \<Rightarrow> head_unit" and qs v
  proof (induction qs arbitrary: v)
    case (Cons q qs)
    have "on_deck (fold f (q # qs)) v = on_deck (fold f qs) (on_deck (f q) v)"
      by (simp add: on_deck_def)
    also have "\<dots> = fold (\<lambda>w. on_deck (f w)) qs (on_deck (f q) v)" by (rule Cons.IH)
    finally show ?case unfolding fold_simps .
  qed (simp add: on_deck_def)
  let ?v = "io_log (Flush_queue ''audio_wq'') v"
  have "flush_audio e ws v =
      fold (\<lambda>w. on_deck (audio_work (io_audio e) w)) (pending e (trace (shared (deck ?v))) @ ws) ?v"
    unfolding fold [symmetric]
    by (simp add: flush_audio_def audio_flush_work_def io_sys_def on_deck_def on_sys_def Let_def)
  moreover have "P u ?v" using v by (rule steps) simp
  ultimately show ?thesis by (simp only: works)
qed

lemma switch: "P u v \<Longrightarrow> P u (switch_audio e a b c d v)"
proof -
  have logs: "P u (fold (\<lambda>(delay, w). io_log (Audio_add_work_delay (cmd1 w) delay)) ws v)"
    if "P u v" for ws :: "(nat \<times> audio_item) list" and v
    using that
  proof (induction ws arbitrary: v)
    case (Cons w ws)
    have "P u (io_log (Audio_add_work_delay (cmd1 (snd w)) (fst w)) v)"
      using Cons.prems by (rule steps) simp
    from Cons.IH [OF this] show ?case by (simp add: split_def)
  qed simp
  show "P u v \<Longrightarrow> P u (switch_audio e a b c d v)"
    unfolding switch_audio_def Let_def by (intro logs flush steps) simp_all
qed

lemma av: "fine u (ioctl_av e name tok u)"
proof -
  have "fine u (case map_of av_channels tok of None \<Rightarrow> refuse u | Some ch \<Rightarrow> f ch)"
    if "\<And>ch. fine u (f ch)" for f
    using that by (simp add: results start split: option.split)
  note choice = this
  show ?thesis
    unfolding ioctl_av_def av_phone_def av_three_def av_two_def av_gps_def
    by (intro results choice start steps switch branch forms; simp)
qed

lemma control: "fine u (ioctl_ctl e name tok u)"
proof -
  have "fine u (case map_of capture_inputs tok of None \<Rightarrow> refuse u | Some ch \<Rightarrow> f ch)"
    if "\<And>ch. fine u (f ch)" for f
    using that by (simp add: results start split: option.split)
  note choice = this
  have tv: "P u (io_sys (Tv_Set_Frequency x) v)" "P u (io_sys (Tv_Set_Demod x) v)" if "P u v" for v x
  proof -
    have "io_sys (Tv_Set_Frequency x) v =
        (if is_Atv (io_cfg v) then io_send 0x9403 (tv_freq_bytes x) v else v)"
      "io_sys (Tv_Set_Demod x) v =
        (if is_Atv (io_cfg v) \<and> demod_bytes (io_cfg v) x \<noteq> None
         then io_send 0x9404 (the (demod_bytes (io_cfg v) x)) v else v)"
      by (auto simp: Tv_Set_Frequency_def Tv_Set_Demod_def io_sys_def on_deck_def on_sys_def)
    with that show "P u (io_sys (Tv_Set_Frequency x) v)" "P u (io_sys (Tv_Set_Demod x) v)"
      by (simp_all add: steps)
  qed
  note defs = ctl_uv_cal_def ctl_camera_def ctl_view_def ctl_dtv_ir_def ctl_dvd_def ctl_radio_def
    ctl_tv_def ctl_key_def ctl_reset_def ctl_backview_def car_add_work_def
  show ?thesis
    unfolding ioctl_ctl_def defs Let_def
    by (intro results choice start steps branch forms tv calm_tuner_frequency calm_tuner_calls;
        simp add: start steps)
qed

lemma setting_result: "fine u (ioctl_cfg e name tok u)"
  unfolding ioctl_cfg_def cfg_color_def cfg_byte_def cfg_wifi_def cfg_byte_lost_def cfg_mirror_def
    cfg_led_def send_null_def Let_def
  by (intro results start steps branch forms; simp add: ioctl_settings_def)

lemma set_result: "fine u (ioctl_set e name tok u)"
  unfolding ioctl_set_def canbus_rsp_def Let_def
  by (intro results start steps rpt av control setting_result; simp)

lemma body:
  assumes "cmd AND 0x10000 = 0 \<or> 3072 \<le> cmd"
  shows "fine u (ioctl_body answer e cmd u)"
  using assms unfolding ioctl_body_def mcu_image_def Let_def
  by (auto intro!: results start steps set_result split: option.split)

end

text \<open>The bit that marks a question lies above every length that is let through.\<close>

lemma question_bit_high: "cmd AND 0x10000 = 0 \<or> 3072 \<le> cmd" for cmd :: u32
proof (cases "3072 \<le> cmd")
  case False
  then have "\<not> bit (unat cmd) 16" by (simp add: word_le_nat_alt bit_iff_odd)
  then have "\<not> bit cmd 16" by (simp add: bit_unsigned_iff)
  then have "cmd AND 2 ^ 16 = 0" by (simp only: and_exp_eq_0_iff_not_bit not_False_eq_True)
  then show ?thesis by simp
qed simp

section \<open>Any sequence of calls\<close>

definition keeps_settings :: "io_unit \<Rightarrow> io_unit \<Rightarrow> bool" where
  "keeps_settings u v \<longleftrightarrow>
     (\<forall>l. held l (trace (shared (deck v))) = held l (trace (shared (deck u)))) \<and>
     (\<forall>i. i \<notin> ioctl_settings \<longrightarrow> io_cfg v i = io_cfg u i)"

definition keeps_flags :: "io_unit \<Rightarrow> io_unit \<Rightarrow> bool" where
  "keeps_flags u v \<longleftrightarrow> (mixer_wf (audio (deck u)) \<longrightarrow> mixer_wf (audio (deck v)))"

lemmas io_parts = io_sys_def on_deck_def on_sys_def set_cfg_def io_tuner_def on_tuner_def
  on_drive_def io_show_def clear_user_word_def split_def Let_def

lemma keeps_display: "held l (trace (snd (lcd_show t (p, s)))) = held l (trace s) \<and>
    cfg (snd (lcd_show t (p, s))) = cfg s"
  by (simp add: lcd_show_def lcd_flash_def held_emit held_lock Let_def)

interpretation settings: io_contract keeps_settings
proof
  fix u :: io_unit and f
  assume "\<And>rs. calm_tuner rs (f rs)"
  from this [of "(tuner (deck u), shared (deck u))"] show "keeps_settings u (io_tuner f u)"
    by (simp add: keeps_settings_def io_parts calm_tuner_def)
next
  fix u a w
  show "keeps_settings u (on_deck (audio_work a w) u)"
    using audio_work_keeps [of "deck u" a w]
    by (simp add: keeps_settings_def io_parts mixer_keeps_def keeps_locks_def)
qed (auto simp: keeps_settings_def io_parts held_emit held_sleep keeps_drive_command keeps_display)

interpretation flags: io_contract keeps_flags
proof
  fix u a w
  show "keeps_flags u (on_deck (audio_work a w) u)"
    using audio_work_keeps [of "deck u" a w]
    by (simp add: keeps_flags_def io_parts mixer_keeps_def keeps_wf_def)
qed (auto simp: keeps_flags_def io_parts)

lemma car_ioctl_result:
  assumes "car_ioctl answer e cmd u = Some (r, v)"
  shows "(r = 0 \<or> r = -1) \<and> keeps_settings u v \<and> keeps_flags u v"
proof (cases "cmd = 119")
  case True
  with assms show ?thesis
    using settings.caller flags.caller by (auto simp: car_ioctl_def)
next
  case False
  let ?u = "io_log (Lock io_lock) u"
  from assms False obtain w where w: "ioctl_body answer e cmd ?u = Some (r, w)"
    and v: "v = io_log (Unlock io_lock) w"
    by (auto simp: car_ioctl_def bind_eq_Some)
  have "related_result keeps_settings ?u (Some (r, w))" "related_result keeps_flags ?u (Some (r, w))"
    unfolding w [symmetric] by (rule settings.body flags.body, rule question_bit_high)+
  then show ?thesis
    by (auto simp: related_result_def v keeps_settings_def keeps_flags_def io_parts held_lock)
qed

text \<open>A call: the command and the memory of the caller.\<close>

definition user_call ::
    "(string \<Rightarrow> string \<Rightarrow> io_unit \<Rightarrow> io_result) \<Rightarrow> io_env \<Rightarrow> u32 \<times> (nat \<Rightarrow> u8) \<Rightarrow> io_unit \<Rightarrow> io_unit option" where
  "user_call answer e call u =
     map_option snd (car_ioctl answer e (fst call) (u\<lparr>user_mem := snd call\<rparr>))"

interpretation calls: work_queue "user_call answer e" "\<lambda>u v. keeps_settings u v \<and> keeps_flags u v"
  for answer e
  by unfold_locales
     (auto simp: user_call_def keeps_settings_def keeps_flags_def dest!: car_ioctl_result)

text \<open>C8. Any sequence of calls that all have an outcome, by whatever programs and with whatever
  texts, gives every lock back, leaves the configuration alone but for the bytes 480 to 487
  (colour, power delay, backlight, beep, the three lamps), 489 (wifi), 491 (mirror), 492
  (lamps) and 495 (backlight mode), and keeps the flags of the mixer well-formed if they were.
  A call has no outcome where it goes through a null pointer of the sources.\<close>

theorem ioctl_calls_safe:
  assumes "run_queue (user_call answer e) calls u = Some v"
  shows "(\<forall>l. held l (trace (shared (deck v))) = held l (trace (shared (deck u)))) \<and>
    (\<forall>i. i \<notin> {480, 481, 482, 483, 484, 485, 486, 487, 489, 491, 492, 495} \<longrightarrow> io_cfg v i = io_cfg u i) \<and>
    (mixer_wf (audio (deck u)) \<longrightarrow> mixer_wf (audio (deck v)))"
  using calls.run_keeps [OF assms] by (simp add: keeps_settings_def keeps_flags_def ioctl_settings_def)

section \<open>Concrete calls\<close>

definition text_memory :: "string \<Rightarrow> nat \<Rightarrow> u8" where
  "text_memory t i = (if i < length t then of_char (t ! i) else 0)"

definition io_on :: "u8 \<Rightarrow> string \<Rightarrow> io_unit" where
  "io_on ch t = \<lparr>deck = unit_on ch, panel = \<lparr>lcd_page = replicate 16 0, lcd_enabled = True,
     lcd_flash_mode = False, lcd_flash_idx = 0\<rparr>, wifi_capable = False, user_mem = text_memory t\<rparr>"

definition plain_io :: io_env where
  "plain_io = \<lparr>io_audio = plain_env, pending = (\<lambda>_. []), alloc = (\<lambda>_. True), heard = (\<lambda>_. True)\<rparr>"

abbreviation (input) no_answer :: "string \<Rightarrow> string \<Rightarrow> io_unit \<Rightarrow> io_result" where
  "no_answer \<equiv> \<lambda>_ _ _. None"

lemma byte_char_of_char [simp]: "byte_char (of_char c) = c"
proof -
  have "(of_char c :: u8) = of_nat (of_char c :: nat)" by (rule of_nat_of_char [symmetric])
  then have "unat (of_char c :: u8) = of_char c"
    using nat_of_char_less_256 [of c] by (simp only: unat_of_nat) simp
  then show ?thesis by (simp add: byte_char_def)
qed

lemma user_text_memory:
  "CHR 0x00 \<notin> set t \<Longrightarrow> user_mem u = text_memory t \<Longrightarrow> user_text (length t) u = t"
proof -
  assume t: "CHR 0x00 \<notin> set t" "user_mem u = text_memory t"
  have "map (text_memory t) [0..<length t] = map of_char t"
    by (rule nth_equalityI) (simp_all add: text_memory_def)
  moreover have "(of_char c :: u8) \<noteq> 0" if "c \<in> set t" for c
  proof
    assume "(of_char c :: u8) = 0"
    then have "byte_char 0 = c" by (metis byte_char_of_char)
    then show False using t(1) that by (simp add: byte_char_def char_of_def)
  qed
  then have "takeWhile (\<lambda>b. b \<noteq> 0) (map of_char t :: u8 list) = map of_char t"
    by (simp add: takeWhile_eq_all_conv)
  ultimately show ?thesis
    by (simp only: user_text_def t(2) map_map comp_def byte_char_of_char list.map_ident)
qed

lemma run_text:
  assumes "CHR 0x00 \<notin> set t" "length t < 3072" "length t \<noteq> 119" "split_last t = Some (name, tok)"
  shows "car_ioctl answer e (of_nat (length t)) (u\<lparr>user_mem := text_memory t\<rparr>) =
    Option.bind (ioctl_set e name tok (io_log (Lock io_lock) (u\<lparr>user_mem := text_memory t\<rparr>)))
      (\<lambda>(r, v). Some (r, io_log (Unlock io_lock) v))"
proof -
  have n: "unat (of_nat (length t) :: u32) = length t"
    using assms(2) by (simp add: unat_of_nat)
  then have cmd: "(of_nat (length t) :: u32) < 3072" "(of_nat (length t) :: u32) \<noteq> 119"
    using assms(2,3) by (auto simp: word_less_nat_alt word_unat_eq_iff)
  moreover have "user_text (length t) (io_log (Lock io_lock) (u\<lparr>user_mem := text_memory t\<rparr>)) = t"
    by (rule user_text_memory [OF assms(1)]) (simp add: io_parts)
  ultimately show ?thesis
    using question_bit_high [of "of_nat (length t)"] assms(4)
    by (auto simp: car_ioctl_def ioctl_body_def n)
qed

lemma token_int_1: "token_int ''1'' = (1, '''')"
  by code_simp

lemma ioctl_calls_safe_witness:
  "\<exists>v. run_queue (user_call no_answer plain_io) [(10, text_memory ''cfg_beep=1'')] (io_on 3 '''') = Some v \<and>
     held io_lock (trace (shared (deck v))) = 0 \<and> io_cfg v 1 = 0"
proof -
  let ?c = "(of_nat (length ''cfg_beep=1''), text_memory ''cfg_beep=1'')"
  have run: "run_queue (user_call no_answer plain_io) [?c] (io_on 3 '''') \<noteq> None"
    unfolding run_queue.simps user_call_def fst_conv snd_conv
    by (subst run_text [where name = "''cfg_beep''" and tok = "''1''"])
       (simp_all add: split_last_def ioctl_set_def prefixed_def ioctl_cfg_def
        cfg_byte_def with_int_def accept_def token_int_1)
  then obtain v where v: "run_queue (user_call no_answer plain_io) [?c] (io_on 3 '''') = Some v" by blast
  from ioctl_calls_safe [OF v] v show ?thesis
    by (auto simp: io_on_def unit_on_defs held_def)
qed

section \<open>Questions are never answered\<close>

text \<open>C14. The bit that marks a question lies above the largest length that is let through: whatever
  the second half of the function does, no call reaches it.\<close>

theorem answers_unreachable: "car_ioctl answer e cmd u = car_ioctl answer' e cmd u"
  using question_bit_high [of cmd]
  by (auto simp: car_ioctl_def ioctl_body_def not_le [symmetric] split: option.split)

text \<open>A command of 119 characters is taken for the call that clears a word of the caller.\<close>

lemma text_of_119_lost:
  "length t = 119 \<Longrightarrow> car_ioctl answer e (of_nat (length t)) u = Some (0, clear_user_word u)"
  by (simp add: car_ioctl_def)

section \<open>Settings through a null pointer\<close>

text \<open>
  What becomes of such a setting depends on the MCU: the new value is stored in either case, but
  the call has an outcome only if the MCU does not take the command.
\<close>

lemma token_int_7: "token_int ''7'' = (7, '''')"
  by code_simp

theorem lost_setting_stored:
  "(\<exists>v. ioctl_set e ''cfg_backlight'' ''7'' u = Some (0, v) \<and> io_cfg v = (io_cfg u)(483 := 7)) \<longleftrightarrow>
     \<not> heard e (trace (shared (deck u)))"
  by (auto simp: ioctl_set_def prefixed_def ioctl_cfg_def cfg_byte_lost_def with_int_def send_null_def
      accept_def token_int_7 io_parts)

section \<open>Numbers for the CAN bus\<close>

fun numbers_bytes :: "nat list \<Rightarrow> u8 list" where
  "numbers_bytes [] = []"
| "numbers_bytes [n] = decimal_bytes n"
| "numbers_bytes (n # m # ns) = decimal_bytes n @ 0x2C # numbers_bytes (m # ns)"

lemma of_char_byte_char [simp]: "(of_char (byte_char b) :: u8) = b"
proof -
  have "(of_char (byte_char b) :: u8) = of_nat (of_char (byte_char b) :: nat)"
    by (rule of_nat_of_char [symmetric])
  also have "(of_char (byte_char b) :: nat) = unat b"
    using unsigned_less [of b, where ?'a = nat] by (simp add: byte_char_def)
  finally show ?thesis by simp
qed

lemma token_bytes:
  "token_int (map byte_char bs) = (fst (get_token_int bs), map byte_char (snd (get_token_int bs)))"
  by (simp add: token_int_def comp_def split_def Let_def)

lemma can_numbers_read:
  assumes "\<forall>n \<in> set ns. n < 2 ^ 31"
  shows "can_numbers k (map byte_char (numbers_bytes ns)) = map of_nat (take k ns)"
  using assms
proof (induction k arbitrary: ns)
  case (Suc k)
  show ?case
  proof (cases ns rule: numbers_bytes.cases)
    case 1
    then show ?thesis by (simp add: token_int_def get_token_int_def)
  next
    case (2 n)
    then have "get_token_int (numbers_bytes ns) = (int n, [])"
      using get_token_int_decimal [of n] Suc.prems by simp
    moreover have "can_numbers k [] = []" using Suc.IH [of "[]"] by simp
    ultimately show ?thesis by (simp add: 2 token_bytes)
  next
    case (3 n m ns')
    then have "get_token_int (numbers_bytes ns) = (int n, numbers_bytes (m # ns'))"
      using get_token_int_decimal [of n] Suc.prems by simp
    moreover have "can_numbers k (map byte_char (numbers_bytes (m # ns'))) = map of_nat (take k (m # ns'))"
      using Suc.prems by (intro Suc.IH) (simp add: 3)
    ultimately show ?thesis
      by (simp only: can_numbers.simps token_bytes fst_conv snd_conv Let_def prod.case) (simp add: 3)
  qed
qed simp

lemma split_last_set: "CHR ''='' \<notin> set t \<Longrightarrow> split_last (n @ CHR ''='' # t) = Some (n, t)"
proof -
  assume t: "CHR ''='' \<notin> set t"
  then have all: "\<And>c. c \<in> set (rev t) \<Longrightarrow> c \<noteq> CHR ''=''" by auto
  have "takeWhile (\<lambda>c. c \<noteq> CHR ''='') (rev t @ CHR ''='' # rev n) = rev t"
    by (subst takeWhile_append2) (use all in auto)
  moreover have "dropWhile (\<lambda>c. c \<noteq> CHR ''='') (rev t @ CHR ''='' # rev n) = CHR ''='' # rev n"
    by (subst dropWhile_append2) (use all in auto)
  ultimately show ?thesis by (simp add: split_last_def)
qed

text \<open>C11. Numbers for the CAN bus: a text of comma-separated decimals, at least one of them and
  each below \<open>2 ^ 31\<close>, given with its length, is accepted, and \<open>arm_send_multi\<close> is handed command
  0xC000 with a count and as many bytes, the low bytes of the numbers in order. From the
  hundredth number on they are left out. The length has to be below 3072 and must not be 119
  (see \<open>text_of_119_lost\<close>).\<close>

theorem canbus_numbers_roundtrip:
  assumes "user_text (unat cmd) u = ''canbus_rsp='' @ map byte_char (numbers_bytes ns)"
    and "cmd < 3072" and "cmd \<noteq> 119" and "ns \<noteq> []" and "\<forall>n \<in> set ns. n < 2 ^ 31"
  shows "car_ioctl answer e cmd u =
    Some (0, io_log (Unlock io_lock) (io_send 0xC000
      (of_nat (min 99 (length ns)) # map of_nat (take 99 ns)) (io_log (Lock io_lock) u)))"
proof -
  have "CHR ''='' \<notin> set (map byte_char (numbers_bytes ns))"
  proof -
    have "b \<in> {0x2C} \<union> digit_byte ` {0..<10}" if "b \<in> set (numbers_bytes ns)" for b
      using that decimal_digits
      by (induction ns rule: numbers_bytes.induct) (auto simp: decimal_bytes_def)
    moreover have "byte_char b \<noteq> CHR ''=''" if "b \<in> {0x2C} \<union> digit_byte ` {0..<10}" for b
    proof
      assume "byte_char b = CHR ''=''"
      then have "b = of_char (CHR ''='')" by (metis of_char_byte_char)
      then have "b = 61" by (simp add: of_char_def)
      moreover have "d \<in> {0, 1, 2, 3, 4, 5, 6, 7, 8, 9}" if "d < 10" for d :: nat
        using that by auto
      ultimately show False using that by fastforce
    qed
    ultimately have "byte_char b \<noteq> CHR ''=''" if "b \<in> set (numbers_bytes ns)" for b
      using that by blast
    then show ?thesis unfolding set_map by (metis imageE)
  qed
  then have "split_last (user_text (unat cmd) u) = Some (''canbus_rsp'', map byte_char (numbers_bytes ns))"
    using split_last_set [of _ "''canbus_rsp''"] by (simp add: assms(1))
  moreover have "user_text (unat cmd) (io_log x u) = user_text (unat cmd) u" for x
    by (simp add: user_text_def io_parts)
  moreover have "can_numbers 99 (map byte_char (numbers_bytes ns)) = map of_nat (take 99 ns)"
    by (rule can_numbers_read [OF assms(5)])
  ultimately show ?thesis
    using assms(2-4) question_bit_high [of cmd]
    by (auto simp: car_ioctl_def ioctl_body_def ioctl_set_def canbus_rsp_def accept_def min.commute Let_def)
qed

lemma canbus_numbers_roundtrip_witness:
  "\<exists>v. car_ioctl no_answer plain_io 17 ((io_on 3 '''')\<lparr>user_mem := text_memory ''canbus_rsp=46,200''\<rparr>) = Some (0, v) \<and>
     Arm_send_multi 0xC000 [2, 46, 200] \<in> set (trace (shared (deck v)))"
proof -
  let ?t = "''canbus_rsp=46,200''"
  let ?u = "(io_on 3 '''')\<lparr>user_mem := text_memory ?t\<rparr>"
  have reads: "user_text 17 ?u = ?t"
    using user_text_memory [of ?t ?u] by (simp add: numeral_eq_Suc)
  have bytes: "''canbus_rsp='' @ map byte_char (numbers_bytes [46, 200]) = ?t"
    by code_simp
  have "user_text (unat (17 :: u32)) ?u = ''canbus_rsp='' @ map byte_char (numbers_bytes [46, 200])"
    unfolding bytes using reads by simp
  from canbus_numbers_roundtrip [OF this, of no_answer plain_io] show ?thesis
    by (simp add: io_parts)
qed

section \<open>Entering a channel\<close>



text \<open>The work of an entered channel, posted and waited for while no other work waits.\<close>

lemma switch_audio_enters:
  assumes "\<forall>h. pending e h = []"
    and "audio_ready (io_car w) \<noteq> 0" and "audio_on (audio (deck w)) \<noteq> 0" and "mute_pin_latch (audio (deck w)) = 0"
    and "ch_sel_mode (audio (deck w)) \<noteq> 4" and "audio_ch (audio (deck w)) \<noteq> ch"
    and "ch_mode (io_car w) = 0" and "ajx_active (io_car w) = 0" and "ch_status (io_car w) = 0"
    and "\<not> (own_path (io_cfg w) \<and> {audio_ch (audio (deck w)), ch} = {0, ch_sys})"
    and "t = switch_audio e 0 (uint ch) 800 0 w"
  shows "audio_ch (audio (deck t)) = ch \<and> muted (audio (deck t)) = 0 \<and>
    usent 0x9004 (deck t) = channel_entry (io_audio e) (deck w) ch # usent 0x9004 (deck w)"
proof -
  let ?x = "\<lparr>cmd1 = 0, cmd2 = uint ch, cmd3 = 800, val1 = 0\<rparr> :: audio_item"
  define h where "h = log_event (Lock audio_lock) (audio_flush_work (log_event (Audio_add_work 0 (uint ch) 800 0) (deck w)))"
  have h: "audio h = audio (deck w)" "ucar h = ucar (deck w)" "ucfg h = ucfg (deck w)" "ch_data h = ch_data (deck w)"
    "usent 0x9004 h = usent 0x9004 (deck w)"
    by (simp_all add: h_def audio_flush_work_def)
  define v where "v = Audio_EnterChannel (io_audio e) ch True h"
  have "deck (flush_audio e (audio_add_work 0 (uint ch) 800 0 (shared (deck w)))
      (io_audio_work 0 (uint ch) 800 0 w)) = log_event (Unlock audio_lock) v"
    using assms(1-4)
    by (simp add: flush_audio_def audio_add_work_def io_sys_def on_deck_def audio_work_def
        audio_work_body_def v_def h_def audio_flush_work_def Let_def)
  moreover have "audio (deck (fold (\<lambda>(delay, x). io_log (Audio_add_work_delay (cmd1 x) delay)) ws t)) = audio (deck t) \<and>
      usent 0x9004 (deck (fold (\<lambda>(delay, x). io_log (Audio_add_work_delay (cmd1 x) delay)) ws t)) = usent 0x9004 (deck t)"
    for ws :: "(nat \<times> audio_item) list" and t
    by (induction ws arbitrary: t) (simp_all add: io_sys_def on_deck_def split_def)
  ultimately have switch: "audio (deck (switch_audio e 0 (uint ch) 800 0 w)) = audio v"
    "usent 0x9004 (deck (switch_audio e 0 (uint ch) 800 0 w)) = usent 0x9004 v"
    by (simp_all add: switch_audio_def Let_def)
  have "audio_ch (audio v) = ch \<and> muted (audio v) = 0 \<and>
      usent 0x9004 v = channel_entry (io_audio e) h ch # usent 0x9004 h"
    using enter_channel_switches [of h ch v "io_audio e"] assms(5-10) by (simp add: h v_def)
  moreover have "channel_entry (io_audio e) h ch = channel_entry (io_audio e) (deck w) ch"
    using h by (intro channel_entry_cong) simp_all
  ultimately show ?thesis by (simp add: assms(11) switch h)
qed

text \<open>C9. From the command of Android to the MCU: \<open>av_channel_enter\<close> with one of the eight names is
  accepted, makes that channel the current one, unmutes, and the MCU is told the channel, once.
  Conditions: the text is given with its length, below 3072 and not 119; no work of the mixer
  is pending; the audio of the unit is ready (\<open>audio_ready\<close>) and the mixer on (\<open>audio_on\<close>), its
  mute pin not latched; no overlay is active (\<open>ch_sel_mode\<close> is not 4); the channel is not the
  current one; no phone call (\<open>ch_mode\<close>), auxiliary input (\<open>ajx_active\<close>) or traffic announcement
  (\<open>ch_status\<close>) is heard; and it is not a change between channels 0 and 1 on a unit whose phone
  module has its own audio path.\<close>

theorem enter_command_switches:
  assumes "user_text (unat cmd) u = ''av_channel_enter='' @ name" and "map_of av_channels name = Some ch"
    and "cmd < 3072" and "cmd \<noteq> 119" and "\<forall>h. pending e h = []"
    and "audio_ready (io_car u) \<noteq> 0" and "audio_on (audio (deck u)) \<noteq> 0" and "mute_pin_latch (audio (deck u)) = 0"
    and "ch_sel_mode (audio (deck u)) \<noteq> 4" and "audio_ch (audio (deck u)) \<noteq> ch"
    and "ch_mode (io_car u) = 0" and "ajx_active (io_car u) = 0" and "ch_status (io_car u) = 0"
    and "\<not> (own_path (io_cfg u) \<and> {audio_ch (audio (deck u)), ch} = {0, ch_sys})"
  shows "\<exists>v. car_ioctl answer e cmd u = Some (0, v) \<and>
    audio_ch (audio (deck v)) = ch \<and> muted (audio (deck v)) = 0 \<and>
    usent 0x9004 (deck v) = channel_entry (io_audio e) (deck u) ch # usent 0x9004 (deck u)"
proof -
  have "CHR ''='' \<notin> set name"
    using map_of_SomeD [OF assms(2)] by (auto simp: av_channels_def)
  then have split: "split_last (user_text (unat cmd) (io_log x u)) = Some (''av_channel_enter'', name)" for x
    using assms(1) split_last_set [of name "''av_channel_enter''"] by (simp add: user_text_def io_parts)
  have call: "car_ioctl answer e cmd u =
      Option.bind (ioctl_av e ''av_channel_enter'' name (io_log (Lock io_lock) u))
        (\<lambda>(r, v). Some (r, io_log (Unlock io_lock) v))"
    using assms(3,4) question_bit_high [of cmd] split
    by (auto simp: car_ioctl_def ioctl_body_def ioctl_set_def prefixed_def)
  define w where "w = (if ch = 3 \<or> ch = 5 \<or> ch = 7
    then io_status (\<lambda>c. c\<lparr>av_channel_flag1 := 0\<rparr>) (io_log (Lock io_lock) u) else io_log (Lock io_lock) u)"
  have w: "audio (deck w) = audio (deck u)" "io_cfg w = io_cfg u" "audio_ready (io_car w) = audio_ready (io_car u)"
    "ch_mode (io_car w) = ch_mode (io_car u)" "ajx_active (io_car w) = ajx_active (io_car u)"
    "ch_status (io_car w) = ch_status (io_car u)" "usent 0x9004 (deck w) = usent 0x9004 (deck u)"
    "ch_data (deck w) = ch_data (deck u)"
    by (simp_all add: w_def io_parts)
  have av: "ioctl_av e ''av_channel_enter'' name (io_log (Lock io_lock) u) = accept (switch_audio e 0 (uint ch) 800 0 w)"
    unfolding w_def by (simp add: ioctl_av_def assms(2))
  have "audio_ch (audio (deck t)) = ch \<and> muted (audio (deck t)) = 0 \<and>
      usent 0x9004 (deck t) = channel_entry (io_audio e) (deck w) ch # usent 0x9004 (deck w)"
    if "t = switch_audio e 0 (uint ch) 800 0 w" for t
    by (rule switch_audio_enters [OF assms(5)]) (use assms(6-14) w that in simp_all)
  moreover have "channel_entry (io_audio e) (deck w) ch = channel_entry (io_audio e) (deck u) ch"
    using w by (intro channel_entry_cong) simp_all
  moreover have "audio (deck (io_log (Unlock io_lock) t)) = audio (deck t)"
    "usent 0x9004 (deck (io_log (Unlock io_lock) t)) = usent 0x9004 (deck t)" for t
    by (simp_all add: io_parts)
  ultimately show ?thesis by (simp add: call av accept_def w)
qed

lemma enter_command_switches_witness:
  "\<exists>v. car_ioctl no_answer plain_io 19 ((io_on 3 '''')\<lparr>user_mem := text_memory ''av_channel_enter=fm''\<rparr>) = Some (0, v) \<and>
     audio_ch (audio (deck v)) = 4 \<and> usent 0x9004 (deck v) = [[0x8A, 20]]"
proof -
  let ?t = "''av_channel_enter=fm''"
  let ?u = "(io_on 3 '''')\<lparr>user_mem := text_memory ?t\<rparr>"
  have "user_text 19 ?u = ?t"
    using user_text_memory [of ?t ?u] by (simp add: numeral_eq_Suc)
  then have "user_text (unat (19 :: u32)) ?u = ''av_channel_enter='' @ ''fm''"
    by simp
  moreover have "map_of av_channels ''fm'' = Some 4" by (simp add: av_channels_def)
  moreover have "audio_ready (io_car ?u) \<noteq> 0" "audio_on (audio (deck ?u)) \<noteq> 0"
    "mute_pin_latch (audio (deck ?u)) = 0" "ch_sel_mode (audio (deck ?u)) \<noteq> 4" "audio_ch (audio (deck ?u)) \<noteq> 4"
    "ch_mode (io_car ?u) = 0" "ajx_active (io_car ?u) = 0" "ch_status (io_car ?u) = 0"
    "\<not> (own_path (io_cfg ?u) \<and> {audio_ch (audio (deck ?u)), 4} = {0, ch_sys})"
    "usent 0x9004 (deck ?u) = []"
    by (simp_all add: io_on_def unit_on_defs own_path_def)
  moreover have "io_audio plain_io = plain_env" "\<forall>h. pending plain_io h = []"
    by (simp_all add: plain_io_def)
  moreover have "channel_entry plain_env (deck ?u) 4 = [0x8A, 20]"
    by (simp add: io_on_def unit_on_defs own_path_def channel_entry_def sel_at_def data_at_def ChannelSel_def)
  ultimately show ?thesis
    using enter_command_switches [of 19 ?u "''fm''" 4 plain_io no_answer] by auto
qed


section \<open>The telephone\<close>

text \<open>The work that \<open>av_phone\<close> posts is number 10 (\<open>AUDIO_WORK_PHONE\<close>); the dispatcher of the mixer
  takes 10 for the balance and 13 for the telephone.\<close>

lemma phone_moves_balance:
  "av_phone tok u = Some (0, v) \<Longrightarrow> \<exists>k. k \<in> {0, 1, 2, 3} \<and> Audio_add_work 10 k 0 0 \<in> set (trace (shared (deck v))) \<and>
     audio_work_body a \<lparr>cmd1 = 10, cmd2 = k, cmd3 = 0, val1 = 0\<rparr> h = work_balance a k 0 h"
proof -
  assume v: "av_phone tok u = Some (0, v)"
  have "\<exists>k w. k \<in> {0, 1, 2, 3} \<and> v = io_audio_work 10 k 0 0 w"
  proof -
    consider "tok = ''in''" | "tok = ''out''" | "tok = ''hangup''" | "tok = ''answer''"
      | "tok \<notin> {''in'', ''out'', ''hangup'', ''answer''}" by blast
    then show ?thesis
      using v by cases (simp_all add: av_phone_def accept_def refuse_def, blast+)
  qed
  moreover have "audio_work_body a \<lparr>cmd1 = 10, cmd2 = k, cmd3 = 0, val1 = 0\<rparr> h = work_balance a k 0 h" for k
    by (simp add: audio_work_body_def)
  ultimately show ?thesis by (auto simp: io_parts)
qed

end
