(* ===== verification/Hex.thy ===== *)
theory Hex
  imports Car_Misc
begin

text \<open>
  The number formats of the kernel that the sysfs and debugfs files of the drivers use:
  \<open>simple_strtoul\<close>, \<open>simple_strtol\<close> and \<open>kstrtoul\<close> as documented, and \<open>%x\<close> and \<open>%d\<close> of
  \<open>sprintf\<close>. C strings are byte lists without their terminating zero.
\<close>

section \<open>Reading numbers\<close>

definition digit_value :: "u8 \<Rightarrow> nat option" where
  "digit_value ch =
     (let c = unat ch in
      if 0x30 \<le> c \<and> c \<le> 0x39 then Some (c - 0x30)
      else if 0x61 \<le> c \<and> c \<le> 0x66 then Some (c - 0x61 + 10)
      else if 0x41 \<le> c \<and> c \<le> 0x46 then Some (c - 0x41 + 10)
      else None)"

fun scan_digits :: "nat \<Rightarrow> nat \<Rightarrow> u8 list \<Rightarrow> nat \<times> u8 list" where
  "scan_digits base acc [] = (acc, [])"
| "scan_digits base acc (c # cs) =
     (case digit_value c of
        None \<Rightarrow> (acc, c # cs)
      | Some v \<Rightarrow> if v < base then scan_digits base (acc * base + v) cs else (acc, c # cs))"

fun skip_0x :: "nat \<Rightarrow> u8 list \<Rightarrow> u8 list" where
  "skip_0x base (a # x # cs) =
     (if base = 16 \<and> a = 0x30 \<and> (x = 0x78 \<or> x = 0x58) then cs else a # x # cs)"
| "skip_0x base cs = cs"

text \<open>The number modulo the width of a \<open>long\<close>, and the text after it.\<close>

definition simple_strtoul :: "nat \<Rightarrow> u8 list \<Rightarrow> u32 \<times> u8 list" where
  "simple_strtoul base cs =
     (let (v, rest) = scan_digits base 0 (skip_0x base cs) in (of_nat v, rest))"

definition simple_strtol :: "nat \<Rightarrow> u8 list \<Rightarrow> u32" where
  "simple_strtol base cs =
     (case cs of
        [] \<Rightarrow> 0
      | c # rest \<Rightarrow> if c = 0x2D then - fst (simple_strtoul base rest) else fst (simple_strtoul base cs))"

text \<open>\<open>kstrtoul\<close>: all of the text, but for one line feed, and no overflow.\<close>

definition kstrtoul :: "nat \<Rightarrow> u8 list \<Rightarrow> u32 option" where
  "kstrtoul base cs =
     (let cs = (case cs of [] \<Rightarrow> [] | c # rest \<Rightarrow> if c = 0x2B then rest else cs);
          cs = skip_0x base cs;
          (v, rest) = scan_digits base 0 cs
      in if rest = cs \<or> rest \<noteq> [] \<and> rest \<noteq> [0x0A] \<or> v \<ge> 2 ^ 32 then None else Some (of_nat v))"

section \<open>Printing numbers\<close>

fun hex :: "nat \<Rightarrow> nat list" where
  "hex n = (if n < 16 then [n] else hex (n div 16) @ [n mod 16])"

declare hex.simps [simp del]

definition hex_digit :: "nat \<Rightarrow> u8" where
  "hex_digit d = (if d < 10 then 0x30 + of_nat d else 0x57 + of_nat d)"

definition hex_bytes :: "nat \<Rightarrow> u8 list" where
  "hex_bytes n = map hex_digit (hex n)"

text \<open>\<open>%.*x\<close> and \<open>%*x\<close>.\<close>

definition hex_zeros :: "nat \<Rightarrow> nat \<Rightarrow> u8 list" where
  "hex_zeros p n = replicate (p - length (hex n)) 0x30 @ hex_bytes n"

definition hex_blanks :: "nat \<Rightarrow> nat \<Rightarrow> u8 list" where
  "hex_blanks w n = replicate (w - length (hex n)) 0x20 @ hex_bytes n"

text \<open>\<open>%d\<close>.\<close>

definition int_bytes :: "int \<Rightarrow> u8 list" where
  "int_bytes v = (if v < 0 then 0x2D # decimal_bytes (nat (- v)) else decimal_bytes (nat v))"

section \<open>What is printed is read back\<close>

lemma hex_digits: "\<forall>d \<in> set (hex n). d < 16"
  by (induction n rule: hex.induct) (subst hex.simps, auto)

lemma hex_not_Nil [simp]: "hex n \<noteq> []"
  by (subst hex.simps) simp

lemma hex_value: "foldl (\<lambda>v d. v * 16 + d) 0 (hex n) = n"
proof (induction n rule: hex.induct)
  case (1 n)
  then show ?case by (subst hex.simps) simp
qed

lemma length_hex: "n < 16 ^ k \<Longrightarrow> 0 < k \<Longrightarrow> length (hex n) \<le> k"
proof (induction n arbitrary: k rule: hex.induct)
  case (1 n)
  show ?case
  proof (cases "n < 16")
    case False
    with 1(2) have "1 < k" by (cases k; cases "k - 1") auto
    then obtain m where k: "k = Suc m" and m: "0 < m" by (cases k) auto
    have "n div 16 < 16 ^ m" using 1(2) by (simp add: k less_mult_imp_div_less mult.commute)
    from 1(1) [OF False this m] show ?thesis using False by (subst hex.simps) (simp add: k)
  qed (use 1(3) in \<open>subst hex.simps; simp\<close>)
qed

lemma digit_value_hex: "d < 16 \<Longrightarrow> digit_value (hex_digit d) = Some d"
  by (elim less_natE, simp, cases "d < 10")
     (simp_all add: digit_value_def hex_digit_def unat_word_ariths unat_of_nat Let_def)

lemma scan_hex:
  assumes "\<forall>d \<in> set ds. d < 16"
  shows "scan_digits 16 acc (map hex_digit ds @ rest) =
    scan_digits 16 (foldl (\<lambda>v d. v * 16 + d) acc ds) rest"
  using assms by (induction ds arbitrary: acc) (simp_all add: digit_value_hex)

text \<open>A text stops a number when no digit follows.\<close>

definition stops :: "u8 list \<Rightarrow> bool" where
  "stops rest \<longleftrightarrow> (case rest of [] \<Rightarrow> True | c # _ \<Rightarrow> digit_value c = None \<and> c \<noteq> 0x78 \<and> c \<noteq> 0x58)"

lemma scan_stops: "stops rest \<Longrightarrow> scan_digits 16 acc rest = (acc, rest)"
  by (cases rest) (simp_all add: stops_def)

lemma skip_0x_none: "\<forall>c \<in> set cs. c \<noteq> 0x78 \<and> c \<noteq> 0x58 \<Longrightarrow> cs \<noteq> [] \<Longrightarrow> stops rest \<Longrightarrow>
    skip_0x base (cs @ rest) = cs @ rest"
  by (cases "(base, cs @ rest)" rule: skip_0x.cases; cases cs; cases "tl cs"; cases rest)
     (auto simp: stops_def)

lemma hex_digit_plain: "d < 16 \<Longrightarrow> hex_digit d \<noteq> 0x78 \<and> hex_digit d \<noteq> 0x58 \<and> hex_digit d \<noteq> 0x20 \<and>
    hex_digit d \<noteq> 0x2D \<and> hex_digit d \<noteq> 0x2B \<and> hex_digit d \<noteq> 0x0A \<and> hex_digit d \<noteq> 0"
  using digit_value_hex [of d] by (auto simp: digit_value_def Let_def)

lemma hex_zeros_digits:
  obtains ds where "hex_zeros p n = map hex_digit ds" and "\<forall>d \<in> set ds. d < 16" and "ds \<noteq> []"
    and "foldl (\<lambda>v d. v * 16 + d) 0 ds = n"
proof
  let ?ds = "replicate (p - length (hex n)) 0 @ hex n"
  show "hex_zeros p n = map hex_digit ?ds"
    by (simp add: hex_zeros_def hex_bytes_def hex_digit_def)
  show "\<forall>d \<in> set ?ds. d < 16" using hex_digits [of n] by (auto simp: set_replicate_conv_if)
  have "foldl (\<lambda>v d. v * 16 + d) 0 (replicate k 0) = (0::nat)" for k :: nat
    by (induction k) simp_all
  then show "foldl (\<lambda>v d. v * 16 + d) 0 ?ds = n" by (simp add: hex_value)
qed simp

lemma length_hex_zeros: "n < 16 ^ p \<Longrightarrow> 0 < p \<Longrightarrow> length (hex_zeros p n) = p"
  using length_hex [of n p] by (simp add: hex_zeros_def hex_bytes_def)

lemma hex_bytes_zeros: "hex_bytes n = hex_zeros 0 n"
  by (simp add: hex_zeros_def)

lemma hex_plain:
  "c \<in> set (hex_zeros p n) \<Longrightarrow> c \<noteq> 0x78 \<and> c \<noteq> 0x58 \<and> c \<noteq> 0x20 \<and> c \<noteq> 0x2D \<and> c \<noteq> 0x2B \<and> c \<noteq> 0x0A \<and> c \<noteq> 0"
  by (rule hex_zeros_digits [of p n]) (auto dest: hex_digit_plain)

lemma hex_not_empty [simp]: "hex_zeros p n \<noteq> []"
  by (rule hex_zeros_digits [of p n]) auto

lemma c_string_all: "\<forall>c \<in> set cs. c \<noteq> 0 \<Longrightarrow> c_string cs = cs"
  by (simp add: c_string_def)

lemma c_string_hex: "c_string (hex_zeros p n) = hex_zeros p n"
  by (rule c_string_all) (auto dest: hex_plain)

lemma scan_hex_zeros: "stops rest \<Longrightarrow> scan_digits 16 0 (hex_zeros p n @ rest) = (n, rest)"
  by (rule hex_zeros_digits [of p n]) (simp add: scan_hex scan_stops)

lemma skip_hex_zeros: "stops rest \<Longrightarrow> skip_0x base (hex_zeros p n @ rest) = hex_zeros p n @ rest"
  by (rule skip_0x_none) (auto dest: hex_plain)

lemma simple_strtoul_hex:
  "stops rest \<Longrightarrow> simple_strtoul 16 (hex_zeros p n @ rest) = (of_nat n, rest)"
  by (simp add: simple_strtoul_def skip_hex_zeros scan_hex_zeros)

lemma simple_strtol_hex: "simple_strtol 16 (hex_zeros p n) = of_nat n"
proof -
  have "simple_strtoul 16 (hex_zeros p n) = (of_nat n, [])"
    using simple_strtoul_hex [of "[]" p n] by (simp add: stops_def)
  then show ?thesis
    using hex_plain [of _ p n] by (auto simp: simple_strtol_def split: list.split)
qed

lemma kstrtoul_hex: "n < 2 ^ 32 \<Longrightarrow> kstrtoul 16 (hex_zeros p n) = Some (of_nat n)"
proof -
  assume n: "n < 2 ^ 32"
  have "(case hex_zeros p n of [] \<Rightarrow> [] | c # rest \<Rightarrow> if c = 0x2B then rest else hex_zeros p n) = hex_zeros p n"
    using hex_plain [of _ p n] by (auto split: list.split)
  moreover have "skip_0x 16 (hex_zeros p n) = hex_zeros p n"
    using skip_hex_zeros [of "[]" 16 p n] by (simp add: stops_def)
  moreover have "scan_digits 16 0 (hex_zeros p n) = (n, [])"
    using scan_hex_zeros [of "[]" p n] by (simp add: stops_def)
  ultimately show ?thesis using n hex_not_empty [of p n, symmetric] by (simp add: kstrtoul_def Let_def)
qed

end
