(* ===== verification/Codec_Files.thy ===== *)
theory Codec_Files
  imports Hex
begin

text \<open>
  The register files of the codec (codec.c): the listing \<open>soc_codec_reg_show\<close>, reading and
  writing registers as text, and the list of codecs. Memory of the caller, allocation and the
  registers of the codec are parameters.
\<close>

section \<open>The codec\<close>

text \<open>\<open>reg_read\<close> is \<open>snd_soc_read\<close>; no \<open>readable_register\<close> function makes all registers readable.\<close>

record soc_codec =
  reg_cache_size :: nat
  reg_word_size :: nat
  readable_register :: "nat \<Rightarrow> bool"
  reg_read :: "nat \<Rightarrow> int"

text \<open>The loop goes down from bit 31; \<open>c\<close> counts the bits above the highest one.\<close>

fun zeros_above :: "u32 \<Rightarrow> nat \<Rightarrow> nat" where
  "zeros_above w 0 = 0"
| "zeros_above w (Suc i) = (if w AND push_bit i 1 \<noteq> 0 then 0 else Suc (zeros_above w i))"

definition min_bytes_needed :: "u32 \<Rightarrow> nat" where
  "min_bytes_needed w =
     (let c = 32 - zeros_above w 32
      in if c = 0 \<or> c mod 8 \<noteq> 0 then (c + 8) div 8 else c div 8)"

text \<open>
  \<open>snprintf(buf + total, count - total, ...)\<close>: what is printed, and what fits. \<open>out\<close> holds the
  bytes stored; \<open>total\<close> counts the bytes printed.
\<close>

definition store_text :: "nat \<Rightarrow> nat \<times> u8 list \<Rightarrow> u8 list \<Rightarrow> nat \<times> u8 list" where
  "store_text count t txt =
     (let (total, out) = t in (total + length txt, out @ take (count - total - 1) txt))"

definition reg_text :: "soc_codec \<Rightarrow> nat \<Rightarrow> int \<Rightarrow> u8 list" where
  "reg_text c regsize v =
     (if v < 0 then replicate regsize 0x58 else take 15 (hex_zeros regsize (nat v)))"

definition reg_line :: "soc_codec \<Rightarrow> nat \<Rightarrow> nat \<Rightarrow> nat \<Rightarrow> u8 list" where
  "reg_line c wordsize regsize i =
     hex_blanks wordsize i @ [0x3A, 0x20] @ reg_text c regsize (reg_read c i) @ [0x0A]"

fun reg_lines ::
    "soc_codec \<Rightarrow> nat \<Rightarrow> nat \<Rightarrow> u32 \<Rightarrow> nat list \<Rightarrow> nat \<times> u8 list \<Rightarrow> nat \<times> u8 list" where
  "reg_lines c wordsize regsize count [] t = t"
| "reg_lines c wordsize regsize count (i # is) t =
     (if \<not> readable_register c i then reg_lines c wordsize regsize count is t
      else if int (fst t) + int (wordsize + regsize + 2 + 1) \<ge> sint count - 1 then t
      else reg_lines c wordsize regsize count is
             (store_text (unat count) t (reg_line c wordsize regsize i)))"

text \<open>A codec, or its driver, may be missing: \<open>None\<close>. The file position is not used.\<close>

definition soc_codec_reg_show :: "soc_codec option \<Rightarrow> u32 \<Rightarrow> nat \<times> u8 list" where
  "soc_codec_reg_show codec count =
     (case codec of
        None \<Rightarrow> (0, [])
      | Some c \<Rightarrow>
          if reg_cache_size c = 0 then (0, [])
          else reg_lines c (min_bytes_needed (of_nat (reg_cache_size c)) * 2) (reg_word_size c * 2)
                 count [0..<reg_cache_size c] (0, []))"

section \<open>The files\<close>

definition codec_reg_show :: "soc_codec option \<Rightarrow> nat \<times> u8 list" where
  "codec_reg_show codec = soc_codec_reg_show codec 4096"

text \<open>The pointer \<open>private_data\<close> of the file becomes the component.\<close>

definition codec_reg_open_file :: "soc_codec option \<Rightarrow> soc_codec option \<times> int" where
  "codec_reg_open_file i_private = (i_private, 0)"

text \<open>
  Reading: result, bytes that reached the caller and the new position. \<open>alloc\<close>: whether memory is
  found; \<open>access\<close>: \<open>access_ok\<close>; \<open>missed\<close>: the bytes \<open>copy_to_user\<close> could not copy.
\<close>

definition codec_reg_read_file ::
    "bool \<Rightarrow> (nat \<Rightarrow> bool) \<Rightarrow> (nat \<Rightarrow> nat) \<Rightarrow> soc_codec option \<Rightarrow> u32 \<Rightarrow> 64 word \<Rightarrow>
       int \<times> u8 list \<times> 64 word" where
  "codec_reg_read_file alloc access missed codec count ppos =
     (if count = 0 \<or> drop_bit 63 ppos AND 1 \<noteq> 0 then (-22, [], ppos)
      else if \<not> alloc then (-12, [], ppos)
      else
        let (r, buf) = soc_codec_reg_show codec count;
            copied = (if access r then take (r - missed r) buf else []);
            r = (if access r then missed r else r)
        in if r \<noteq> 0 then (-14, copied, ppos) else (0, copied, ppos + of_nat r))"

fun skip_spaces :: "u8 list \<Rightarrow> u8 list" where
  "skip_spaces (c # cs) = (if c = 0x20 then skip_spaces cs else c # cs)"
| "skip_spaces [] = []"

text \<open>
  Writing; \<open>user\<close> is what the caller's buffer holds, \<open>access\<close> and \<open>copied\<close> whether it can be read.
\<close>

definition codec_reg_write_file ::
    "bool \<Rightarrow> bool \<Rightarrow> (nat \<Rightarrow> u8) \<Rightarrow> nat \<Rightarrow> sys \<Rightarrow> int \<times> sys" where
  "codec_reg_write_file access copied user count s =
     (let len = (if count \<ge> 31 then 31 else count) in
      if \<not> access then (-14, s)
      else if \<not> copied then (-14, s)
      else
        let p = skip_spaces (c_string (map user [0..<len]));
            (reg, p) = simple_strtoul 16 p
        in case kstrtoul 16 (skip_spaces p) of
             None \<Rightarrow> (-22, s)
           | Some val \<Rightarrow> (int len, emit (Codec_write (unat reg) (unat val)) s))"

text \<open>
  The list of codecs. Without a cache the buffer pointer is the number 16: storing through it has
  no outcome, \<open>None\<close>. \<open>snprintf\<close> of a name never fails. \<open>simple_read_from_buffer\<close> copies
  what lies between the file position and the end, here as far as the caller asks.
\<close>

fun codec_names :: "u8 list list \<Rightarrow> nat \<times> u8 list \<Rightarrow> nat \<times> u8 list" where
  "codec_names [] t = t"
| "codec_names (n # ns) t =
     (let t = store_text 4096 t (n @ [0x0A])
      in if fst t > 4096 then (4096, snd t) else codec_names ns t)"

definition simple_read_from_buffer :: "nat \<Rightarrow> nat \<Rightarrow> u8 list \<Rightarrow> int \<times> u8 list \<times> nat" where
  "simple_read_from_buffer count pos buf =
     (let part = take count (drop pos buf) in (int (length part), part, pos + length part))"

definition codec_list_read_file ::
    "bool \<Rightarrow> bool \<Rightarrow> u8 list list \<Rightarrow> nat \<Rightarrow> nat \<Rightarrow> (int \<times> u8 list \<times> nat) option" where
  "codec_list_read_file cache alloc names count ppos =
     (if \<not> cache \<and> names \<noteq> [] then None
      else if cache \<and> \<not> alloc then Some (-12, [], ppos)
      else let (len, buf) = codec_names names (0, [])
           in Some (simple_read_from_buffer count ppos (take len buf)))"

definition wm8731_trigger :: int where
  "wm8731_trigger = 0"

section \<open>The width of the register numbers\<close>

lemma bit_test: "i < 32 \<Longrightarrow> (w AND push_bit i 1 \<noteq> (0::u32)) = bit w i"
  by (simp add: and_exp_eq_0_iff_not_bit)

lemma zeros_above_spec:
  assumes "n \<le> 32"
  shows "zeros_above w n \<le> n \<and> take_bit n (unat w) < 2 ^ (n - zeros_above w n) \<and>
    (zeros_above w n < n \<longrightarrow> 2 ^ (n - zeros_above w n - 1) \<le> take_bit n (unat w))"
  using assms
proof (induction n)
  case (Suc n)
  then have n: "n < 32" by simp
  have t: "take_bit (Suc n) (unat w) = take_bit n (unat w) + (if bit w n then 2 ^ n else 0)"
    using n by (simp add: take_bit_Suc_from_most bit_unsigned_iff)
  have l: "take_bit n (unat w) < 2 ^ n" by simp
  show ?case
    using Suc.IH n l t
    by (cases "bit w n") (auto simp: and_exp_eq_0_iff_not_bit simp del: take_bit_nat_less_exp)
qed simp

text \<open>\<open>min_bytes_needed\<close> is the number of bytes of a number, and one for zero.\<close>

theorem min_bytes_needed_least:
  "unat w < 256 ^ min_bytes_needed w \<and> 0 < min_bytes_needed w \<and>
   (\<forall>k. 0 < k \<and> unat w < 256 ^ k \<longrightarrow> min_bytes_needed w \<le> k)"
proof -
  define c where "c = 32 - zeros_above w 32"
  have full: "take_bit 32 (unat w) = unat w"
    by (rule take_bit_nat_eq_self) (use unsigned_less [of w, where 'a = nat] in simp)
  have hi: "unat w < 2 ^ c" and lo: "0 < c \<Longrightarrow> 2 ^ (c - 1) \<le> unat w"
    using zeros_above_spec [of 32 w] by (auto simp: full c_def)
  have m: "min_bytes_needed w = (if c = 0 \<or> c mod 8 \<noteq> 0 then (c + 8) div 8 else c div 8)"
    by (simp add: min_bytes_needed_def c_def Let_def)
  have "c \<le> 8 * min_bytes_needed w" "0 < min_bytes_needed w" unfolding m by auto
  moreover have p: "(256::nat) ^ k = 2 ^ (8 * k)" for k by (simp add: power_mult)
  moreover have "min_bytes_needed w \<le> k" if "0 < k" "unat w < 256 ^ k" for k
  proof (cases "c = 0")
    case False
    with lo that have "(2::nat) ^ (c - 1) < 2 ^ (8 * k)"
      unfolding p [symmetric] by (auto intro: le_less_trans)
    then have "c - 1 < 8 * k" by simp
    then have "c \<le> 8 * k" using False by linarith
    then have "c mod 8 \<noteq> 0 \<Longrightarrow> (c + 8) div 8 \<le> k" "c div 8 \<le> k" by presburger+
    then show ?thesis unfolding m using False by simp
  qed (use that in \<open>simp add: m\<close>)
  ultimately show ?thesis using hi
    by (auto simp: p intro: less_le_trans [OF hi] power_increasing)
qed

section \<open>The listing\<close>

text \<open>A register whose value has no more digits than the codec's words.\<close>

definition fits_word :: "soc_codec \<Rightarrow> nat \<Rightarrow> bool" where
  "fits_word c i \<longleftrightarrow> 0 < reg_word_size c \<and> reg_word_size c \<le> 7 \<and> reg_read c i < 16 ^ (2 * reg_word_size c)"

lemma length_hex_blanks: "n < 16 ^ p \<Longrightarrow> 0 < p \<Longrightarrow> length (hex_blanks p n) = p"
  using length_hex [of n p] by (simp add: hex_blanks_def hex_bytes_def)

lemma length_reg_text:
  assumes "fits_word c i"
  shows "length (reg_text c (reg_word_size c * 2) (reg_read c i)) = reg_word_size c * 2"
proof (cases "reg_read c i < 0")
  case False
  with assms have "nat (reg_read c i) < 16 ^ (reg_word_size c * 2)"
    by (simp add: fits_word_def nat_less_iff mult.commute)
  from length_hex_zeros [OF this] assms show ?thesis
    by (simp add: reg_text_def fits_word_def)
qed (simp add: reg_text_def)

text \<open>The loop keeps: printed is stored, and a line feed and the final zero still fit.\<close>

lemma reg_lines_room:
  assumes "\<And>i. i \<in> set is \<Longrightarrow> fits_word c i \<and> i < 16 ^ wordsize" "0 < wordsize"
    and "fst t = length (snd t)" "fst t = 0 \<or> int (fst t) < sint count - 1"
  shows "let t' = reg_lines c wordsize (reg_word_size c * 2) count is t
    in fst t' = length (snd t') \<and> (fst t' = 0 \<or> int (fst t') < sint count - 1)"
  using assms
proof (induction "is" arbitrary: t)
  case (Cons i "is")
  let ?l = "reg_line c wordsize (reg_word_size c * 2) i"
  show ?case
  proof (cases "readable_register c i \<and> int (fst t) + int (wordsize + reg_word_size c * 2 + 2 + 1) < sint count - 1")
    case True
    have l: "length ?l = wordsize + reg_word_size c * 2 + 2 + 1"
      using Cons.prems(1) [of i] Cons.prems(2) by (simp add: reg_line_def length_hex_blanks length_reg_text)
    have "0 < sint count" using True by linarith
    then have "uint count = sint count"
      using uint_sint [of count] sint_lt [of count] by (simp add: take_bit_int_eq_self)
    then have "sint count = int (unat count)" by simp
    then have "length ?l \<le> unat count - fst t - 1" using True l by linarith
    then have st: "store_text (unat count) t ?l = (fst t + length ?l, snd t @ ?l)"
      by (simp add: store_text_def split_beta)
    show ?thesis
      using Cons.IH [of "store_text (unat count) t ?l"] Cons.prems True l by (simp add: st not_le)
  next
    case False
    then show ?thesis using Cons.IH [of t] Cons.prems by (auto simp: not_less)
  qed
qed simp

definition small_codec :: soc_codec where
  "small_codec = \<lparr>reg_cache_size = 16, reg_word_size = 2, readable_register = (\<lambda>i. i \<noteq> 3),
     reg_read = (\<lambda>i. if i = 7 then -1 else int (17 * i))\<rparr>"

text \<open>C24. The listing of registers never leaves the caller's buffer: as long as the values have no more
  digits than the codec's words, everything printed is stored, and at least two bytes stay free.\<close>

theorem codec_listing_fits:
  assumes "reg_cache_size c < 2 ^ 32" "\<forall>i < reg_cache_size c. fits_word c i"
  shows "let (total, out) = soc_codec_reg_show (Some c) count
    in total = length out \<and> (total = 0 \<or> int total < sint count - 1)"
proof (cases "reg_cache_size c = 0")
  case False
  let ?w = "min_bytes_needed (of_nat (reg_cache_size c)) * 2"
  have u: "unat (of_nat (reg_cache_size c) :: u32) = reg_cache_size c"
    using assms(1) by (simp add: unat_of_nat)
  have "i < 16 ^ ?w" if "i < reg_cache_size c" for i
    using min_bytes_needed_least [of "of_nat (reg_cache_size c)"] that
    by (simp add: u power_mult [symmetric] mult.commute power_mult [of 16 2, simplified])
  with assms(2) min_bytes_needed_least [of "of_nat (reg_cache_size c)"]
  show ?thesis
    using reg_lines_room [of "[0..<reg_cache_size c]" c ?w "(0, [])" count] False
    by (cases "reg_lines c ?w (reg_word_size c * 2) count [0..<reg_cache_size c] (0, [])")
       (simp add: soc_codec_reg_show_def)
qed (simp add: soc_codec_reg_show_def)

theorem codec_listing_fits_witness:
  "let (total, out) = soc_codec_reg_show (Some small_codec) 4096
    in total = length out \<and> (total = 0 \<or> int total < sint (4096 :: u32) - 1)"
  by (rule codec_listing_fits) (simp_all add: small_codec_def fits_word_def)

section \<open>Reading and writing\<close>

text \<open>Reading the file never returns a length: \<open>copy_to_user\<close> overwrites it with the number of bytes
  it could not copy. What was copied is reported as the end of the file, and the position stays.\<close>

theorem codec_reading_returns_nothing:
  "let (r, out, pos) = codec_reg_read_file alloc access missed codec count ppos
   in r \<in> {0, -12, -14, -22} \<and> pos = ppos"
  by (simp add: codec_reg_read_file_def split_beta Let_def)

lemma stops_space [simp]: "stops (0x20 # cs)"
  by (simp add: stops_def digit_value_def)

lemma skip_spaces_id: "cs \<noteq> [] \<Longrightarrow> hd cs \<noteq> 0x20 \<Longrightarrow> skip_spaces cs = cs"
  by (cases cs) simp_all

lemma hd_hex_zeros [simp]: "hd (hex_zeros p n) \<noteq> 0x20"
  using hex_plain [of "hd (hex_zeros p n)" p n] by auto

text \<open>C25. A register and a value written as hexadecimal numbers reach the codec as they are.\<close>

theorem codec_register_written:
  assumes "r < 2 ^ 32" "v < 2 ^ 32"
    and "txt = hex_zeros p r @ 0x20 # hex_zeros q v" "length txt \<le> 31"
    and "\<And>i. i < length txt \<Longrightarrow> user i = txt ! i"
  shows "codec_reg_write_file True True user (length txt) s =
    (int (length txt), emit (Codec_write r v) s)"
proof -
  have m: "map user [0..<length txt] = txt"
    using assms(5) by (intro nth_equalityI) simp_all
  have "c_string txt = txt"
    by (rule c_string_all) (auto simp: assms(3) dest: hex_plain)
  moreover have "simple_strtoul 16 txt = (of_nat r, 0x20 # hex_zeros q v)"
    unfolding assms(3) by (rule simple_strtoul_hex) simp
  moreover have "skip_spaces txt = txt" "skip_spaces (0x20 # hex_zeros q v) = hex_zeros q v"
    by (simp_all add: assms(3) skip_spaces_id)
  moreover have "kstrtoul 16 (hex_zeros q v) = Some (of_nat v)"
    using assms(2) by (rule kstrtoul_hex)
  moreover have "(if 31 \<le> length txt then 31 else length txt) = length txt"
    using assms(4) by simp
  ultimately show ?thesis
    using assms(1,2) by (simp add: codec_reg_write_file_def m unat_of_nat)
qed

theorem codec_register_written_witness:
  "let txt = hex_zeros 2 6 @ 0x20 # hex_zeros 4 255
   in codec_reg_write_file True True (\<lambda>i. txt ! i) (length txt) sys_0 =
     (int (length txt), emit (Codec_write 6 255) sys_0)"
  unfolding Let_def
  by (rule codec_register_written [OF _ _ refl])
     (simp_all add: hex_zeros_def hex_bytes_def hex.simps)

text \<open>The list of codecs fits its page, however many names there are and however long.\<close>

lemma codec_names_page:
  "fst t \<le> 4096 \<Longrightarrow> length (snd t) \<le> 4096 \<Longrightarrow> length (snd t) \<le> fst t \<Longrightarrow>
    let t' = codec_names ns t in fst t' \<le> 4096 \<and> length (snd t') \<le> 4096"
proof (induction ns arbitrary: t)
  case (Cons n ns)
  let ?t = "store_text 4096 t (n @ [0x0A])"
  have l: "length (snd ?t) \<le> 4096" "length (snd ?t) \<le> fst ?t"
    using Cons.prems by (auto simp: store_text_def split_beta)
  show ?case using Cons.IH [of ?t] l by (simp add: Let_def)
qed simp

end
