(* ===== verification/I2c.thy ===== *)
theory I2c
  imports Mtc_State
begin

text \<open>
  The raw transfers of the touch controller's drivers (car.c, recon.c): messages to a client on
  the I2C bus, and the loops that repeat a transfer until it succeeds. What the bus answers is a
  parameter that may depend in any way on what happened before.
\<close>

section \<open>Transfers\<close>

text \<open>
  The fields of \<open>struct i2c_client\<close> the code reads by offset: \<open>addr\<close> at 2, \<open>irq\<close> at 368. A bus
  gives the result of \<open>i2c_transfer\<close> and the bytes it left in the reading buffer.
\<close>

record i2c_client =
  addr :: u16
  client_irq :: nat

type_synonym i2c_bus = "event list \<Rightarrow> u16 \<Rightarrow> u8 list \<Rightarrow> nat \<Rightarrow> int \<times> u8 list"

definition i2c_transfer ::
    "i2c_bus \<Rightarrow> u16 \<Rightarrow> u8 list \<Rightarrow> nat \<Rightarrow> sys \<Rightarrow> (int \<times> u8 list) \<times> sys" where
  "i2c_transfer bus a out want s =
     (let (r, got) = bus (trace s) a out want
      in ((r, take want (got @ replicate want 0)), emit (I2c_transfer a out want r) s))"

section \<open>Repeating\<close>

text \<open>Up to \<open>n\<close> attempts, until one is \<open>ok\<close>; the result is that of the last attempt.\<close>

fun retry :: "nat \<Rightarrow> ('s \<Rightarrow> 'a \<times> 's) \<Rightarrow> ('a \<Rightarrow> bool) \<Rightarrow> 'a \<Rightarrow> 's \<Rightarrow> 'a \<times> 's" where
  "retry 0 attempt ok r s = (r, s)"
| "retry (Suc n) attempt ok r s =
     (let (r, s) = attempt s in if ok r then (r, s) else retry n attempt ok r s)"

lemma retry_first: "ok (fst (attempt s)) \<Longrightarrow> 0 < n \<Longrightarrow> retry n attempt ok r s = attempt s"
  by (cases n) (simp_all add: split_beta)

text \<open>Attempts of a bounded cost, and attempts that all cost the same.\<close>

locale metered =
  fixes attempt :: "'s \<Rightarrow> 'a \<times> 's" and cost :: "'s \<Rightarrow> nat" and k :: nat
  assumes cost_le: "cost (snd (attempt s)) \<le> cost s + k"
begin

lemma retry_cost: "cost (snd (retry n attempt ok r s)) \<le> cost s + n * k"
proof (induction n arbitrary: r s)
  case (Suc n)
  obtain r1 s1 where a: "attempt s = (r1, s1)" by fastforce
  show ?case using Suc.IH [of r1 s1] cost_le [of s] by (simp add: a)
qed simp

end

locale metered_exactly = metered +
  assumes cost_eq: "cost (snd (attempt s)) = cost s + k"
begin

text \<open>Who fails has tried as often as allowed.\<close>

lemma retry_exhausts:
  "\<not> ok (fst (retry n attempt ok r s)) \<Longrightarrow> cost (snd (retry n attempt ok r s)) = cost s + n * k"
proof (induction n arbitrary: r s)
  case (Suc n)
  obtain r1 s1 where a: "attempt s = (r1, s1)" by fastforce
  show ?case using Suc cost_eq [of s] by (simp add: a split: if_splits)
qed simp

lemma retry_tries: "0 < n \<Longrightarrow> cost s + k \<le> cost (snd (retry n attempt ok r s))"
proof (induction n arbitrary: r s)
  case (Suc n)
  obtain r1 s1 where a: "attempt s = (r1, s1)" by fastforce
  show ?case using Suc.IH [of s1 r1] cost_eq [of s] by (cases n) (simp_all add: a)
qed simp

end

fun transfer :: "event \<Rightarrow> bool" where
  "transfer (I2c_transfer _ _ _ _) = True"
| "transfer _ = False"

definition transfers :: "sys \<Rightarrow> nat" where
  "transfers s = length (filter transfer (trace s))"

lemma transfers_emit [simp]: "transfers (emit x s) = (if transfer x then 1 else 0) + transfers s"
  by (simp add: transfers_def)

lemma transfers_upd [simp]: "transfers (upd_car f s) = transfers s"
  by (simp add: transfers_def)

lemma transfers_i2c [simp]: "transfers (snd (i2c_transfer bus a out want s)) = Suc (transfers s)"
  by (simp add: i2c_transfer_def split_beta)

interpretation bus: metered_exactly "i2c_transfer bus a out want" transfers 1
  by unfold_locales simp_all

section \<open>Words in memory\<close>

text \<open>Memory as bytes: a little-endian word at an offset.\<close>

definition le32 :: "(nat \<Rightarrow> u8) \<Rightarrow> nat \<Rightarrow> u32" where
  "le32 m i = of_nat (unat (m i) + 256 * (unat (m (i + 1)) + 256 * (unat (m (i + 2)) + 256 * unat (m (i + 3)))))"

definition put32 :: "nat \<Rightarrow> u32 \<Rightarrow> (nat \<Rightarrow> u8) \<Rightarrow> nat \<Rightarrow> u8" where
  "put32 i w m = m(i := ucast w, i + 1 := ucast (drop_bit 8 w), i + 2 := ucast (drop_bit 16 w),
                   i + 3 := ucast (drop_bit 24 w))"

lemma le32_put32 [simp]: "le32 (put32 i w m) i = w"
proof -
  have b: "unat (ucast (drop_bit k w) :: u8) = unat w div 2 ^ k mod 256" for k
    by (simp only: unsigned_ucast_eq unat_drop_bit_eq) (simp add: drop_bit_eq_div take_bit_eq_mod)
  have b0: "unat (ucast w :: u8) = unat w mod 256"
    using b [of 0] by simp
  have "unat w < 4294967296" using unsigned_less [of w, where 'a = nat] by simp
  then have "unat w mod 256 + 256 * (unat w div 2 ^ 8 mod 256 + 256 * (unat w div 2 ^ 16 mod 256 +
      256 * (unat w div 2 ^ 24 mod 256))) = unat w"
  proof -
    let ?n = "unat w"
    have "?n div 2 ^ 24 mod 256 = ?n div 2 ^ 16 div 256"
      using \<open>?n < 4294967296\<close> by (simp add: div_mult2_eq [symmetric] less_mult_imp_div_less)
    then have "?n div 2 ^ 16 mod 256 + 256 * (?n div 2 ^ 24 mod 256) = ?n div 2 ^ 8 div 256"
      by (simp only: mod_mult_div_eq) (simp add: div_mult2_eq [symmetric])
    then have "?n div 2 ^ 8 mod 256 + 256 * (?n div 2 ^ 16 mod 256 + 256 * (?n div 2 ^ 24 mod 256)) =
        ?n div 256"
      by (simp only: mod_mult_div_eq) simp
    then show ?thesis by (simp only: mod_mult_div_eq)
  qed
  moreover have "put32 i w m i = ucast w" "put32 i w m (i + 1) = ucast (drop_bit 8 w)"
    "put32 i w m (i + 2) = ucast (drop_bit 16 w)" "put32 i w m (i + 3) = ucast (drop_bit 24 w)"
    by (simp_all add: put32_def)
  ultimately have "le32 (put32 i w m) i = of_nat (unat w)"
    by (simp only: le32_def b b0)
  then show ?thesis by simp
qed

lemma le32_put32_other: "j + 4 \<le> i \<or> i + 4 \<le> j \<Longrightarrow> le32 (put32 i w m) j = le32 m j"
  by (auto simp: le32_def put32_def)

lemma le32_upd_other: "i < j \<or> j + 4 \<le> i \<Longrightarrow> le32 (m(i := b)) j = le32 m j"
  by (auto simp: le32_def)

lemma put32_other: "j < i \<or> i + 4 \<le> j \<Longrightarrow> put32 i w m j = m j"
  by (auto simp: put32_def)

end
