(* ===== verification/Touch.thy ===== *)
theory Touch
  imports I2c Hex Mcu_Command
begin

text \<open>
  The touch panel (car.c from \<open>gtp_reset_guitar\<close> on): the controller on the I2C bus, its
  configuration and the size of the screen, reporting a touch, and the calibration.

  The raw memory behind \<open>keys_data\<close>, which this code reaches by offset, is a map from offsets to
  bytes. \<open>TouchPanelSetCalibration\<close> and the tables of the binary are not part of the sources: the
  first is a parameter that looks at the points it is given; the tables are zero, as declared.
  Registering the input device is not modelled.
\<close>

section \<open>State\<close>

record touch_sys =
  tsys :: sys
  touch_w :: u16                   \<comment> \<open>\<open>struct gtp_dev\<close>\<close>
  touch_h :: u16
  touch_sub :: u8
  cfg_len :: u8
  gtp_ver :: "u8 list"
  irq_is_disable :: bool
  gtp_bss :: "nat \<Rightarrow> u8"
  kd :: "nat \<Rightarrow> u8"              \<comment> \<open>the bytes at \<open>keys_data\<close>\<close>
  mtc_cali_bss :: "nat \<Rightarrow> u32"
  touch_info1 :: u8                \<comment> \<open>further fields of \<open>car_status\<close>\<close>
  touch_info2 :: u8
  reserved_20 :: u8
  reserved_176 :: "nat \<Rightarrow> u8"

type_synonym points = "nat \<Rightarrow> u32"

record touch_env =
  thw :: env
  tbus :: i2c_bus
  tclient :: i2c_client
  panel_addr :: u32                \<comment> \<open>where \<open>gtp_panel_tab\<close> lies\<close>
  TouchPanelSetCalibration :: "nat \<Rightarrow> points \<Rightarrow> points \<Rightarrow> points \<Rightarrow> points \<Rightarrow> u8"

abbreviation (input) tcar :: "touch_sys \<Rightarrow> mtc_car_status" where "tcar t \<equiv> car (tsys t)"

definition on_tsys :: "(sys \<Rightarrow> sys) \<Rightarrow> touch_sys \<Rightarrow> touch_sys" where
  "on_tsys f t = t\<lparr>tsys := f (tsys t)\<rparr>"

definition run_tsys :: "(sys \<Rightarrow> 'a \<times> sys) \<Rightarrow> touch_sys \<Rightarrow> 'a \<times> touch_sys" where
  "run_tsys f t = (let (r, s) = f (tsys t) in (r, t\<lparr>tsys := s\<rparr>))"

abbreviation (input) upd_tcar :: "(mtc_car_status \<Rightarrow> mtc_car_status) \<Rightarrow> touch_sys \<Rightarrow> touch_sys" where
  "upd_tcar f \<equiv> on_tsys (upd_car f)"

section \<open>The controller on the bus\<close>

definition gtp_reset_guitar :: "env \<Rightarrow> i2c_client \<Rightarrow> nat \<Rightarrow> sys \<Rightarrow> sys" where
  "gtp_reset_guitar e cl ms s =
     (let s = msleep e ms (gpio_direction_output 216 False s);
          s = msleep e 2 (gpio_direction_output 217 (addr cl = 20) s);
          s = msleep e 6 (gpio_direction_output 216 True s);
          s = msleep e 50 (gpio_direction_output 217 False (gpio_direction_input 216 s))
      in gpio_direction_input 217 s)"

definition gtp_i2c_write :: "env \<Rightarrow> i2c_bus \<Rightarrow> i2c_client \<Rightarrow> u8 list \<Rightarrow> sys \<Rightarrow> int \<times> sys" where
  "gtp_i2c_write e bus cl buf s =
     (let ((res, _), s) = retry 5 (i2c_transfer bus (addr cl) buf 0) (\<lambda>(r, _). r = 1) (0, []) s
      in if res = 1 then (res, s) else (res, gtp_reset_guitar e cl 10 s))"

text \<open>The first two bytes of \<open>buf\<close> select the register, the others are read.\<close>

definition gtp_i2c_read ::
    "env \<Rightarrow> i2c_bus \<Rightarrow> i2c_client \<Rightarrow> u8 \<times> u8 \<Rightarrow> nat \<Rightarrow> sys \<Rightarrow> (int \<times> u8 list) \<times> sys" where
  "gtp_i2c_read e bus cl reg len s =
     (let sel = [fst reg, snd reg];
          ((res, got), s) =
            retry 5 (i2c_transfer bus (addr cl) sel (len - 2)) (\<lambda>(r, _). r = 2) (0, []) s
      in ((res, sel @ got), if res = 2 then s else gtp_reset_guitar e cl 10 s))"

definition gtp_i2c_test :: "env \<Rightarrow> i2c_bus \<Rightarrow> i2c_client \<Rightarrow> sys \<Rightarrow> int \<times> sys" where
  "gtp_i2c_test e bus cl s =
     retry 3 (\<lambda>s. let (res, s) = gtp_i2c_write e bus cl [1] s
                  in (res, if res > 0 then s else msleep e 10 s)) (\<lambda>res. res > 0) 0 s"

definition gtp_irq_disable :: "i2c_client \<Rightarrow> touch_sys \<Rightarrow> touch_sys" where
  "gtp_irq_disable cl t =
     (if irq_is_disable t then t
      else on_tsys (emit (Irq_off (client_irq cl))) (t\<lparr>irq_is_disable := True\<rparr>))"

definition gtp_irq_enable :: "i2c_client \<Rightarrow> touch_sys \<Rightarrow> touch_sys" where
  "gtp_irq_enable cl t =
     (if irq_is_disable t
      then (on_tsys (emit (Irq_on (client_irq cl))) t)\<lparr>irq_is_disable := False\<rparr>
      else t)"

text \<open>The second byte of the buffer is never set before it is sent and then tested.\<close>

definition gtp_read_version :: "touch_env \<Rightarrow> touch_sys \<Rightarrow> int \<times> touch_sys" where
  "gtp_read_version e t =
     (let (res, t) = run_tsys (gtp_i2c_write (thw e) (tbus e) (tclient e) [0, 0]) t in
      if res < 0 then (res, t)
      else
        let t = on_tsys (msleep (thw e) 50) t;
            garbage = word_of_int (junk (thw e) (trace (tsys t)));
            ((res, buf), t) = run_tsys (gtp_i2c_read (thw e) (tbus e) (tclient e) (106, garbage) 40) t
        in if res < 0 then (res, t)
           else
             let buf = buf[39 := 0] in
             if buf ! 1 \<noteq> 0 then
               let (res, t) = run_tsys (gtp_i2c_write (thw e) (tbus e) (tclient e) [0, 0]) t
               in (res, if res \<ge> 0 then t\<lparr>gtp_ver := buf\<rparr> else t)
             else (1, t))"

section \<open>The configuration of the panel\<close>

text \<open>
  The search of \<open>get_panel\<close> from entry \<open>idx\<close> on, over the eight entries of 44 bytes. The name of
  the next entry ends the search; past the eighth there is no table: \<open>None\<close>.
\<close>

function panel_search :: "(nat \<Rightarrow> u8) \<Rightarrow> u16 \<Rightarrow> u16 \<Rightarrow> int \<Rightarrow> int \<Rightarrow> nat \<Rightarrow> nat option option" where
  "panel_search tab w h vendor flag idx =
     (if idx \<ge> 8 then None
      else
        let p = 44 * idx; ev8 = uint (tab (p + 12)); v10 = (if ev8 = 65 \<and> vendor = 95 then 65 else vendor)
        in if le32 tab (p + 4) = ucast w \<and> le32 tab (p + 8) = ucast h \<and> v10 = ev8 \<and>
              (uint (tab (p + 13)) = flag \<or> ((v10 = 83 \<or> v10 = 81) \<and> flag \<noteq> 3) \<or> (v10 = 65 \<and> flag = 0))
           then Some (Some idx)
           else if idx = 7 then None
           else if le32 tab (p + 44) = 0 then Some None
           else panel_search tab w h vendor flag (idx + 1))"
  by pat_completeness auto
termination
  by (relation "measure (\<lambda>(tab, w, h, vendor, flag, idx). 8 - idx)") auto

declare panel_search.simps [simp del]

definition gtp_panel_tab :: "nat \<Rightarrow> u8" where
  "gtp_panel_tab = (\<lambda>_. 0)"

text \<open>Words 98 and 99 of the entry's data are filled from words 91 and 92. The value is the offset
  of the entry.\<close>

definition get_panel ::
    "(nat \<Rightarrow> u8) \<Rightarrow> u16 \<Rightarrow> u16 \<Rightarrow> int \<Rightarrow> int \<Rightarrow> touch_sys \<Rightarrow> (nat option \<times> touch_sys) option" where
  "get_panel tab w h vendor flag t =
     (case panel_search tab w h vendor flag 0 of
        None \<Rightarrow> None
      | Some None \<Rightarrow> Some (None, t)
      | Some (Some idx) \<Rightarrow>
          let b = 44 * idx;
              fill = (\<lambda>d x m. if le32 m (b + 4 * d) = 0 then put32 (b + 4 * d) (le32 m (b + 4 * x)) m else m)
          in Some (Some b, t\<lparr>gtp_bss := fill 99 92 (fill 98 91 (gtp_bss t))\<rparr>))"

text \<open>The image sent to the controller: \<open>blob\<close> from byte 2 on, and the check byte after \<open>n\<close> bytes.\<close>

definition store_bytes :: "nat \<Rightarrow> u8 list \<Rightarrow> (nat \<Rightarrow> u8) \<Rightarrow> nat \<Rightarrow> u8" where
  "store_bytes p bs m = (\<lambda>i. if p \<le> i \<and> i < p + length bs then bs ! (i - p) else m i)"

definition panel_image :: "u8 list \<Rightarrow> nat \<Rightarrow> (nat \<Rightarrow> u8) \<Rightarrow> nat \<Rightarrow> u8" where
  "panel_image blob n m =
     (let m = store_bytes 2 (take n blob) (store_bytes 2 (replicate 240 0) m)
      in m(n := - (\<Sum>i = 2..<n. m i)))"

definition gtp_write_panel :: "touch_env \<Rightarrow> touch_sys \<Rightarrow> touch_sys" where
  "gtp_write_panel e t =
     (let t = t\<lparr>cfg_len := 186, gtp_bss := panel_image (replicate 186 0) 186 (gtp_bss t)\<rparr>;
          (res, t) = run_tsys (retry 5 (gtp_i2c_write (thw e) (tbus e) (tclient e)
                       (map (gtp_bss t) [0..<0xF2])) (\<lambda>res. res > 0) 0) t
      in on_tsys (msleep (thw e) 10) t)"

section \<open>The size of the screen\<close>

definition set_class :: "u8 \<Rightarrow> touch_sys \<Rightarrow> touch_sys" where
  "set_class k = upd_tcar (\<lambda>c. c\<lparr>is1024screen := k\<rparr>)"

definition touch_word :: "touch_sys \<Rightarrow> u32" where
  "touch_word t = (ucast (touch_w t) OR push_bit 16 (ucast (touch_h t)))"

definition gtp_l34 :: "u16 \<Rightarrow> u16 \<Rightarrow> touch_sys \<Rightarrow> touch_sys" where
  "gtp_l34 w16 h16 t =
     (if h16 = 1024 then set_class 11 (t\<lparr>touch_w := 600, reserved_20 := ucast (w16 - 88)\<rparr>) else t)"

definition gtp_l28 :: "u16 \<Rightarrow> touch_sys \<Rightarrow> touch_sys" where
  "gtp_l28 w16 t =
     (let h16 = touch_h t in
      if h16 > 0x400 then set_class 7 (t\<lparr>touch_h := 1024, reserved_20 := ucast h16\<rparr>)
      else if w16 = 1024 then
        if h16 > 0x258 then set_class 9 (t\<lparr>touch_h := 600, reserved_20 := ucast (h16 - 88)\<rparr>)
        else gtp_l34 w16 h16 t
      else if w16 > 0x258 then gtp_l34 w16 h16 t
      else t)"

definition gtp_class :: "touch_sys \<Rightarrow> touch_sys" where
  "gtp_class t =
     (let word = touch_word t; w16 = touch_w t; h16 = touch_h t in
      if word = 31458080 then set_class 0 t
      else if word = 39322624 then set_class 1 t
      else if word = 52429280 then set_class 2 t
      else if word = 67109464 then set_class 3 t
      else if w16 \<le> 0x320 then
        if w16 \<le> 0x1F4 then
          if h16 > 0x320 then set_class 6 (t\<lparr>touch_h := 800, reserved_20 := ucast (h16 - 32)\<rparr>) else t
        else if w16 < 0x258 then t
        else gtp_l28 w16 t
      else if h16 \<le> 0x1F4 then set_class 4 (t\<lparr>touch_w := 800, reserved_20 := ucast (w16 - 32)\<rparr>)
      else if w16 > 0x400 then
        if h16 \<ge> 0x258 then set_class 5 (t\<lparr>touch_w := 1024, reserved_20 := ucast w16\<rparr>)
        else gtp_l28 w16 t
      else if w16 < 0x258 then t
      else gtp_l28 w16 t)"

text \<open>\<open>(u16)(lo + ((s8)hi << 8))\<close>.\<close>

definition sized :: "u8 \<Rightarrow> u8 \<Rightarrow> u16" where
  "sized lo hi = ucast lo + push_bit 8 (scast hi)"

definition gtp_init_panel :: "touch_env \<Rightarrow> touch_sys \<Rightarrow> touch_sys option" where
  "gtp_init_panel e t =
     (let ((res, v18), t) = run_tsys (gtp_i2c_read (thw e) (tbus e) (tclient e) (0x80, 71) 188) t in
      if res < 0 then Some t
      else
        let vendor = v18 ! 2; flag = le32 (kd t) 0xCD;
            t = t\<lparr>touch_w := ucast (v18 ! 3) + push_bit 8 (ucast (v18 ! 4)),
                  touch_h := sized (v18 ! 5) (v18 ! 6), touch_sub := v18 ! 8 AND 3,
                  touch_info1 := vendor, touch_info2 := ucast flag\<rparr>;
            t = upd_tcar (\<lambda>c. c\<lparr>touch_width := ucast (touch_w t), touch_height := ucast (touch_h t)\<rparr>) t;
            t = (if vendor = 66 \<and> touch_word t = 39322690 \<and> flag = 0 \<and> v18 ! 186 = 61
                 then gtp_write_panel e t else t)
        in Option.bind (get_panel gtp_panel_tab (touch_w t) (touch_h t) (uint vendor) (sint flag) t)
             (\<lambda>(p, t). let ptr = (case p of None \<Rightarrow> 0 | Some off \<Rightarrow> panel_addr e + of_nat off)
                       in Some (gtp_class (t\<lparr>kd := put32 0xD0 ptr (kd t)\<rparr>))))"

section \<open>Touches\<close>

text \<open>
  The code looks at the status by offset: 1 is \<open>power_refcnt\<close>, 3 \<open>call_active\<close>, 37 \<open>cam_signal\<close>,
  38 \<open>reserved_10\<close>, 41 \<open>ch_mode\<close>, 42 \<open>key_mode\<close>, 79 the eighth byte of \<open>mcuver1\<close>, 113 the thirteenth of
  \<open>reserved_22\<close>, 154 \<open>av_gps_gain\<close>; offset 186 lies behind the status, in \<open>reserved_176\<close>.
\<close>

definition status_byte :: "touch_sys \<Rightarrow> nat \<Rightarrow> u8" where
  "status_byte t i =
     (let c = tcar t in
      if i = 1 then power_refcnt c else if i = 3 then call_active c
      else if i = 37 then cam_signal c else if i = 38 then reserved_10 c
      else if i = 41 then ch_mode c else if i = 42 then key_mode c
      else if i = 79 then (if length (mcuver1 c) > 7 then mcuver1 c ! 7 else 0)
      else if i = 113 then reserved_22 c ! 12 else if i = 154 then av_gps_gain c
      else reserved_176 t (i - 172))"

definition isTouchDisable :: "touch_sys \<Rightarrow> int" where
  "isTouchDisable t =
     (let cs = status_byte t in
      if (cs 38 \<noteq> 0 \<or> cs 41 \<noteq> 0) \<and> cs 42 \<noteq> 0 \<or> cs 113 \<noteq> 0 then 0
      else if cs 1 = 0 \<or> cs 38 \<noteq> 0 \<or> cs 41 \<noteq> 0 then 1
      else if cs 3 = 0 then 1
      else if cs 79 \<noteq> 0 \<and> cs 0xBA \<noteq> 5 then of_bool (cs 0xBA \<noteq> 55)
      else uint (cs 38))"

definition report_touch :: "int \<Rightarrow> int \<Rightarrow> int \<Rightarrow> int \<Rightarrow> touch_sys \<Rightarrow> touch_sys" where
  "report_touch i x y w t =
     fold (\<lambda>(ty, code, v). on_tsys (emit (Input_event ty code (word_of_int v))))
       [(3, 53, x), (3, 54, y), (3, 48, w), (3, 50, w), (3, 57, i), (0, 2, 0)] t"

text \<open>\<open>touch_l9\<close> and \<open>LABEL_15\<close>.\<close>

definition touch_l9 :: "int \<Rightarrow> int \<Rightarrow> int \<Rightarrow> int \<Rightarrow> touch_sys \<Rightarrow> touch_sys" where
  "touch_l9 i x y w t = (if kd t 0xCC = 0 then report_touch i x y w t else t)"

definition touch_wakes :: "touch_sys \<Rightarrow> touch_sys" where
  "touch_wakes t =
     (let t = on_tsys (emit Backlight_on) (upd_tcar (\<lambda>c. c\<lparr>cam_signal := 1\<rparr>) t)
      in t\<lparr>kd := (kd t)(0xCC := 1)\<rparr>)"

definition gtp_touch_down ::
    "env \<Rightarrow> int \<Rightarrow> int \<Rightarrow> int \<Rightarrow> int \<Rightarrow> touch_sys \<Rightarrow> (int \<times> touch_sys) option" where
  "gtp_touch_down e i x y w t =
     (let result = isTouchDisable t; cs = status_byte t in
      if result \<noteq> 0 then
        if cs 1 = 0 \<and> cs 0x9A \<noteq> 0 then
          Option.bind (arm_send_multi e 38185 0 [] (tsys t)) (\<lambda>((ok, _), s).
            let t = t\<lparr>tsys := s\<rparr> in Some (of_bool ok, t\<lparr>kd := (kd t)(0xCC := 1)\<rparr>))
        else Some (result, t)
      else if cs 38 = 0 then
        if cs 37 \<noteq> 0 then Some (result, touch_l9 i x y w t) else Some (result, touch_wakes t)
      else if \<not> (cs 42 \<noteq> 0 \<and> y \<le> 63) then
        if cs 37 \<noteq> 0 then Some (result, touch_l9 i x y w t) else Some (result, touch_wakes t)
      else Some (result, t))"

section \<open>Calibration\<close>

definition kd_points :: "touch_sys \<Rightarrow> nat \<Rightarrow> points" where
  "kd_points t off = (\<lambda>i. le32 (kd t) (off + 4 * i))"

text \<open>\<open>mtc_cali_bss + k\<close>.\<close>

definition bss_points :: "touch_sys \<Rightarrow> nat \<Rightarrow> points" where
  "bss_points t k = (\<lambda>i. mtc_cali_bss t (k + i))"

definition keep_points :: "touch_sys \<Rightarrow> touch_sys" where
  "keep_points t = t\<lparr>mtc_cali_bss := (\<lambda>i. if 2 \<le> i \<and> i < 12 then le32 (kd t) (0x1A0 + 4 * (i - 2))
                                        else mtc_cali_bss t i)\<rparr>"

definition calibrate :: "touch_env \<Rightarrow> touch_sys \<Rightarrow> u8" where
  "calibrate e t = TouchPanelSetCalibration e 4 (bss_points t 0) (bss_points t 1)
                     (kd_points t 0x1A0) (kd_points t 0x1B4)"

definition recalibrate :: "touch_env \<Rightarrow> touch_sys \<Rightarrow> u8" where
  "recalibrate e t = TouchPanelSetCalibration e 4 (bss_points t 0) (bss_points t 1)
                       (bss_points t 2) (bss_points t 8)"

definition kd_put :: "nat \<Rightarrow> u32 \<Rightarrow> touch_sys \<Rightarrow> touch_sys" where
  "kd_put off v t = t\<lparr>kd := put32 off v (kd t)\<rparr>"

text \<open>The loop that stores five points, which two functions share.\<close>

definition put_points :: "points \<Rightarrow> points \<Rightarrow> touch_sys \<Rightarrow> touch_sys" where
  "put_points X Y t =
     fold (\<lambda>i t. kd_put (4 * (0x6D + i)) (Y i) (kd_put (4 * (0x68 + i)) (X i) t)) [0..<5] t"

definition touch_cali_status :: "touch_env \<Rightarrow> touch_sys \<Rightarrow> string \<times> touch_sys" where
  "touch_cali_status e t =
     (if calibrate e t = 1 then
        let t = keep_points t;
            t = kd_put 0x1C8 (le32 (kd t) 0x1CC) t;
            t = kd_put 0x1D0 (le32 (kd t) 0x1D4) t
        in (''successful\<newline>'', t)
      else if recalibrate e t = 1 then (''recovery\<newline>'', t)
      else (''fail\<newline>'', t))"

definition comma_bytes :: "u8 list list \<Rightarrow> u8 list" where
  "comma_bytes ts = concat (map (\<lambda>x. x @ [0x2C]) (butlast ts)) @ last ts"

definition kd_text :: "touch_sys \<Rightarrow> nat \<Rightarrow> u8 list" where
  "kd_text t off = int_bytes (sint (le32 (kd t) off))"

definition touch_adc_show :: "touch_sys \<Rightarrow> u8 list" where
  "touch_adc_show t = comma_bytes [kd_text t 0x144, kd_text t 0x148] @ [0x0A]"

definition sta_touch_adc :: "touch_sys \<Rightarrow> u8 list" where
  "sta_touch_adc t = comma_bytes [kd_text t 0x144, kd_text t 0x148]"

definition touch_mode_show :: "touch_sys \<Rightarrow> u8 list" where
  "touch_mode_show t =
     map (of_char :: char \<Rightarrow> u8) ''TouchCheck:'' @
     comma_bytes (concat (map (\<lambda>i. [kd_text t (4 * (0x68 + i)), kd_text t (4 * (0x6D + i))]) [0..<5])) @ [0x0A]"

definition hex4 :: "(nat \<Rightarrow> u8) \<Rightarrow> nat \<Rightarrow> u32" where
  "hex4 buf off = simple_strtol 16 (c_string (map buf [off..<off + 4]))"

definition touch_mode_store :: "(nat \<Rightarrow> u8) \<Rightarrow> nat \<Rightarrow> touch_sys \<Rightarrow> int \<times> touch_sys" where
  "touch_mode_store buf count t =
     (let t = put_points (\<lambda>i. hex4 buf (10 * i)) (\<lambda>i. hex4 buf (10 * i + 5)) t;
          def_x = hex4 buf 50; def_y = hex4 buf 55;
          (def_x, def_y) =
            (if def_x = -1 \<or> def_y = -1 then (le32 (kd t) (4 * 0x72), le32 (kd t) (4 * 0x74))
             else (def_x, def_y))
      in (int count, kd_put (4 * 0x75) def_y (kd_put (4 * 0x73) def_x t)))"

definition sta_touch_cal :: "touch_env \<Rightarrow> points \<Rightarrow> touch_sys \<Rightarrow> u8 \<times> touch_sys" where
  "sta_touch_cal e dat t =
     (let t = put_points (\<lambda>i. dat (2 * i)) (\<lambda>i. dat (2 * i + 1)) t;
          t = kd_put (4 * 0x75) 0 (kd_put (4 * 0x73) 0 t);
          v3 = calibrate e t
      in if v3 = 1 then (v3, keep_points t)
         else let v4 = recalibrate e t in (if v4 = 1 then 2 else v4, t))"

end
