(* ===== verification/Touch_Facts.thy ===== *)
theory Touch_Facts
  imports Touch
begin

text \<open>
  Facts about the touch panel: how often the bus is tried, the check byte of the configuration,
  the search in the empty table, the classes of screens, when a touch is reported, and the
  calibration points that are kept, shown and used again.
\<close>

section \<open>The bus\<close>

lemma transfers_reset [simp]: "transfers (gtp_reset_guitar e cl ms s) = transfers s"
  by (simp add: gtp_reset_guitar_def op_defs msleep_def Let_def)

lemma gtp_write_transfers:
  "transfers (snd (gtp_i2c_write e b cl buf s)) =
     transfers (snd (retry 5 (i2c_transfer b (addr cl) buf 0) (\<lambda>(r, _). r = 1) (0, []) s))"
  "fst (gtp_i2c_write e b cl buf s) =
     fst (fst (retry 5 (i2c_transfer b (addr cl) buf 0) (\<lambda>(r, _). r = 1) (0, []) s))"
  by (simp_all add: gtp_i2c_write_def split_beta)

text \<open>A write to the touch controller takes between one and five transfers, and one that fails took
  all five.\<close>

theorem gtp_write_attempts:
  "let (res, s') = gtp_i2c_write e b cl buf s
   in Suc (transfers s) \<le> transfers s' \<and> transfers s' \<le> transfers s + 5 \<and>
      (res \<noteq> 1 \<longrightarrow> transfers s' = transfers s + 5)"
  using bus.retry_cost [of 5 b "addr cl" buf 0 "\<lambda>(r, _). r = 1" "(0, [])" s]
    bus.retry_tries [of 5 s b "addr cl" buf 0 "\<lambda>(r, _). r = 1" "(0, [])"]
    bus.retry_exhausts [of "\<lambda>(r, _). r = 1" 5 b "addr cl" buf 0 "(0, [])" s]
  by (simp add: split_beta gtp_write_transfers)

interpretation writes: metered "gtp_i2c_write e b cl buf" transfers 5
  by unfold_locales
     (use bus.retry_cost [of 5] in \<open>simp add: gtp_write_transfers\<close>)

lemma run_tsys_snd [simp]: "tsys (snd (run_tsys f t)) = snd (f (tsys t))" "fst (run_tsys f t) = fst (f (tsys t))"
  by (simp_all add: run_tsys_def split_beta)

text \<open>Writing the configuration gives up after twenty-five transfers.\<close>

theorem gtp_write_panel_attempts:
  "transfers (tsys (gtp_write_panel e t)) \<le> transfers (tsys t) + 25"
proof -
  let ?t = "t\<lparr>cfg_len := 186, gtp_bss := panel_image (replicate 186 0) 186 (gtp_bss t)\<rparr>"
  have "transfers (tsys (gtp_write_panel e t)) =
    transfers (snd (retry 5 (gtp_i2c_write (thw e) (tbus e) (tclient e) (map (gtp_bss ?t) [0..<0xF2]))
      (\<lambda>res. res > 0) 0 (tsys t)))"
    by (simp add: gtp_write_panel_def on_tsys_def msleep_def Let_def run_tsys_def split_beta del: upt_rec_numeral)
  then show ?thesis using writes.retry_cost [of 5] by simp
qed

text \<open>The version of the controller is stored or not according to a byte that was never set.\<close>

definition willing_bus :: i2c_bus where
  "willing_bus h a out want = (if want = 0 then 1 else 2, replicate want 0x39)"

lemma write_ok:
  "fst (b (trace s) (addr cl) buf 0) = 1 \<Longrightarrow>
    gtp_i2c_write e b cl buf s = (1, emit (I2c_transfer (addr cl) buf 0 1) s)"
  by (simp add: gtp_i2c_write_def retry_first i2c_transfer_def split_beta)

lemma read_ok:
  "fst (b (trace s) (addr cl) [fst reg, snd reg] (len - 2)) = 2 \<Longrightarrow> \<exists>got. length got = len - 2 \<and>
    gtp_i2c_read e b cl reg len s =
      ((2, [fst reg, snd reg] @ got), emit (I2c_transfer (addr cl) [fst reg, snd reg] (len - 2) 2) s)"
  by (rule exI [where x = "take (len - 2) (snd (b (trace s) (addr cl) [fst reg, snd reg] (len - 2)) @
        replicate (len - 2) 0)"])
     (simp add: gtp_i2c_read_def retry_first i2c_transfer_def split_beta Let_def)

theorem gtp_version_by_garbage:
  assumes "\<And>h a out. fst (tbus e h a out 0) = 1" "\<And>h a out. fst (tbus e h a out 38) = 2"
    and "\<And>h. junk (thw e) h = g"
  shows "let (res, t') = gtp_read_version e t
    in res = 1 \<and> (gtp_ver t' = gtp_ver t \<or> (word_of_int g :: u8) \<noteq> 0 \<and> take 2 (gtp_ver t') = [106, word_of_int g])
      \<and> ((word_of_int g :: u8) = 0 \<longrightarrow> gtp_ver t' = gtp_ver t)"
proof -
  have w: "gtp_i2c_write (thw e) (tbus e) (tclient e) buf s =
      (1, emit (I2c_transfer (addr (tclient e)) buf 0 1) s)" for buf s
    by (rule write_ok) (rule assms(1))
  let ?s = "msleep (thw e) 50 (emit (I2c_transfer (addr (tclient e)) [0, 0] 0 1) (tsys t))"
  obtain got where "length got = 38"
    and "gtp_i2c_read (thw e) (tbus e) (tclient e) (106, word_of_int g) 40 ?s =
      ((2, [106, word_of_int g] @ got), emit (I2c_transfer (addr (tclient e)) [106, word_of_int g] 38 2) ?s)"
    using read_ok [of "tbus e" ?s "tclient e" "(106, word_of_int g)" 40 "thw e"] assms(2) by auto
  then show ?thesis
    by (simp add: gtp_read_version_def w run_tsys_def on_tsys_def assms(3) Let_def take_update_swap)
qed

abbreviation (input) willing_touch :: "int \<Rightarrow> touch_env" where
  "willing_touch g \<equiv> \<lparr>thw = (with_pins (\<lambda>_ _. True))\<lparr>junk := \<lambda>_. g\<rparr>, tbus = willing_bus,
     tclient = \<lparr>addr = 20, client_irq = 5\<rparr>, panel_addr = 0xC0BCA578,
     TouchPanelSetCalibration = \<lambda>n cx cy ux uy. if ux 0 = 0 then 0 else 1\<rparr>"

definition touch_0 :: touch_sys where
  "touch_0 = \<lparr>tsys = sys_0, touch_w = 0, touch_h = 0, touch_sub = 0, cfg_len = 0,
     gtp_ver = replicate 40 0, irq_is_disable = False, gtp_bss = (\<lambda>_. 0), kd = (\<lambda>_. 0),
     mtc_cali_bss = (\<lambda>_. 0), touch_info1 = 0, touch_info2 = 0, reserved_20 = 0,
     reserved_176 = (\<lambda>_. 0)\<rparr>"

theorem gtp_version_by_garbage_witness:
  "let (res, t') = gtp_read_version (willing_touch 7) touch_0
    in res = 1 \<and> (gtp_ver t' = gtp_ver touch_0 \<or>
        (word_of_int 7 :: u8) \<noteq> 0 \<and> take 2 (gtp_ver t') = [106, word_of_int 7])
      \<and> ((word_of_int 7 :: u8) = 0 \<longrightarrow> gtp_ver t' = gtp_ver touch_0)"
  by (rule gtp_version_by_garbage) (simp_all add: willing_bus_def)

section \<open>The configuration\<close>

text \<open>The bytes of the image up to and with the check byte sum up to zero, whatever the blob.\<close>

theorem panel_image_checks:
  assumes "2 \<le> n"
  shows "(\<Sum>i = 2..n. panel_image blob n m i) = 0"
proof -
  let ?m = "store_bytes 2 (take n blob) (store_bytes 2 (replicate 240 0) m)"
  have "(\<Sum>i = 2..<n. panel_image blob n m i) = (\<Sum>i = 2..<n. ?m i)"
    by (rule sum.cong) (simp_all add: panel_image_def Let_def)
  moreover have "panel_image blob n m n = - (\<Sum>i = 2..<n. ?m i)"
    by (simp add: panel_image_def Let_def)
  ultimately show ?thesis
    using sum.atLeastLessThan_Suc [of 2 n "panel_image blob n m"] assms
    by (simp add: atLeastLessThanSuc_atLeastAtMost)
qed

theorem panel_image_checks_witness:
  "(\<Sum>i = 2..(6::nat). panel_image [1, 2, 250, 9, 9, 9] 6 (\<lambda>_. 7) i) = 0"
  by (rule panel_image_checks) simp

text \<open>The table of panels is empty, so the search stops at its first entry: it finds nothing, except
  for a panel of no size, vendor and flag, which it takes for the first entry.\<close>

theorem get_panel_empty:
  "get_panel gtp_panel_tab w h v f t =
    (if w = 0 \<and> h = 0 \<and> v = 0 \<and> f = 0
     then Some (Some 0, t\<lparr>gtp_bss := (let fill = (\<lambda>d x m. if le32 m (4 * d) = 0 then put32 (4 * d) (le32 m (4 * x)) m else m)
                               in fill 99 92 (fill 98 91 (gtp_bss t)))\<rparr>)
     else Some (None, t))"
proof -
  have z: "le32 (\<lambda>_. 0) i = 0" for i by (simp add: le32_def)
  have "ucast (ucast (x :: u16) :: u32) = x" for x
    by (rule bit_word_eqI) (auto simp: bit_simps)
  then have c: "(ucast (x :: u16) :: u32) = 0 \<longleftrightarrow> x = 0" for x
    by (metis unsigned_0)
  have "panel_search gtp_panel_tab w h v f 0 =
      (if w = 0 \<and> h = 0 \<and> v = 0 \<and> f = 0 then Some (Some 0) else Some None)"
    using c [of w] c [of h] by (subst panel_search.simps) (auto simp: gtp_panel_tab_def z)
  then show ?thesis by (simp add: get_panel_def)
qed

section \<open>The size of the screen\<close>

lemma on_tsys_simps [simp]:
  "tsys (on_tsys f t) = f (tsys t)" "touch_w (on_tsys f t) = touch_w t" "touch_h (on_tsys f t) = touch_h t"
  "reserved_20 (on_tsys f t) = reserved_20 t" "kd (on_tsys f t) = kd t" "reserved_176 (on_tsys f t) = reserved_176 t"
  "mtc_cali_bss (on_tsys f t) = mtc_cali_bss t"
  by (simp_all add: on_tsys_def)

lemma set_class_simps [simp]:
  "touch_w (set_class k t) = touch_w t" "touch_h (set_class k t) = touch_h t"
  "reserved_20 (set_class k t) = reserved_20 t" "is1024screen (tcar (set_class k t)) = k"
  by (simp_all add: set_class_def)

lemma touch_word_split: "touch_word t = ucast a OR push_bit 16 (ucast b) \<longleftrightarrow> touch_w t = a \<and> touch_h t = b"
proof -
  have lo: "ucast (ucast (x :: u16) OR push_bit 16 (ucast (y :: u16)) :: u32) = x" for x y
    by (rule bit_word_eqI) (auto simp: bit_simps)
  have hi: "ucast (drop_bit 16 (ucast (x :: u16) OR push_bit 16 (ucast (y :: u16)) :: u32)) = y" for x y
    using bit_imp_le_length [of x] by (intro bit_word_eqI) (auto simp: bit_simps)
  show ?thesis unfolding touch_word_def by (metis lo hi)
qed

lemma screen_words:
  "touch_word t = 31458080 \<longleftrightarrow> touch_w t = 800 \<and> touch_h t = 480"
  "touch_word t = 39322624 \<longleftrightarrow> touch_w t = 1024 \<and> touch_h t = 600"
  "touch_word t = 52429280 \<longleftrightarrow> touch_w t = 480 \<and> touch_h t = 800"
  "touch_word t = 67109464 \<longleftrightarrow> touch_w t = 600 \<and> touch_h t = 1024"
  using touch_word_split [of t 800 480] touch_word_split [of t 1024 600]
    touch_word_split [of t 480 800] touch_word_split [of t 600 1024] by simp_all

text \<open>The class of a screen says which size the driver reports from then on: the four sizes the code
  knows, or one edge cut to what the class stands for. Class 8 marks that none was set before.\<close>

definition class_size :: "u8 \<Rightarrow> u16 \<Rightarrow> u16 \<Rightarrow> bool" where
  "class_size k w h \<longleftrightarrow>
     (k = 0 \<and> w = 800 \<and> h = 480) \<or> (k = 1 \<and> w = 1024 \<and> h = 600) \<or> (k = 2 \<and> w = 480 \<and> h = 800) \<or>
     (k = 3 \<and> w = 600 \<and> h = 1024) \<or> (k = 4 \<and> w = 800 \<and> h \<le> 500) \<or> (k = 5 \<and> w = 1024 \<and> 600 \<le> h) \<or>
     (k = 6 \<and> w \<le> 500 \<and> h = 800) \<or> (k = 7 \<and> 600 \<le> w \<and> h = 1024) \<or> (k = 9 \<and> w = 1024 \<and> h = 600) \<or>
     (k = 11 \<and> w = 600 \<and> h = 1024) \<or> k = 8"

theorem screen_classes:
  "let t' = gtp_class (set_class 8 t)
   in class_size (is1024screen (tcar t')) (touch_w t') (touch_h t') \<and>
      (is1024screen (tcar t') = 8 \<longrightarrow> touch_w t' = touch_w t \<and> touch_h t' = touch_h t)"
  by (auto simp: gtp_class_def screen_words gtp_l28_def gtp_l34_def class_size_def Let_def
      not_le not_less word_le_nat_alt word_less_nat_alt)

text \<open>The edge that was cut is kept in a byte: for the two largest classes it never fits.\<close>

theorem screen_extent_lost:
  "let t' = gtp_class (set_class 8 t); k = is1024screen (tcar t'); kept = unat (reserved_20 t')
   in (k = 5 \<longrightarrow> kept = unat (touch_w t) mod 256 \<and> 1024 < unat (touch_w t)) \<and>
      (k = 7 \<longrightarrow> kept = unat (touch_h t) mod 256 \<and> 1024 < unat (touch_h t))"
proof -
  have "unat (ucast (x :: u16) :: u8) = unat x mod 256" for x
    by (simp add: unsigned_ucast_eq take_bit_eq_mod)
  then show ?thesis
    by (simp add: gtp_class_def screen_words gtp_l28_def gtp_l34_def Let_def not_le not_less
        word_le_nat_alt word_less_nat_alt)
qed

section \<open>Touches\<close>

text \<open>Whether touches are accepted, in the fields the offsets hit.\<close>

lemma isTouchDisable_fields:
  "isTouchDisable t = 0 \<longleftrightarrow>
    (let c = tcar t; held = reserved_10 c \<noteq> 0 \<or> ch_mode c \<noteq> 0; b = reserved_176 t 14 in
     held \<and> key_mode c \<noteq> 0 \<or> reserved_22 c ! 12 \<noteq> 0 \<or>
     power_refcnt c \<noteq> 0 \<and> \<not> held \<and> call_active c \<noteq> 0 \<and>
       (status_byte t 79 = 0 \<or> b = 5 \<or> b = 55))"
  by (auto simp: isTouchDisable_def status_byte_def Let_def)

fun input_report :: "event \<Rightarrow> bool" where
  "input_report (Input_event _ _ _) = True"
| "input_report _ = False"

definition reported :: "touch_sys \<Rightarrow> event list" where
  "reported t = filter input_report (trace (tsys t))"

lemma bracketed_reports:
  assumes "bracketed link_open link_close s s'"
  shows "filter input_report (trace s') = filter input_report (trace s)"
proof -
  have pin: "pin_event x \<Longrightarrow> \<not> input_report x" for x by (cases x) simp_all
  then have "list_all pin_event es \<Longrightarrow> filter input_report es = []" for es
    by (induction es) auto
  with assms show ?thesis by (auto simp: bracketed_def)
qed

type_synonym touch = "int \<times> int \<times> int \<times> int"

definition touch_work :: "env \<Rightarrow> touch \<Rightarrow> touch_sys \<Rightarrow> touch_sys option" where
  "touch_work e p t = (let (i, x, y, w) = p in map_option snd (gtp_touch_down e i x y w t))"

text \<open>How often the light was switched on.\<close>

fun light_on :: "event \<Rightarrow> bool" where
  "light_on Backlight_on = True"
| "light_on _ = False"

definition lights :: "touch_sys \<Rightarrow> nat" where
  "lights t = length (filter light_on (trace (tsys t)))"

lemma bracketed_status: "bracketed link_open link_close s s' \<Longrightarrow> car s' = car s"
  by (simp add: bracketed_def)

lemma bracketed_lights:
  assumes "bracketed link_open link_close s s'"
  shows "filter light_on (trace s') = filter light_on (trace s)"
proof -
  have pin: "pin_event x \<Longrightarrow> \<not> light_on x" for x by (cases x) simp_all
  then have "list_all pin_event es \<Longrightarrow> filter light_on es = []" for es
    by (induction es) auto
  with assms show ?thesis by (auto simp: bracketed_def)
qed

text \<open>Once the byte at 0xCC and the signal are set they stay, and nothing happens any more.\<close>

definition stays_silent :: "touch_sys \<Rightarrow> touch_sys \<Rightarrow> bool" where
  "stays_silent t t' \<longleftrightarrow> (kd t 0xCC = 1 \<and> cam_signal (tcar t) = 1 \<longrightarrow>
     kd t' 0xCC = 1 \<and> cam_signal (tcar t') = 1 \<and> reported t' = reported t \<and> lights t' = lights t)"

lemma touch_wakes_simps [simp]:
  "kd (touch_wakes t) 0xCC = 1" "cam_signal (tcar (touch_wakes t)) = 1"
  "filter input_report (trace (tsys (touch_wakes t))) = filter input_report (trace (tsys t))"
  "filter light_on (trace (tsys (touch_wakes t))) = Backlight_on # filter light_on (trace (tsys t))"
  by (simp_all add: touch_wakes_def reported_def Let_def)

lemma status_37: "status_byte t 37 = cam_signal (tcar t)"
  by (simp add: status_byte_def Let_def)

lemma touch_work_silent: "touch_work e p t = Some t' \<Longrightarrow> stays_silent t t'"
  by (cases p)
     (auto simp: touch_work_def gtp_touch_down_def touch_l9_def stays_silent_def Let_def bind_eq_Some
        reported_def lights_def report_touch_def on_tsys_def status_37
       split: if_splits dest!: arm_send_multi_bracketed
       dest: bracketed_reports bracketed_lights bracketed_status)

interpretation touches: work_queue "touch_work e" stays_silent
  by unfold_locales (rule touch_work_silent, assumption, auto simp: stays_silent_def)

lemma touch_down_wakes:
  assumes "isTouchDisable t = 0" "cam_signal (tcar t) = 0" "reserved_10 (tcar t) = 0 \<or> 63 < y"
  shows "gtp_touch_down e i x y w t = Some (0, touch_wakes t)"
  using assms by (auto simp: gtp_touch_down_def status_byte_def Let_def)

text \<open>C18. The first touch below the top edge, while the panel is enabled and offset 37 of the status
  is zero, is taken for the wish to switch the light on: it switches it on, sets offset 37 and a
  byte that no touch clears. Whatever touches follow, none of them is reported and the light is
  not switched on again.\<close>

theorem first_touch_silences:
  assumes "isTouchDisable t = 0" "cam_signal (tcar t) = 0" "63 < y"
    and "run_queue (touch_work e) ((i, x, y, w) # ps) t = Some t'"
  shows "reported t' = reported t \<and> lights t' = Suc (lights t) \<and> kd t' 0xCC = 1 \<and> cam_signal (tcar t') = 1"
proof -
  have "touch_work e (i, x, y, w) t = Some (touch_wakes t)"
    using touch_down_wakes [OF assms(1,2)] assms(3) by (simp add: touch_work_def)
  with assms(4) have "stays_silent (touch_wakes t) t'"
    by (auto intro: touches.run_keeps)
  then show ?thesis by (simp add: stays_silent_def reported_def lights_def)
qed

abbreviation (input) awake_touch :: touch_sys where
  "awake_touch \<equiv> touch_0\<lparr>tsys := awake_sys\<rparr>"

theorem first_touch_silences_witness:
  "\<exists>t'. run_queue (touch_work (with_pins (\<lambda>_ _. True))) [(0, 5, 100, 1), (1, 7, 200, 1)] awake_touch = Some t' \<and>
    reported t' = reported awake_touch \<and> lights t' = Suc (lights awake_touch)"
proof -
  let ?e = "with_pins (\<lambda>_ _. True)" and ?ps = "[(0, 5, 100, 1), (1, 7, 200, 1)]"
  have dis: "isTouchDisable awake_touch = 0" and cam: "cam_signal (tcar awake_touch) = 0"
    by (simp_all add: isTouchDisable_def status_byte_def touch_0_def sys_0_def car_0_def Let_def
          numeral_2_eq_2 [symmetric] nth_replicate)
  have "touch_work ?e (0, 5, 100, 1) awake_touch = Some (touch_wakes awake_touch)"
    using dis cam by (simp add: touch_work_def gtp_touch_down_def status_byte_def Let_def)
  moreover have "isTouchDisable (touch_wakes awake_touch) = 0"
    by (simp add: isTouchDisable_def status_byte_def touch_0_def sys_0_def car_0_def Let_def touch_wakes_def
          on_tsys_def)
  then have "touch_work ?e (1, 7, 200, 1) (touch_wakes awake_touch) = Some (touch_wakes awake_touch)"
    by (simp add: touch_work_def gtp_touch_down_def status_byte_def Let_def touch_l9_def)
  ultimately have "\<exists>t'. run_queue (touch_work ?e) ?ps awake_touch = Some t'" by simp
  then obtain t' where r: "run_queue (touch_work ?e) ?ps awake_touch = Some t'" ..
  with first_touch_silences [OF dis cam _ r] show ?thesis by simp
qed

section \<open>Calibration\<close>

lemma le32_kd_put:
  "le32 (kd (kd_put i v t)) j = (if i = j then v else if j + 4 \<le> i \<or> i + 4 \<le> j then le32 (kd t) j
     else le32 (put32 i v (kd t)) j)"
  by (simp add: kd_put_def le32_put32_other)

lemma below_5: "i < 5 \<longleftrightarrow> i \<in> {0, 1, 2, 3, 4 :: nat}"
  by auto

lemma upt_5: "[0..<5] = [0, 1, 2, 3, 4 :: nat]"
  by (simp add: upt_rec)

lemma put_points:
  assumes "i < 5"
  shows "le32 (kd (put_points X Y t)) (0x1A0 + 4 * i) = X i"
    "le32 (kd (put_points X Y t)) (0x1B4 + 4 * i) = Y i"
  using assms unfolding below_5 by (auto simp: put_points_def upt_5 le32_kd_put)

lemma mtc_cali_kd_put [simp]: "mtc_cali_bss (kd_put i v t) = mtc_cali_bss t"
  by (simp add: kd_put_def)

lemma put_points_bss: "mtc_cali_bss (put_points X Y t) = mtc_cali_bss t"
  by (simp add: put_points_def upt_5)

text \<open>C29. A calibration that succeeded is kept for the next one that fails, but its second coordinates
  are read one place too far: each is that of the following point, and the last is none of them.\<close>

theorem recovery_shifts_points:
  assumes "sta_touch_cal e dat t = (1, t')"
  shows "\<exists>X Y. (\<forall>e'. recalibrate e' t' =
      TouchPanelSetCalibration e' 4 (bss_points t' 0) (bss_points t' 1) X Y) \<and>
    (\<forall>i < 5. X i = dat (2 * i)) \<and> (\<forall>i < 4. Y i = dat (2 * (i + 1) + 1)) \<and> Y 4 = mtc_cali_bss t 12"
proof -
  let ?p = "put_points (\<lambda>i. dat (2 * i)) (\<lambda>i. dat (2 * i + 1)) t"
  let ?t = "kd_put (4 * 0x75) 0 (kd_put (4 * 0x73) 0 ?p)"
  have t': "t' = keep_points ?t"
    using assms by (auto simp: sta_touch_cal_def Let_def split: if_splits)
  have x: "le32 (kd ?t) (0x1A0 + 4 * i) = dat (2 * i)" if "i < 5" for i
    using put_points(1) [OF that] that by (simp add: le32_kd_put)
  have y: "le32 (kd ?t) (0x1B4 + 4 * i) = dat (2 * i + 1)" if "i < 5" for i
    using put_points(2) [OF that] that by (simp add: le32_kd_put)
  have k: "mtc_cali_bss t' j = (if 2 \<le> j \<and> j < 12 then le32 (kd ?t) (0x1A0 + 4 * (j - 2)) else mtc_cali_bss t j)" for j
    by (simp add: t' keep_points_def put_points_bss)
  have "bss_points t' 8 i = dat (2 * (i + 1) + 1)" if "i < 4" for i
    using y [of "i + 1"] that by (simp add: bss_points_def k algebra_simps)
  moreover have "\<forall>i < 5. bss_points t' 2 i = dat (2 * i)" using x by (simp add: bss_points_def k)
  moreover have "bss_points t' 8 4 = mtc_cali_bss t 12" by (simp add: bss_points_def k)
  ultimately show ?thesis
    by (intro exI [of _ "bss_points t' 2"] exI [of _ "bss_points t' 8"]) (simp add: recalibrate_def)
qed

theorem recovery_shifts_points_witness:
  "\<exists>t'. sta_touch_cal (willing_touch 0) (\<lambda>i. of_nat i + 1) touch_0 = (1, t') \<and>
    (\<exists>X Y. (\<forall>e'. recalibrate e' t' =
        TouchPanelSetCalibration e' 4 (bss_points t' 0) (bss_points t' 1) X Y) \<and>
      (\<forall>i < 5. X i = of_nat (2 * i) + 1) \<and> (\<forall>i < 4. Y i = of_nat (2 * (i + 1) + 1) + 1) \<and>
      Y 4 = mtc_cali_bss touch_0 12)"
proof -
  let ?e = "willing_touch 0" and ?d = "\<lambda>i. of_nat i + 1 :: u32"
  let ?p = "put_points (\<lambda>i. ?d (2 * i)) (\<lambda>i. ?d (2 * i + 1)) touch_0"
  have "le32 (kd (kd_put (4 * 0x75) 0 (kd_put (4 * 0x73) 0 ?p))) 0x1A0 = 1"
    using put_points(1) [where i = 0 and X = "\<lambda>i. ?d (2 * i)" and Y = "\<lambda>i. ?d (2 * i + 1)" and t = touch_0]
    by (simp add: le32_kd_put)
  then have "fst (sta_touch_cal ?e ?d touch_0) = 1"
    by (simp add: sta_touch_cal_def calibrate_def kd_points_def Let_def)
  then obtain t' where "sta_touch_cal ?e ?d touch_0 = (1, t')" by (metis prod.collapse)
  with recovery_shifts_points [OF this] show ?thesis by blast
qed

text \<open>Four hexadecimal digits of a number.\<close>

definition holds_hex4 :: "(nat \<Rightarrow> u8) \<Rightarrow> nat \<Rightarrow> nat \<Rightarrow> bool" where
  "holds_hex4 buf off n \<longleftrightarrow> n < 65536 \<and> map buf [off..<off + 4] = hex_zeros 4 n"

lemma hex4_holds: "holds_hex4 buf off n \<Longrightarrow> hex4 buf off = of_nat n"
by (auto simp: hex4_def holds_hex4_def simple_strtol_hex c_string_hex)

lemma small_not_minus_1: "n < 65536 \<Longrightarrow> (of_nat n :: u32) \<noteq> -1"
proof
  assume n: "n < 65536" and "(of_nat n :: u32) = -1"
  then have "(of_nat (Suc n) :: u32) = 0" by simp
  then have "unat (of_nat (Suc n) :: u32) = 0" by (simp only: unat_0)
  with n show False by (simp only: unat_of_nat) simp
qed

lemma sint_small: "n < 65536 \<Longrightarrow> sint (of_nat n :: u32) = int n"
  by (simp add: signed_of_nat signed_take_bit_int_eq_self)

text \<open>C13. What Android stores is what is shown: ten numbers of four hexadecimal digits, a separator after
  each, then the two defaults. \<open>X\<close>, \<open>Y\<close> and the defaults are any numbers of sixteen bits.\<close>

theorem touch_points_roundtrip:
  assumes "\<And>i. i < 5 \<Longrightarrow> holds_hex4 buf (10 * i) (X i) \<and> holds_hex4 buf (10 * i + 5) (Y i)"
    and "holds_hex4 buf 50 dx" "holds_hex4 buf 55 dy"
  shows "let t' = snd (touch_mode_store buf count t)
    in touch_mode_show t' = map of_char ''TouchCheck:'' @
         comma_bytes (concat (map (\<lambda>i. [decimal_bytes (X i), decimal_bytes (Y i)]) [0..<5])) @ [0x0A] \<and>
       kd_points t' 0x1CC 0 = of_nat dx \<and> kd_points t' 0x1D4 0 = of_nat dy"
proof -
  let ?p = "put_points (\<lambda>i. hex4 buf (10 * i)) (\<lambda>i. hex4 buf (10 * i + 5)) t"
  let ?t = "kd_put (4 * 0x75) (of_nat dy) (kd_put (4 * 0x73) (of_nat dx) ?p)"
  have t': "snd (touch_mode_store buf count t) = ?t"
    using assms(2,3) small_not_minus_1
    by (simp add: touch_mode_store_def Let_def hex4_holds) (simp add: holds_hex4_def)
  have "kd_text ?t (4 * (0x68 + i)) = decimal_bytes (X i)" if "i < 5" for i
  proof -
    have "le32 (kd ?t) (0x1A0 + 4 * i) = of_nat (X i)"
      using put_points(1) [OF that] that hex4_holds [of buf "10 * i" "X i"] assms(1) [OF that]
      by (simp add: le32_kd_put)
    with assms(1) [OF that] show ?thesis
      by (simp add: kd_text_def holds_hex4_def sint_small int_bytes_def)
  qed
  moreover have "kd_text ?t (4 * (0x6D + i)) = decimal_bytes (Y i)" if "i < 5" for i
  proof -
    have "le32 (kd ?t) (0x1B4 + 4 * i) = of_nat (Y i)"
      using put_points(2) [OF that] that hex4_holds [of buf "10 * i + 5" "Y i"] assms(1) [OF that]
      by (simp add: le32_kd_put)
    with assms(1) [OF that] show ?thesis
      by (simp add: kd_text_def holds_hex4_def sint_small int_bytes_def)
  qed
  ultimately have shown: "map (\<lambda>i. [kd_text ?t (4 * (0x68 + i)), kd_text ?t (4 * (0x6D + i))]) [0..<5] =
      map (\<lambda>i. [decimal_bytes (X i), decimal_bytes (Y i)]) [0..<5]"
    by (intro map_cong) simp_all
  show ?thesis
    unfolding t' Let_def touch_mode_show_def shown by (simp add: kd_points_def le32_kd_put)
qed

lemma hex_7: "hex 7 = [7]" "hex 427 = [1, 10, 11]"
  by (simp_all add: hex.simps)

abbreviation (input) stored_text :: "nat \<Rightarrow> u8" where
  "stored_text \<equiv> \<lambda>i. [0x30, 0x30, 0x30, 0x37, 0x2C, 0x30, 0x31, 0x61, 0x62, 0x2C] ! (i mod 10)"

theorem touch_points_roundtrip_witness:
  "let t' = snd (touch_mode_store stored_text 59 touch_0)
    in touch_mode_show t' = map of_char ''TouchCheck:'' @
         comma_bytes (concat (map (\<lambda>i. [decimal_bytes 7, decimal_bytes 427]) [0..<5])) @ [0x0A] \<and>
       kd_points t' 0x1CC 0 = of_nat 7 \<and> kd_points t' 0x1D4 0 = of_nat 427"
proof (rule touch_points_roundtrip)
  have h: "hex_zeros 4 7 = [0x30, 0x30, 0x30, 0x37]" "hex_zeros 4 427 = [0x30, 0x31, 0x61, 0x62]"
    by (simp_all add: hex_zeros_def hex_bytes_def hex_7 hex_digit_def numeral_3_eq_3)
  show "holds_hex4 stored_text (10 * i) 7 \<and> holds_hex4 stored_text (10 * i + 5) 427" if "i < 5" for i :: nat
    using that unfolding below_5 by (auto simp: holds_hex4_def h upt_rec)
  show "holds_hex4 stored_text 50 7" "holds_hex4 stored_text 55 427"
    by (simp_all add: holds_hex4_def h upt_rec)
qed

end
