(* ===== verification/Wifi.thy ===== *)
theory Wifi
  imports Hex
begin

text \<open>
  The wifi files (wifi.c): board test flag, loading the wireless driver, power. The wireless
  driver and the power switch of the board are not part of these drivers: loading may fail as
  it likes, and every call is logged.
\<close>

section \<open>State\<close>

datatype wifi_event =
    Down | Up                       \<comment> \<open>the semaphore \<open>wifi_wl_sem\<close>\<close>
  | Wifi_init int                   \<comment> \<open>\<open>rockchip_wifi_init_module\<close> and its result\<close>
  | Wifi_exit                       \<comment> \<open>\<open>rockchip_wifi_exit_module\<close>\<close>
  | Wifi_power bool                 \<comment> \<open>\<open>rk29sdk_wifi_power\<close>\<close>

record wifi_state =
  wifi_pcba :: int
  wifi_driver_on :: int
  wifi_log :: "wifi_event list"     \<comment> \<open>newest first\<close>

definition wifi_emit :: "wifi_event \<Rightarrow> wifi_state \<Rightarrow> wifi_state" where
  "wifi_emit x w = w\<lparr>wifi_log := x # wifi_log w\<rparr>"

lemma wifi_emit_simps [simp]:
  "wifi_driver_on (wifi_emit x w) = wifi_driver_on w" "wifi_pcba (wifi_emit x w) = wifi_pcba w"
  "wifi_log (wifi_emit x w) = x # wifi_log w"
  by (simp_all add: wifi_emit_def)

section \<open>The files\<close>

abbreviation (input) written_int :: "u8 list \<Rightarrow> int" where
  "written_int buf \<equiv> sint (simple_strtol 10 buf)"

definition wifi_pcba_write :: "u8 list \<Rightarrow> wifi_state \<Rightarrow> wifi_state" where
  "wifi_pcba_write buf w =
     (let v = written_int buf; w = w\<lparr>wifi_pcba := v\<rparr> in if v > 0 then w\<lparr>wifi_pcba := 1\<rparr> else w)"

definition wifi_pcba_read :: "wifi_state \<Rightarrow> u8 list" where
  "wifi_pcba_read w = int_bytes (wifi_pcba w)"

definition wifi_driver_write :: "(wifi_event list \<Rightarrow> int) \<Rightarrow> u8 list \<Rightarrow> wifi_state \<Rightarrow> wifi_state" where
  "wifi_driver_write load buf w =
     (let w = wifi_emit Down w; v = written_int buf in
      if wifi_driver_on w \<noteq> v then
        if v \<le> 0 then wifi_emit Up (wifi_emit Wifi_exit w)
        else
          let r = load (wifi_log w); w = wifi_emit (Wifi_init r) w in
          if r < 0 then wifi_emit Up w else wifi_emit Up (w\<lparr>wifi_driver_on := v\<rparr>)
      else wifi_emit Up w)"

definition wifi_power_write :: "u8 list \<Rightarrow> wifi_state \<Rightarrow> wifi_state" where
  "wifi_power_write buf w = wifi_emit (Wifi_power (written_int buf > 0)) w"

section \<open>Loading and unloading\<close>

fun wifi_init :: "wifi_event \<Rightarrow> bool" where
  "wifi_init (Wifi_init _) = True"
| "wifi_init _ = False"

definition loads :: "wifi_state \<Rightarrow> nat" where
  "loads w = length (filter wifi_init (wifi_log w))"

text \<open>The semaphore is free after every write.\<close>

fun sem_free :: "wifi_event list \<Rightarrow> bool" where
  "sem_free [] = True"
| "sem_free (Up # h) = True"
| "sem_free (Down # h) = False"
| "sem_free (x # h) = sem_free h"

lemma driver_write_releases: "sem_free (wifi_log (wifi_driver_write load buf w))"
  by (simp add: wifi_driver_write_def Let_def)

lemma unloading_keeps_flag:
  assumes "\<forall>buf \<in> set bufs. written_int buf \<le> 0 \<or> written_int buf = wifi_driver_on w"
  shows "let w' = fold (wifi_driver_write load) bufs w
    in wifi_driver_on w' = wifi_driver_on w \<and> loads w' = loads w"
  using assms
proof (induction bufs arbitrary: w)
  case (Cons buf bufs)
  have "wifi_driver_on (wifi_driver_write load buf w) = wifi_driver_on w"
    "loads (wifi_driver_write load buf w) = loads w"
    using Cons.prems by (auto simp: wifi_driver_write_def loads_def Let_def)
  then show ?case using Cons.IH [of "wifi_driver_write load buf w"] Cons.prems by simp
qed simp

text \<open>The flag that the wireless driver is loaded is never cleared when the driver is unloaded. A
  driver loaded with a number is not loaded again with it, however often it was unloaded since.\<close>

theorem wifi_never_reloaded:
  assumes "0 < written_int on_text" "wifi_driver_on w \<noteq> written_int on_text"
    and "load (Down # wifi_log w) \<ge> 0"
    and "\<forall>buf \<in> set bufs. written_int buf \<le> 0 \<or> written_int buf = written_int on_text"
  shows "loads (fold (wifi_driver_write load) (on_text # bufs) w) = Suc (loads w)"
proof -
  let ?w = "wifi_driver_write load on_text w"
  have on: "wifi_driver_on ?w = written_int on_text" "loads ?w = Suc (loads w)"
    using assms(1-3) by (simp_all add: wifi_driver_write_def loads_def Let_def)
  then show ?thesis using unloading_keeps_flag [of bufs ?w load] assms(4) by (simp add: Let_def)
qed

abbreviation (input) digit_one :: "u8 list" where "digit_one \<equiv> [0x31]"
abbreviation (input) digit_none :: "u8 list" where "digit_none \<equiv> [0x30, 0x0A]"

lemma digits_read: "written_int digit_one = 1" "written_int digit_none = 0"
  by (simp_all add: simple_strtol_def simple_strtoul_def digit_value_def)

theorem wifi_never_reloaded_witness:
  "loads (fold (wifi_driver_write (\<lambda>_. 0)) (digit_one # [digit_none, digit_one])
     \<lparr>wifi_pcba = 0, wifi_driver_on = 0, wifi_log = []\<rparr>) =
   Suc (loads \<lparr>wifi_pcba = 0, wifi_driver_on = 0, wifi_log = []\<rparr>)"
  by (rule wifi_never_reloaded) (simp_all add: digits_read del: One_nat_def)

end
