(* ===== verification/Goodix.thy ===== *)
theory Goodix
  imports I2c Hex Peers
begin

text \<open>
  The reconstructed pieces of recon.c: the infrared codes of keys and the tool interface of the
  touch controller, through which a program writes and reads its registers.

  An access that the sources leave undefined has no outcome, \<open>None\<close>: through the client, a pointer
  nothing sets, and past the ends of the 256-byte buffers. The caller's memory is a parameter, and
  copying from it may miss the last bytes, which then are zero. The board test of this file reads
  register tables of one byte far past their end and is not modelled.
\<close>

section \<open>Keys\<close>

definition ir_key_table :: "nat \<Rightarrow> u8" where
  "ir_key_table = (\<lambda>_. 0)"

definition key2ir :: "int \<Rightarrow> int" where
  "key2ir keycode =
     (if 0 \<le> keycode - 512 \<and> keycode - 512 \<le> 0x18 then uint (ir_key_table (nat (keycode - 512)))
      else if keycode = 158 then 54
      else if keycode = 139 then 55
      else if keycode = 102 then 56
      else if keycode = 115 then 18
      else if keycode = 114 then 26
      else 255)"

section \<open>State\<close>

text \<open>\<open>struct goodix_tool_data\<close>, with the offsets its fields have.\<close>

record goodix_tool_data =
  head_len :: u16                  \<comment> \<open>0\<close>
  comfirm :: u8                    \<comment> \<open>2\<close>
  sleep_time :: u16                \<comment> \<open>8\<close>
  data_len :: u16                  \<comment> \<open>10\<close>
  head_addr :: u16                 \<comment> \<open>12\<close>
  comfirm_addr :: u8               \<comment> \<open>14\<close>
  retries :: u8                    \<comment> \<open>15\<close>

datatype i2c_funs = No_extra | With_extra

record goodix_sys =
  gsys :: sys
  head :: goodix_tool_data
  tool_buf :: "nat \<Rightarrow> u8"
  tool_buf2 :: "nat \<Rightarrow> u8"
  gtp_funs :: "i2c_funs option"    \<comment> \<open>\<open>gtp_read\<close> and \<open>gtp_write\<close>, null at first\<close>
  tool_client :: "i2c_client option"
  touch_state :: "u8 \<times> u8 \<times> u16"  \<comment> \<open>\<open>goodix_touch_status\<close>, \<open>_x\<close>, \<open>_y\<close>\<close>
  gesture_flag :: u8

record goodix_env =
  ghw :: env
  gbus :: i2c_bus
  user :: "nat \<Rightarrow> u8"
  missed :: "nat \<Rightarrow> nat \<Rightarrow> nat"   \<comment> \<open>bytes of \<open>copy_from_user(kbuf + off, n)\<close> not copied\<close>
  drvdata :: bool                  \<comment> \<open>the client's device has driver data\<close>

definition copy_from_user :: "goodix_env \<Rightarrow> nat \<Rightarrow> nat \<Rightarrow> u8 list \<times> bool" where
  "copy_from_user e off n =
     (map (\<lambda>i. if i < n - missed e off n then user e (off + i) else 0) [0..<n], missed e off n \<noteq> 0)"

definition bytes_at :: "(nat \<Rightarrow> u8) \<Rightarrow> nat \<Rightarrow> nat \<Rightarrow> u8 list" where
  "bytes_at m p n = map (\<lambda>i. m (p + i)) [0..<n]"

definition put_bytes :: "nat \<Rightarrow> u8 list \<Rightarrow> (nat \<Rightarrow> u8) \<Rightarrow> nat \<Rightarrow> u8" where
  "put_bytes p bs m = (\<lambda>i. if p \<le> i \<and> i < p + length bs then bs ! (i - p) else m i)"

text \<open>Storing in one of the buffers of 256 bytes.\<close>

definition put_tool :: "nat \<Rightarrow> u8 list \<Rightarrow> goodix_sys \<Rightarrow> goodix_sys option" where
  "put_tool p bs g =
     (if p + length bs > 256 then None else Some (g\<lparr>tool_buf := put_bytes p bs (tool_buf g)\<rparr>))"

section \<open>Transfers of the tool\<close>

definition tool_i2c_read_no_extra :: "goodix_env \<Rightarrow> nat \<Rightarrow> goodix_sys \<Rightarrow> (int \<times> goodix_sys) option" where
  "tool_i2c_read_no_extra e len g =
     (case tool_client g of
        None \<Rightarrow> None
      | Some cl \<Rightarrow>
          let ((ret, got), s) =
            retry (unat (retries (head g))) (i2c_transfer (gbus e) (addr cl) (bytes_at (tool_buf g) 0 2) len)
              (\<lambda>(r, _). r > 0) (-1, bytes_at (tool_buf g) 2 len) (gsys g)
          in Option.bind (put_tool 2 got (g\<lparr>gsys := s\<rparr>)) (\<lambda>g. Some (ret, g)))"

definition tool_i2c_write_no_extra :: "goodix_env \<Rightarrow> u8 list \<Rightarrow> goodix_sys \<Rightarrow> (int \<times> goodix_sys) option" where
  "tool_i2c_write_no_extra e bs g =
     (case tool_client g of
        None \<Rightarrow> None
      | Some cl \<Rightarrow>
          let ((ret, _), s) =
            retry (unat (retries (head g))) (i2c_transfer (gbus e) (addr cl) bs 0) (\<lambda>(r, _). r > 0) (-1, []) (gsys g)
          in Some (ret, g\<lparr>gsys := s\<rparr>))"

definition with_extra ::
    "goodix_env \<Rightarrow> (goodix_sys \<Rightarrow> (int \<times> goodix_sys) option) \<Rightarrow> goodix_sys \<Rightarrow> (int \<times> goodix_sys) option" where
  "with_extra e op g = do {
     (_, g) \<leftarrow> tool_i2c_write_no_extra e [0x0F, 0xFF] g;
     (ret, g) \<leftarrow> op g;
     (_, g) \<leftarrow> tool_i2c_write_no_extra e [0x80, 0x00] g;
     Some (ret, g) }"

definition tool_i2c_read_with_extra :: "goodix_env \<Rightarrow> nat \<Rightarrow> goodix_sys \<Rightarrow> (int \<times> goodix_sys) option" where
  "tool_i2c_read_with_extra e len = with_extra e (tool_i2c_read_no_extra e len)"

definition tool_i2c_write_with_extra :: "goodix_env \<Rightarrow> u8 list \<Rightarrow> goodix_sys \<Rightarrow> (int \<times> goodix_sys) option" where
  "tool_i2c_write_with_extra e bs = with_extra e (tool_i2c_write_no_extra e bs)"

fun gtp_read :: "i2c_funs \<Rightarrow> goodix_env \<Rightarrow> nat \<Rightarrow> goodix_sys \<Rightarrow> (int \<times> goodix_sys) option" where
  "gtp_read With_extra = tool_i2c_read_with_extra"
| "gtp_read No_extra = tool_i2c_read_no_extra"

fun gtp_write :: "i2c_funs \<Rightarrow> goodix_env \<Rightarrow> u8 list \<Rightarrow> goodix_sys \<Rightarrow> (int \<times> goodix_sys) option" where
  "gtp_write With_extra = tool_i2c_write_with_extra"
| "gtp_write No_extra = tool_i2c_write_no_extra"

text \<open>The chip's name is compared with these, as far as they say; the name is empty.\<close>

definition plain_chips :: "string list" where
  "plain_chips = [''GT8110'', ''GT8105'', ''GT801'', ''GT800'', ''GT801PLUS'', ''GT811'', ''GTxxx'']"

definition strncmp_equal :: "u8 list \<Rightarrow> string \<Rightarrow> bool" where
  "strncmp_equal ic name \<longleftrightarrow> take (length name) (c_string ic) = map of_char name"

definition goodix_register_i2c_func :: "goodix_sys \<Rightarrow> goodix_sys" where
  "goodix_register_i2c_func g =
     (let ic_type = replicate 16 0
      in g\<lparr>gtp_funs := Some (if list_all (\<lambda>n. \<not> strncmp_equal ic_type n) plain_chips then With_extra else No_extra)\<rparr>)"

definition goodix_comfirm :: int where
  "goodix_comfirm = 1"

section \<open>Reading\<close>

definition goodix_tool_chunk :: nat where
  "goodix_tool_chunk = 128"

text \<open>The loop: \<open>remaining\<close> bytes in chunks; the position moves on before a chunk is stored.\<close>

function tool_read_loop ::
    "goodix_env \<Rightarrow> i2c_funs \<Rightarrow> nat \<Rightarrow> nat \<Rightarrow> (nat \<Rightarrow> u8) \<Rightarrow> goodix_sys \<Rightarrow> (bool \<times> (nat \<Rightarrow> u8) \<times> goodix_sys) option" where
  "tool_read_loop e f remaining i ub g =
     (if remaining = 0 then Some (True, ub, g)
      else
        let chunk = min remaining goodix_tool_chunk in
        case gtp_read f e chunk g of
          None \<Rightarrow> None
        | Some (r, g') \<Rightarrow>
            if r \<le> 0 then Some (False, ub, g')
            else tool_read_loop e f (remaining - chunk) (i + chunk)
                   (put_bytes (i + chunk) (bytes_at (tool_buf g') 2 chunk) ub) g')"
  by pat_completeness auto
termination
  by (relation "measure (\<lambda>(e, f, remaining, i, ub, g). remaining)") (auto simp: goodix_tool_chunk_def)

declare tool_read_loop.simps [simp del]

definition goodix_tool_read ::
    "goodix_env \<Rightarrow> (nat \<Rightarrow> u8) \<Rightarrow> goodix_sys \<Rightarrow> (int \<times> (nat \<Rightarrow> u8) \<times> goodix_sys) option" where
  "goodix_tool_read e ub g =
     (let h = head g; read_len = head_len h; n = unat (data_len h); (st, x, y) = touch_state g in
      if read_len AND 1 \<noteq> 0 then Some (0, ub, g)
      else if read_len \<noteq> 0 then
        let ub = (if read_len = 4 then put_bytes 0 [st, x, ucast (drop_bit 8 y), ucast y] ub
                  else if read_len = 8 then put_bytes 0 (map of_char ''V1.2<201'' @ [0]) ub
                  else ub)
        in Some (int n, ub, g)
      else if comfirm h \<noteq> 1 \<or> goodix_comfirm \<noteq> 0 then
        let g = (if sleep_time h \<noteq> 0 then g\<lparr>gsys := msleep (ghw e) (unat (sleep_time h)) (gsys g)\<rparr> else g) in
        if n = 0 then Some (0, ub, g)
        else
          let g = g\<lparr>tool_buf := put_bytes 0 [comfirm_addr h, ucast (head_addr h)] (tool_buf g)\<rparr> in
          (case gtp_funs g of
             None \<Rightarrow> Some (-19, ub, g)
           | Some f \<Rightarrow> do {
               (ok, ub, g) \<leftarrow> tool_read_loop e f n 0 ub g;
               Some (if ok then int n else 0, ub, g) })
      else Some (0, ub, g))"

section \<open>Writing\<close>

definition parse_head :: "u8 list \<Rightarrow> goodix_tool_data" where
  "parse_head b =
     (let w = (\<lambda>i. ucast (b ! i) OR push_bit 8 (ucast (b ! (i + 1))) :: u16)
      in \<lparr>head_len = w 0, comfirm = b ! 2, sleep_time = w 8, data_len = w 10, head_addr = w 12,
          comfirm_addr = b ! 14, retries = b ! 15\<rparr>)"

text \<open>Command 1: the data go behind the register in the buffer; what is sent starts at the data.\<close>

definition tool_write_data :: "goodix_env \<Rightarrow> goodix_sys \<Rightarrow> (int \<times> goodix_sys) option" where
  "tool_write_data e g =
     (let h = head g; n = unat (data_len h); (bs, short) = copy_from_user e 20 n in do {
        g \<leftarrow> put_tool 2 (if short then replicate n 0 else bs) g;
        g \<leftarrow> put_tool 0 [comfirm_addr h, ucast (head_addr h)] g;
        if comfirm h = 1 \<and> goodix_comfirm = 0 then Some (0, g)
        else case gtp_funs g of
          None \<Rightarrow> Some (-19, g)
        | Some f \<Rightarrow>
            let len = unat (head_addr h + data_len h) in
            if 2 + len > 256 then None
            else do {
              (r, g) \<leftarrow> gtp_write f e (bytes_at (tool_buf g) 2 len) g;
              if r \<le> 0 then Some (0, g)
              else Some (int n + 20,
                     if sleep_time h \<noteq> 0 then g\<lparr>gsys := msleep (ghw e) (unat (sleep_time h)) (gsys g)\<rparr> else g) } })"

definition goodix_tool_write :: "goodix_env \<Rightarrow> goodix_sys \<Rightarrow> (int \<times> goodix_sys) option" where
  "goodix_tool_write e g =
     (let (bs, short) = copy_from_user e 0 20; g = g\<lparr>head := parse_head bs\<rparr>;
          cmd = head_len (head g); n = unat (data_len (head g))
      in if short then Some (0, g)
         else if cmd = 1 then tool_write_data e g
         else if cmd = 3 then do {
           g \<leftarrow> (if n \<noteq> 0 then put_tool 0 (fst (copy_from_user e 20 n)) g else Some g);
           if n > 256 then None
           else Some (int n + 20, goodix_register_i2c_func
                  (g\<lparr>tool_buf2 := put_bytes 0 (bytes_at (tool_buf g) 0 n) (tool_buf2 g)\<rparr>)) }
         else if cmd = 5 then Some (int n + 20, g)
         else if cmd = 7 \<or> cmd = 9 then Some (20, g)
         else if cmd = 0xB then Some (0, g)
         else if cmd = 0xD then Some (20, g)
         else if cmd = 0xF then do {
           g \<leftarrow> put_tool 0 (replicate (n + 1) 0) g;
           g \<leftarrow> put_tool 0 (fst (copy_from_user e 20 n)) g;
           Some (0, g) }
         else if cmd = 0x11 then do {
           let (bs, short) = copy_from_user e 20 n;
           g \<leftarrow> put_tool 2 (if short then replicate n 0 else bs) g;
           let v = tool_buf g 2;
           Some (20, if tool_client g \<noteq> None \<and> drvdata e then g\<lparr>gesture_flag := if v \<noteq> 0 then 1 else v\<rparr> else g) }
         else Some (20, g))"

section \<open>Without a client\<close>

text \<open>
  Nothing in the sources sets the client. The calls of a program, one after the other, then
  either have no outcome or never reach the bus.
\<close>

datatype goodix_call = Tool_write "nat \<Rightarrow> u8" "nat \<Rightarrow> nat \<Rightarrow> nat" | Tool_read "nat \<Rightarrow> u8"

definition tool_call :: "goodix_env \<Rightarrow> goodix_call \<Rightarrow> goodix_sys \<Rightarrow> goodix_sys option" where
  "tool_call e c g =
     (case c of
        Tool_write u m \<Rightarrow> map_option snd (goodix_tool_write (e\<lparr>user := u, missed := m\<rparr>) g)
      | Tool_read ub \<Rightarrow> map_option (snd \<circ> snd) (goodix_tool_read e ub g))"

definition off_bus :: "goodix_sys \<Rightarrow> goodix_sys \<Rightarrow> bool" where
  "off_bus g g' \<longleftrightarrow> (tool_client g = None \<longrightarrow> tool_client g' = None \<and> transfers (gsys g') = transfers (gsys g))"

lemma off_bus_refl [simp, intro]: "off_bus g g"
  by (simp add: off_bus_def)


lemma no_client [simp]:
  "tool_client g = None \<Longrightarrow> gtp_read f e n g = None" "tool_client g = None \<Longrightarrow> gtp_write f e bs g = None"
  by (cases f; simp add: tool_i2c_read_with_extra_def tool_i2c_write_with_extra_def with_extra_def
        tool_i2c_write_no_extra_def tool_i2c_read_no_extra_def)+

lemma put_tool_cases: "put_tool p bs g = Some g' \<Longrightarrow> p + length bs \<le> 256 \<and> g' = g\<lparr>tool_buf := put_bytes p bs (tool_buf g)\<rparr>"
  by (auto simp: put_tool_def split: if_splits)

lemma transfers_msleep [simp]: "transfers (msleep e n s) = transfers s"
  by (simp add: msleep_def Let_def)






definition goodix_0 :: goodix_sys where
  "goodix_0 = \<lparr>gsys = sys_0, head = parse_head (replicate 20 0), tool_buf = (\<lambda>_. 0), tool_buf2 = (\<lambda>_. 0),
     gtp_funs = None, tool_client = None, touch_state = (0, 0, 0), gesture_flag = 0\<rparr>"

definition goodix_bus :: goodix_env where
  "goodix_bus = \<lparr>ghw = with_pins (\<lambda>_ _. True), gbus = (\<lambda>_ _ _ n. (if n = 0 then 1 else 2, replicate n 0x5A)),
     user = (\<lambda>_. 0), missed = (\<lambda>_ _. 0), drvdata = True\<rparr>"

abbreviation (input) header :: "(nat \<Rightarrow> u8) \<Rightarrow> goodix_tool_data" where
  "header u \<equiv> parse_head (map u [0..<20])"

lemma copy_whole [simp]: "missed e off n = 0 \<Longrightarrow> copy_from_user e off n = (map (\<lambda>i. user e (off + i)) [0..<n], False)"
  by (simp add: copy_from_user_def)

text \<open>Command 3 fills in the null pointers that protected the data commands: a data command after it
  goes through the client, and has no outcome.\<close>

theorem register_then_write_crashes:
  assumes "tool_client g = None" "head_len (header u) = 3" "head_len (header v) = 1"
  shows "run_queue (tool_call e) [Tool_write u (\<lambda>_ _. 0), Tool_write v (\<lambda>_ _. 0)] g = None"
proof -
  have crash: "tool_call e (Tool_write v (\<lambda>_ _. 0)) g' = None"
    if "tool_client g' = None" "gtp_funs g' = Some f" for g' f
    using that assms(3)
    by (cases "tool_call e (Tool_write v (\<lambda>_ _. 0)) g'")
       (auto simp: tool_call_def goodix_tool_write_def tool_write_data_def goodix_comfirm_def bind_eq_Some
          Let_def split: if_splits dest!: put_tool_cases)
  have "tool_client g' = None \<and> (\<exists>f. gtp_funs g' = Some f)"
    if "tool_call e (Tool_write u (\<lambda>_ _. 0)) g = Some g'" for g'
    using that assms(1,2)
    by (auto simp: tool_call_def goodix_tool_write_def goodix_register_i2c_func_def Let_def bind_eq_Some
        split: if_splits dest!: put_tool_cases)
  with crash show ?thesis
    by (cases "tool_call e (Tool_write u (\<lambda>_ _. 0)) g") auto
qed

theorem register_then_write_crashes_witness:
  "run_queue (tool_call goodix_bus)
     [Tool_write ((\<lambda>_. 0)(0 := 3)) (\<lambda>_ _. 0), Tool_write ((\<lambda>_. 0)(0 := 1)) (\<lambda>_ _. 0)] goodix_0 = None"
  by (rule register_then_write_crashes) (simp_all add: goodix_0_def parse_head_def upt_rec)


end
