(* ===== verification/Probe.thy ===== *)
theory Probe
  imports Camera_Work Wheel Car_Work Car_Misc Lcd Mcu_Command
begin

text \<open>
  Booting the car driver (\<open>car_comm_init\<close> and \<open>car_probe\<close> of car.c) and the display (\<open>lcd_probe\<close>
  of lcd.c): what the driver asks the MCU, the version and the customer it takes from the answer,
  the configuration, and what is switched on at last.

  Creating queues and locks and registering devices is left out, but for the pins and interrupts.
  The boot mode, the width of the screen and the logo, which the sources draw through addresses
  they do not define, are parameters; a logo that does not return has no outcome, \<open>None\<close>.
\<close>

section \<open>State\<close>

record boot_sys =
  bcam :: camera_sys
  mcu_clk :: bool
  wifi_flag :: bool                \<comment> \<open>\<open>car_struct.wifi_capable\<close>\<close>
  mcu_version :: "u8 list"
  mcu_date :: "u8 list"
  mcu_time :: "u8 list"
  wheel_study :: mtc_wheel_study

text \<open>\<open>leaves\<close>: what a reception that failed left in its buffer.\<close>

record boot_env =
  bcam_env :: camera_env
  boot_mode :: "event list \<Rightarrow> u8"
  screen_width :: u32
  logo_returns :: "event list \<Rightarrow> bool"
  leaves :: "event list \<Rightarrow> u8 list \<Rightarrow> u8 list"

abbreviation (input) bsys :: "boot_sys \<Rightarrow> sys" where "bsys b \<equiv> snd (bcam b)"
abbreviation (input) bcar :: "boot_sys \<Rightarrow> mtc_car_status" where "bcar b \<equiv> car (bsys b)"
abbreviation (input) bcfg :: "boot_sys \<Rightarrow> config" where "bcfg b \<equiv> cfg (bsys b)"
abbreviation (input) bhw :: "boot_env \<Rightarrow> env" where "bhw e \<equiv> cam_env (bcam_env e)"

definition on_cam :: "(camera_sys \<Rightarrow> camera_sys) \<Rightarrow> boot_sys \<Rightarrow> boot_sys" where
  "on_cam f b = b\<lparr>bcam := f (bcam b)\<rparr>"

abbreviation (input) on_bsys :: "(sys \<Rightarrow> sys) \<Rightarrow> boot_sys \<Rightarrow> boot_sys" where
  "on_bsys f \<equiv> on_cam (cam_io f)"

abbreviation (input) upd_bcar :: "(mtc_car_status \<Rightarrow> mtc_car_status) \<Rightarrow> boot_sys \<Rightarrow> boot_sys" where
  "upd_bcar f \<equiv> on_bsys (upd_car f)"

abbreviation (input) upd_bcfg :: "(config \<Rightarrow> config) \<Rightarrow> boot_sys \<Rightarrow> boot_sys" where
  "upd_bcfg f \<equiv> on_bsys (\<lambda>s. s\<lparr>cfg := f (cfg s)\<rparr>)"

text \<open>\<open>memzero(car_status, 160)\<close>, all of the status.\<close>

definition car_zero :: mtc_car_status where
  "car_zero = \<lparr>car_ready = 0, power_refcnt = 0, rpt_power = 0, call_active = 0, rpt_boot_android = 0,
     input_ready = 0, audio_ready = 0, touch_type = 0, sta_bits = 0, intval1 = 0, intval2 = 0,
     battery = 0, intval3 = 0, intval4 = 0, wipe_flag = 0, backlight_status = 0, cam_state = 0,
     reserved_8 = 0, reserved_9 = 0, cam_signal = 0, reserved_10 = 0, reserved_11 = 0, sta_view = 0,
     ch_mode = 0, key_mode = 0, backview_vol = 0, sta_video_signal = 0, av_channel_flag1 = 0,
     video_mode = 0, reserved_13 = 0, decoder_state = 0, radar_val = 0, mcuver2 = replicate 16 0,
     mcuver1 = replicate 16 0, power_on = 0, radio_rds_flag = 0, reserved_18 = 0, video_src_ready = 0,
     ajx_active = 0, reserved_19 = 0, is1024screen = 0, ch_status = 0, u_value = 0, v_value = 0,
     uv_cal = 0, reserved_22 = replicate 32 0, rpt_boot_appinit = 0, cfg_maxvolume = 0,
     reserved_54 = 0, touch_width = 0, touch_height = 0, mtc_customer = 0, boot_flags = 0,
     av_gps_switch = 0, av_gps_monitor = 0, av_gps_gain = 0, power2_flag = 0, mcu_cmd_state = 0\<rparr>"

section \<open>Messages to the MCU\<close>

definition tell :: "boot_env \<Rightarrow> u32 \<Rightarrow> boot_sys \<Rightarrow> boot_sys option" where
  "tell e cmd b =
     Option.bind (arm_send (bhw e) cmd (bsys b)) (\<lambda>(_, s). Some (on_bsys (\<lambda>_. s) b))"

text \<open>Asking for \<open>n\<close> bytes into the buffer \<open>old\<close>.\<close>

definition ask :: "boot_env \<Rightarrow> u32 \<Rightarrow> nat \<Rightarrow> u8 list \<Rightarrow> boot_sys \<Rightarrow> (u8 list \<times> boot_sys) option" where
  "ask e cmd n old b =
     Option.bind (arm_send_multi (bhw e) cmd n [] (bsys b)) (\<lambda>((_, bs), s).
       let got = (if bs = [] then leaves e (trace s) old else bs)
       in Some (take n (got @ replicate n 0), on_bsys (\<lambda>_. s) b))"

section \<open>Version and customer\<close>

definition append_char :: "u8 \<Rightarrow> u8 list \<Rightarrow> u8 list" where
  "append_char ch a = a[length (c_string a) := ch]"

text \<open>The loop over the version; \<open>part\<close> is \<open>ver_part\<close>.\<close>

fun version_parts :: "nat \<Rightarrow> u8 list \<Rightarrow> mtc_car_status \<Rightarrow> mtc_car_status" where
  "version_parts part [] c = c"
| "version_parts part (ch # bs) c =
     (if ch = 0 then c
      else if ch = 0x2D then version_parts (part + 1) bs c
      else if part = 1 then version_parts part bs (c\<lparr>mcuver1 := append_char ch (mcuver1 c)\<rparr>)
      else if part = 2 then version_parts part bs (c\<lparr>mcuver2 := append_char ch (mcuver2 c)\<rparr>)
      else version_parts part bs c)"

text \<open>The chain of comparisons, in its order.\<close>

definition customers :: "(string \<times> u8) list" where
  "customers = [(''YZ'', 1), (''RM'', 1), (''ZT'', 1), (''HMF'', 2), (''KGL'', 3), (''KLD'', 4), (''FY'', 5),
     (''HZC'', 16), (''JY'', 6), (''MX'', 9), (''AM'', 8), (''KZ'', 18), (''KSP'', 7), (''HLA'', 10),
     (''JWT'', 11), (''KED'', 12), (''SH'', 13), (''HH'', 14), (''KY'', 15), (''LM'', 17), (''YM'', 19),
     (''YMZ'', 20)]"

definition is_customer :: "mtc_car_status \<Rightarrow> string \<times> u8 \<Rightarrow> bool" where
  "is_customer c p = check_customer (map of_char (fst p)) c"

definition find_customer :: "boot_env \<Rightarrow> boot_sys \<Rightarrow> boot_sys" where
  "find_customer e b =
     (case find (is_customer (bcar b)) customers of
        None \<Rightarrow> b
      | Some (_, k) \<Rightarrow>
          let b = upd_bcar (\<lambda>c. c\<lparr>mtc_customer := k\<rparr>) b
          in if k = 2 then on_cam (decorder_power (bcam_env e) False \<circ> decorder_power (bcam_env e) True) b else b)"

section \<open>Pins\<close>

definition input_pin :: "nat \<Rightarrow> string \<Rightarrow> sys \<Rightarrow> sys" where
  "input_pin p name s = gpio_direction_input p (emit (Gpio_pull p False) (emit (Gpio_request p name) s))"

definition output_pin :: "nat \<Rightarrow> string \<Rightarrow> bool \<Rightarrow> sys \<Rightarrow> sys" where
  "output_pin p name v s = gpio_direction_output p v (emit (Gpio_pull p False) (emit (Gpio_request p name) s))"

definition car_comm_init :: "sys \<Rightarrow> sys" where
  "car_comm_init s =
     (let s = input_pin gpio_MCU_CLK ''mcu_clk'' s;
          s = input_pin gpio_MCU_DIN ''mcu_din'' s;
          s = output_pin gpio_MCU_DOUT ''mcu_dout'' True s;
          s = output_pin gpio_PARROT_RESET ''parrot_reset'' False s;
          s = output_pin gpio_PARROT_BOOT ''parrot_boot'' False s
      in emit (Request_irq gpio_MCU_DIN 2 ''keys'' 0) s)"

definition mcu_isr :: "nat \<Rightarrow> sys \<Rightarrow> sys" where
  "mcu_isr irq s = emit (Queue_work ''mcu_rev_wq'') (emit (Irq_off irq) s)"

section \<open>Booting\<close>

definition max_volume :: "u8 \<Rightarrow> u8" where
  "max_volume canbus =
     (if canbus = 7 \<or> canbus = 21 \<or> canbus = 36 \<or> canbus = 40 then 40
      else if canbus = 15 then 35
      else 30)"

definition first_status :: "boot_env \<Rightarrow> mtc_car_status" where
  "first_status e =
     (let c = car_zero; c = (if screen_width e = 1024 then c\<lparr>is1024screen := 1\<rparr> else c)
      in c\<lparr>key_mode := 0, intval3 := 0x3FF, intval4 := 0x3FF, intval1 := 0x3FF, intval2 := 0x3FF,
           sta_view := 1\<rparr>)"

text \<open>The first questions; the flag set for boot mode 0 is cleared right after.\<close>

definition boot_messages :: "boot_env \<Rightarrow> boot_sys \<Rightarrow> boot_sys option" where
  "boot_messages e b = do {
     let b = on_bsys (\<lambda>s. car_comm_init (s\<lparr>tv_sec := 0, tv_usec := 0\<rparr>)) b;
     b \<leftarrow> tell e (ucast (boot_mode e (trace (bsys b)) AND 0xF) OR 0x500) b;
     let b = (if boot_mode e (trace (bsys b)) AND 0xF = 0
              then on_bsys (emit (Queue_delayed ''wipecheckclear_work'' 60000)) (upd_bcar (\<lambda>c. c\<lparr>wipe_flag := 1\<rparr>) b)
              else b);
     b \<leftarrow> tell e 0x201 b;
     b \<leftarrow> tell e 0xF02 (upd_bcar (\<lambda>c. c\<lparr>wipe_flag := 0\<rparr>) b);
     let b = upd_bcar (\<lambda>c. c\<lparr>backview_vol := 11, sta_bits := 0\<rparr>) b;
     if \<not> logo_returns e (trace (bsys b)) then None
     else Some (upd_bcfg (\<lambda>_ _. 0) (on_bsys (emit (Fb_show 0)) b)) }"

definition boot_identity :: "boot_env \<Rightarrow> boot_sys \<Rightarrow> boot_sys option" where
  "boot_identity e b = do {
     (v, b) \<leftarrow> ask e 0x1530 16 (mcu_version b) b;
     let b = find_customer e (upd_bcar (version_parts 0 v) (b\<lparr>mcu_version := v\<rparr>));
     Some (if mtc_customer (bcar b) \<noteq> 4 then on_bsys (mtc_iomux_set 0x1A51) b else b) }"

definition boot_config :: "boot_env \<Rightarrow> boot_sys \<Rightarrow> boot_sys option" where
  "boot_config e b = do {
     (l, b) \<leftarrow> ask e 0x1510 1 [bcfg b 483] b;
     let b = upd_bcfg (\<lambda>c. c(483 := if l ! 0 \<le> 9 then 10 else l ! 0)) b;
     (d, b) \<leftarrow> ask e 0x1531 16 (mcu_date b) b;
     (t, b) \<leftarrow> ask e 0x1532 16 (mcu_time b) (b\<lparr>mcu_date := d\<rparr>);
     (c, b) \<leftarrow> ask e 0x15FF 512 (map (bcfg b) [0..<512]) (b\<lparr>mcu_time := t\<rparr>);
     let b = upd_bcfg (\<lambda>old i. if i < 512 then c ! i else old i) b;
     let b = b\<lparr>wheel_study := stw_range_check (bcfg b) (wheel_study b)\<rparr>;
     Some (upd_bcar (\<lambda>c. c\<lparr>cfg_maxvolume := max_volume (cfg_canbus (bcfg b))\<rparr>) b) }"

text \<open>\<open>v16\<close> is only set when the flag's lowest bit is.\<close>

definition boot_power :: "boot_env \<Rightarrow> boot_sys \<Rightarrow> boot_sys" where
  "boot_power e b =
     (let b = (if mtc_customer (bcar b) = 4 then b\<lparr>wifi_flag := True\<rparr> else b);
          w = wipe_flag (bcar b);
          v16 = (if w AND 1 \<noteq> 0 then 1 else word_of_int (junk (bhw e) (trace (bsys b))));
          b = upd_bcar (\<lambda>c. c\<lparr>power_refcnt := v16, power_on := v16\<rparr>) b;
          b = (if w AND 8 \<noteq> 0 then
                 on_bsys (emit (Capture_add_work 0x38 1 0 True))
                   (upd_bcar (\<lambda>c. c\<lparr>mcu_cmd_state := if w AND 2 \<noteq> 0 then 5 else 6, video_mode := 0xFF\<rparr>) b)
               else if power_refcnt (bcar b) \<noteq> 0 then
                 on_bsys (emit Backlight_on)
                   (if mtc_customer (bcar b) = 8 then on_bsys (msleep (bhw e) 1000) b else b)
               else b);
          b = upd_bcar (\<lambda>c. c\<lparr>car_ready := 1\<rparr>) b
      in if cfg_bt (bcfg b) = 3 then on_bsys (car_add_work_delay 74 2 20) b else b)"

definition car_probe :: "boot_env \<Rightarrow> boot_sys \<Rightarrow> boot_sys option" where
  "car_probe e b = do {
     let b = upd_bcar (\<lambda>_. first_status e) (on_bsys (output_pin gpio_FCAM_PWR ''fcam_pwr'' False) b);
     let (clk, s) = gpio_get_value (bhw e) gpio_MCU_CLK (input_pin gpio_MCU_CLK ''mcu_clk'' (bsys b));
     let b = (on_bsys (\<lambda>_. s) b)\<lparr>mcu_clk := \<not> clk\<rparr>;
     if mcu_clk b then Some b
     else do {
       b \<leftarrow> boot_messages e b;
       b \<leftarrow> boot_identity e b;
       b \<leftarrow> boot_config e b;
       Some (boot_power e b) } }"

text \<open>The display asks a bit of the same flag whether it is there.\<close>

definition lcd_probe :: "env \<Rightarrow> lcd_state \<times> sys \<Rightarrow> (lcd_state \<times> sys) option" where
  "lcd_probe e ls =
     (let (l, s) = ls; l = (if wipe_flag (car s) AND 0x20 \<noteq> 0 then l\<lparr>lcd_enabled := True\<rparr> else l) in
      if \<not> lcd_enabled l then Some (l, s)
      else do {
        let s = fold (\<lambda>p. emit (Gpio_request p [])) [gpio_LCD_CS, gpio_LCD_DAT, gpio_LCD_CLK] s;
        let s = fold (\<lambda>p. gpio_direction_output p True) [gpio_LCD_CS, gpio_LCD_DAT, gpio_LCD_CLK] s;
        s \<leftarrow> lcd_delay e s;
        let l = l\<lparr>lcd_page := replicate 32 0\<rparr>;
        s \<leftarrow> lcd_send_cmd e 82 s;
        s \<leftarrow> lcd_send_cmd e 2 s;
        s \<leftarrow> lcd_on e l s;
        let l = l\<lparr>lcd_page := replicate 32 0\<rparr>;
        Some (lcd_show [0x31] (lcd_show (map of_char ''INIT-__-___-000000000'') (l, s))) })"

end
