(* ===== verification/Probe_Facts.thy ===== *)
theory Probe_Facts
  imports Probe
begin

text \<open>
  Facts about booting: the fields of the version, the customers, what the flag that is cleared
  too early decides, and the configuration that is left.
\<close>

section \<open>Fields of the version\<close>

text \<open>Field \<open>k\<close> of a text whose fields are separated by hyphens, counted from zero.\<close>

fun field :: "nat \<Rightarrow> u8 list \<Rightarrow> u8 list" where
  "field 0 bs = takeWhile (\<lambda>x. x \<noteq> 0x2D) bs"
| "field (Suc k) bs = field k (tl (dropWhile (\<lambda>x. x \<noteq> 0x2D) bs))"

definition field_from :: "nat \<Rightarrow> nat \<Rightarrow> u8 list \<Rightarrow> u8 list" where
  "field_from part k bs = (if part \<le> k then field (k - part) bs else [])"

lemma field_Nil [simp]: "field k [] = []"
  by (induction k) simp_all

lemma field_from_simps:
  "field_from part k [] = []"
  "field_from part k (0x2D # bs) = field_from (Suc part) k bs"
  "ch \<noteq> 0x2D \<Longrightarrow> field_from part k (ch # bs) = (if part = k then [ch] else []) @ field_from part k bs"
proof -
  show "field_from part k (0x2D # bs) = field_from (Suc part) k bs"
  proof (cases part k rule: linorder_cases)
    case less
    then obtain m where "k = Suc (part + m)" by (rule less_imp_Suc_add [THEN exE])
    then show ?thesis by (simp add: field_from_def)
  qed (simp_all add: field_from_def)
  show "ch \<noteq> 0x2D \<Longrightarrow> field_from part k (ch # bs) = (if part = k then [ch] else []) @ field_from part k bs"
    by (cases "k - part") (auto simp: field_from_def)
qed (simp add: field_from_def)

text \<open>A buffer of sixteen bytes that holds a text.\<close>

definition text16 :: "u8 list \<Rightarrow> u8 list" where
  "text16 x = x @ replicate (16 - length x) 0"

lemma c_string_text16: "0 \<notin> set x \<Longrightarrow> length x < 16 \<Longrightarrow> c_string (text16 x) = x"
proof -
  assume "0 \<notin> set x" "length x < 16"
  moreover from this obtain k where "16 - length x = Suc k" by (cases "16 - length x") auto
  ultimately show ?thesis by (simp add: c_string_def text16_def takeWhile_append)
qed

lemma append_char_text16:
  "0 \<notin> set x \<Longrightarrow> length x < 16 \<Longrightarrow> append_char ch (text16 x) = text16 (x @ [ch])"
proof -
  assume x: "0 \<notin> set x" "length x < 16"
  then obtain k where "16 - length x = Suc k" by (cases "16 - length x") auto
  with x show ?thesis
    by (simp add: append_char_def c_string_text16) (simp add: text16_def)
qed

lemma version_parts_spec:
  assumes "mcuver1 c = text16 x" "mcuver2 c = text16 y" "0 \<notin> set x" "0 \<notin> set y"
    and "length x + length bs \<le> 16" "length y + length bs \<le> 16"
  shows "mcuver1 (version_parts part bs c) = text16 (x @ field_from part 1 (c_string bs)) \<and>
    mcuver2 (version_parts part bs c) = text16 (y @ field_from part 2 (c_string bs))"
  using assms
proof (induction bs arbitrary: part c x y)
  case Nil
  then show ?case by (simp add: c_string_def field_from_simps)
next
  case (Cons ch bs)
  note IH = Cons.IH
  have xy: "length x < 16" "length y < 16" using Cons.prems(5,6) by auto
  have s: "ch \<noteq> 0 \<Longrightarrow> c_string (ch # bs) = ch # c_string bs" by (simp add: c_string_def)
  consider "ch = 0" | "ch = 0x2D" | "ch \<noteq> 0" "ch \<noteq> 0x2D" "part = 1" | "ch \<noteq> 0" "ch \<noteq> 0x2D" "part = 2"
    | "ch \<noteq> 0" "ch \<noteq> 0x2D" "part \<noteq> 1" "part \<noteq> 2" by blast
  then show ?case
  proof cases
    case 1
    with Cons.prems show ?thesis by (simp add: c_string_def field_from_simps)
  next
    case 2
    have "c_string (0x2D # bs) = 0x2D # c_string bs" by (simp add: c_string_def)
    with 2 Cons.prems IH [of c x y "Suc part"] show ?thesis by (simp add: field_from_simps)
  next
    case 3
    with Cons.prems xy IH [of "c\<lparr>mcuver1 := text16 (x @ [ch])\<rparr>" "x @ [ch]" y 1] show ?thesis
      by (simp add: s field_from_simps append_char_text16 del: One_nat_def)
  next
    case 4
    with Cons.prems xy IH [of "c\<lparr>mcuver2 := text16 (y @ [ch])\<rparr>" x "y @ [ch]" 2] show ?thesis
      by (simp add: s field_from_simps append_char_text16)
  next
    case 5
    with Cons.prems IH [of c x y part] show ?thesis by (simp add: s field_from_simps)
  qed
qed

text \<open>C12. The version the MCU gives is a text of fields separated by hyphens, the second of which names
  the customer: the driver stores the second and the third field as they are.\<close>

theorem version_fields:
  assumes "length v \<le> 16"
  shows "let c = version_parts 0 v car_zero
    in c_string (mcuver1 c) = field 1 (c_string v) \<and> c_string (mcuver2 c) = field 2 (c_string v)"
proof -
  have z: "mcuver1 car_zero = text16 []" "mcuver2 car_zero = text16 []"
    by (simp_all add: car_zero_def text16_def)
  have sub: "set (field k bs) \<subseteq> set bs - {0x2D} \<and> (k \<noteq> 0 \<and> bs \<noteq> [] \<longrightarrow> length (field k bs) < length bs) \<and>
      length (field k bs) \<le> length bs" for k bs
  proof (induction k bs rule: field.induct)
    case (1 bs)
    then show ?case by (auto dest: set_takeWhileD simp: length_takeWhile_le)
  next
    case (2 k bs)
    let ?r = "tl (dropWhile (\<lambda>x. x \<noteq> 0x2D) bs)"
    have "set (tl xs) \<subseteq> set xs" for xs :: "u8 list" by (cases xs) auto
    then have "set ?r \<subseteq> set bs" by (blast dest: set_dropWhileD)
    moreover have "length ?r \<le> length bs - 1" using length_dropWhile_le [of _ bs] by (simp add: diff_le_mono)
    ultimately show ?case using 2 by (cases bs) fastforce+
  qed
  have c: "0 \<notin> set (c_string v)" "length (c_string v) \<le> length v"
    by (auto simp: c_string_def length_takeWhile_le dest: set_takeWhileD)
  have f: "0 \<notin> set (field (Suc k) (c_string v)) \<and> length (field (Suc k) (c_string v)) < 16" for k
    using sub [of "Suc k" "c_string v"] c assms by (cases "c_string v = []") auto
  show ?thesis
    using version_parts_spec [OF z, of v 0] assms f [of 0] f [of 1]
    by (simp add: field_from_def c_string_text16 numeral_2_eq_2)
qed

theorem version_fields_witness:
  "let c = version_parts 0 [0x4D, 0x2D, 0x4B, 0x4C, 0x44, 0x2D, 0x31, 0, 0, 0, 0, 0, 0, 0, 0, 0] car_zero
    in c_string (mcuver1 c) = field 1 (c_string [0x4D, 0x2D, 0x4B, 0x4C, 0x44, 0x2D, 0x31, 0, 0, 0, 0, 0, 0, 0, 0, 0]) \<and>
       c_string (mcuver2 c) = field 2 (c_string [0x4D, 0x2D, 0x4B, 0x4C, 0x44, 0x2D, 0x31, 0, 0, 0, 0, 0, 0, 0, 0, 0])"
  by (rule version_fields) simp

section \<open>Customers\<close>

text \<open>No other thread writes to the status while the driver sleeps.\<close>

definition undisturbed :: "boot_env \<Rightarrow> bool" where
  "undisturbed e \<longleftrightarrow> (\<forall>h c. others (bhw e) h c = c)"

lemma nap_car [simp]: "undisturbed e \<Longrightarrow> car (msleep (bhw e) n s) = car s"
  by (simp add: undisturbed_def msleep_def Let_def)

lemma nap_cfg [simp]: "cfg (msleep e n s) = cfg s"
  by (simp add: msleep_def Let_def)

lemma i2c_put_car [simp]:
  "car (snd (i2c_put e dev reg dat cs)) = car (snd cs)" "cfg (snd (i2c_put e dev reg dat cs)) = cfg (snd cs)"
  by (simp_all add: T132B_i2c_write_def Let_def)

lemma T132B_Write_car [simp]:
  "car (snd (T132B_Write e ds cs)) = car (snd cs)" "cfg (snd (T132B_Write e ds cs)) = cfg (snd cs)"
proof -
  have "car (snd (fold (\<lambda>(a, r, d). i2c_put e a r d) ts cs)) = car (snd cs) \<and>
      cfg (snd (fold (\<lambda>(a, r, d). i2c_put e a r d) ts cs)) = cfg (snd cs)" for ts
    by (induction ts arbitrary: cs) (auto simp: split_beta)
  then show "car (snd (T132B_Write e ds cs)) = car (snd cs)" "cfg (snd (T132B_Write e ds cs)) = cfg (snd cs)"
    by (simp_all add: T132B_Write_def)
qed

lemma decorder_power_car [simp]:
  "undisturbed e \<Longrightarrow> car (snd (decorder_power (bcam_env e) p cs)) = car (snd cs)"
  "cfg (snd (decorder_power (bcam_env e) p cs)) = cfg (snd cs)"
  by (simp_all add: decorder_power_def op_defs Let_def)

lemma on_cam_simps [simp]:
  "bcam (on_cam f b) = f (bcam b)" "mcu_clk (on_cam f b) = mcu_clk b" "mcu_version (on_cam f b) = mcu_version b"
  by (simp_all add: on_cam_def)

lemma one_customer:
  assumes "p \<in> set customers" "q \<in> set customers" "is_customer c p" "is_customer c q"
  shows "p = q"
proof -
  let ?cs = "c_string (mcuver1 c)" and ?name = "\<lambda>r. map of_char (fst r) :: u8 list"
  let ?stem = "if ?cs = KLDY then KLD else if last ?cs \<le> 0x39 then butlast ?cs else ?cs"
  have names: "\<forall>r \<in> set customers. \<not> last (?name r) \<le> 0x39 \<and> ?name r \<noteq> KLDY"
    by (simp add: customers_def)
  have "?name r = ?stem" if "r \<in> set customers" "is_customer c r" for r
    using that(2) names that(1) unfolding is_customer_def check_customer_accepts Let_def by auto
  then have "?name p = ?name q" using assms by metis
  moreover have "distinct (map ?name customers)" by code_simp
  ultimately show ?thesis using assms(1,2) by (auto simp: distinct_map dest: inj_onD)
qed

text \<open>The customer does not depend on the order of the chain: whichever of its names fits the version,
  the driver takes the customer of that name.\<close>

theorem customer_found:
  assumes "undisturbed e" "p \<in> set customers" "is_customer (bcar b) p"
  shows "mtc_customer (bcar (find_customer e b)) = snd p"
proof -
  obtain q where q: "find (is_customer (bcar b)) customers = Some q"
    using assms(2,3) find_None_iff [of "is_customer (bcar b)" customers] by (metis not_None_eq)
  then have "q \<in> set customers" "is_customer (bcar b) q"
    by (auto simp: find_Some_iff)
  with assms(2,3) have "q = p" by (blast intro: one_customer)
  with q assms(1) show ?thesis by (simp add: find_customer_def split_beta Let_def)
qed

definition boot_0 :: boot_sys where
  "boot_0 = \<lparr>bcam = (\<lparr>dtv_type = 0, decoder_type = 0, mirror_image = 0, gap1_0 = 0, cvbs_auto = 0, cap_gate = 0,
       camera_working = 0, gap2_0 = 0, gap2_1 = 0, gap2_2 = 0, gap2_3 = 0\<rparr>, sys_0),
     mcu_clk = False, wifi_flag = False, mcu_version = replicate 16 0, mcu_date = replicate 16 0,
     mcu_time = replicate 16 0,
     wheel_study = \<lparr>adc_enabled = 0, adc_type = 0, dir_inv = 0, stw_min_a = 0, stw_min_b = 0\<rparr>\<rparr>"

definition boot_on :: "env \<Rightarrow> boot_env" where
  "boot_on h = \<lparr>bcam_env = \<lparr>cam_env = h, i2c_result = (\<lambda>_. 0), i2c_byte = (\<lambda>_. 0), cif_base = (\<lambda>_. 0),
       pmu_word = (\<lambda>_. 0)\<rparr>, boot_mode = (\<lambda>_. 0), screen_width = 800, logo_returns = (\<lambda>_. True),
     leaves = (\<lambda>_ old. old)\<rparr>"

theorem customer_found_witness:
  "mtc_customer (bcar (find_customer (boot_on taking_mcu)
     (upd_bcar (\<lambda>c. c\<lparr>mcuver1 := [0x4B, 0x4C, 0x44, 0x59]\<rparr>) boot_0))) = snd (''KLD'', 4 :: u8)"
  by (rule customer_found)
     (simp_all add: undisturbed_def boot_on_def taking_mcu_def with_pins_def customers_def is_customer_def check_customer_def
        c_string_def)

section \<open>What the flag decides\<close>

lemma bracketed_car: "bracketed x y s s' \<Longrightarrow> car s' = car s \<and> cfg s' = cfg s"
  by (simp add: bracketed_def)

lemma tell_car: "tell e cmd b = Some b' \<Longrightarrow> bcar b' = bcar b \<and> bcfg b' = bcfg b"
  by (auto simp: tell_def bind_eq_Some dest!: arm_send_link bracketed_car)

lemma ask_car: "ask e cmd n old b = Some (bs, b') \<Longrightarrow> bcar b' = bcar b \<and> bcfg b' = bcfg b \<and> length bs = n"
  by (auto simp: ask_def bind_eq_Some Let_def dest!: arm_send_multi_bracketed bracketed_car)

lemma pins_car [simp]:
  "car (input_pin p name s) = car s" "car (output_pin p name v s) = car s" "car (car_comm_init s) = car s"
  "cfg (input_pin p name s) = cfg s" "cfg (output_pin p name v s) = cfg s" "cfg (car_comm_init s) = cfg s"
  by (simp_all add: input_pin_def output_pin_def car_comm_init_def op_defs Let_def)

lemma messages_flag: "boot_messages e b = Some b' \<Longrightarrow> wipe_flag (bcar b') = 0"
  by (auto simp: boot_messages_def bind_eq_Some Let_def split: if_splits dest!: tell_car)

lemma version_flag [simp]: "wipe_flag (version_parts part bs c) = wipe_flag c"
  by (induction part bs c rule: version_parts.induct) simp_all

lemma customer_flag: "undisturbed e \<Longrightarrow> wipe_flag (bcar (find_customer e b)) = wipe_flag (bcar b)"
  by (simp add: find_customer_def split_beta Let_def split: option.split)

lemma identity_flag: "undisturbed e \<Longrightarrow> boot_identity e b = Some b' \<Longrightarrow> wipe_flag (bcar b') = wipe_flag (bcar b)"
  by (auto simp: boot_identity_def bind_eq_Some Let_def customer_flag mtc_iomux_set_def dest!: ask_car)

lemma config_flag: "boot_config e b = Some b' \<Longrightarrow> wipe_flag (bcar b') = wipe_flag (bcar b)"
  by (auto simp: boot_config_def bind_eq_Some Let_def dest!: ask_car)

lemma power_flag:
  assumes "undisturbed e" "wipe_flag (bcar b) = 0" "\<And>h. junk (bhw e) h = g"
  shows "power_refcnt (bcar (boot_power e b)) = word_of_int g \<and> power_on (bcar (boot_power e b)) = word_of_int g \<and>
    car_ready (bcar (boot_power e b)) = 1 \<and> wipe_flag (bcar (boot_power e b)) = 0"
  using assms by (simp add: boot_power_def Let_def car_add_work_delay_def)

lemma probe_cases:
  "car_probe e b = Some b' \<Longrightarrow> mcu_clk b' \<and> bcar b' = first_status e \<or>
    (\<exists>b1 b2 b3 b4. boot_messages e b1 = Some b2 \<and> boot_identity e b2 = Some b3 \<and>
       boot_config e b3 = Some b4 \<and> b' = boot_power e b4)"
  by (auto simp: car_probe_def Let_def bind_eq_Some gpio_get_value_def on_cam_def cam_io_def upd_car_def
      split: if_splits)

text \<open>C34. Booting with a ready MCU takes the state of the power from a variable that was never set: the
  flag whose lowest bit would set it was cleared just before. \<open>g\<close> is what the variable held.\<close>

theorem boot_power_by_garbage:
  assumes "undisturbed e" "\<And>h. junk (bhw e) h = g" "car_probe e b = Some b'" "\<not> mcu_clk b'"
  shows "power_refcnt (bcar b') = word_of_int g \<and> power_on (bcar b') = word_of_int g \<and>
    car_ready (bcar b') = 1"
proof -
  from probe_cases [OF assms(3)] assms(4) obtain b1 b2 b3 b4 where
    "boot_messages e b1 = Some b2" "boot_identity e b2 = Some b3" "boot_config e b3 = Some b4"
    and p: "b' = boot_power e b4" by blast
  then have "wipe_flag (bcar b4) = 0"
    using messages_flag identity_flag config_flag assms(1) by metis
  with assms(1,2) show ?thesis by (simp add: p power_flag)
qed

text \<open>The display is only there when another bit of the flag says so: after booting it never is.\<close>

lemma probe_flag:
  assumes "undisturbed e" "car_probe e b = Some b'"
  shows "wipe_flag (bcar b') = 0"
  using probe_cases [OF assms(2)]
proof (elim disjE exE conjE)
  assume "bcar b' = first_status e"
  then show ?thesis by (simp add: first_status_def car_zero_def Let_def)
next
  fix b1 b2 b3 b4
  assume "boot_messages e b1 = Some b2" "boot_identity e b2 = Some b3" "boot_config e b3 = Some b4"
    and p: "b' = boot_power e b4"
  then have "wipe_flag (bcar b4) = 0"
    using messages_flag identity_flag config_flag assms(1) by metis
  then show ?thesis using assms(1) by (simp add: p boot_power_def Let_def car_add_work_delay_def)
qed

theorem display_stays_off:
  assumes "undisturbed e" "car_probe e b = Some b'" "\<not> lcd_enabled l"
  shows "lcd_probe h (l, bsys b') = Some (l, bsys b')"
  using assms(3) probe_flag [OF assms(1,2)] by (simp add: lcd_probe_def)

section \<open>A run\<close>

text \<open>An MCU that falls silent once the interrupt is requested: every message is given up at once.\<close>

fun irq_requested :: "event \<Rightarrow> bool" where
  "irq_requested (Request_irq _ _ _ _) = True"
| "irq_requested _ = False"

definition gone :: "sys \<Rightarrow> bool" where
  "gone s \<longleftrightarrow> list_ex irq_requested (trace s)"

definition fading_mcu :: env where
  "fading_mcu = with_pins (\<lambda>h p. p = gpio_MCU_CLK \<and> \<not> list_ex irq_requested h)"

lemma prompt_fading [simp]: "prompt fading_mcu"
proof -
  have "poll_event x \<Longrightarrow> \<not> irq_requested x" for x by (cases x) simp_all
  then show ?thesis by (auto simp: prompt_def fading_mcu_def with_pins_def)
qed

lemma gone_bracketed: "bracketed x y s s' \<Longrightarrow> gone s \<Longrightarrow> gone s'"
  by (auto simp: bracketed_def gone_def)

lemma fading_cmd:
  assumes "gone s"
  shows "yields (arm_send_cmd fading_mcu cmd s) (\<lambda>ok s'. \<not> ok)"
proof -
  have "level fading_mcu (trace s) gpio_MCU_CLK = False"
    using assms by (simp add: fading_mcu_def with_pins_def gone_def)
  then have "yields (arm_send_ready fading_mcu s) (\<lambda>r s'. \<not> r)"
    by (subst arm_send_ready.simps) (auto intro!: yields_intros)
  then show ?thesis unfolding arm_send_cmd_def by (auto simp: yields_def)
qed

lemma fading_tell:
  assumes "gone (bsys b)"
  shows "\<exists>b'. tell (boot_on fading_mcu) cmd b = Some b' \<and> gone (bsys b') \<and> mcu_clk b' = mcu_clk b"
proof -
  have "gone (emit (Lock car_lock) (emit (Irq_off gpio_MCU_DIN) (bsys b)))" using assms by (simp add: gone_def)
  from fading_cmd [OF this, of cmd] obtain x s where "arm_send fading_mcu cmd (bsys b) = Some (x, s)"
    by (auto simp: yields_def arm_send_def Let_def)
  with gone_bracketed [OF arm_send_link [OF this] assms] show ?thesis
    by (simp add: tell_def boot_on_def)
qed

lemma fading_ask:
  assumes "gone (bsys b)"
  shows "\<exists>b'. ask (boot_on fading_mcu) cmd n old b = Some (take n (old @ replicate n 0), b') \<and> gone (bsys b') \<and>
    mcu_clk b' = mcu_clk b \<and> bcar b' = bcar b \<and> mcu_version b' = mcu_version b"
proof -
  have "gone (emit (Lock car_lock) (emit (Irq_off gpio_MCU_DIN) (bsys b)))" using assms by (simp add: gone_def)
  from fading_cmd [OF this, of cmd] obtain x s where
    r: "arm_send_multi fading_mcu cmd n [] (bsys b) = Some ((x, []), s)"
    by (auto simp: yields_def arm_send_multi_def Let_def)
  from arm_send_multi_bracketed [OF r] assms show ?thesis
    by (simp add: ask_def boot_on_def r gone_bracketed bracketed_car on_cam_def)
qed

lemma gone_simps [simp]:
  "gone (emit x s) = (irq_requested x \<or> gone s)" "gone (upd_car f s) = gone s" "gone (s\<lparr>cfg := c\<rparr>) = gone s"
  "gone (car_comm_init s)"
  by (simp_all add: gone_def car_comm_init_def Let_def input_pin_def output_pin_def op_defs)

text \<open>What the steps of this run keep.\<close>

definition fading_boot :: "boot_sys \<Rightarrow> bool" where
  "fading_boot b \<longleftrightarrow> gone (bsys b) \<and> \<not> mcu_clk b \<and> mcu_version b = replicate 16 0 \<and>
     mcuver1 (bcar b) = replicate 16 0"

lemma fading_steps:
  assumes "fading_boot b"
  shows "\<exists>b'. tell (boot_on fading_mcu) cmd b = Some b' \<and> fading_boot b'"
    "\<exists>b'. ask (boot_on fading_mcu) cmd n old b = Some (take n (old @ replicate n 0), b') \<and> fading_boot b'"
proof -
  from assms have g: "gone (bsys b)" by (simp add: fading_boot_def)
  from fading_tell [OF g, of cmd] obtain b' where
    t: "tell (boot_on fading_mcu) cmd b = Some b'" "gone (bsys b')" "mcu_clk b' = mcu_clk b" by blast
  moreover have "mcu_version b' = mcu_version b"
    using t(1) by (auto simp: tell_def bind_eq_Some on_cam_def)
  ultimately show "\<exists>b'. tell (boot_on fading_mcu) cmd b = Some b' \<and> fading_boot b'"
    using tell_car [OF t(1)] assms by (auto simp: fading_boot_def)
  from fading_ask [OF g, of cmd n old] assms
  show "\<exists>b'. ask (boot_on fading_mcu) cmd n old b = Some (take n (old @ replicate n 0), b') \<and> fading_boot b'"
    by (auto simp: fading_boot_def)
qed

lemma fading_upd [simp]:
  "\<not> irq_requested x \<Longrightarrow> fading_boot (on_bsys (emit x) b) = fading_boot b"
  "fading_boot (upd_bcfg g b) = fading_boot b"
  "(\<And>c. mcuver1 (f c) = mcuver1 c) \<Longrightarrow> fading_boot (upd_bcar f b) = fading_boot b"
  by (simp_all add: fading_boot_def on_cam_def)

lemma fading_messages:
  assumes "\<not> mcu_clk b" "mcu_version b = replicate 16 0" "mcuver1 (bcar b) = replicate 16 0"
  shows "\<exists>b'. boot_messages (boot_on fading_mcu) b = Some b' \<and> fading_boot b'"
proof -
  let ?e = "boot_on fading_mcu"
  let ?b = "on_bsys (\<lambda>s. car_comm_init (s\<lparr>tv_sec := 0, tv_usec := 0\<rparr>)) b"
  have m: "boot_mode ?e h = 0" "logo_returns ?e h" for h by (simp_all add: boot_on_def)
  have "fading_boot ?b" using assms by (simp add: fading_boot_def on_cam_def)
  from fading_steps(1) [OF this] obtain b1 where 1: "tell ?e 0x500 ?b = Some b1" "fading_boot b1" by blast
  let ?b1 = "on_bsys (emit (Queue_delayed ''wipecheckclear_work'' 60000)) (upd_bcar (\<lambda>c. c\<lparr>wipe_flag := 1\<rparr>) b1)"
  have "fading_boot ?b1" using 1(2) by simp
  from fading_steps(1) [OF this] obtain b2 where 2: "tell ?e 0x201 ?b1 = Some b2" "fading_boot b2" by blast
  have "fading_boot (upd_bcar (\<lambda>c. c\<lparr>wipe_flag := 0\<rparr>) b2)" using 2(2) by simp
  from fading_steps(1) [OF this] obtain b3 where
    3: "tell ?e 0xF02 (upd_bcar (\<lambda>c. c\<lparr>wipe_flag := 0\<rparr>) b2) = Some b3" "fading_boot b3" by blast
  from 1 2 3 show ?thesis by (simp add: boot_messages_def m) (simp add: fading_boot_def)
qed

lemma no_version: "version_parts p (replicate n 0) c = c"
  by (cases n) simp_all

lemma fading_identity:
  assumes "fading_boot b"
  shows "\<exists>b'. boot_identity (boot_on fading_mcu) b = Some b' \<and> fading_boot b'"
proof -
  let ?e = "boot_on fading_mcu"
  from fading_steps(2) [OF assms, of "0x1530" 16 "mcu_version b"] assms obtain b1 where
    1: "ask ?e 0x1530 16 (mcu_version b) b = Some (replicate 16 0, b1)" "fading_boot b1"
    by (auto simp: fading_boot_def)
  let ?b = "upd_bcar (version_parts 0 (replicate 16 0)) (b1\<lparr>mcu_version := replicate 16 0\<rparr>)"
  have b: "fading_boot ?b" using 1(2) by (simp add: fading_boot_def no_version)
  then have "c_string (mcuver1 (bcar ?b)) = []" by (simp add: fading_boot_def c_string_def)
  then have "find (is_customer (bcar ?b)) customers = None"
    by (simp add: find_None_iff customers_def is_customer_def check_customer_def)
  then have f: "find_customer ?e ?b = ?b" by (simp add: find_customer_def)
  have "fading_boot (on_bsys (mtc_iomux_set m) ?b)" for m
    using b by (simp add: fading_boot_def mtc_iomux_set_def Let_def)
  then show ?thesis using 1 b f by (simp add: boot_identity_def Let_def)
qed

lemma fading_config:
  assumes "fading_boot b"
  shows "\<exists>b'. boot_config (boot_on fading_mcu) b = Some b' \<and> \<not> mcu_clk b'"
proof -
  let ?e = "boot_on fading_mcu"
  note step = fading_steps(2)
  from step [OF assms, of "0x1510" 1 "[bcfg b 483]"] obtain l b1 where
    1: "ask ?e 0x1510 1 [bcfg b 483] b = Some (l, b1)" "fading_boot b1" by blast
  let ?b1 = "upd_bcfg (\<lambda>c. c(483 := if l ! 0 \<le> 9 then 10 else l ! 0)) b1"
  have "fading_boot ?b1" using 1(2) by (simp add: fading_boot_def)
  from step [OF this, of "0x1531" 16 "mcu_date ?b1"] obtain d b2 where
    2: "ask ?e 0x1531 16 (mcu_date ?b1) ?b1 = Some (d, b2)" "fading_boot b2" by blast
  have "fading_boot (b2\<lparr>mcu_date := d\<rparr>)" using 2(2) by (simp add: fading_boot_def)
  from step [OF this, of "0x1532" 16 "mcu_time b2"] obtain t b3 where
    3: "ask ?e 0x1532 16 (mcu_time b2) (b2\<lparr>mcu_date := d\<rparr>) = Some (t, b3)" "fading_boot b3" by blast
  have "fading_boot (b3\<lparr>mcu_time := t\<rparr>)" using 3(2) by (simp add: fading_boot_def)
  from step [OF this, of "0x15FF" 512 "map (bcfg b3) [0..<512]"] obtain c b4 where
    4: "ask ?e 0x15FF 512 (map (bcfg b3) [0..<512]) (b3\<lparr>mcu_time := t\<rparr>) = Some (c, b4)" "fading_boot b4" by blast
  have "\<not> mcu_clk b4" using 4(2) by (simp add: fading_boot_def)
  with 1 2 3 4 show ?thesis by (simp add: boot_config_def Let_def del: upt_rec_numeral)
qed

lemma fading_run:
  "\<exists>b'. car_probe (boot_on fading_mcu) boot_0 = Some b' \<and> \<not> mcu_clk b'"
proof -
  let ?e = "boot_on fading_mcu"
  let ?b = "upd_bcar (\<lambda>_. first_status ?e) (on_bsys (output_pin gpio_FCAM_PWR ''fcam_pwr'' False) boot_0)"
  let ?r = "gpio_get_value fading_mcu gpio_MCU_CLK (input_pin gpio_MCU_CLK ''mcu_clk'' (bsys ?b))"
  let ?c = "(on_bsys (\<lambda>_. snd ?r) ?b)\<lparr>mcu_clk := False\<rparr>"
  have clk: "fst ?r = True"
    by (simp add: gpio_get_value_def fading_mcu_def with_pins_def input_pin_def output_pin_def op_defs
        boot_0_def sys_0_def on_cam_def cam_io_def upd_car_def emit_def)
  have "mcu_version ?c = replicate 16 0" "mcuver1 (bcar ?c) = replicate 16 0"
    by (simp_all add: on_cam_def boot_0_def gpio_get_value_def first_status_def car_zero_def Let_def)
  with fading_messages [of ?c] obtain b1 where 1: "boot_messages ?e ?c = Some b1" "fading_boot b1" by auto
  from fading_identity [OF 1(2)] obtain b2 where 2: "boot_identity ?e b1 = Some b2" "fading_boot b2" by blast
  from fading_config [OF 2(2)] obtain b3 where 3: "boot_config ?e b2 = Some b3" "\<not> mcu_clk b3" by blast
  have "\<not> mcu_clk (boot_power ?e b3)"
    using 3(2) by (simp add: boot_power_def Let_def)
  moreover have "cam_env (bcam_env ?e) = fading_mcu" by (simp add: boot_on_def)
  ultimately show ?thesis
    using 1 2 3 clk by (simp add: car_probe_def split_beta Let_def)
qed

lemma fading_undisturbed: "undisturbed (boot_on fading_mcu)" "junk (bhw (boot_on fading_mcu)) h = 0"
  by (simp_all add: undisturbed_def boot_on_def fading_mcu_def with_pins_def)

theorem boot_power_by_garbage_witness:
  "\<exists>b'. car_probe (boot_on fading_mcu) boot_0 = Some b' \<and> \<not> mcu_clk b' \<and>
    power_refcnt (bcar b') = word_of_int 0 \<and> power_on (bcar b') = word_of_int 0 \<and> car_ready (bcar b') = 1"
proof -
  from fading_run obtain b' where b': "car_probe (boot_on fading_mcu) boot_0 = Some b'" "\<not> mcu_clk b'" by blast
  from boot_power_by_garbage [OF fading_undisturbed b'] b' show ?thesis by blast
qed

theorem display_stays_off_witness:
  "\<exists>b'. car_probe (boot_on fading_mcu) boot_0 = Some b' \<and>
    lcd_probe taking_mcu (\<lparr>lcd_page = replicate 32 0, lcd_enabled = False, lcd_flash_mode = False,
        lcd_flash_idx = 0\<rparr>, bsys b') =
      Some (\<lparr>lcd_page = replicate 32 0, lcd_enabled = False, lcd_flash_mode = False, lcd_flash_idx = 0\<rparr>, bsys b')"
proof -
  from fading_run obtain b' where b': "car_probe (boot_on fading_mcu) boot_0 = Some b'" by blast
  from display_stays_off [OF fading_undisturbed(1) b',
      of "\<lparr>lcd_page = replicate 32 0, lcd_enabled = False, lcd_flash_mode = False, lcd_flash_idx = 0\<rparr>"] b'
  show ?thesis by auto
qed

end
