(* ===== verification/Keys_Probe.thy ===== *)
theory Keys_Probe
  imports Keys
begin

text \<open>
  Registering the key driver (\<open>keys_probe\<close> of keys.c): the input device, the seven key
  descriptors with their pins, timers, analogue channels and interrupts, and the way back when
  one of them fails.

  The memory of the driver and the descriptors are reached through \<open>keys_dev\<close> and
  \<open>mtc_keys_devices\<close>, two pointers nothing in the sources sets; without them there is no outcome,
  \<open>None\<close>. The loop is modelled for when they are set. What the kernel answers is a parameter, and
  so is what the uninitialised \<open>keycode2\<close> and \<open>irq\<close> hold at first; the handler given to an analogue channel is
  uninitialised too and is left out. Names and numbers of the input device are left out.
\<close>

section \<open>Descriptors and state\<close>

record key_id =                    \<comment> \<open>\<open>struct mtc_keys_input_id\<close>\<close>
  id_type :: int
  keycode1 :: u32
  keycode2 :: u32
  gpio1 :: int
  gpio2 :: int
  id_trig :: int
  adc_ch1 :: int
  adc_ch2 :: int
  id_name :: "string option"
  wakeup :: int

text \<open>\<open>gap_id\<close> and \<open>gap_input\<close> are the bytes 4 and 8 of \<open>_gap1\<close>, where pointers are cut to a byte.\<close>

record key_slot =                  \<comment> \<open>\<open>struct mtc_keys_input_dev\<close>\<close>
  gap_id :: u8
  gap_input :: u8
  wheel_adc_init :: u8
  wheel_client :: bool             \<comment> \<open>not null\<close>
  wheel_client_ch2 :: bool
  slot_irq :: nat

datatype probe_event =
    Create_queue string
  | Set_drvdata bool               \<comment> \<open>not null\<close>
  | Ev_rep
  | Timer_setup nat nat            \<comment> \<open>timer, entry\<close>
  | Timer_at nat nat u32           \<comment> \<open>timer, entry, the time it is set to\<close>
  | Hrtimer_start string nat nat   \<comment> \<open>handler, entry, nanoseconds\<close>
  | Adc_register int nat bool      \<comment> \<open>channel, entry, success\<close>
  | Tasklet_init nat
  | Capability u32
  | Input_register int
  | Input_free bool                \<comment> \<open>not null\<close>
  | Free_driver                    \<comment> \<open>\<open>kzfree(keys_dev)\<close>\<close>
  | Gpio_free nat
  | Init_wakeup int
  | Early_suspend

record keys_sys =
  ksys :: sys
  klog :: "probe_event list"       \<comment> \<open>newest first\<close>
  key_flags :: "u8 \<times> u8"           \<comment> \<open>the two low bytes of \<open>keys_data.intval1\<close>\<close>
  no_adc_ch1 :: bool
  data_dev :: bool                 \<comment> \<open>\<open>keys_data.keys_dev\<close>, not null\<close>
  keys_dev :: bool                 \<comment> \<open>the pointer \<open>keys_dev\<close>, not null\<close>
  mtc_keys_devices :: "key_id list option"
  keys_input :: "nat \<Rightarrow> key_slot"
  drv_count :: nat
  local_irq :: nat                 \<comment> \<open>the local \<open>irq\<close>\<close>
  p_input_dev :: bool

record keys_env =
  alloc_driver :: bool
  alloc_input :: bool
  adc_ok :: "probe_event list \<Rightarrow> int \<Rightarrow> bool"
  request_res :: "event list \<Rightarrow> nat \<Rightarrow> int"   \<comment> \<open>\<open>gpio_request\<close>\<close>
  input_res :: "event list \<Rightarrow> nat \<Rightarrow> int"     \<comment> \<open>\<open>gpio_direction_input\<close>\<close>
  irq_res :: "event list \<Rightarrow> nat \<Rightarrow> int"       \<comment> \<open>\<open>request_threaded_irq\<close>\<close>
  register_res :: int
  stale_key :: int                 \<comment> \<open>the local \<open>keycode2\<close>\<close>
  stale_input :: bool              \<comment> \<open>the local \<open>gpio_keys_input0\<close>, not null\<close>
  ticks_100 :: u32                 \<comment> \<open>\<open>msecs_to_jiffies(100)\<close>\<close>
  jiffies_64 :: "probe_event list \<Rightarrow> u32"
  id_addr :: "nat \<Rightarrow> u32"
  input_addr :: u32

definition klogged :: "probe_event \<Rightarrow> keys_sys \<Rightarrow> keys_sys" where
  "klogged x k = k\<lparr>klog := x # klog k\<rparr>"

definition on_ksys :: "(sys \<Rightarrow> sys) \<Rightarrow> keys_sys \<Rightarrow> keys_sys" where
  "on_ksys f k = k\<lparr>ksys := f (ksys k)\<rparr>"

definition upd_slot :: "nat \<Rightarrow> (key_slot \<Rightarrow> key_slot) \<Rightarrow> keys_sys \<Rightarrow> keys_sys" where
  "upd_slot i f k = k\<lparr>keys_input := (keys_input k)(i := f (keys_input k i))\<rparr>"

lemma keys_sys_simps [simp]:
  "local_irq (klogged x k) = local_irq k" "local_irq (on_ksys f k) = local_irq k" "local_irq (upd_slot i g k) = local_irq k"
  "ksys (klogged x k) = ksys k" "ksys (on_ksys f k) = f (ksys k)" "ksys (upd_slot i g k) = ksys k"
  "klog (klogged x k) = x # klog k" "klog (on_ksys f k) = klog k" "klog (upd_slot i g k) = klog k"
  by (simp_all add: klogged_def on_ksys_def upd_slot_def)

section \<open>One descriptor\<close>

definition gpio_no :: "int \<Rightarrow> nat" where
  "gpio_no g = unat (word_of_int g :: u32)"

definition key_label :: "key_id \<Rightarrow> string" where
  "key_label d = (case id_name d of None \<Rightarrow> ''keys'' | Some n \<Rightarrow> n)"

text \<open>\<open>wheel_adc_init[0] = 1023\<close>, a byte.\<close>

definition adc_start_value :: u8 where
  "adc_start_value = word_of_int 1023"

text \<open>Type 4. The time a timer is set to is a difference where a sum was meant.\<close>

definition setup_mcu_timer :: "keys_env \<Rightarrow> nat \<Rightarrow> keys_sys \<Rightarrow> keys_sys" where
  "setup_mcu_timer e i k =
     (let k = klogged (Timer_setup 4 i) (upd_slot i (\<lambda>x. x\<lparr>wheel_adc_init := adc_start_value\<rparr>) k)
      in klogged (Timer_at 4 i (ticks_100 e - jiffies_64 e (klog k))) k)"

text \<open>Type 5. \<open>Inl\<close> is the way to \<open>gpio_keys_failed\<close> with its result, \<open>Inr\<close> to \<open>skip_input_setup\<close>.\<close>

definition adc_register :: "keys_env \<Rightarrow> int \<Rightarrow> nat \<Rightarrow> keys_sys \<Rightarrow> bool \<times> keys_sys" where
  "adc_register e ch i k = (let ok = adc_ok e (klog k) ch in (ok, klogged (Adc_register ch i ok) k))"

definition start_adc_timer :: "nat \<Rightarrow> keys_sys \<Rightarrow> keys_sys" where
  "start_adc_timer i k =
     klogged (Hrtimer_start ''adc_wheel_timer'' i 1000)
       (upd_slot i (\<lambda>x. x\<lparr>wheel_adc_init := adc_start_value\<rparr>) k)"

definition setup_adc :: "keys_env \<Rightarrow> nat \<Rightarrow> key_id \<Rightarrow> keys_sys \<Rightarrow> (int \<times> keys_sys) + keys_sys" where
  "setup_adc e i d k =
     (if no_adc_ch1 k then
        if adc_ch1 d \<noteq> 0 then Inr k
        else
          let (c1, k) = adc_register e 0 i k; k = upd_slot i (\<lambda>x. x\<lparr>wheel_client := c1\<rparr>) k;
              (c2, k) = adc_register e (adc_ch2 d) i k; k = upd_slot i (\<lambda>x. x\<lparr>wheel_client_ch2 := c2\<rparr>) k
          in if \<not> c1 then Inl (-12, k) else Inr (start_adc_timer i k)
      else
        let (c1, k) = adc_register e (adc_ch1 d) i k; k = upd_slot i (\<lambda>x. x\<lparr>wheel_client := c1\<rparr>) k
        in if \<not> c1 then Inl (-12, k) else Inr (start_adc_timer i k))"

text \<open>Type 2: two pins, whose requests are not looked at.\<close>

definition wheel_pin :: "nat \<Rightarrow> string \<Rightarrow> keys_sys \<Rightarrow> keys_sys" where
  "wheel_pin p name = on_ksys (\<lambda>s. gpio_direction_input p (emit (Gpio_pull p True) (emit (Gpio_request p name) s)))"

definition setup_wheel :: "nat \<Rightarrow> key_id \<Rightarrow> keys_sys \<Rightarrow> keys_sys" where
  "setup_wheel i d k =
     klogged (Hrtimer_start ''wheel_timer'' i 10000000)
       (wheel_pin (gpio_no (gpio2 d)) (key_label d) (wheel_pin (gpio_no (gpio1 d)) (key_label d) k))"

text \<open>The other types. Only type 3 sets the interrupt that is requested. A request that fails leaves no
  mark.\<close>

definition setup_gpio :: "keys_env \<Rightarrow> nat \<Rightarrow> key_id \<Rightarrow> keys_sys \<Rightarrow> (int \<times> keys_sys) + keys_sys" where
  "setup_gpio e i d k =
     (let p = gpio_no (gpio1 d); res = request_res e (trace (ksys k)) p;
          k = on_ksys (emit (Gpio_request p (key_label d))) k
      in if res < 0 then Inl (res, k)
         else
           let k = on_ksys (emit (Gpio_pull p (id_type d = 3))) k; res = input_res e (trace (ksys k)) p;
               k = on_ksys (gpio_direction_input p) k
           in if res < 0 then Inl (res, klogged (Gpio_free p) k)
              else
                let k = upd_slot i (\<lambda>x. x\<lparr>slot_irq := p\<rparr>) k
                in if gpio1 d < 0 then Inl (gpio1 d, klogged (Gpio_free p) k)
                   else
                     let k = (if id_type d = 3
                              then klogged (Timer_setup 3 i) (klogged (Tasklet_init i) k)\<lparr>local_irq := p\<rparr>
                              else k);
                         irq = local_irq k; error = irq_res e (trace (ksys k)) irq
                     in if error \<noteq> 0 then Inl (error, klogged (Gpio_free p) k)
                        else Inr (on_ksys (emit (Request_irq irq (if id_trig d \<noteq> 0 then 2 else 1) (key_label d) i)) k))"

definition setup_key :: "keys_env \<Rightarrow> nat \<Rightarrow> key_id \<Rightarrow> keys_sys \<Rightarrow> (int \<times> keys_sys) + keys_sys" where
  "setup_key e i d k =
     (if id_type d = 1 then Inr k
      else if id_type d = 4 then Inr (setup_mcu_timer e i k)
      else if id_type d = 5 then setup_adc e i d k
      else if id_type d = 2 then Inr (setup_wheel i d k)
      else if gpio1 d \<noteq> -1 then setup_gpio e i d k
      else Inr k)"

section \<open>The driver\<close>

definition key_pointers :: "keys_env \<Rightarrow> nat \<Rightarrow> keys_sys \<Rightarrow> keys_sys" where
  "key_pointers e i = upd_slot i (\<lambda>x. x\<lparr>gap_input := ucast (input_addr e), gap_id := ucast (id_addr e i)\<rparr>)"

definition key_capabilities :: "keys_env \<Rightarrow> key_id \<Rightarrow> keys_sys \<Rightarrow> keys_sys" where
  "key_capabilities e d k =
     (let k = klogged (Capability (keycode1 d)) k
      in if stale_key e \<noteq> 0 then klogged (Capability (keycode2 d)) k else k)"

text \<open>The loop; \<open>w\<close> is \<open>wakeup\<close>.\<close>

fun key_loop :: "keys_env \<Rightarrow> nat \<Rightarrow> key_id list \<Rightarrow> int \<Rightarrow> keys_sys \<Rightarrow> (int \<times> keys_sys) + (int \<times> keys_sys)" where
  "key_loop e i [] w k = Inr (w, k)"
| "key_loop e i (d # ds) w k =
     (case setup_key e i d (key_pointers e i k) of
        Inl x \<Rightarrow> Inl x
      | Inr k \<Rightarrow> key_loop e (Suc i) ds (if wakeup d \<noteq> 0 then 1 else w) (key_capabilities e d k))"

definition input_dev_count :: nat where
  "input_dev_count = 7"

definition enable_key_repeat :: int where
  "enable_key_repeat = 0"

definition key_customer :: "keys_sys \<Rightarrow> keys_sys" where
  "key_customer k =
     (let c = mtc_customer (car (ksys k)); v = cfg (ksys k) 1 in
      if c = 12 then k\<lparr>key_flags := (1, snd (key_flags k))\<rparr>
      else if c = 8 \<and> v \<noteq> 3 then
        (if v = 1 then k\<lparr>key_flags := (fst (key_flags k), 1)\<rparr> else k)\<lparr>no_adc_ch1 := True\<rparr>
      else k)"

text \<open>\<open>dev_create_failed\<close> and \<open>gpio_keys_failed\<close>.\<close>

definition dev_create_failed :: "bool \<Rightarrow> keys_sys \<Rightarrow> keys_sys" where
  "dev_create_failed input k = klogged Free_driver (klogged (Input_free input) k)"

definition gpio_keys_failed :: "keys_sys \<Rightarrow> keys_sys" where
  "gpio_keys_failed k = dev_create_failed True (klogged (Set_drvdata False) k)"

definition key_registered :: "int \<Rightarrow> keys_sys \<Rightarrow> keys_sys" where
  "key_registered w k =
     on_ksys (upd_car (\<lambda>c. c\<lparr>input_ready := 1\<rparr>))
       (klogged Early_suspend (klogged (Init_wakeup w) k)\<lparr>p_input_dev := True\<rparr>)"

text \<open>Freeing the uninitialised pointer of the first way out has an outcome only when it is null.\<close>

definition keys_probe :: "keys_env \<Rightarrow> keys_sys \<Rightarrow> (int \<times> keys_sys) option" where
  "keys_probe e k =
     (let k = klogged (Create_queue ''process_wq'') (klogged (Create_queue ''wheel_wq'') (key_customer k)) in
      if \<not> alloc_driver e then
        if stale_input e then None else Some (-12, dev_create_failed False k)
      else if \<not> alloc_input e then Some (-12, dev_create_failed False (k\<lparr>data_dev := True\<rparr>))
      else
        let k = klogged (Set_drvdata (keys_dev k)) (k\<lparr>data_dev := True\<rparr>) in
        if \<not> keys_dev k then None
        else
          let k = k\<lparr>drv_count := input_dev_count\<rparr>;
              k = (if enable_key_repeat \<noteq> 0 then klogged Ev_rep k else k)
          in case mtc_keys_devices k of
               None \<Rightarrow> None
             | Some ds \<Rightarrow>
                 if length ds < input_dev_count then None
                 else case key_loop e 0 (take input_dev_count ds) 0 k of
                   Inl (r, k) \<Rightarrow> Some (r, gpio_keys_failed k)
                 | Inr (w, k) \<Rightarrow>
                     let k = fold (\<lambda>c. klogged (Capability c)) (mtc_keycode @ [28, 143, 158, 0x211, 0x20C]) k;
                         r = register_res e; k = klogged (Input_register r) k
                     in Some (r, if r = 0 then key_registered w k else gpio_keys_failed k))"

section \<open>Interrupts\<close>

text \<open>A descriptor takes an interrupt when its type is none of the others and it names a pin. The
  line is that of the last infrared receiver, \<open>q\<close> if there was none.\<close>

definition takes_irq :: "key_id \<Rightarrow> bool" where
  "takes_irq d \<longleftrightarrow> id_type d \<notin> {1, 2, 4, 5} \<and> gpio1 d \<noteq> -1"

definition next_irq :: "key_id \<Rightarrow> nat \<Rightarrow> nat" where
  "next_irq d q = (if takes_irq d \<and> id_type d = 3 then gpio_no (gpio1 d) else q)"

fun key_irqs :: "nat \<Rightarrow> nat \<Rightarrow> key_id list \<Rightarrow> (nat \<times> nat) list" where
  "key_irqs q i [] = []"
| "key_irqs q i (d # ds) =
     (if takes_irq d then [(next_irq d q, i)] else []) @ key_irqs (next_irq d q) (Suc i) ds"

text \<open>What one step leaves behind: the status, the interrupts freed, and those requested.\<close>

definition left :: "(nat \<times> nat) list \<Rightarrow> keys_sys \<Rightarrow> keys_sys \<Rightarrow> bool" where
  "left irqs k k' \<longleftrightarrow> car (ksys k') = car (ksys k) \<and>
     freed_irqs (trace (ksys k')) = freed_irqs (trace (ksys k)) \<and>
     requested_irqs (trace (ksys k')) = rev irqs @ requested_irqs (trace (ksys k))"

lemma left_refl [simp]: "left [] k k"
  by (simp add: left_def)

lemma left_trans: "left a k k' \<Longrightarrow> left b k' k'' \<Longrightarrow> left (a @ b) k k''"
  by (simp add: left_def)

lemma irqs_simps [simp]:
  "requested_irqs (Request_irq q t n i # h) = (q, i) # requested_irqs h"
  "freed_irqs (Request_irq q t n i # h) = freed_irqs h"
  "requested_irqs (Gpio_request p n # h) = requested_irqs h" "freed_irqs (Gpio_request p n # h) = freed_irqs h"
  "requested_irqs (Gpio_pull p v # h) = requested_irqs h" "freed_irqs (Gpio_pull p v # h) = freed_irqs h"
  "requested_irqs (Dir_in p # h) = requested_irqs h" "freed_irqs (Dir_in p # h) = freed_irqs h"
  by (simp_all add: requested_irqs_def freed_irqs_def)

lemma left_quiet [simp]:
  "left irqs k (klogged x k') = left irqs k k'" "left irqs (klogged x k) k' = left irqs k k'"
  "left irqs k (upd_slot i f k') = left irqs k k'" "left irqs (upd_slot i f k) k' = left irqs k k'"
  by (simp_all add: left_def)

lemma left_wheel [simp]: "left [] k (setup_wheel i d k)"
  by (simp add: left_def setup_wheel_def wheel_pin_def gpio_direction_input_def)

lemma left_capabilities [simp]: "left irqs k (key_capabilities e d k') = left irqs k k'"
  by (simp add: key_capabilities_def Let_def)

lemma left_capabilities' [simp]: "left irqs (key_capabilities e d k) k' = left irqs k k'"
  by (simp add: key_capabilities_def Let_def)

lemma left_local_irq [simp]: "left irqs k (k'\<lparr>local_irq := q\<rparr>) = left irqs k k'"
  by (simp add: left_def)

lemma local_irq_simps [simp]:
  "local_irq (setup_wheel i d k) = local_irq k" "local_irq (key_capabilities e d k) = local_irq k"
  by (simp_all add: setup_wheel_def wheel_pin_def key_capabilities_def Let_def)

lemma left_adc: "case setup_adc e i d k of Inl (r, k') \<Rightarrow> r \<noteq> 0 \<and> left [] k k'
    | Inr k' \<Rightarrow> left [] k k' \<and> local_irq k' = local_irq k"
  by (simp add: setup_adc_def adc_register_def start_adc_timer_def Let_def)

lemma left_gpio: "case setup_gpio e i d k of Inl (r, k') \<Rightarrow> r \<noteq> 0 \<and> left [] k k'
    | Inr k' \<Rightarrow> local_irq k' = (if id_type d = 3 then gpio_no (gpio1 d) else local_irq k) \<and>
        left [(local_irq k', i)] k k'"
  by (simp add: setup_gpio_def gpio_direction_input_def left_def Let_def)

lemma left_key: "case setup_key e i d k of Inl (r, k') \<Rightarrow> r \<noteq> 0 \<and> left [] k k'
    | Inr k' \<Rightarrow> left (key_irqs (local_irq k) i [d]) k k' \<and> local_irq k' = next_irq d (local_irq k)"
  using left_adc [where e = e and i = i and d = d and k = k] left_gpio [where e = e and i = i and d = d and k = k]
  by (auto simp: setup_key_def takes_irq_def next_irq_def setup_mcu_timer_def Let_def split: sum.splits)

lemma loop_irqs:
  "case key_loop e i ds w k of
     Inl (r, k') \<Rightarrow> r \<noteq> 0 \<and> (\<exists>j < length ds. left (key_irqs (local_irq k) i (take j ds)) k k')
   | Inr (_, k') \<Rightarrow> left (key_irqs (local_irq k) i ds) k k'"
proof (induction ds arbitrary: i w k)
  case (Cons d ds)
  let ?s = "setup_key e i d (key_pointers e i k)"
  show ?case
  proof (cases ?s)
    case (Inl x)
    with left_key [where e = e and i = i and d = d and k = "key_pointers e i k"] show ?thesis
      by (auto simp: key_pointers_def intro: exI [of _ 0])
  next
    case (Inr k1)
    with left_key [where e = e and i = i and d = d and k = "key_pointers e i k"] have 1: "left (key_irqs (local_irq k) i [d]) k k1" and q: "local_irq k1 = next_irq d (local_irq k)"
      by (simp_all add: key_pointers_def)
    show ?thesis
    proof (cases "key_loop e (Suc i) ds (if wakeup d \<noteq> 0 then 1 else w) (key_capabilities e d k1)")
      case (Inl x)
      then obtain r k2 where x: "x = (r, k2)" by fastforce
      from Cons.IH [where i = "Suc i" and w = "if wakeup d \<noteq> 0 then 1 else w" and k = "key_capabilities e d k1"] Inl
      obtain j where "r \<noteq> 0" "j < length ds" "left (key_irqs (next_irq d (local_irq k)) (Suc i) (take j ds)) k1 k2"
        by (auto simp: x q)
      with left_trans [OF 1] Inl \<open>?s = Inr k1\<close> show ?thesis
        by (auto simp: x intro!: exI [of _ "Suc j"])
    next
      case (Inr y)
      with Cons.IH [where i = "Suc i" and w = "if wakeup d \<noteq> 0 then 1 else w" and k = "key_capabilities e d k1"] left_trans [OF 1]
      show ?thesis using \<open>?s = Inr k1\<close> by (auto simp: split_beta q)
    qed
  qed
qed simp

lemma left_customer [simp]: "ksys (key_customer k) = ksys k" "keys_dev (key_customer k) = keys_dev k"
  "mtc_keys_devices (key_customer k) = mtc_keys_devices k"
  by (simp_all add: key_customer_def Let_def)

lemma klogged_devices [simp]: "mtc_keys_devices (klogged x k) = mtc_keys_devices k" "keys_dev (klogged x k) = keys_dev k"
  by (simp_all add: klogged_def)

lemma ksys_capabilities [simp]: "ksys (fold (\<lambda>c. klogged (Capability c)) cs k) = ksys k"
  by (induction cs arbitrary: k) simp_all

text \<open>
  Were \<open>keys_dev\<close> and \<open>mtc_keys_devices\<close> set, which nothing in the sources does
  (\<open>keys_never_registered\<close>), registering the keys would either succeed, with an interrupt for
  every descriptor with a pin of its own, on the line of the last infrared receiver so far (the
  uninitialised one before the first), or fail and free the driver's memory, which is the cookie
  of every interrupt requested before the descriptor that failed: none of them is given back.
\<close>

theorem keys_probe_irqs:
  assumes "keys_probe e k = Some (r, k')" "mtc_keys_devices k = Some ds" "keys_dev k"
    and "alloc_driver e" "alloc_input e"
  shows "freed_irqs (trace (ksys k')) = freed_irqs (trace (ksys k)) \<and>
    (\<exists>j \<le> 7. requested_irqs (trace (ksys k')) = rev (key_irqs (local_irq k) 0 (take j ds)) @ requested_irqs (trace (ksys k)) \<and>
       (if r = 0 then j = 7 \<and> input_ready (car (ksys k')) = 1
        else hd (klog k') = Free_driver \<and> input_ready (car (ksys k')) = input_ready (car (ksys k))))"
proof -
  define k0 where "k0 = (klogged (Set_drvdata True)
    (klogged (Create_queue ''process_wq'') (klogged (Create_queue ''wheel_wq'') (key_customer k))\<lparr>data_dev := True\<rparr>))
    \<lparr>drv_count := 7\<rparr>"
  have k0: "left irqs k0 x = left irqs k x" for irqs x
    by (simp add: k0_def left_def)
  have devices: "mtc_keys_devices k0 = Some ds" "keys_dev k0" "local_irq k0 = local_irq k"
    using assms(2,3) by (simp_all add: k0_def klogged_def key_customer_def Let_def)
  have len: "\<not> length ds < 7"
    using assms by (auto simp: keys_probe_def Let_def k0_def [symmetric] devices enable_key_repeat_def input_dev_count_def)
  have p: "keys_probe e k = (case key_loop e 0 (take 7 ds) 0 k0 of
        Inl (r, k) \<Rightarrow> Some (r, gpio_keys_failed k)
      | Inr (w, k) \<Rightarrow>
          let k = fold (\<lambda>c. klogged (Capability c)) (mtc_keycode @ [28, 143, 158, 0x211, 0x20C]) k;
              r = register_res e; k = klogged (Input_register r) k
          in Some (r, if r = 0 then key_registered w k else gpio_keys_failed k))"
    using assms(2-5) len
    by (simp add: keys_probe_def Let_def input_dev_count_def enable_key_repeat_def k0_def)
  show ?thesis
  proof (cases "key_loop e 0 (take 7 ds) 0 k0")
    case (Inl x)
    then obtain r1 k1 where x: "x = (r1, k1)" by fastforce
    with Inl loop_irqs [where e = e and i = 0 and ds = "take 7 ds" and w = 0 and k = k0] obtain j where
      "r1 \<noteq> 0" "j < 7" "left (key_irqs (local_irq k) 0 (take j (take 7 ds))) k k1" by (auto simp: k0 devices)
    moreover have "r = r1" "k' = gpio_keys_failed k1" using assms(1) p Inl x by auto
    ultimately show ?thesis
      by (intro conjI exI [of _ j]) (auto simp: left_def gpio_keys_failed_def dev_create_failed_def min_def)
  next
    case (Inr y)
    then obtain w1 k1 where y: "y = (w1, k1)" by fastforce
    with Inr loop_irqs [where e = e and i = 0 and ds = "take 7 ds" and w = 0 and k = k0] have "left (key_irqs (local_irq k) 0 (take 7 ds)) k k1" by (simp add: k0 devices)
    with assms(1) p Inr y show ?thesis
      by (intro conjI exI [of _ 7])
         (auto simp: left_def gpio_keys_failed_def dev_create_failed_def key_registered_def Let_def)
  qed
qed

text \<open>A board with an infrared receiver and a key with a pin of its own, whose wheel channel does not answer.\<close>

definition plain_key :: key_id where
  "plain_key = \<lparr>id_type = 1, keycode1 = 0x200, keycode2 = 0, gpio1 = -1, gpio2 = -1, id_trig = 0,
     adc_ch1 = 0, adc_ch2 = 1, id_name = None, wakeup = 0\<rparr>"

definition ir_board :: keys_sys where
  "ir_board = \<lparr>ksys = sys_0, klog = [], key_flags = (0, 0), no_adc_ch1 = False, data_dev = False, keys_dev = True,
     mtc_keys_devices = Some [plain_key\<lparr>id_type := 3, gpio1 := 21\<rparr>, plain_key\<lparr>id_type := 6, gpio1 := 30\<rparr>,
       plain_key\<lparr>id_type := 5\<rparr>, plain_key, plain_key, plain_key, plain_key],
     keys_input = (\<lambda>_. \<lparr>gap_id = 0, gap_input = 0, wheel_adc_init = 0, wheel_client = False,
       wheel_client_ch2 = False, slot_irq = 0\<rparr>), drv_count = 0, local_irq = 0, p_input_dev = False\<rparr>"

definition keys_kernel :: "bool \<Rightarrow> keys_env" where
  "keys_kernel adc = \<lparr>alloc_driver = True, alloc_input = True, adc_ok = (\<lambda>_ _. adc),
     request_res = (\<lambda>_ _. 0), input_res = (\<lambda>_ _. 0), irq_res = (\<lambda>_ _. 0), register_res = 0, stale_key = 0, stale_input = False,
     ticks_100 = 10, jiffies_64 = (\<lambda>_. 1000), id_addr = (\<lambda>_. 0), input_addr = 0\<rparr>"

theorem keys_probe_irqs_witness:
  "\<exists>k'. keys_probe (keys_kernel False) ir_board = Some (-12, k') \<and>
     freed_irqs (trace (ksys k')) = [] \<and> requested_irqs (trace (ksys k')) = [(21, 1), (21, 0)] \<and>
     hd (klog k') = Free_driver \<and> input_ready (car (ksys k')) = input_ready (car (ksys ir_board))"
proof -
  have "\<exists>k'. keys_probe (keys_kernel False) ir_board = Some (-12, k') \<and>
      requested_irqs (trace (ksys k')) = [(21, 1), (21, 0)]"
    by (simp add: keys_probe_def Let_def ir_board_def keys_kernel_def klogged_def key_customer_def sys_0_def car_0_def
        input_dev_count_def enable_key_repeat_def setup_key_def setup_gpio_def setup_adc_def adc_register_def
        key_pointers_def key_capabilities_def upd_slot_def on_ksys_def gpio_keys_failed_def dev_create_failed_def
        plain_key_def gpio_no_def gpio_direction_input_def emit_def requested_irqs_def)
  then obtain k' where k': "keys_probe (keys_kernel False) ir_board = Some (-12, k')"
    "requested_irqs (trace (ksys k')) = [(21, 1), (21, 0)]" by blast
  moreover have "freed_irqs (trace (ksys ir_board)) = []" by (simp add: ir_board_def freed_irqs_def)
  ultimately show ?thesis
    using keys_probe_irqs [OF k'(1)] by (auto simp: ir_board_def keys_kernel_def)
qed

text \<open>As the sources are, the pointers are never set: no key is ever registered.\<close>

theorem keys_never_registered:
  "\<not> keys_dev k \<Longrightarrow> case keys_probe e k of None \<Rightarrow> True | Some (r, k') \<Rightarrow> r = -12 \<and> ksys k' = ksys k"
  by (simp add: keys_probe_def dev_create_failed_def Let_def klogged_def key_customer_def)

theorem keys_never_registered_witness:
  "case keys_probe (keys_kernel True) (ir_board\<lparr>keys_dev := False\<rparr>) of None \<Rightarrow> True
   | Some (r, k') \<Rightarrow> r = -12 \<and> ksys k' = ksys (ir_board\<lparr>keys_dev := False\<rparr>)"
  by (rule keys_never_registered) simp

end
