(* ===== verification/Vs_Work.thy ===== *)
theory Vs_Work
  imports Virtual_Serial
begin

text \<open>
  The transmitting side of a virtual serial port (vs.c): \<open>vs_work\<close>, which empties the ring of the
  terminal, the guard \<open>vs_dowork\<close> before it is queued, and \<open>vs_set_termios\<close>.

  The sources keep the two ends of the ring in the members \<open>private_data\<close> and \<open>pdev\<close>, and test the
  counter of characters sent where the character to send first was meant; the model has them as the
  code has them. No character leaves: the work only counts. Other threads may stop the terminal or
  close the port at any look.
\<close>

section \<open>State\<close>

record vs_tx =
  vport :: vs_port
  icount_tx :: u32
  x_char :: u8
  private_data :: u32
  vs_pdev :: u32
  looks :: nat                     \<comment> \<open>how often the work looked at what others may change\<close>
  wakeups :: nat                   \<comment> \<open>calls of \<open>uart_write_wakeup\<close>\<close>

record vs_tty =
  tty_stopped :: "nat \<Rightarrow> bool"      \<comment> \<open>\<open>tty->stopped || tty->hw_stopped\<close>\<close>
  port_closed :: "nat \<Rightarrow> bool"      \<comment> \<open>\<open>vs_shutdown\<close> has run\<close>

definition look_stopped :: "vs_tty \<Rightarrow> vs_tx \<Rightarrow> bool \<times> vs_tx" where
  "look_stopped e t = (tty_stopped e (looks t), t\<lparr>looks := looks t + 1\<rparr>)"

definition look_closed :: "vs_tty \<Rightarrow> vs_tx \<Rightarrow> bool \<times> vs_tx" where
  "look_closed e t = (shutdown (vport t) \<noteq> 0 \<or> port_closed e (looks t), t\<lparr>looks := looks t + 1\<rparr>)"

section \<open>The work\<close>

definition ring_full :: "vs_tx \<Rightarrow> bool" where
  "ring_full t \<longleftrightarrow> (private_data t - vs_pdev t) AND 0xFFF > 0xFF"

text \<open>The body of the loop up to its condition; the first component says whether it returned.\<close>

definition vs_round :: "vs_tty \<Rightarrow> vs_tx \<Rightarrow> bool \<times> vs_tx" where
  "vs_round e t =
     (let (full, t) =
        (if icount_tx t \<noteq> 0 then
           let t = t\<lparr>icount_tx := icount_tx t + 1, x_char := 0\<rparr> in (ring_full t, t)
         else if private_data t = vs_pdev t then (False, t)
         else
           let (st, t) = look_stopped e t in
           if st then (ring_full t, t)
           else let t = t\<lparr>vs_pdev := (vs_pdev t + 1) AND 0xFFF, icount_tx := icount_tx t + 1\<rparr> in (ring_full t, t))
      in look_closed e (if full then t else t\<lparr>wakeups := wakeups t + 1\<rparr>))"

partial_function (option) vs_work :: "vs_tty \<Rightarrow> vs_tx \<Rightarrow> vs_tx option" where
  "vs_work e t =
     (let (ret, t) = vs_round e t in
      if ret then Some t
      else if private_data t = vs_pdev t then Some t
      else
        let (st, t) = look_stopped e t
        in if st then Some t else vs_work e t)"

text \<open>\<open>pending\<close>: the work is queued already; \<open>freezing\<close>: the flag of the calling task.\<close>

definition vs_dowork :: "bool \<Rightarrow> bool \<Rightarrow> vs_port \<Rightarrow> bool" where
  "vs_dowork pending freezing p \<longleftrightarrow> shutdown p = 0 \<and> \<not> pending \<and> \<not> freezing \<and> port_disabled p = 0"

text \<open>\<open>tty\<close>: the speed of the terminal, when there is one; the flags of \<open>termios\<close> lose \<open>CMSPAR\<close>.\<close>

definition vs_set_termios :: "nat option \<Rightarrow> u32 \<Rightarrow> vs_port \<Rightarrow> u32 \<times> vs_port" where
  "vs_set_termios tty cflag p =
     (case tty of
        None \<Rightarrow> (cflag, p)
      | Some speed \<Rightarrow> (cflag AND NOT 0x40000000, p\<lparr>vs_uart_speed := speed\<rparr>))"

section \<open>When it returns\<close>

text \<open>What one round leaves of the two ends of the ring.\<close>

lemma round_ends:
  assumes "vs_round e t = (ret, t')"
  shows "private_data t' = private_data t" and "vport t' = vport t" and "looks t < looks t'"
    and "vs_pdev t' = vs_pdev t \<or> vs_pdev t' = (vs_pdev t + 1) AND 0xFFF"
    and "ret \<Longrightarrow> shutdown (vport t) \<noteq> 0 \<or> (\<exists>n. port_closed e n)"
  using assms by (auto simp: vs_round_def look_stopped_def look_closed_def Let_def split: if_splits)

lemma below_4096: "(x :: u32) AND 0xFFF < 4096"
proof -
  have "x AND 0xFFF = take_bit 12 x" by (simp add: take_bit_eq_mask mask_eq_exp_minus_1)
  then have "unat (x AND 0xFFF) = take_bit 12 (unat x)" by (simp add: unsigned_take_bit_eq)
  then show ?thesis using take_bit_nat_less_exp [of 12 "unat x"] by (simp add: word_less_nat_alt)
qed

text \<open>What the work spins on, and that a round keeps it.\<close>

definition spinning :: "vs_tx \<Rightarrow> bool" where
  "spinning t \<longleftrightarrow> 4096 \<le> private_data t \<and> private_data t \<noteq> vs_pdev t \<and> shutdown (vport t) = 0"

lemma round_spins:
  assumes "vs_round e t = (ret, t')" "spinning t" "\<forall>n. \<not> port_closed e n"
  shows "\<not> ret \<and> spinning t'"
  using round_ends [OF assms(1)] assms(2,3) below_4096 [of "vs_pdev t + 1"] by (auto simp: spinning_def)

lemma spinning_stuck:
  assumes "vs_work e t = Some t'"
  shows "spinning t \<longrightarrow> (\<forall>n. \<not> tty_stopped e n \<and> \<not> port_closed e n) \<longrightarrow> False"
  by (rule vs_work.raw_induct [OF _ assms, where P =
        "\<lambda>e t t'. spinning t \<longrightarrow> (\<forall>n. \<not> tty_stopped e n \<and> \<not> port_closed e n) \<longrightarrow> False"])
     (auto simp: look_stopped_def spinning_def dest!: round_spins split: prod.splits if_splits)

text \<open>The end the code advances is kept to twelve bits and compared with the other end as it is: if
  that is the address it is named for, the work spins until the terminal is stopped or closed.\<close>

theorem vs_work_spins:
  assumes "4096 \<le> private_data t" "private_data t \<noteq> vs_pdev t" "shutdown (vport t) = 0"
    and "\<forall>n. \<not> tty_stopped e n" "\<forall>n. \<not> port_closed e n"
  shows "vs_work e t = None"
  using spinning_stuck [of e t] assms by (cases "vs_work e t") (auto simp: spinning_def)

text \<open>A terminal that is stopped for good ends the work, whatever the ring holds.\<close>

theorem vs_work_stopped:
  assumes "\<forall>m \<ge> n. tty_stopped e m"
  shows "\<exists>t'. vs_work e t = Some t'"
proof (induction "n - looks t" arbitrary: t rule: less_induct)
  case less
  obtain ret t1 where r: "vs_round e t = (ret, t1)" by fastforce
  show ?case
  proof (cases "ret \<or> private_data t1 = vs_pdev t1 \<or> tty_stopped e (looks t1)")
    case True
    then show ?thesis by (subst vs_work.simps) (auto simp: r look_stopped_def)
  next
    case False
    with assms have "looks t1 < n" by (auto simp: not_le [symmetric])
    with round_ends(3) [OF r] less [of "t1\<lparr>looks := looks t1 + 1\<rparr>"] False show ?thesis
      by (subst vs_work.simps) (auto simp: r look_stopped_def)
  qed
qed

definition ringing :: "u32 \<Rightarrow> vs_tx" where
  "ringing pd = \<lparr>vport = vs_open_port, icount_tx = 0, x_char = 0, private_data = pd, vs_pdev = 0xC0001000,
     looks = 0, wakeups = 0\<rparr>"

theorem vs_work_spins_witness:
  "vs_work \<lparr>tty_stopped = \<lambda>_. False, port_closed = \<lambda>_. False\<rparr> (ringing 0xC0002000) = None"
  by (rule vs_work_spins) (simp_all add: ringing_def vs_open_port_def)

theorem vs_work_stopped_witness:
  "\<exists>t'. vs_work \<lparr>tty_stopped = \<lambda>m. 3 \<le> m, port_closed = \<lambda>_. False\<rparr> (ringing 0xC0002000) = Some t'"
  by (rule vs_work_stopped [of 3]) simp

end
