(* ===== verification/Device_Probes.thy ===== *)
theory Device_Probes
  imports Probe Radio_Facts Dvd
begin

text \<open>
  Registering the DVD drive (\<open>dvd_probe\<close> of dvd.c) and the tuner (\<open>tef6606_i2c_probe\<close> of
  radio_tef6606.c), with the state they leave the operations of the two drivers.

  Both allocate memory without clearing it: what it holds is a parameter. Queues, works, locks
  and input devices are left out, and so are the members nothing reads (\<open>customer_rds_bits\<close>,
  \<open>mem1\<close>). The drive's memory is assumed to be found, the tuner's may not be.
\<close>

section \<open>The DVD drive\<close>

definition dvd_probe :: "mtc_dvd_drv \<Rightarrow> sys \<Rightarrow> dvd_sys" where
  "dvd_probe mem s =
     (let d = mem\<lparr>folder_list := [], media_list := []\<rparr>;
          s = input_pin gpio_DVD_DATA ''dvd_data'' s;
          s = input_pin gpio_DVD_STB ''dvd_stb'' s;
          s = input_pin gpio_DVD_ACK ''dvd_ack'' s;
          d = d\<lparr>dvd_irq := gpio_DVD_DATA\<rparr>;
          s = emit (Request_irq gpio_DVD_DATA 2 ''dvd'' 0) s
      in (d, emit (Irq_off (dvd_irq d)) s))"

text \<open>\<open>dvd_s_suspend\<close>.\<close>

definition dvd_s_suspend :: "env \<Rightarrow> dvd_sys \<Rightarrow> dvd_sys" where
  "dvd_s_suspend e ds = snd (dvd_poweroff e ds)"

lemma depth_pins [simp]: "irq_depth i (trace (input_pin p n s)) = irq_depth i (trace s)"
  by (simp add: input_pin_def irq_depth_def gpio_direction_input_def)

text \<open>C30. The driver expects the line to be disabled while the drive is off and to be enabled once by
  switching on. The memory of the drive is not cleared: if the byte for the power happens not to be
  zero, the first power-on takes the drive for running and leaves its interrupt disabled.\<close>

theorem first_power_on:
  assumes "irq_depth 175 (trace s) = 0"
  shows "let (r, d, s') = dvd_power e 1 (dvd_probe mem s)
    in dvd_power_on d \<and> irq_depth 175 (trace s') = of_bool (dvd_power_on mem)"
  using assms by (simp add: dvd_power_def dvd_probe_def dvd_reset_def msleep_def Let_def irq_depths)

section \<open>The tuner\<close>

text \<open>\<open>alloc\<close>: whether memory is found; \<open>band\<close>: what it holds for \<open>tef_cur_band\<close>.\<close>

definition tef6606_i2c_probe :: "bool \<Rightarrow> u8 \<Rightarrow> radio_sys \<Rightarrow> int \<times> radio_sys" where
  "tef6606_i2c_probe alloc band rs =
     (case rs of (r, s) \<Rightarrow>
        if \<not> alloc then (-12, (r, s))
        else (0, (r\<lparr>tef_cur_band := band, s2 := (\<lambda>_. 0), radio_pwr := 0\<rparr>, s)))"

text \<open>From a successful probe on, whatever happens to the tuner, it is never switched off again and
  no group is ever reported: the probe leaves the state those facts need.\<close>

theorem tuner_from_probe:
  assumes "tef6606_i2c_probe alloc band (r0, s0) = (0, (r1, s1))" "has_ta_work r0 = 0" "has_af_work r0 = 0"
    and "(radio_step e)\<^sup>*\<^sup>* (r1, s1) (r, s)"
  shows "radio_pwr r = 0 \<and> Radio_Power 0 (r, s) = (r, s) \<and>
    (\<exists>es. trace s = es @ trace s0 \<and> (\<forall>n d. Arm_send_multi 0x9207 d \<notin> set es \<and>
       Queue_delayed ''dwork_af'' n \<notin> set es \<and> Vs_send 2 0x99 d \<notin> set es))"
proof -
  have "radio_inv r1" "s1 = s0"
    using assms(1-3) by (auto simp: tef6606_i2c_probe_def radio_inv_def rds_blank_def split: if_splits)
  with radio_steps_calm [OF assms(4)] obtain es where
    "radio_inv r" "trace s = es @ trace s0" "\<forall>x\<in>set es. \<not> dead_event x"
    by (auto simp: calm_def list_ex_iff)
  then show ?thesis
    by (intro conjI exI [of _ es] allI) (auto simp: radio_inv_def Radio_Power_def)
qed

theorem tuner_from_probe_witness:
  "\<exists>r s. (radio_step dead_mcu)\<^sup>*\<^sup>* (snd (tef6606_i2c_probe True 3 (radio_0, sys_0))) (r, s) \<and>
     Arm_send_multi 0x9206 [] \<in> set (trace s) \<and> Radio_Power 0 (r, s) = (r, s)"
proof -
  obtain r1 where p: "tef6606_i2c_probe True 3 (radio_0, sys_0) = (0, (r1, sys_0))" "radio_pwr r1 = 0"
    by (simp add: tef6606_i2c_probe_def)
  obtain r s where rs: "Radio_Power 1 (r1, sys_0) = (r, s)"
    by (cases "Radio_Power 1 (r1, sys_0)")
  have 1: "(radio_step dead_mcu)\<^sup>*\<^sup>* (r1, sys_0) (r, s)"
    unfolding rs [symmetric] by (rule r_into_rtranclp, rule radio_step.pwr)
  have "Arm_send_multi 0x9206 [] \<in> set (trace s)"
    using rs p(2) by (auto simp: Radio_Power_def Let_def radio_emit_def upd_radio_def)
  moreover have "Radio_Power 0 (r, s) = (r, s)"
    using tuner_from_probe [OF p(1) _ _ 1] by (simp add: radio_0_def)
  ultimately show ?thesis using 1 p(1) by auto
qed

text \<open>A drive whose memory held ones.\<close>

theorem first_power_on_witness:
  "let (r, d, s') = dvd_power dead_mcu 1 (dvd_probe (dvd_reset undefined) sys_0)
   in dvd_power_on d \<and> irq_depth 175 (trace s') = 1"
  using first_power_on [of sys_0 dead_mcu "dvd_reset undefined"]
  by (simp add: irq_depth_def dvd_reset_def)

end
