(* ===== verification/Touch_Camera.thy ===== *)
theory Touch_Camera
  imports Touch_Facts Camera_Facts
begin

text \<open>
  Where the touch panel (car.c) and the cameras (backview.c) meet: both use offset 37 of the
  status. For the works of the capture queue it says that the further camera is watched; the
  handler of a touch sets it when it switches the light on.
\<close>

section \<open>Works that ask for a picture\<close>

text \<open>Showing a video input (48), a view (52), the further camera (54).\<close>

definition asks_for_picture :: "camera_item \<Rightarrow> bool" where
  "asks_for_picture w \<longleftrightarrow> (case w of Command c _ \<Rightarrow> c = 48 \<or> c = 52 \<or> c = 54 | Signal_check \<Rightarrow> False)"

text \<open>The further camera counts as watched, and the gauges stand still.\<close>

definition stands_still :: "camera_sys \<Rightarrow> camera_sys \<Rightarrow> bool" where
  "stands_still cs cs' \<longleftrightarrow> aux_on (watchers cs) \<longrightarrow> aux_on (watchers cs') \<and> gauge_of cs' = gauge_of cs"

lemma gauge_unlocked:
  "gauge_of cs' = gauge_of (cam_io (emit (Lock l)) cs) \<Longrightarrow>
     gauge_of (cam_io (emit (Unlock l)) cs') = gauge_of cs"
  by (simp add: gauge_lock fun_eq_iff)

lemma picture_stands_still:
  assumes "run_item e w cs = Some cs'" "asks_for_picture w"
  shows "stands_still cs cs'"
  unfolding stands_still_def
proof
  assume on: "aux_on (watchers cs)"
  obtain c k where w: "w = Command c k" and c: "c = 48 \<or> c = 52 \<or> c = 54"
    using assms(2) by (cases w) (auto simp: asks_for_picture_def)
  let ?cs0 = "cam_io (emit (Lock back_lock)) cs"
  obtain cs1 where 1: "capture_body e c k ?cs0 = Some cs1" "cs' = cam_io (emit (Unlock back_lock)) cs1"
    using assms(1) by (auto simp: w capture_work_def bind_eq_Some)
  have on0: "aux_on (watchers ?cs0)" using on by simp
  have "aux_on (watchers cs1) \<and> gauge_of cs1 = gauge_of ?cs0"
    using 1(1) c on0
    by (auto simp: capture_body_def work_show_def work_view_on_def work_cam_on_def view_tests view_updates
        gauge_status Let_def split: if_splits)
  then show "aux_on (watchers cs') \<and> gauge_of cs' = gauge_of cs"
    by (auto simp: 1(2) intro: gauge_unlocked)
qed

lemma pictures_stand_still:
  "run_queue (run_item e) ws cs = Some cs' \<Longrightarrow> list_all asks_for_picture ws \<Longrightarrow> stands_still cs cs'"
proof (induction ws arbitrary: cs)
  case (Cons w ws)
  then obtain cs1 where "run_item e w cs = Some cs1" "run_queue (run_item e) ws cs1 = Some cs'"
    by (auto simp: bind_eq_Some)
  with Cons picture_stands_still [of e w cs cs1] show ?case by (auto simp: stands_still_def)
qed (simp add: stands_still_def)

text \<open>C10. A touch that wakes the panel (touches are accepted, offset 37 of the status is zero, and the
  touch lies below the top edge or no reverse picture is announced) makes the further camera
  count as watched. From then on the works that ask for a picture, of a video input, of a view
  or of the further camera itself, start nothing: however many run, frames are captured, the
  layer is shown, the clocks run and the locks are held as before the touch.\<close>

theorem touch_blinds_cameras:
  assumes "isTouchDisable t = 0" "cam_signal (tcar t) = 0" "reserved_10 (tcar t) = 0 \<or> 63 < y"
    and "gtp_touch_down e i x y w t = Some (r, t')"
    and "list_all asks_for_picture ws" "run_queue (run_item ce) ws (d, tsys t') = Some cs'"
  shows "aux_on (watchers cs') \<and> gauge_of cs' = gauge_of (d, tsys t)"
proof -
  have t': "t' = touch_wakes t"
    using touch_down_wakes [OF assms(1-3), of e i x w] assms(4) by simp
  have "aux_on (watchers (d, tsys t'))" by (simp add: t' views_of_def)
  moreover have "gauge_of (d, tsys t') = gauge_of (d, tsys t)"
    by (simp add: t' touch_wakes_def gauge_of_def clk_depth_def held_def on_tsys_def Let_def)
  ultimately show ?thesis
    using pictures_stand_still [OF assms(6,5)] by (simp add: stands_still_def)
qed

theorem touch_blinds_cameras_witness:
  "\<exists>r t' cs'. gtp_touch_down (with_pins (\<lambda>_ _. True)) 0 5 100 1 awake_touch = Some (r, t') \<and>
     run_queue (run_item (plain_camera 0)) [Command 48 5, Command 52 1, Command 54 0] (fst idle_camera, tsys t') = Some cs' \<and>
     \<not> running (gauge_of cs')"
proof -
  have touch: "isTouchDisable awake_touch = 0" "cam_signal (tcar awake_touch) = 0"
    by (simp_all add: isTouchDisable_def status_byte_def touch_0_def sys_0_def car_0_def Let_def
          numeral_2_eq_2 [symmetric] nth_replicate)
  let ?ws = "[Command 48 5, Command 52 1, Command 54 0]"
  note down = touch_down_wakes [OF touch, where y = 100 and e = "with_pins (\<lambda>_ _. True)" and i = 0 and x = 5 and w = 1]
  obtain cs' where r: "run_queue (run_item (plain_camera 0)) ?ws (fst idle_camera, tsys (touch_wakes awake_touch)) = Some cs'"
    using items_return [OF plain_camera_facts(2,3)] unfolding returns_def by blast
  have d: "gtp_touch_down (with_pins (\<lambda>_ _. True)) 0 5 100 1 awake_touch = Some (0, touch_wakes awake_touch)"
    by (rule down) simp
  have "gauge_of cs' = gauge_of (fst idle_camera, tsys awake_touch)"
    using touch_blinds_cameras [OF touch _ d _ r] by (simp add: asks_for_picture_def)
  moreover have "\<not> running (gauge_of (fst idle_camera, tsys awake_touch))"
    by (simp add: gauge_of_def idle_camera_def)
  ultimately show ?thesis using d r by (metis (no_types))
qed

end
