(* ===== verification/Spec2Isabelle.thy ===== *)
theory Spec2Isabelle
  imports Mcu_Command Car_Work Car_Misc Wheel Virtual_Serial Lcd Dvd Rds_Blocks Radio_Facts Audio_Facts Camera_Facts
    Ioctl_Facts Codec_Files Touch_Facts Wifi Goodix Probe_Facts Keys_Probe Vs_Work
    Device_Probes Touch_Camera
begin

text \<open>
  Verification library of the MTC head unit drivers (\<open>src/src/drivers/misc/mtc\<close>).

  The program. A Rockchip board runs Android; a microcontroller (MCU) owns the power, the
  steering wheel and the front panel. \<open>car.c\<close> talks to the MCU over three bit-banged pins,
  turns its commands into work items of the car work queue, and offers the rest of the drivers
  a way to send commands back. \<open>keys.c\<close> turns infrared, touch and analogue keys into input
  events and reports; \<open>vs.c\<close> carries reports to Android over virtual serial ports; \<open>lcd.c\<close>
  drives a segment display; \<open>radio_tef6606.c\<close> and \<open>dvd.c\<close> drive the tuner and the DVD drive;
  \<open>audio_card_glue.c\<close> chooses what is heard and how loud; \<open>backview.c\<close> drives the video
  decoders and the capture interface for the cameras.

  The model. The state every driver shares is one record, \<open>sys\<close> of Mtc_State: \<open>car\<close> is
  \<open>car_struct.car_status\<close>, \<open>cfg\<close> the 512-byte configuration, \<open>rev_bytes_count\<close>,
  \<open>arm_rev_cmd\<close>, \<open>tv_sec\<close> and \<open>tv_usec\<close> the fields of \<open>car_struct\<close>, \<open>keys\<close> is \<open>keys_data\<close>,
  and \<open>trace\<close> records everything done to the outside, newest first: pin levels driven and read,
  delays, clock readings, locks, interrupts, and calls of other components (an event each, as
  \<open>Vs_send\<close> or \<open>Car_add_work\<close>). The hardware is the record \<open>env\<close>: the level of a pin, the
  clock, uninitialised locals and what other threads write during a sleep are functions of the
  trace so far. Loops that poll are \<open>partial_function\<close>s with value \<open>None\<close> when they never end;
  loops over a number of bits or bytes are structural recursions. No fuel is used anywhere.
  Integers have the width of the code; \<open>char\<close> is unsigned, as on ARM.

  The theories.
  Mtc_Prelude: machine words, bits most significant first, rules for option-valued steps, and
  the locale \<open>work_queue\<close> for queues that run items to their end.
  Mtc_State: state, environment, elementary operations.
  Mcu_Link (car.c, the pin level): \<open>getPin\<close>, \<open>CheckTimeOut\<close>, the polling loop \<open>await\<close>, bits,
  bytes and acknowledgements in both directions. Lemmas: polling leaves no mark, what each
  transfer shows to and takes from the MCU, every wait ends if the clock never runs back, a delay
  lasts as long as asked and no single step is held up for more than 150 ms (Mcu_Command shows
  that some such bound is needed, since \<open>CheckTimeOut\<close> sees the microseconds only); the locale \<open>reception\<close> is the contract of a reception, interpreted for bits, bytes and
  byte strings.
  Peers: an MCU that listens, one that sends, one that is silent, one that is dead; the
  witnesses run the model against them.
  Rds_Input (radio_tef6606.c): the hooks the command processor calls.
  Mcu_Command (car.c): \<open>process_mcu_command\<close>, \<open>arm_rev\<close>, \<open>arm_send_cmd\<close>, \<open>arm_send\<close>,
  \<open>arm_send_multi\<close>, \<open>mtc_car_work\<close>. Lemmas: locks and interrupts are always given back, what
  reaches the processor and the MCU, what each status report stores, termination, and a clock on which a wait does not end.
  Keys (keys.c), Wheel (\<open>adc_wheel_callback\<close> and \<open>stw_range_check\<close> of car.c): which key does
  what, in which state; tables; the tolerances as half of the least distance; suspend and resume.
  Car_Work (car.c): \<open>car_work\<close> and all its commands; an interpretation of \<open>work_queue\<close>.
  Font, Screen, Car_Misc (car.c): the debug screen, the board test, pin multiplexing, the
  customer name and number parsing.
  Virtual_Serial (vs.c): frames, and what their receiver makes of the characters pushed to it. Lcd (lcd.c): digits, symbols, the wire.
  Dvd (dvd.c): the three-wire link to the drive, its interrupt and works, power and commands.
  Lemmas: what each transfer takes from and shows to the drive, and an interpretation of
  \<open>work_queue\<close> for the depth of the interrupt; \<open>dvd_power_on\<close> may change at every look.
  Radio (radio_tef6606.c): reports, frequencies, signal grades, RDS, all works of the tuner, and
  \<open>radio_step\<close>, anything that can happen to it. Rds_Blocks: the syndromes against the code of
  the standard. Radio_Facts: invariants of all runs by rule induction, the list of alternative
  frequencies as a refinement, bands, grades and the end of every stream.
  Audio, Audio_Work (audio_card_glue.c, mtcGetSetVolume.c, codec.c): the mixer over the tuner, the
  drive and the shared state (record \<open>head_unit\<close>), its interruptions and its queue. Audio_Facts:
  the locale \<open>mixer_relation\<close>, interpreted for locks and for well-formed flags, an
  interpretation of \<open>work_queue\<close>, and what volume and channel commands carry.
  Tv (tv.c): the analogue tuner behind the MCU; its arithmetic of standards as a table.
  Camera_Tables, Camera, Camera_Work (backview.c): the register tables, the two
  decoders on the I2C bus, clocks and capture interface, the video channel, the works of the
  capture queue, the calibration. Camera_Facts: the locale \<open>camera_observation\<close> (what the small
  operations leave alone), interpreted for clocks, locks and the layer, for the views, and for
  the balance of the clocks; the works as a refinement of a state machine of views; an
  interpretation of \<open>work_queue\<close>; termination; the calibration as a minimum over positions that
  were sent to the decoder before each reading.

  Ioctl, Ioctl_Commands (car.c): \<open>car_ioctl\<close>, the texts \<open>name=argument\<close> of Android, over the whole
  unit (record \<open>io_unit\<close>); a call whose outcome the sources leave undefined is \<open>None\<close>. A setting
  sent from a null pointer is undefined only if the MCU takes the command (\<open>heard\<close>). The half
  that answers questions is an argument, and a theorem shows that no call reaches it.
  Ioctl_Facts: the locale \<open>io_contract\<close>, interpreted for locks and settings and for the flags of
  the mixer, an interpretation of \<open>work_queue\<close> for sequences of calls, and
  commands followed from the text to the MCU.

  Hex: the number formats of the kernel, printed and read back. Codec_Files (codec.c): the
  listing of registers, reading and writing them as text, the list of codecs. Wifi (wifi.c): the
  files that load and power the wireless driver.
  I2c: transfers on the bus and the loop that repeats them; the locale \<open>metered\<close> bounds what the
  attempts cost, and is interpreted for a single transfer and for a write of the touch controller.
  Touch, Touch_Facts (car.c from \<open>gtp_reset_guitar\<close> on): the touch controller, the classes of
  screens, touches and calibration; an interpretation of \<open>work_queue\<close> for sequences of touches.
  Goodix (recon.c): \<open>key2ir\<close> and the tool interface of the controller; an interpretation of
  \<open>work_queue\<close> for sequences of its calls.
  Touch_Camera: the byte of the status that both the touches and the capture works use.
  Probe, Probe_Facts (car.c, lcd.c): booting the car driver and the display: questions to the MCU,
  version and customer, configuration, power. The version loop against splitting a list; which
  flags survive from one message to the next, so what the power is taken from at last; a run of
  the whole of \<open>car_probe\<close>.

  Keys_Probe (keys.c), Device_Probes (dvd.c, radio_tef6606.c): registering the keys, the drive and
  the tuner. What a failing registration leaves behind by induction over the descriptors; what the
  probes leave the operations of Dvd and Radio, whose invariants then hold from there on.
  Vs_Work (vs.c): the work that empties the ring of a virtual port, when it returns and when not.

  Not modelled: the half of \<open>car_ioctl\<close> that answers questions, which no call reaches; the probe
  functions of backview.c and vs.c and the registration of the touch input device, which only hand
  structures to the kernel; the listings of folders and titles in dvd.c, which read through
  uninitialised pointers; the framebuffer interface and the
  logo of lcd.c, which call through addresses they compute from pointers nothing sets; the
  core-board test of recon.c, which reads register tables of one byte past their ends; and the
  kernel tree around these drivers, which is third-party code. \<open>printk\<close> is left out, but for the
  null formats of \<open>car_ioctl\<close>. Memory allocation is assumed to succeed where the code assumes it, but for \<open>vs_send\<close>.
\<close>

end
